(* ===== verification/Prelude.thy ===== *)
theory Prelude
  imports Main "HOL-Library.List_Lexorder" "HOL-Library.Char_ord" "HOL-Library.Word"
begin

text \<open>
  Shared vocabulary of the development: results with an explicit error side, the string
  functions of the Rust standard library that the crates use, decimal numbers as they are
  printed and parsed, and ordered maps.

  Strings are lists of bytes (a \<^typ>\<open>char\<close> is one byte of the UTF-8 text), so the order on
  \<^typ>\<open>string\<close> is the byte order of Rust's \<^verbatim>\<open>String\<close>, and searching for an ASCII pattern is
  searching for its bytes.  A \<^verbatim>\<open>BTreeMap\<close> is the list of its entries in key order.
\<close>

named_theorems map_laws \<open>laws of the ordered maps\<close>
named_theorems string_laws \<open>laws of the string functions\<close>

section \<open>Results\<close>

type_synonym ('a, 'e) result = "'e + 'a"

abbreviation Ok :: "'a \<Rightarrow> ('a, 'e) result" where "Ok \<equiv> Inr"
abbreviation Err :: "'e \<Rightarrow> ('a, 'e) result" where "Err \<equiv> Inl"

text \<open>The \<^verbatim>\<open>?\<close> operator: go on with the value, or return the error.\<close>

fun res_bind :: "('a, 'e) result \<Rightarrow> ('a \<Rightarrow> ('b, 'e) result) \<Rightarrow> ('b, 'e) result" where
  "res_bind (Err e) f = Err e"
| "res_bind (Ok x) f = f x"

fun map_err :: "('e \<Rightarrow> 'f) \<Rightarrow> ('a, 'e) result \<Rightarrow> ('a, 'f) result" where
  "map_err h (Err e) = Err (h e)"
| "map_err h (Ok x) = Ok x"

fun ok_or :: "'a option \<Rightarrow> 'e \<Rightarrow> ('a, 'e) result" where
  "ok_or None e = Err e"
| "ok_or (Some x) e = Ok x"

definition ensure :: "bool \<Rightarrow> 'e \<Rightarrow> (unit, 'e) result" where
  "ensure b e = (if b then Ok () else Err e)"

fun is_ok :: "('a, 'e) result \<Rightarrow> bool" where
  "is_ok (Ok x) = True"
| "is_ok (Err e) = False"

text \<open>\<^verbatim>\<open>unwrap_or\<close>.\<close>

abbreviation or_default :: "'a \<Rightarrow> 'a option \<Rightarrow> 'a" where
  "or_default d m \<equiv> (case m of None \<Rightarrow> d | Some x \<Rightarrow> x)"

text \<open>Loops with an early return: a state threaded through a list, and a check of every element.\<close>

fun res_fold :: "('s \<Rightarrow> 'x \<Rightarrow> ('s, 'e) result) \<Rightarrow> 's \<Rightarrow> 'x list \<Rightarrow> ('s, 'e) result" where
  "res_fold f s [] = Ok s"
| "res_fold f s (x # xs) = res_bind (f s x) (\<lambda>t. res_fold f t xs)"

fun res_each :: "('x \<Rightarrow> (unit, 'e) result) \<Rightarrow> 'x list \<Rightarrow> (unit, 'e) result" where
  "res_each f [] = Ok ()"
| "res_each f (x # xs) = res_bind (f x) (\<lambda>_. res_each f xs)"

fun res_map :: "('x \<Rightarrow> ('y, 'e) result) \<Rightarrow> 'x list \<Rightarrow> ('y list, 'e) result" where
  "res_map f [] = Ok []"
| "res_map f (x # xs) = res_bind (f x) (\<lambda>y. res_bind (res_map f xs) (\<lambda>ys. Ok (y # ys)))"

lemma res_bind_Ok_iff [simp]: "res_bind m f = Ok y \<longleftrightarrow> (\<exists>x. m = Ok x \<and> f x = Ok y)"
  by (cases m) auto

lemma res_bind_Err_iff:
  "res_bind m f = Err e \<longleftrightarrow> m = Err e \<or> (\<exists>x. m = Ok x \<and> f x = Err e)"
  by (cases m) auto

lemma res_bind_cong [fundef_cong]:
  "m = m' \<Longrightarrow> (\<And>x. m' = Ok x \<Longrightarrow> f x = f' x) \<Longrightarrow> res_bind m f = res_bind m' f'"
  by (cases m') auto

lemma res_bind_assoc: "res_bind (res_bind m f) g = res_bind m (\<lambda>x. res_bind (f x) g)"
  by (cases m) auto

lemma ok_or_Ok_iff [simp]: "ok_or m e = Ok x \<longleftrightarrow> m = Some x"
  by (cases m) auto

lemma ok_or_Err_iff [simp]: "ok_or m e = Err e' \<longleftrightarrow> m = None \<and> e' = e"
  by (cases m) auto

lemma ensure_Ok_iff [simp]: "ensure b e = Ok u \<longleftrightarrow> b"
  by (simp add: ensure_def)

lemma ensure_Err_iff [simp]: "ensure b e = Err e' \<longleftrightarrow> \<not> b \<and> e' = e"
  by (auto simp: ensure_def)

lemma ensure_True [simp]: "ensure True e = Ok ()" and ensure_False [simp]: "ensure False e = Err e"
  by (simp_all add: ensure_def)

text \<open>A guard that returned early did not hold.\<close>

lemma if_Err_Ok_iff: "(if P then Err e else m) = Ok x \<longleftrightarrow> \<not> P \<and> m = Ok x"
  by simp

lemma if_None_Some_iff: "(if P then None else m) = Some x \<longleftrightarrow> \<not> P \<and> m = Some x"
  by simp

lemma map_err_Ok_iff [simp]: "map_err h m = Ok x \<longleftrightarrow> m = Ok x"
  by (cases m) auto

lemma is_ok_iff: "is_ok m \<longleftrightarrow> (\<exists>x. m = Ok x)"
  by (cases m) auto

lemma not_Ok_iff: "(\<forall>x. m \<noteq> Ok x) \<longleftrightarrow> (\<exists>e. m = Err e)"
  by (cases m) auto

lemma res_each_Ok_iff [simp]: "res_each f xs = Ok u \<longleftrightarrow> (\<forall>x \<in> set xs. f x = Ok ())"
  by (induction xs) auto

lemma res_each_Err: "res_each f xs = Err e \<Longrightarrow> \<exists>x \<in> set xs. f x = Err e"
  by (induction xs) (auto simp: res_bind_Err_iff)

lemma res_map_Ok_iff: "res_map f xs = Ok ys \<longleftrightarrow> map f xs = map Ok ys"
proof (induction xs arbitrary: ys)
  case Nil
  then show ?case by auto
next
  case (Cons x xs)
  then show ?case by (cases ys) auto
qed

lemma res_fold_append:
  "res_fold f s (xs @ ys) = res_bind (res_fold f s xs) (\<lambda>t. res_fold f t ys)"
  by (induction xs arbitrary: s) (auto simp: res_bind_assoc)

lemma res_fold_invariant:
  assumes "res_fold f s xs = Ok t" and "P s"
    and "\<And>s t x. x \<in> set xs \<Longrightarrow> P s \<Longrightarrow> f s x = Ok t \<Longrightarrow> P t"
  shows "P t"
  using assms
proof (induction xs arbitrary: s)
  case Nil
  then show ?case by simp
next
  case (Cons x xs)
  from Cons.prems(1) obtain u where u: "f s x = Ok u" "res_fold f u xs = Ok t"
    by auto
  show ?case
  proof (rule Cons.IH [OF u(2)])
    show "P u" using Cons.prems(2,3) u(1) by auto
    show "\<And>s t x. x \<in> set xs \<Longrightarrow> P s \<Longrightarrow> f s x = Ok t \<Longrightarrow> P t"
      using Cons.prems(3) by auto
  qed
qed

section \<open>Strings\<close>

fun strip_prefix :: "string \<Rightarrow> string \<Rightarrow> string option" where
  "strip_prefix [] s = Some s"
| "strip_prefix (p # ps) [] = None"
| "strip_prefix (p # ps) (c # cs) = (if p = c then strip_prefix ps cs else None)"

definition starts_with :: "string \<Rightarrow> string \<Rightarrow> bool" where
  "starts_with p s \<longleftrightarrow> strip_prefix p s \<noteq> None"

definition strip_suffix :: "string \<Rightarrow> string \<Rightarrow> string option" where
  "strip_suffix q s = map_option rev (strip_prefix (rev q) (rev s))"

fun split_once :: "char \<Rightarrow> string \<Rightarrow> (string \<times> string) option" where
  "split_once c [] = None"
| "split_once c (x # xs) =
     (if x = c then Some ([], xs) else map_option (\<lambda>(a, b). (x # a, b)) (split_once c xs))"

definition rsplit_once :: "char \<Rightarrow> string \<Rightarrow> (string \<times> string) option" where
  "rsplit_once c s = map_option (\<lambda>(a, b). (rev b, rev a)) (split_once c (rev s))"

text \<open>\<^verbatim>\<open>str::split\<close>: the pieces between the separators, at least one.\<close>

fun split_on :: "char \<Rightarrow> string \<Rightarrow> string list" where
  "split_on c [] = [[]]"
| "split_on c (x # xs) =
     (if x = c then [] # split_on c xs
      else (case split_on c xs of [] \<Rightarrow> [[x]] | p # ps \<Rightarrow> (x # p) # ps))"

fun str_contains :: "string \<Rightarrow> string \<Rightarrow> bool" where
  "str_contains p [] = (p = [])"
| "str_contains p (c # cs) = (starts_with p (c # cs) \<or> str_contains p cs)"

fun join_with :: "string \<Rightarrow> string list \<Rightarrow> string" where
  "join_with sep [] = []"
| "join_with sep [x] = x"
| "join_with sep (x # y # ys) = x @ sep @ join_with sep (y # ys)"

definition is_ascii_upper :: "char \<Rightarrow> bool" where
  "is_ascii_upper c \<longleftrightarrow> 65 \<le> (of_char c :: nat) \<and> (of_char c :: nat) \<le> 90"
definition is_ascii_lower :: "char \<Rightarrow> bool" where
  "is_ascii_lower c \<longleftrightarrow> 97 \<le> (of_char c :: nat) \<and> (of_char c :: nat) \<le> 122"
definition is_ascii_digit :: "char \<Rightarrow> bool" where
  "is_ascii_digit c \<longleftrightarrow> 48 \<le> (of_char c :: nat) \<and> (of_char c :: nat) \<le> 57"
definition is_ascii_alphabetic :: "char \<Rightarrow> bool" where
  "is_ascii_alphabetic c \<longleftrightarrow> is_ascii_upper c \<or> is_ascii_lower c"
definition is_ascii_alphanumeric :: "char \<Rightarrow> bool" where
  "is_ascii_alphanumeric c \<longleftrightarrow> is_ascii_alphabetic c \<or> is_ascii_digit c"
definition is_ascii_hexdigit :: "char \<Rightarrow> bool" where
  "is_ascii_hexdigit c \<longleftrightarrow> is_ascii_digit c
     \<or> (97 \<le> (of_char c :: nat) \<and> (of_char c :: nat) \<le> 102)
     \<or> (65 \<le> (of_char c :: nat) \<and> (of_char c :: nat) \<le> 70)"

lemmas ascii_defs = is_ascii_upper_def is_ascii_lower_def is_ascii_digit_def
  is_ascii_alphabetic_def is_ascii_alphanumeric_def is_ascii_hexdigit_def

lemma strip_prefix_Some_iff [string_laws]: "strip_prefix p s = Some r \<longleftrightarrow> s = p @ r"
  by (induction p s rule: strip_prefix.induct) auto

lemma strip_prefix_append [simp]: "strip_prefix p (p @ r) = Some r"
  by (simp add: strip_prefix_Some_iff)

lemma strip_prefix_None_iff: "strip_prefix p s = None \<longleftrightarrow> (\<forall>r. s \<noteq> p @ r)"
  by (metis option.distinct(1) option.exhaust strip_prefix_Some_iff)

lemma starts_with_iff [string_laws]: "starts_with p s \<longleftrightarrow> (\<exists>r. s = p @ r)"
  by (auto simp: starts_with_def strip_prefix_None_iff)

lemma strip_suffix_Some_iff [string_laws]: "strip_suffix q s = Some r \<longleftrightarrow> s = r @ q"
  by (auto simp: strip_suffix_def strip_prefix_Some_iff)
    (metis rev_append rev_rev_ident)

lemma strip_suffix_append [simp]: "strip_suffix q (r @ q) = Some r"
  by (simp add: strip_suffix_Some_iff)

lemma strip_suffix_None_iff: "strip_suffix q s = None \<longleftrightarrow> (\<forall>r. s \<noteq> r @ q)"
  by (metis option.distinct(1) option.exhaust strip_suffix_Some_iff)

lemma split_once_Some_iff [string_laws]:
  "split_once c s = Some (a, b) \<longleftrightarrow> s = a @ c # b \<and> c \<notin> set a"
proof (induction s arbitrary: a)
  case Nil
  then show ?case by simp
next
  case (Cons x xs)
  show ?case
  proof (cases a)
    case Nil
    then show ?thesis using Cons by (auto split: prod.splits)
  next
    case (Cons y ys)
    then show ?thesis using Cons.IH [of ys] by auto
  qed
qed

lemma split_once_None_iff [string_laws]: "split_once c s = None \<longleftrightarrow> c \<notin> set s"
  by (induction s) auto

lemma rsplit_once_Some_iff [string_laws]:
  "rsplit_once c s = Some (a, b) \<longleftrightarrow> s = a @ c # b \<and> c \<notin> set b"
proof -
  have "rsplit_once c s = Some (a, b) \<longleftrightarrow> split_once c (rev s) = Some (rev b, rev a)"
    unfolding rsplit_once_def
    by (cases "split_once c (rev s)") (auto simp: rev_swap split: prod.splits)
  also have "\<dots> \<longleftrightarrow> s = a @ c # b \<and> c \<notin> set b"
    by (auto simp: split_once_Some_iff rev_swap)
  finally show ?thesis .
qed

lemma rsplit_once_None_iff [string_laws]: "rsplit_once c s = None \<longleftrightarrow> c \<notin> set s"
  by (simp add: rsplit_once_def split_once_None_iff)

lemma split_on_nonempty [simp]: "split_on c s \<noteq> []"
  by (induction s) (auto split: list.splits)

lemma split_on_pieces: "p \<in> set (split_on c s) \<Longrightarrow> c \<notin> set p"
  by (induction s arbitrary: p) (auto split: if_splits list.splits)

lemma split_on_single_iff: "split_on c s = [s] \<longleftrightarrow> c \<notin> set s"
  by (induction s) (auto split: list.splits)

lemma split_on_append: "c \<notin> set p \<Longrightarrow> split_on c (p @ c # r) = p # split_on c r"
  by (induction p) auto

lemma join_split_on: "join_with [c] (split_on c s) = s"
proof (induction s)
  case Nil
  then show ?case by simp
next
  case (Cons x xs)
  show ?case
  proof (cases "split_on c xs")
    case Nil
    then show ?thesis by simp
  next
    case (Cons p ps)
    then show ?thesis using Cons.IH by (cases ps) auto
  qed
qed

section \<open>Decimal numbers\<close>

definition digit_char :: "nat \<Rightarrow> char" where
  "digit_char d = char_of (48 + d)"

definition digit_val :: "char \<Rightarrow> nat" where
  "digit_val c = (of_char c :: nat) - 48"

fun show_nat :: "nat \<Rightarrow> string" where
  "show_nat n = (if n < 10 then [digit_char n] else show_nat (n div 10) @ [digit_char (n mod 10)])"

declare show_nat.simps [simp del]

definition dec_value :: "string \<Rightarrow> nat" where
  "dec_value = foldl (\<lambda>n c. 10 * n + digit_val c) 0"

definition u64_max :: nat where
  "u64_max = 18446744073709551615"

text \<open>\<^verbatim>\<open>str::parse::<usize>\<close> on a 64-bit target: an optional plus sign, then digits, in range.\<close>

definition parse_usize :: "string \<Rightarrow> nat option" where
  "parse_usize s =
     (let ds = (case s of [] \<Rightarrow> [] | c # cs \<Rightarrow> if c = CHR ''+'' then cs else s) in
      if ds \<noteq> [] \<and> list_all is_ascii_digit ds \<and> dec_value ds \<le> u64_max
      then Some (dec_value ds) else None)"

lemma of_char_digit_char: "d < 10 \<Longrightarrow> (of_char (digit_char d) :: nat) = 48 + d"
  by (simp add: digit_char_def)

lemma digit_char_is_digit [simp]: "d < 10 \<Longrightarrow> is_ascii_digit (digit_char d)"
  by (simp add: is_ascii_digit_def of_char_digit_char)

lemma digit_val_digit_char [simp]: "d < 10 \<Longrightarrow> digit_val (digit_char d) = d"
  by (simp add: digit_val_def of_char_digit_char)

lemma show_nat_digits: "c \<in> set (show_nat n) \<Longrightarrow> is_ascii_digit c"
proof (induction n rule: show_nat.induct)
  case (1 n)
  then show ?case by (subst (asm) show_nat.simps) (auto split: if_splits)
qed

lemma show_nat_nonempty [simp]: "show_nat n \<noteq> []"
  by (subst show_nat.simps) simp

lemma show_nat_no_char: "\<not> is_ascii_digit c \<Longrightarrow> c \<notin> set (show_nat n)"
  using show_nat_digits by blast

lemma dec_value_snoc: "dec_value (s @ [c]) = 10 * dec_value s + digit_val c"
  by (simp add: dec_value_def)

lemma dec_value_show_nat [simp]: "dec_value (show_nat n) = n"
proof (induction n rule: show_nat.induct)
  case (1 n)
  show ?case
  proof (cases "n < 10")
    case True
    then show ?thesis by (subst show_nat.simps) (simp add: dec_value_def)
  next
    case False
    then have "dec_value (show_nat n) = 10 * dec_value (show_nat (n div 10)) + n mod 10"
      by (subst show_nat.simps) (simp add: dec_value_snoc)
    also have "\<dots> = n" using 1 False by simp
    finally show ?thesis .
  qed
qed

lemma show_nat_inject [simp]: "show_nat m = show_nat n \<longleftrightarrow> m = n"
  by (metis dec_value_show_nat)

lemma parse_usize_show_nat: "n \<le> u64_max \<Longrightarrow> parse_usize (show_nat n) = Some n"
proof -
  assume n: "n \<le> u64_max"
  obtain c cs where s: "show_nat n = c # cs"
    by (cases "show_nat n") auto
  have "is_ascii_digit c" using show_nat_digits [of c n] s by simp
  then have "c \<noteq> CHR ''+''" by (auto simp: is_ascii_digit_def)
  moreover have "list_all is_ascii_digit (show_nat n)"
    using show_nat_digits by (auto simp: list_all_iff)
  moreover have "dec_value (c # cs) = n" using s dec_value_show_nat [of n] by simp
  ultimately show ?thesis using n s by (simp add: parse_usize_def)
qed

text \<open>A field closed by a separator it cannot contain is determined by the whole text.\<close>

lemma append_sep_inject:
  fixes c :: char
  assumes "c \<notin> set a" and "c \<notin> set a'"
  shows "a @ c # b = a' @ c # b' \<longleftrightarrow> a = a' \<and> b = b'"
proof
  assume eq: "a @ c # b = a' @ c # b'"
  have 1: "split_once c (a @ c # b) = Some (a, b)"
    using assms(1) unfolding split_once_Some_iff by blast
  have 2: "split_once c (a' @ c # b') = Some (a', b')"
    using assms(2) unfolding split_once_Some_iff by blast
  from 1 2 show "a = a' \<and> b = b'" unfolding eq by simp
qed simp

section \<open>Ordered maps\<close>

type_synonym ('k, 'v) bmap = "('k \<times> 'v) list"

abbreviation bm_get :: "('k, 'v) bmap \<Rightarrow> 'k \<Rightarrow> 'v option" where
  "bm_get \<equiv> map_of"

fun bm_insert :: "'k::linorder \<Rightarrow> 'v \<Rightarrow> ('k, 'v) bmap \<Rightarrow> ('k, 'v) bmap" where
  "bm_insert k v [] = [(k, v)]"
| "bm_insert k v ((j, w) # m) =
     (if k < j then (k, v) # (j, w) # m
      else if k = j then (k, v) # m
      else (j, w) # bm_insert k v m)"

definition bm_remove :: "'k \<Rightarrow> ('k, 'v) bmap \<Rightarrow> ('k, 'v) bmap" where
  "bm_remove k m = filter (\<lambda>(j, _). j \<noteq> k) m"

definition bm_wf :: "('k::linorder, 'v) bmap \<Rightarrow> bool" where
  "bm_wf m \<longleftrightarrow> sorted_wrt (<) (map fst m)"

abbreviation bm_keys :: "('k, 'v) bmap \<Rightarrow> 'k list" where
  "bm_keys \<equiv> map fst"

abbreviation bm_values :: "('k, 'v) bmap \<Rightarrow> 'v list" where
  "bm_values \<equiv> map snd"

definition bm_contains :: "('k, 'v) bmap \<Rightarrow> 'k \<Rightarrow> bool" where
  "bm_contains m k \<longleftrightarrow> bm_get m k \<noteq> None"

text \<open>\<^verbatim>\<open>collect\<close> into a map and \<^verbatim>\<open>extend\<close>: entries are inserted in order, a later one replaces an earlier.\<close>

definition bm_extend :: "('k::linorder, 'v) bmap \<Rightarrow> ('k \<times> 'v) list \<Rightarrow> ('k, 'v) bmap" where
  "bm_extend m kvs = foldl (\<lambda>m (k, v). bm_insert k v m) m kvs"

abbreviation bm_collect :: "('k::linorder \<times> 'v) list \<Rightarrow> ('k, 'v) bmap" where
  "bm_collect \<equiv> bm_extend []"

text \<open>
  A \<^verbatim>\<open>BTreeSet\<close> of strings is the sorted list of its elements; \<open>set_insert\<close> also reports,
  as \<^verbatim>\<open>BTreeSet::insert\<close> does, whether the element is new.
\<close>

fun set_add :: "'k::linorder \<Rightarrow> 'k list \<Rightarrow> 'k list" where
  "set_add k [] = [k]"
| "set_add k (j # s) = (if k < j then k # j # s else if k = j then j # s else j # set_add k s)"

definition set_insert :: "'k::linorder \<Rightarrow> 'k list \<Rightarrow> bool \<times> 'k list" where
  "set_insert k s = (k \<notin> set s, set_add k s)"

lemma bm_get_insert [simp, map_laws]: "bm_get (bm_insert k v m) = (bm_get m)(k \<mapsto> v)"
  by (induction m) (auto simp: fun_eq_iff)

lemma bm_get_remove [simp, map_laws]: "bm_get (bm_remove k m) = (bm_get m)(k := None)"
  by (induction m) (auto simp: bm_remove_def fun_eq_iff)

lemma fst_set_insert [simp]: "fst ` set (bm_insert k v m) = insert k (fst ` set m)"
  by (induction k v m rule: bm_insert.induct) (simp_all add: insert_commute)

lemma bm_keys_remove: "bm_keys (bm_remove k m) = filter (\<lambda>j. j \<noteq> k) (bm_keys m)"
  by (induction m) (auto simp: bm_remove_def)

lemma bm_wf_Nil [simp]: "bm_wf []"
  by (simp add: bm_wf_def)

lemma bm_wf_Cons: "bm_wf ((k, v) # m) \<longleftrightarrow> (\<forall>j \<in> set (bm_keys m). k < j) \<and> bm_wf m"
  by (simp add: bm_wf_def)

lemma bm_wf_insert [simp]: "bm_wf m \<Longrightarrow> bm_wf (bm_insert k v m)"
proof (induction m)
  case Nil
  then show ?case by (simp add: bm_wf_def)
next
  case (Cons p m)
  obtain j w where p: "p = (j, w)" by force
  consider "k < j" | "k = j" | "j < k" by (rule linorder_cases)
  then show ?case
  proof cases
    case 1
    then show ?thesis using Cons.prems p by (auto simp: bm_wf_Cons intro: less_trans)
  next
    case 2
    then show ?thesis using Cons.prems p by (auto simp: bm_wf_Cons)
  next
    case 3
    then have "\<forall>i \<in> set (bm_keys (bm_insert k v m)). j < i"
      using Cons.prems p 3 by (simp add: bm_wf_Cons)
    then show ?thesis using 3 Cons p by (auto simp: bm_wf_Cons)
  qed
qed

lemma bm_wf_remove [simp]: "bm_wf m \<Longrightarrow> bm_wf (bm_remove k m)"
  by (simp add: bm_wf_def bm_keys_remove sorted_wrt_filter)

lemma bm_wf_distinct: "bm_wf m \<Longrightarrow> distinct (bm_keys m)"
  by (simp add: bm_wf_def strict_sorted_iff)

lemma bm_wf_sorted: "bm_wf m \<Longrightarrow> sorted (bm_keys m)"
  by (simp add: bm_wf_def strict_sorted_imp_sorted)

lemma bm_get_Some_iff: "bm_wf m \<Longrightarrow> bm_get m k = Some v \<longleftrightarrow> (k, v) \<in> set m"
  by (simp add: bm_wf_distinct)

lemma bm_get_None_iff: "bm_get m k = None \<longleftrightarrow> k \<notin> set (bm_keys m)"
  by (simp add: map_of_eq_None_iff)

lemma bm_contains_iff: "bm_contains m k \<longleftrightarrow> k \<in> set (bm_keys m)"
  by (simp add: bm_contains_def bm_get_None_iff)

lemma bm_wf_cong_keys: "bm_keys m = bm_keys n \<Longrightarrow> bm_wf m = bm_wf n"
  by (simp add: bm_wf_def)

lemma bm_extend_Nil [simp]: "bm_extend m [] = m"
  by (simp add: bm_extend_def)

lemma bm_extend_Cons [simp]: "bm_extend m ((k, v) # kvs) = bm_extend (bm_insert k v m) kvs"
  by (simp add: bm_extend_def)

lemma bm_wf_extend [simp]: "bm_wf m \<Longrightarrow> bm_wf (bm_extend m kvs)"
  by (induction kvs arbitrary: m) auto

lemma bm_get_extend: "bm_get (bm_extend m kvs) = bm_get m ++ map_of (rev kvs)"
  by (induction kvs arbitrary: m) (auto simp: map_add_def fun_eq_iff split: option.splits)

lemma fst_set_extend: "fst ` set (bm_extend m kvs) = fst ` set m \<union> fst ` set kvs"
proof (induction kvs arbitrary: m)
  case Nil
  show ?case by simp
next
  case (Cons p kvs)
  then show ?case by (cases p) simp
qed

lemma bm_get_collect_distinct:
  "distinct (map fst kvs) \<Longrightarrow> bm_get (bm_collect kvs) k = map_of kvs k"
proof -
  assume "distinct (map fst kvs)"
  then have "map_of (rev kvs) = map_of kvs"
    by (subst map_of_inject_set) (simp_all add: rev_map [symmetric])
  then show ?thesis by (simp add: bm_get_extend)
qed

lemma set_set_add [simp]: "set (set_add k s) = insert k (set s)"
  by (induction s) auto

lemma sorted_set_add: "sorted_wrt (<) s \<Longrightarrow> sorted_wrt (<) (set_add k s)"
  by (induction s) (auto intro: less_trans dest: not_less_iff_gr_or_eq [THEN iffD1])

section \<open>Invariants of step relations\<close>

text \<open>
  A component that changes its state in steps promises an invariant; whoever runs it for any
  number of steps relies on the invariant only.
\<close>

locale step_invariant =
  fixes step :: "'s \<Rightarrow> 's \<Rightarrow> bool" and inv :: "'s \<Rightarrow> bool"
  assumes step_inv: "step s t \<Longrightarrow> inv s \<Longrightarrow> inv t"
begin

lemma runs_inv: "rtranclp step s t \<Longrightarrow> inv s \<Longrightarrow> inv t"
  by (induction rule: rtranclp_induct) (auto intro: step_inv)

end

section \<open>The interface of the ordered maps\<close>

text \<open>
  What the components use of \<^verbatim>\<open>BTreeMap\<close>: lookups after an insertion or a removal, and that both
  keep the representation in order.
\<close>

locale ordered_map =
  fixes get :: "'m \<Rightarrow> 'k \<Rightarrow> 'v option" and ins :: "'k \<Rightarrow> 'v \<Rightarrow> 'm \<Rightarrow> 'm"
    and del :: "'k \<Rightarrow> 'm \<Rightarrow> 'm" and wf :: "'m \<Rightarrow> bool"
  assumes get_ins: "get (ins k v m) j = (if j = k then Some v else get m j)"
    and get_del: "get (del k m) j = (if j = k then None else get m j)"
    and wf_ins: "wf m \<Longrightarrow> wf (ins k v m)" and wf_del: "wf m \<Longrightarrow> wf (del k m)"
begin

definition all_entries :: "('k \<Rightarrow> 'v \<Rightarrow> bool) \<Rightarrow> 'm \<Rightarrow> bool" where
  "all_entries P m \<longleftrightarrow> wf m \<and> (\<forall>k v. get m k = Some v \<longrightarrow> P k v)"

lemma all_entries_ins: "all_entries P m \<Longrightarrow> P k v \<Longrightarrow> all_entries P (ins k v m)"
  by (simp add: all_entries_def get_ins wf_ins)

lemma all_entries_del: "all_entries P m \<Longrightarrow> all_entries P (del k m)"
  by (simp add: all_entries_def get_del wf_del)

lemma all_entries_get: "all_entries P m \<Longrightarrow> get m k = Some v \<Longrightarrow> P k v"
  by (simp add: all_entries_def)

lemma all_entries_mono: "all_entries P m \<Longrightarrow> (\<And>k v. P k v \<Longrightarrow> Q k v) \<Longrightarrow> all_entries Q m"
  by (simp add: all_entries_def)

end

interpretation bm: ordered_map bm_get bm_insert bm_remove bm_wf
  by unfold_locales simp_all

end
