(* ===== verification/Json.thy ===== *)
theory Json
  imports Complex_Main Prelude
begin

text \<open>
  The values the crates exchange: double precision numbers and JSON documents.

  A finite double is the rational it denotes; arithmetic rounds the exact result to the
  nearest double, ties to even, as IEEE 754 does (the two zeros are one value here).  A JSON
  document is \<^verbatim>\<open>serde_json::Value\<close> with its public constructors; an object is the sorted list of
  its members, because the crates use the default \<^verbatim>\<open>BTreeMap\<close> representation.  The printed
  text of a document is not modelled: where the code compares or hashes it, the function that
  prints is a parameter.
\<close>

section \<open>Double precision numbers\<close>

datatype f64 = Finite rat | PosInf | NegInf | NaN

text \<open>The outcome of a comparison, as in \<^verbatim>\<open>std::cmp::Ordering\<close>.\<close>

datatype ordering = Less | Equal | Greater

fun ordering_reverse :: "ordering \<Rightarrow> ordering" where
  "ordering_reverse Less = Greater"
| "ordering_reverse Equal = Equal"
| "ordering_reverse Greater = Less"

definition cmp :: "'a::linorder \<Rightarrow> 'a \<Rightarrow> ordering" where
  "cmp a b = (if a < b then Less else if a = b then Equal else Greater)"

fun f64_partial_cmp :: "f64 \<Rightarrow> f64 \<Rightarrow> ordering option" where
  "f64_partial_cmp NaN y = None"
| "f64_partial_cmp x NaN = None"
| "f64_partial_cmp (Finite a) (Finite b) = Some (cmp a b)"
| "f64_partial_cmp (Finite a) PosInf = Some Less"
| "f64_partial_cmp (Finite a) NegInf = Some Greater"
| "f64_partial_cmp PosInf PosInf = Some Equal"
| "f64_partial_cmp PosInf _ = Some Greater"
| "f64_partial_cmp NegInf NegInf = Some Equal"
| "f64_partial_cmp NegInf _ = Some Less"

definition f64_lt :: "f64 \<Rightarrow> f64 \<Rightarrow> bool" where
  "f64_lt x y \<longleftrightarrow> f64_partial_cmp x y = Some Less"

definition f64_le :: "f64 \<Rightarrow> f64 \<Rightarrow> bool" where
  "f64_le x y \<longleftrightarrow> f64_partial_cmp x y = Some Less \<or> f64_partial_cmp x y = Some Equal"

fun is_finite :: "f64 \<Rightarrow> bool" where
  "is_finite (Finite r) = True"
| "is_finite _ = False"

fun bit_len :: "nat \<Rightarrow> nat" where
  "bit_len n = (if n = 0 then 0 else Suc (bit_len (n div 2)))"

declare bit_len.simps [simp del]

definition pow2 :: "int \<Rightarrow> rat" where
  "pow2 e = (if 0 \<le> e then 2 ^ nat e else 1 / 2 ^ nat (- e))"

definition ilog2 :: "rat \<Rightarrow> int" where
  "ilog2 x = (case quotient_of \<bar>x\<bar> of (p, q) \<Rightarrow>
     let e = int (bit_len (nat p)) - int (bit_len (nat q)) in
     if pow2 e \<le> \<bar>x\<bar> then e else e - 1)"

definition round_half_even :: "rat \<Rightarrow> int" where
  "round_half_even x =
     (let f = \<lfloor>x\<rfloor>; d = x - of_int f in
      if d < 1 / 2 \<or> d = 1 / 2 \<and> even f then f else f + 1)"

definition f64_round :: "rat \<Rightarrow> f64" where
  "f64_round x =
     (if x = 0 then Finite 0
      else let u = pow2 (max (ilog2 x - 52) (- 1074));
               r = of_int (round_half_even (x / u)) * u in
           if 2 ^ 1024 \<le> r then PosInf
           else if r \<le> - (2 ^ 1024) then NegInf
           else Finite r)"

text \<open>
  Arithmetic.  An operation on finite doubles rounds the exact result; with infinities it follows
  IEEE 754, an undefined result being not a number.  Dividing by the one zero gives the infinity of
  the sign of the dividend.
\<close>

fun f64_neg :: "f64 \<Rightarrow> f64" where
  "f64_neg (Finite a) = Finite (- a)"
| "f64_neg PosInf = NegInf"
| "f64_neg NegInf = PosInf"
| "f64_neg NaN = NaN"

fun f64_abs :: "f64 \<Rightarrow> f64" where
  "f64_abs (Finite a) = Finite \<bar>a\<bar>"
| "f64_abs NegInf = PosInf"
| "f64_abs x = x"

fun f64_add :: "f64 \<Rightarrow> f64 \<Rightarrow> f64" where
  "f64_add (Finite a) (Finite b) = f64_round (a + b)"
| "f64_add NaN y = NaN"
| "f64_add x NaN = NaN"
| "f64_add PosInf NegInf = NaN"
| "f64_add NegInf PosInf = NaN"
| "f64_add PosInf y = PosInf"
| "f64_add NegInf y = NegInf"
| "f64_add x y = y"

definition f64_sub :: "f64 \<Rightarrow> f64 \<Rightarrow> f64" where
  "f64_sub x y = f64_add x (f64_neg y)"

definition signed_inf :: "bool \<Rightarrow> f64" where
  "signed_inf negative = (if negative then NegInf else PosInf)"

fun is_neg :: "f64 \<Rightarrow> bool" where
  "is_neg (Finite a) = (a < 0)"
| "is_neg NegInf = True"
| "is_neg _ = False"

fun f64_mul :: "f64 \<Rightarrow> f64 \<Rightarrow> f64" where
  "f64_mul (Finite a) (Finite b) = f64_round (a * b)"
| "f64_mul x y =
     (if x = NaN \<or> y = NaN \<or> x = Finite 0 \<or> y = Finite 0 then NaN
      else signed_inf (is_neg x \<noteq> is_neg y))"

fun f64_div :: "f64 \<Rightarrow> f64 \<Rightarrow> f64" where
  "f64_div (Finite a) (Finite b) =
     (if b = 0 then if a = 0 then NaN else signed_inf (a < 0) else f64_round (a / b))"
| "f64_div (Finite a) y = (if y = NaN then NaN else Finite 0)"
| "f64_div x (Finite b) = (if x = NaN then NaN else signed_inf (is_neg x \<noteq> (b < 0)))"
| "f64_div x y = NaN"

text \<open>\<^verbatim>\<open>f64::max\<close> and \<^verbatim>\<open>f64::min\<close> ignore an argument that is not a number.\<close>

definition f64_max :: "f64 \<Rightarrow> f64 \<Rightarrow> f64" where
  "f64_max x y = (if x = NaN then y else if y = NaN then x else if f64_lt x y then y else x)"

definition f64_min :: "f64 \<Rightarrow> f64 \<Rightarrow> f64" where
  "f64_min x y = (if x = NaN then y else if y = NaN then x else if f64_lt y x then y else x)"

lemma f64_lt_Finite [simp]: "f64_lt (Finite a) (Finite b) \<longleftrightarrow> a < b"
  by (simp add: f64_lt_def cmp_def)

lemma f64_le_Finite [simp]: "f64_le (Finite a) (Finite b) \<longleftrightarrow> a \<le> b"
  by (auto simp: f64_le_def cmp_def)

lemma is_finite_iff: "is_finite x \<longleftrightarrow> (\<exists>r. x = Finite r)"
  by (cases x) auto

lemma cmp_Equal_iff [simp]: "cmp a b = Equal \<longleftrightarrow> a = b"
  by (simp add: cmp_def)

lemma cmp_Less_iff [simp]: "cmp a b = Less \<longleftrightarrow> a < b"
  by (simp add: cmp_def)

lemma cmp_Greater_iff [simp]: "cmp a b = Greater \<longleftrightarrow> b < a"
  by (auto simp: cmp_def)

lemma cmp_refl [simp]: "cmp a a = Equal"
  by simp

lemma cmp_reverse: "ordering_reverse (cmp a b) = cmp b a"
  by (auto simp: cmp_def)

lemma ordering_reverse_reverse [simp]: "ordering_reverse (ordering_reverse x) = x"
  by (cases x) auto

section \<open>JSON documents\<close>

text \<open>Numbers as \<^verbatim>\<open>serde_json\<close> keeps them: unsigned, negative, or a finite double.\<close>

datatype jnum = PosInt nat | NegInt int | Float rat

datatype json =
    JNull
  | JBool bool
  | JNum jnum
  | JStr string
  | JArr "json list"
  | JObj "(string \<times> json) list"

text \<open>An object built from members in any order, as \<^verbatim>\<open>json!\<close> does.\<close>

definition jobj :: "(string \<times> json) list \<Rightarrow> json" where
  "jobj kvs = JObj (bm_collect kvs)"

fun jget :: "string \<Rightarrow> json \<Rightarrow> json option" where
  "jget k (JObj kvs) = bm_get kvs k"
| "jget k _ = None"

fun as_object :: "json \<Rightarrow> (string \<times> json) list option" where
  "as_object (JObj kvs) = Some kvs"
| "as_object _ = None"

fun as_array :: "json \<Rightarrow> json list option" where
  "as_array (JArr xs) = Some xs"
| "as_array _ = None"

fun as_str :: "json \<Rightarrow> string option" where
  "as_str (JStr s) = Some s"
| "as_str _ = None"

fun as_bool :: "json \<Rightarrow> bool option" where
  "as_bool (JBool b) = Some b"
| "as_bool _ = None"

fun as_u64 :: "json \<Rightarrow> nat option" where
  "as_u64 (JNum (PosInt n)) = Some n"
| "as_u64 _ = None"

fun as_f64 :: "json \<Rightarrow> f64 option" where
  "as_f64 (JNum (PosInt n)) = Some (f64_round (of_nat n))"
| "as_f64 (JNum (NegInt i)) = Some (f64_round (of_int i))"
| "as_f64 (JNum (Float r)) = Some (Finite r)"
| "as_f64 _ = None"

definition is_object :: "json \<Rightarrow> bool" where
  "is_object v \<longleftrightarrow> as_object v \<noteq> None"

text \<open>A dotted path followed from a document: \<^verbatim>\<open>try_fold(value, |current, key| current.get(key))\<close>.\<close>

fun jpath :: "string list \<Rightarrow> json \<Rightarrow> json option" where
  "jpath [] v = Some v"
| "jpath (k # ks) v = (case jget k v of None \<Rightarrow> None | Some w \<Rightarrow> jpath ks w)"

text \<open>
  \<^verbatim>\<open>current[key] = value\<close>: a missing member is inserted, null becomes an object first, and
  any other document panics (the result is \<^const>\<open>None\<close>).
\<close>

fun jset :: "string \<Rightarrow> json \<Rightarrow> json \<Rightarrow> json option" where
  "jset k w (JObj kvs) = Some (JObj (bm_insert k w kvs))"
| "jset k w JNull = Some (JObj [(k, w)])"
| "jset k w _ = None"

subsection \<open>Reading and changing members\<close>

definition json_array :: "string \<Rightarrow> json \<Rightarrow> json list" where
  "json_array key v = (case Option.bind (jget key v) as_array of None \<Rightarrow> [] | Some items \<Rightarrow> items)"

definition str_at :: "string \<Rightarrow> json \<Rightarrow> string option" where
  "str_at key v = Option.bind (jget key v) as_str"

abbreviation str_or_empty :: "string \<Rightarrow> json \<Rightarrow> string" where
  "str_or_empty key v \<equiv> (case str_at key v of None \<Rightarrow> [] | Some s \<Rightarrow> s)"

text \<open>Indexing a document with a missing key, or one that is no object, gives null.\<close>

definition index_json :: "string \<Rightarrow> json \<Rightarrow> json" where
  "index_json key v = (case jget key v of None \<Rightarrow> JNull | Some w \<Rightarrow> w)"

fun json_remove :: "string \<Rightarrow> json \<Rightarrow> json" where
  "json_remove key (JObj kvs) = JObj (bm_remove key kvs)"
| "json_remove key v = v"

fun json_map_member :: "string \<Rightarrow> (json \<Rightarrow> json) \<Rightarrow> json \<Rightarrow> json" where
  "json_map_member key f (JObj kvs) =
     JObj (map (\<lambda>(k, v). if k = key then (k, f v) else (k, v)) kvs)"
| "json_map_member key f v = v"

text \<open>Serialization of the leaf types, as the derived \<^verbatim>\<open>Serialize\<close> instances give it.\<close>

fun json_of_f64 :: "f64 \<Rightarrow> json" where
  "json_of_f64 (Finite r) = JNum (Float r)"
| "json_of_f64 _ = JNull"

definition json_of_option :: "('a \<Rightarrow> json) \<Rightarrow> 'a option \<Rightarrow> json" where
  "json_of_option f m = (case m of None \<Rightarrow> JNull | Some x \<Rightarrow> f x)"

definition json_of_list :: "('a \<Rightarrow> json) \<Rightarrow> 'a list \<Rightarrow> json" where
  "json_of_list f xs = JArr (map f xs)"

definition json_of_nat :: "nat \<Rightarrow> json" where
  "json_of_nat n = JNum (PosInt n)"

lemma jget_Some_object: "jget k v = Some w \<Longrightarrow> is_object v"
  by (cases v) (auto simp: is_object_def)

lemma is_object_iff: "is_object v \<longleftrightarrow> (\<exists>kvs. v = JObj kvs)"
  by (cases v) (auto simp: is_object_def)

lemma jget_jobj [simp]: "jget k (jobj kvs) = map_of (rev kvs) k"
  by (simp add: jobj_def bm_get_extend)

lemma jget_jset [simp]: "jset k w v = Some v' \<Longrightarrow> jget j v' = (if j = k then Some w else jget j v)"
  by (cases v) auto

lemma jset_Some_iff: "(\<exists>v'. jset k w v = Some v') \<longleftrightarrow> is_object v \<or> v = JNull"
  by (cases v) (auto simp: is_object_def)

lemma jpath_append:
  "jpath (ks @ ls) v = (case jpath ks v of None \<Rightarrow> None | Some w \<Rightarrow> jpath ls w)"
  by (induction ks arbitrary: v) (auto split: option.splits)

end
