(* ===== verification/Ccir.thy ===== *)
theory Ccir
  imports Json
begin

text \<open>
  The crate \<^verbatim>\<open>ccir-core\<close>: entity references, revisions, the graph of entities and facts, change
  sets and their operations, and the records a diff is made of.  Counters are 64-bit words, as
  the \<^verbatim>\<open>u64\<close> fields are.  Hashing is \<^verbatim>\<open>sha2\<close> over \<^verbatim>\<open>serde_json\<close> text: the digest and the
  serializers are the parameters collected in \<open>codec\<close>.
\<close>

section \<open>Constants, references and revisions\<close>

definition CCIR_SCHEMA_VERSION :: string where
  "CCIR_SCHEMA_VERSION = ''ccir/1.0''"

definition CHANGESET_SCHEMA_VERSION :: string where
  "CHANGESET_SCHEMA_VERSION = ''changeset/1.0''"

type_synonym entity_ref = string

datatype ccir_error = InvalidEntityRef string | CcirSerialization string

definition make_entity_ref ::
  "string \<Rightarrow> string \<Rightarrow> string \<Rightarrow> string \<Rightarrow> (entity_ref, ccir_error) result" where
  "make_entity_ref session document path revision =
     (if session = [] \<or> document = [] \<or> path = [] \<or> revision = []
      then Err (InvalidEntityRef ''session, document, path and revision are required'')
      else Ok (''fc://session/'' @ session @ ''/document/'' @ document @ ''/'' @ path
               @ ''@'' @ revision))"

record revision =
  rev_geometry :: "64 word"
  rev_metadata :: "64 word"
  rev_focus :: "64 word"
  rev_view :: "64 word"
  rev_epoch :: string

definition revision_new :: "string \<Rightarrow> revision" where
  "revision_new epoch =
     \<lparr>rev_geometry = 0, rev_metadata = 0, rev_focus = 0, rev_view = 0, rev_epoch = epoch\<rparr>"

definition show_u64 :: "64 word \<Rightarrow> string" where
  "show_u64 w = show_nat (unat w)"

definition revision_id :: "revision \<Rightarrow> string" where
  "revision_id r = ''g'' @ show_u64 (rev_geometry r) @ ''.m'' @ show_u64 (rev_metadata r)
     @ ''.f'' @ show_u64 (rev_focus r) @ ''.v'' @ show_u64 (rev_view r) @ ''.'' @ rev_epoch r"

definition geometry_id :: "revision \<Rightarrow> string" where
  "geometry_id r = ''g'' @ show_u64 (rev_geometry r) @ ''.'' @ rev_epoch r"

definition metadata_id :: "revision \<Rightarrow> string" where
  "metadata_id r = ''m'' @ show_u64 (rev_metadata r) @ ''.'' @ rev_epoch r"

definition advances_from :: "revision \<Rightarrow> revision \<Rightarrow> bool" where
  "advances_from r p \<longleftrightarrow>
     rev_epoch r = rev_epoch p
     \<and> rev_geometry p \<le> rev_geometry r
     \<and> rev_metadata p \<le> rev_metadata r
     \<and> rev_focus p \<le> rev_focus r
     \<and> rev_view p \<le> rev_view r
     \<and> r \<noteq> p"

definition json_of_revision :: "revision \<Rightarrow> json" where
  "json_of_revision r = jobj
     [(''geometry'', json_of_nat (unat (rev_geometry r))), (''metadata'', json_of_nat (unat (rev_metadata r))),
      (''focus'', json_of_nat (unat (rev_focus r))), (''view'', json_of_nat (unat (rev_view r))),
      (''epoch'', JStr (rev_epoch r))]"

section \<open>Geometry values\<close>

record quantity =
  q_value :: f64
  q_unit :: string

record vec3 =
  v_x :: f64
  v_y :: f64
  v_z :: f64

record bounds =
  b_min :: vec3
  b_max :: vec3
  b_frame :: string

definition intersects :: "bounds \<Rightarrow> bounds \<Rightarrow> bool" where
  "intersects a b \<longleftrightarrow>
     f64_le (v_x (b_min a)) (v_x (b_max b)) \<and> f64_le (v_x (b_min b)) (v_x (b_max a))
     \<and> f64_le (v_y (b_min a)) (v_y (b_max b)) \<and> f64_le (v_y (b_min b)) (v_y (b_max a))
     \<and> f64_le (v_z (b_min a)) (v_z (b_max b)) \<and> f64_le (v_z (b_min b)) (v_z (b_max a))"

text \<open>\<^verbatim>\<open>a + b + c\<close> and \<^verbatim>\<open>a * b * c\<close> associate to the left.\<close>

definition vec3_dot :: "vec3 \<Rightarrow> vec3 \<Rightarrow> f64" where
  "vec3_dot a b = f64_add (f64_add (f64_mul (v_x a) (v_x b)) (f64_mul (v_y a) (v_y b)))
                          (f64_mul (v_z a) (v_z b))"

definition bounds_center :: "bounds \<Rightarrow> vec3" where
  "bounds_center b = \<lparr>v_x = f64_div (f64_add (v_x (b_min b)) (v_x (b_max b))) (Finite 2),
     v_y = f64_div (f64_add (v_y (b_min b)) (v_y (b_max b))) (Finite 2),
     v_z = f64_div (f64_add (v_z (b_min b)) (v_z (b_max b))) (Finite 2)\<rparr>"

definition bounds_volume :: "bounds \<Rightarrow> f64" where
  "bounds_volume b = f64_mul (f64_mul (f64_abs (f64_sub (v_x (b_max b)) (v_x (b_min b))))
       (f64_abs (f64_sub (v_y (b_max b)) (v_y (b_min b)))))
     (f64_abs (f64_sub (v_z (b_max b)) (v_z (b_min b))))"

section \<open>Entities\<close>

record source =
  src_object :: "string option"
  src_subelement :: "string option"
  src_extractor :: string
  src_kernel_tolerance :: "quantity option"
  src_fingerprint :: "string option"

datatype identity_state = Exact | MappedExact | MappedHeuristic | Ambiguous | Deleted | Stale

fun write_eligible :: "identity_state \<Rightarrow> bool" where
  "write_eligible Exact = True"
| "write_eligible MappedExact = True"
| "write_eligible _ = False"

record identity =
  id_state :: identity_state
  id_confidence :: f64
  id_signals :: "string list"

definition identity_default :: identity where
  "identity_default = \<lparr>id_state = Exact, id_confidence = Finite 0, id_signals = []\<rparr>"

record link =
  lk_relation :: string
  lk_target :: entity_ref

record omission =
  om_kind :: string
  om_count :: "64 word"
  om_reason :: string
  om_retrieve_with :: "string option"
  om_profile :: "string option"

datatype severity = Info | Warning | Error

record diagnostic =
  dg_code :: string
  dg_severity :: severity
  dg_message :: string
  dg_entity :: "entity_ref option"
  dg_retryable :: bool
  dg_evidence :: "entity_ref list"

record entity =
  en_ref :: entity_ref
  en_kind :: string
  en_schema_version :: string
  en_revision :: string
  en_name :: "string option"
  en_label :: "string option"
  en_frame :: "string option"
  en_units :: "(string, string) bmap"
  en_source :: "source option"
  en_identity :: identity
  en_properties :: json
  en_links :: "link list"
  en_omissions :: "omission list"
  en_bounds :: "bounds option"

definition entity_default :: entity where
  "entity_default =
     \<lparr>en_ref = [], en_kind = [], en_schema_version = [], en_revision = [], en_name = None,
      en_label = None, en_frame = None, en_units = [], en_source = None,
      en_identity = identity_default, en_properties = JNull, en_links = [],
      en_omissions = [], en_bounds = None\<rparr>"

definition has_relation :: "entity \<Rightarrow> string \<Rightarrow> string \<Rightarrow> bool" where
  "has_relation e relation target \<longleftrightarrow>
     list_ex (\<lambda>l. lk_relation l = relation \<and> lk_target l = target) (en_links e)"

subsection \<open>Serialized form of an entity\<close>

definition json_of_quantity :: "quantity \<Rightarrow> json" where
  "json_of_quantity q = jobj [(''value'', json_of_f64 (q_value q)), (''unit'', JStr (q_unit q))]"

definition json_of_vec3 :: "vec3 \<Rightarrow> json" where
  "json_of_vec3 v = jobj [(''x'', json_of_f64 (v_x v)), (''y'', json_of_f64 (v_y v)),
     (''z'', json_of_f64 (v_z v))]"

definition json_of_bounds :: "bounds \<Rightarrow> json" where
  "json_of_bounds b = jobj [(''min'', json_of_vec3 (b_min b)), (''max'', json_of_vec3 (b_max b)),
     (''frame'', JStr (b_frame b))]"

definition json_of_source :: "source \<Rightarrow> json" where
  "json_of_source s = jobj
     [(''object'', json_of_option JStr (src_object s)),
      (''subelement'', json_of_option JStr (src_subelement s)),
      (''extractor'', JStr (src_extractor s)),
      (''kernel_tolerance'', json_of_option json_of_quantity (src_kernel_tolerance s)),
      (''fingerprint'', json_of_option JStr (src_fingerprint s))]"

fun identity_state_name :: "identity_state \<Rightarrow> string" where
  "identity_state_name Exact = ''exact''"
| "identity_state_name MappedExact = ''mapped_exact''"
| "identity_state_name MappedHeuristic = ''mapped_heuristic''"
| "identity_state_name Ambiguous = ''ambiguous''"
| "identity_state_name Deleted = ''deleted''"
| "identity_state_name Stale = ''stale''"

definition json_of_identity :: "identity \<Rightarrow> json" where
  "json_of_identity i = jobj
     [(''state'', JStr (identity_state_name (id_state i))),
      (''confidence'', json_of_f64 (id_confidence i)),
      (''signals'', json_of_list JStr (id_signals i))]"

definition json_of_link :: "link \<Rightarrow> json" where
  "json_of_link l = jobj [(''relation'', JStr (lk_relation l)), (''target'', JStr (lk_target l))]"

definition json_of_omission :: "omission \<Rightarrow> json" where
  "json_of_omission om = jobj
     [(''kind'', JStr (om_kind om)), (''count'', json_of_nat (unat (om_count om))),
      (''reason'', JStr (om_reason om)),
      (''retrieve_with'', json_of_option JStr (om_retrieve_with om)),
      (''profile'', json_of_option JStr (om_profile om))]"

definition json_of_entity :: "entity \<Rightarrow> json" where
  "json_of_entity e = jobj
     [(''ref'', JStr (en_ref e)), (''kind'', JStr (en_kind e)),
      (''schema_version'', JStr (en_schema_version e)), (''revision'', JStr (en_revision e)),
      (''name'', json_of_option JStr (en_name e)), (''label'', json_of_option JStr (en_label e)),
      (''frame'', json_of_option JStr (en_frame e)),
      (''units'', JObj (map (\<lambda>(k, v). (k, JStr v)) (en_units e))),
      (''source'', json_of_option json_of_source (en_source e)),
      (''identity'', json_of_identity (en_identity e)), (''properties'', en_properties e),
      (''links'', json_of_list json_of_link (en_links e)),
      (''omissions'', json_of_list json_of_omission (en_omissions e)),
      (''bounds'', json_of_option json_of_bounds (en_bounds e))]"

definition entity_summary :: "entity \<Rightarrow> json" where
  "entity_summary e = jobj
     [(''ref'', JStr (en_ref e)), (''kind'', JStr (en_kind e)),
      (''revision'', JStr (en_revision e)),
      (''name'', json_of_option JStr (en_name e)), (''label'', json_of_option JStr (en_label e)),
      (''identity'', json_of_identity (en_identity e)),
      (''bounds'', json_of_option json_of_bounds (en_bounds e)),
      (''links'', json_of_list json_of_link (en_links e)), (''properties'', en_properties e),
      (''omissions'', json_of_list json_of_omission (en_omissions e))]"

section \<open>Facts and the graph\<close>

datatype exactness = ObservedExact | ObservedApproximate | InferredSemantic | Mixed

record confidence =
  cf_category :: string
  cf_score :: "f64 option"

record semantic_fact =
  fa_ref :: string
  fa_kind :: string
  fa_classification :: string
  fa_parameters :: json
  fa_evidence :: "entity_ref list"
  fa_contradicting :: "entity_ref list"
  fa_algorithm :: string
  fa_exactness :: exactness
  fa_tolerance :: "quantity option"
  fa_confidence :: confidence
  fa_explanation :: string

record graph =
  g_schema_version :: string
  g_session :: string
  g_document :: string
  g_revision :: revision
  g_entities :: "(entity_ref, entity) bmap"
  g_facts :: "semantic_fact list"
  g_diagnostics :: "diagnostic list"
  g_metadata :: "(string, json) bmap"

definition graph_new :: "string \<Rightarrow> string \<Rightarrow> revision \<Rightarrow> graph" where
  "graph_new session document r =
     \<lparr>g_schema_version = CCIR_SCHEMA_VERSION, g_session = session, g_document = document,
      g_revision = r, g_entities = [], g_facts = [], g_diagnostics = [], g_metadata = []\<rparr>"

definition graph_entity :: "graph \<Rightarrow> string \<Rightarrow> entity option" where
  "graph_entity g reference = bm_get (g_entities g) reference"

definition entities_of_kind :: "graph \<Rightarrow> string \<Rightarrow> entity list" where
  "entities_of_kind g kind = filter (\<lambda>e. en_kind e = kind) (bm_values (g_entities g))"

definition related :: "graph \<Rightarrow> string \<Rightarrow> string \<Rightarrow> entity list" where
  "related g reference relation =
     (case graph_entity g reference of
        None \<Rightarrow> []
      | Some e \<Rightarrow> List.map_filter (\<lambda>l. graph_entity g (lk_target l))
                   (filter (\<lambda>l. lk_relation l = relation) (en_links e)))"

definition link_resolves :: "graph \<Rightarrow> string \<Rightarrow> bool" where
  "link_resolves g target \<longleftrightarrow>
     bm_contains (g_entities g) target \<or> list_ex (\<lambda>f. fa_ref f = target) (g_facts g)"

definition missing_link_target :: "entity \<Rightarrow> link \<Rightarrow> diagnostic" where
  "missing_link_target e l =
     \<lparr>dg_code = ''missing_link_target'', dg_severity = Warning,
      dg_message = en_ref e @ '' points to missing '' @ lk_target l,
      dg_entity = Some (en_ref e), dg_retryable = True,
      dg_evidence = [en_ref e, lk_target l]\<rparr>"

definition validate_invariants :: "graph \<Rightarrow> diagnostic list" where
  "validate_invariants g =
     concat (map (\<lambda>e. map (missing_link_target e)
                        (filter (\<lambda>l. \<not> link_resolves g (lk_target l)) (en_links e)))
       (bm_values (g_entities g)))"

section \<open>Change sets\<close>

datatype precondition =
    PropertyEquals entity_ref string json
  | EntityKind entity_ref string
  | EntityExists entity_ref "identity_state option"
  | RevisionEquals string
  | QueryHolds string string

datatype operation =
    SetProperty entity_ref string json
  | SetExpression entity_ref string string
  | SketchSetDatum entity_ref quantity
  | CreatePrimitive string string "(string, quantity) bmap"
  | Boolean string string entity_ref entity_ref
  | SetVisibility entity_ref bool
  | SetSelection "entity_ref list" string
  | SetView string json
  | CreateObject string string json
  | DeleteObject entity_ref bool
  | Undo
  | Redo

datatype risk_class = Ui | Low | Medium | High

fun risk_ord :: "risk_class \<Rightarrow> nat" where
  "risk_ord Ui = 0"
| "risk_ord Low = 1"
| "risk_ord Medium = 2"
| "risk_ord High = 3"

text \<open>The derived order of \<^verbatim>\<open>RiskClass\<close> is the order of its constructors.\<close>

instantiation risk_class :: linorder
begin

definition less_eq_risk_class :: "risk_class \<Rightarrow> risk_class \<Rightarrow> bool" where
  "less_eq_risk_class a b \<longleftrightarrow> risk_ord a \<le> risk_ord b"

definition less_risk_class :: "risk_class \<Rightarrow> risk_class \<Rightarrow> bool" where
  "less_risk_class a b \<longleftrightarrow> risk_ord a < risk_ord b"

instance
proof
  fix a b c :: risk_class
  show "a < b \<longleftrightarrow> a \<le> b \<and> \<not> b \<le> a"
    by (auto simp: less_eq_risk_class_def less_risk_class_def)
  show "a \<le> a" by (simp add: less_eq_risk_class_def)
  show "a \<le> b \<Longrightarrow> b \<le> c \<Longrightarrow> a \<le> c" by (simp add: less_eq_risk_class_def)
  show "a \<le> b \<Longrightarrow> b \<le> a \<Longrightarrow> a = b"
    by (cases a; cases b) (simp_all add: less_eq_risk_class_def)
  show "a \<le> b \<or> b \<le> a" by (auto simp: less_eq_risk_class_def)
qed

end

fun risk_of_operation :: "operation \<Rightarrow> risk_class" where
  "risk_of_operation (SetSelection _ _) = Ui"
| "risk_of_operation (SetView _ _) = Ui"
| "risk_of_operation (SetVisibility _ _) = Ui"
| "risk_of_operation (SetProperty _ _ _) = Low"
| "risk_of_operation (SetExpression _ _ _) = Low"
| "risk_of_operation (SketchSetDatum _ _) = Low"
| "risk_of_operation (CreatePrimitive _ _ _) = Medium"
| "risk_of_operation (CreateObject _ _ _) = Medium"
| "risk_of_operation (Boolean _ _ _ _) = High"
| "risk_of_operation (DeleteObject _ _) = High"
| "risk_of_operation Undo = High"
| "risk_of_operation Redo = High"

record changeset =
  cs_schema_version :: string
  cs_request_id :: string
  cs_session :: string
  cs_document :: string
  cs_base_revision :: string
  cs_description :: "string option"
  cs_preconditions :: "precondition list"
  cs_operations :: "operation list"
  cs_validate :: "string list"
  cs_idempotency_key :: string
  cs_approval_token :: "string option"

text \<open>\<^verbatim>\<open>ChangeSet::new\<close>; the fresh version 4 UUID it draws is an argument.\<close>

definition changeset_new :: "string \<Rightarrow> string \<Rightarrow> string \<Rightarrow> string \<Rightarrow> operation list \<Rightarrow> changeset" where
  "changeset_new uuid session document base_revision operations =
     \<lparr>cs_schema_version = CHANGESET_SCHEMA_VERSION, cs_request_id = uuid, cs_session = session,
      cs_document = document, cs_base_revision = base_revision, cs_description = None,
      cs_preconditions = [], cs_operations = operations,
      cs_validate = [''recompute'', ''shape_validity''], cs_idempotency_key = uuid,
      cs_approval_token = None\<rparr>"

record mapping_candidate =
  mc_reference :: entity_ref
  mc_confidence :: f64
  mc_signals :: "string list"

record entity_mapping =
  em_source :: entity_ref
  em_target_revision :: string
  em_state :: identity_state
  em_candidates :: "mapping_candidate list"
  em_write_eligible :: bool
  em_recommended_action :: string

record entity_change =
  ec_reference :: entity_ref
  ec_fields :: "string list"
  ec_old :: json
  ec_new :: json

record diff =
  df_from :: revision
  df_to :: revision
  df_added :: "entity_ref list"
  df_removed :: "entity_ref list"
  df_changed :: "entity_change list"
  df_mappings :: "entity_mapping list"
  df_facts_added :: "semantic_fact list"
  df_facts_removed :: "semantic_fact list"
  df_diagnostics_changed :: "diagnostic list"
  df_source :: string

section \<open>Hashing\<close>

text \<open>
  What the development takes from the serialization and digest crates: the compact text of a
  JSON document, the hexadecimal SHA-256 digest of a byte string, and the serialized text of
  each type that is hashed.  \<^verbatim>\<open>sha256_json\<close> hashes the text \<^verbatim>\<open>serde_json\<close> writes.  The digest function (of the \<^verbatim>\<open>sha2\<close> and
  \<^verbatim>\<open>hex\<close> crates) and the serializer of each hashed type are parameters; none of these types has
  a value that fails to serialize.
\<close>

record codec =
  json_text :: "json \<Rightarrow> string"
  sha256_hex :: "string \<Rightarrow> string"
  text_of_graph :: "graph \<Rightarrow> string"
  text_of_changeset :: "changeset \<Rightarrow> string"
  text_of_diff_tuple :: "string \<times> string \<times> string \<times> string \<times> diff \<times> string \<Rightarrow> string"

definition sha256_bytes :: "codec \<Rightarrow> string \<Rightarrow> string" where
  "sha256_bytes C bytes = ''sha256:'' @ sha256_hex C bytes"

definition sha256_json :: "codec \<Rightarrow> ('a \<Rightarrow> string) \<Rightarrow> 'a \<Rightarrow> string" where
  "sha256_json C to_vec value = sha256_bytes C (to_vec value)"

definition fingerprint :: "codec \<Rightarrow> graph \<Rightarrow> string" where
  "fingerprint C g = sha256_json C (text_of_graph C) g"

definition changeset_hash :: "codec \<Rightarrow> changeset \<Rightarrow> string" where
  "changeset_hash C cs = sha256_json C (text_of_changeset C) (cs\<lparr>cs_approval_token := None\<rparr>)"

section \<open>Revision identifiers\<close>

lemma show_u64_inject [simp]: "show_u64 a = show_u64 b \<longleftrightarrow> a = b"
  by (simp add: show_u64_def word_unat_eq_iff)

lemma show_u64_no_char: "\<not> is_ascii_digit c \<Longrightarrow> c \<notin> set (show_u64 w)"
  by (simp add: show_u64_def show_nat_no_char)

lemma dot_notin_show_u64 [simp]: "CHR ''.'' \<notin> set (show_u64 w)"
  by (rule show_u64_no_char) (simp add: is_ascii_digit_def)

lemma at_notin_show_u64 [simp]: "CHR ''@'' \<notin> set (show_u64 w)"
  by (rule show_u64_no_char) (simp add: is_ascii_digit_def)

lemma show_u64_dot_inject [simp]:
  "show_u64 a @ CHR ''.'' # s = show_u64 b @ CHR ''.'' # t \<longleftrightarrow> a = b \<and> s = t"
  using append_sep_inject [of "CHR ''.''" "show_u64 a" "show_u64 b" s t] by simp

lemma revision_id_eq_iff: "revision_id r = revision_id s \<longleftrightarrow> r = s"
  by (auto simp: revision_id_def)

lemma geometry_id_eq_iff:
  "geometry_id r = geometry_id s \<longleftrightarrow> rev_geometry r = rev_geometry s \<and> rev_epoch r = rev_epoch s"
  by (auto simp: geometry_id_def)

lemma at_notin_revision_id: "CHR ''@'' \<notin> set (revision_id r) \<longleftrightarrow> CHR ''@'' \<notin> set (rev_epoch r)"
  by (auto simp: revision_id_def)

lemma advances_from_irrefl: "\<not> advances_from r r"
  by (simp add: advances_from_def)

lemma advances_from_trans: "advances_from a b \<Longrightarrow> advances_from b c \<Longrightarrow> advances_from a c"
  by (auto simp: advances_from_def intro: order_trans)

lemma advances_from_id_changes: "advances_from a b \<Longrightarrow> revision_id a \<noteq> revision_id b"
  by (auto simp: advances_from_def revision_id_eq_iff)

text \<open>Adding one to a counter that is not at its maximum.\<close>

lemma unat_inc: "(w::64 word) \<noteq> - 1 \<Longrightarrow> unat (w + 1) = unat w + 1"
  by (metis add.commute unatSuc Suc_eq_plus1 add_eq_0_iff)

lemma word_less_inc: "(w::64 word) \<noteq> - 1 \<Longrightarrow> w < w + 1"
  by (simp add: word_less_nat_alt unat_inc)

section \<open>Graphs\<close>

text \<open>Every entity is stored under its own reference, in key order.\<close>

definition graph_wf :: "graph \<Rightarrow> bool" where
  "graph_wf g \<longleftrightarrow> bm_wf (g_entities g) \<and> (\<forall>(k, e) \<in> set (g_entities g). en_ref e = k)
     \<and> bm_wf (g_metadata g)"

lemma graph_wf_new [simp]: "graph_wf (graph_new session document r)"
  by (simp add: graph_wf_def graph_new_def)

lemma graph_wf_entity_ref: "graph_wf g \<Longrightarrow> graph_entity g k = Some e \<Longrightarrow> en_ref e = k"
  by (auto simp: graph_wf_def graph_entity_def dest: map_of_SomeD)

lemma graph_entity_iff:
  "graph_wf g \<Longrightarrow> graph_entity g k = Some e \<longleftrightarrow> e \<in> set (bm_values (g_entities g)) \<and> en_ref e = k"
  by (force simp: graph_wf_def graph_entity_def bm_get_Some_iff)

lemma validate_invariants_set:
  "d \<in> set (validate_invariants g) \<longleftrightarrow>
     (\<exists>e \<in> set (bm_values (g_entities g)). \<exists>l \<in> set (en_links e).
        \<not> link_resolves g (lk_target l) \<and> d = missing_link_target e l)"
  by (auto simp: validate_invariants_def)

lemma validate_invariants_empty_iff:
  "validate_invariants g = [] \<longleftrightarrow>
     (\<forall>e \<in> set (bm_values (g_entities g)). \<forall>l \<in> set (en_links e). link_resolves g (lk_target l))"
proof -
  have "validate_invariants g = [] \<longleftrightarrow> (\<forall>d. d \<notin> set (validate_invariants g))"
    by (metis last_in_set list.set(1) empty_iff)
  then show ?thesis by (auto simp: validate_invariants_set)
qed

lemma changeset_hash_ignores_token:
  "changeset_hash C (cs\<lparr>cs_approval_token := t\<rparr>) = changeset_hash C cs"
  by (simp add: changeset_hash_def)

end
