(* ===== verification/Samples.thy ===== *)
theory Samples
  imports Ccir
begin

text \<open>
  Concrete values the theorems are evaluated at: a codec whose serializers keep what they are
  given distinct, and a document with two boxes, one of them depending on the other.
\<close>

definition sample_codec :: codec where
  "sample_codec =
     \<lparr>json_text = (\<lambda>v. (case v of JStr s \<Rightarrow> s | JBool True \<Rightarrow> ''true'' | JBool False \<Rightarrow> ''false''
                      | JNum (PosInt n) \<Rightarrow> show_nat n | _ \<Rightarrow> ''null'')),
      sha256_hex = (\<lambda>s. s),
      text_of_graph = (\<lambda>g. revision_id (g_revision g)),
      text_of_changeset = (\<lambda>cs. cs_request_id cs @ ''|'' @ cs_base_revision cs),
      text_of_diff_tuple = (\<lambda>(s, d, b, h, df, p). b @ ''|'' @ h @ ''|'' @ p)\<rparr>"

definition sample_revision :: revision where
  "sample_revision = \<lparr>rev_geometry = 1, rev_metadata = 0, rev_focus = 0, rev_view = 0, rev_epoch = ''e''\<rparr>"

definition box_a :: string where
  "box_a = ''A@g1.m0.f0.v0.e''"

definition box_b :: string where
  "box_b = ''B@g1.m0.f0.v0.e''"

definition sample_box :: "string \<Rightarrow> string \<Rightarrow> nat \<Rightarrow> link list \<Rightarrow> entity" where
  "sample_box reference name len links =
     entity_default\<lparr>en_ref := reference, en_kind := ''cad.object'', en_revision := ''g1.m0.f0.v0.e'',
       en_name := Some name, en_properties := JObj [(''Length'', JNum (PosInt len)), (''visible'', JBool True)],
       en_links := links\<rparr>"

definition sample_graph :: graph where
  "sample_graph = (graph_new ''s'' ''d'' sample_revision)
     \<lparr>g_entities := [(box_a, sample_box box_a ''A'' 10 []),
                     (box_b, sample_box box_b ''B'' 20 [\<lparr>lk_relation = ''depends_on'', lk_target = box_a\<rparr>])]\<rparr>"

definition sample_change :: changeset where
  "sample_change = changeset_new ''u1'' ''s'' ''d'' ''g1.m0.f0.v0.e''
     [SetVisibility box_a False, SetProperty box_a ''Length'' (JNum (PosInt 12))]"

text \<open>The graph the sample change set leads to, written out.\<close>

definition next_a :: string where
  "next_a = ''A@g2.m0.f0.v0.e''"

definition next_b :: string where
  "next_b = ''B@g2.m0.f0.v0.e''"

definition sample_next :: graph where
  "sample_next = (graph_new ''s'' ''d'' (sample_revision\<lparr>rev_geometry := 2\<rparr>))
     \<lparr>g_entities := [(next_a, (sample_box next_a ''A'' 12 [])\<lparr>en_revision := ''g2.m0.f0.v0.e'',
                       en_properties := JObj [(''Length'', JNum (PosInt 12)), (''visible'', JBool False)]\<rparr>),
                     (next_b, (sample_box next_b ''B'' 20 [\<lparr>lk_relation = ''depends_on'', lk_target = next_a\<rparr>])
                       \<lparr>en_revision := ''g2.m0.f0.v0.e''\<rparr>)]\<rparr>"

lemmas sample_defs = sample_codec_def sample_revision_def box_a_def box_b_def sample_box_def
  sample_graph_def sample_change_def next_a_def next_b_def sample_next_def entity_default_def identity_default_def graph_new_def
  changeset_new_def

end
