(* ===== verification/ChangeApply.thy ===== *)
theory ChangeApply
  imports Ccir
begin

text \<open>
  The half of the crate \<^verbatim>\<open>revision-store\<close> that turns a graph and a change set into the next graph:
  preconditions, validation of the operations, their application one after the other, the new
  revision counters, and the move of every reference to the new revision.  A panic of the thread
  is the error \<open>RevPanic\<close>, which the Rust error type does not have.
\<close>

datatype revision_error =
    RevisionConflict string string
  | EntityNotFound string
  | StaleReference string
  | PreconditionFailed string
  | UnsupportedOperation string
  | HasDependents string
  | NoUndo
  | NoRedo
  | RevCore ccir_error
  | RevSerialization string
  | RevPanic string

section \<open>Property paths\<close>

text \<open>
  \<^verbatim>\<open>set_property\<close>: every inner member that is not an object is replaced by an empty object, then
  the last member is set.  \<^const>\<open>None\<close> is the panic of \<^verbatim>\<open>IndexMut\<close> on a document that is
  neither an object nor null.
\<close>

fun set_path :: "string list \<Rightarrow> json \<Rightarrow> json \<Rightarrow> json option" where
  "set_path [] value v = Some v"
| "set_path [k] value v = jset k value v"
| "set_path (k # k' # ks) value v =
     (case (case jget k v of
              Some w \<Rightarrow> if is_object w then Some (v, w)
                        else map_option (\<lambda>v'. (v', JObj [])) (jset k (JObj []) v)
            | None \<Rightarrow> map_option (\<lambda>v'. (v', JObj [])) (jset k (JObj []) v)) of
        None \<Rightarrow> None
      | Some (v', w) \<Rightarrow>
          (case set_path (k' # ks) value w of None \<Rightarrow> None | Some w' \<Rightarrow> jset k w' v'))"

definition set_property :: "json \<Rightarrow> string \<Rightarrow> json \<Rightarrow> json option" where
  "set_property properties path value = set_path (split_on CHR ''.'' path) value properties"

definition property_value :: "json \<Rightarrow> string \<Rightarrow> json option" where
  "property_value properties path = jpath (split_on CHR ''.'' path) properties"

section \<open>Looking entities up\<close>

definition exact_entity :: "graph \<Rightarrow> string \<Rightarrow> (entity, revision_error) result" where
  "exact_entity g reference =
     res_bind (ok_or (graph_entity g reference) (EntityNotFound reference)) (\<lambda>e.
     res_bind (ensure (write_eligible (id_state (en_identity e))) (StaleReference reference)) (\<lambda>_.
     Ok e))"

definition object_entity :: "graph \<Rightarrow> string \<Rightarrow> (entity, revision_error) result" where
  "object_entity g reference =
     res_bind (exact_entity g reference) (\<lambda>e.
     if en_kind e = ''cad.document''
        \<or> (case en_source e of None \<Rightarrow> False | Some s \<Rightarrow> src_subelement s \<noteq> None)
     then Err (UnsupportedOperation
            (''operation requires an object-level target: '' @ reference))
     else Ok e)"

definition object_reference :: "graph \<Rightarrow> string \<Rightarrow> string" where
  "object_reference g name =
     ''fc://session/'' @ g_session g @ ''/document/'' @ g_document g @ ''/object/'' @ name"

definition ensure_new_object :: "graph \<Rightarrow> string \<Rightarrow> (unit, revision_error) result" where
  "ensure_new_object g name =
     ensure (\<not> bm_contains (g_entities g) (object_reference g name))
       (PreconditionFailed (''object already exists: '' @ name))"

definition validate_identifier :: "string \<Rightarrow> (unit, revision_error) result" where
  "validate_identifier name =
     (if name = [] \<or> \<not> is_ascii_alphabetic (hd name)
         \<or> \<not> list_all (\<lambda>c. is_ascii_alphanumeric c \<or> c = CHR ''_'') name
      then Err (UnsupportedOperation ''object names must be simple ASCII identifiers'')
      else Ok ())"

definition validate_property_name :: "string \<Rightarrow> (unit, revision_error) result" where
  "validate_property_name property =
     (if property = [] \<or> CHR ''.'' \<in> set property \<or> str_contains ''__'' property
         \<or> \<not> list_all (\<lambda>c. is_ascii_alphanumeric c \<or> c = CHR ''_'') property
      then Err (UnsupportedOperation ''property names must be simple identifiers'')
      else Ok ())"

section \<open>Validation\<close>

definition selection_modes :: "string list" where
  "selection_modes = [''replace'', ''add'', ''remove'']"

definition view_operations :: "string list" where
  "view_operations = [''fit_all'', ''view_axo'', ''view_front'', ''view_rear'', ''view_left'',
     ''view_right'', ''view_top'', ''view_bottom'']"

definition boolean_operations :: "string list" where
  "boolean_operations = [''cut'', ''fuse'', ''common'']"

definition object_types :: "string list" where
  "object_types = [''Part::Feature'', ''PartDesign::Feature'', ''PartDesign::Body'',
     ''PartDesign::FeaturePython'', ''Sketcher::SketchObject'']"

definition primitive_parameters :: "string \<Rightarrow> string list option" where
  "primitive_parameters primitive =
     (if primitive = ''box'' then Some [''length'', ''width'', ''height'']
      else if primitive = ''cylinder'' then Some [''radius'', ''height'']
      else if primitive = ''sphere'' then Some [''radius'']
      else None)"

definition quantity_rejected :: "quantity \<Rightarrow> bool" where
  "quantity_rejected q \<longleftrightarrow>
     \<not> is_finite (q_value q) \<or> f64_lt (q_value q) (Finite 0) \<or> q_unit q = []"

fun validate_operation :: "graph \<Rightarrow> operation \<Rightarrow> (unit, revision_error) result" where
  "validate_operation g (SetProperty target property value) =
     res_bind (object_entity g target) (\<lambda>e.
     res_bind (validate_property_name property) (\<lambda>_.
     ensure (property_value (en_properties e) property \<noteq> None)
       (UnsupportedOperation
          (''property is not declared on '' @ target @ '': '' @ property))))"
| "validate_operation g (SetExpression target property expression) =
     res_bind (object_entity g target) (\<lambda>e.
     res_bind (validate_property_name property) (\<lambda>_.
     ensure (property_value (en_properties e) property \<noteq> None)
       (UnsupportedOperation
          (''property is not declared on '' @ target @ '': '' @ property))))"
| "validate_operation g (SketchSetDatum constraint value) =
     res_bind (exact_entity g constraint) (\<lambda>e.
     ensure (en_kind e = ''sketch.constraint'')
       (UnsupportedOperation ''sketch datum requires a sketch.constraint target''))"
| "validate_operation g (SetVisibility target visible) =
     res_bind (object_entity g target) (\<lambda>e.
     ensure (property_value (en_properties e) ''visible'' \<noteq> None)
       (UnsupportedOperation (''visibility is not declared on '' @ target)))"
| "validate_operation g (SetSelection targets mode) =
     res_bind (ensure (mode \<in> set selection_modes)
                 (UnsupportedOperation ''selection mode is not allowlisted'')) (\<lambda>_.
     res_each (\<lambda>target. res_bind (exact_entity g target) (\<lambda>e.
        ensure (en_kind e \<noteq> ''cad.document'')
          (UnsupportedOperation ''document cannot be selected as an object''))) targets)"
| "validate_operation g (SetView operation parameters) =
     ensure (operation \<in> set view_operations)
       (UnsupportedOperation ''view operation is not allowlisted'')"
| "validate_operation g (CreatePrimitive object primitive parameters) =
     res_bind (validate_identifier object) (\<lambda>_.
     res_bind (ok_or (primitive_parameters primitive)
                 (UnsupportedOperation ''primitive is not allowlisted'')) (\<lambda>expected.
     res_bind (ensure (set (bm_keys parameters) = set expected)
                 (UnsupportedOperation
                    ''primitive parameters do not match the allowlisted shape'')) (\<lambda>_.
     ensure (\<not> list_ex quantity_rejected (bm_values parameters))
       (UnsupportedOperation
          ''primitive quantities must be finite, non-negative, and unit-tagged''))))"
| "validate_operation g (Boolean result operation left right) =
     res_bind (validate_identifier result) (\<lambda>_.
     res_bind (ensure (operation \<in> set boolean_operations)
                 (UnsupportedOperation ''boolean operation is not allowlisted'')) (\<lambda>_.
     res_bind (object_entity g left) (\<lambda>_.
     res_bind (object_entity g right) (\<lambda>_.
     ensure_new_object g result))))"
| "validate_operation g (CreateObject object kind properties) =
     res_bind (validate_identifier object) (\<lambda>_.
     res_bind (ensure (kind \<in> set object_types)
                 (UnsupportedOperation ''object type is not allowlisted'')) (\<lambda>_.
     ensure_new_object g object))"
| "validate_operation g (DeleteObject target require_no_dependents) =
     res_bind (object_entity g target) (\<lambda>_. Ok ())"
| "validate_operation g Undo = Err (UnsupportedOperation ''undo/redo require a live bridge'')"
| "validate_operation g Redo = Err (UnsupportedOperation ''undo/redo require a live bridge'')"

definition validate_operations :: "graph \<Rightarrow> operation list \<Rightarrow> (unit, revision_error) result" where
  "validate_operations g operations = res_each (validate_operation g) operations"

section \<open>Preconditions\<close>

fun verify_precondition :: "codec \<Rightarrow> graph \<Rightarrow> precondition \<Rightarrow> (unit, revision_error) result" where
  "verify_precondition C g (PropertyEquals target property value) =
     res_bind (ok_or (graph_entity g target) (EntityNotFound target)) (\<lambda>e.
     ensure (property_value (en_properties e) property = Some value)
       (PreconditionFailed (target @ ''.'' @ property @ '' != '' @ json_text C value)))"
| "verify_precondition C g (EntityKind target kind) =
     res_bind (ok_or (graph_entity g target) (EntityNotFound target)) (\<lambda>e.
     ensure (en_kind e = kind)
       (PreconditionFailed (target @ '' is '' @ en_kind e @ '', not '' @ kind)))"
| "verify_precondition C g (EntityExists target identity) =
     res_bind (ok_or (graph_entity g target) (EntityNotFound target)) (\<lambda>e.
     ensure (case identity of None \<Rightarrow> True | Some expected \<Rightarrow> id_state (en_identity e) = expected)
       (PreconditionFailed (''identity state mismatch for '' @ target)))"
| "verify_precondition C g (RevisionEquals revision) =
     ensure (revision = revision_id (g_revision g) \<or> revision = geometry_id (g_revision g))
       (RevisionConflict revision (revision_id (g_revision g)))"
| "verify_precondition C g (QueryHolds description query_hash) =
     Err (UnsupportedOperation
            (''query_holds precondition was not evaluated: '' @ description))"

definition verify_preconditions :: "codec \<Rightarrow> graph \<Rightarrow> changeset \<Rightarrow> (unit, revision_error) result" where
  "verify_preconditions C g cs = res_each (verify_precondition C g) (cs_preconditions cs)"

section \<open>Application\<close>

definition writable_entity :: "graph \<Rightarrow> string \<Rightarrow> (entity, revision_error) result" where
  "writable_entity g reference =
     res_bind (ok_or (graph_entity g reference) (EntityNotFound reference)) (\<lambda>e.
     if write_eligible (id_state (en_identity e))
     then ok_or (graph_entity g reference) (EntityNotFound reference)
     else Err (StaleReference reference))"

text \<open>Setting one property of a writable entity in place.\<close>

definition write_property ::
  "graph \<Rightarrow> string \<Rightarrow> string \<Rightarrow> json \<Rightarrow> (graph, revision_error) result" where
  "write_property g reference path value =
     res_bind (writable_entity g reference) (\<lambda>e.
     res_bind (ok_or (set_property (en_properties e) path value)
                 (RevPanic ''cannot access key in JSON value'')) (\<lambda>p.
     Ok (g\<lparr>g_entities := bm_insert reference (e\<lparr>en_properties := p\<rparr>) (g_entities g)\<rparr>)))"

definition created_entity :: "graph \<Rightarrow> string \<Rightarrow> string \<Rightarrow> json \<Rightarrow> link list \<Rightarrow> entity" where
  "created_entity g name kind properties links =
     entity_default
       \<lparr>en_ref := object_reference g name, en_kind := kind,
        en_schema_version := CCIR_SCHEMA_VERSION, en_revision := revision_id (g_revision g),
        en_name := Some name, en_label := Some name, en_identity := identity_default,
        en_properties := properties, en_links := links\<rparr>"

definition insert_created :: "graph \<Rightarrow> string \<Rightarrow> string \<Rightarrow> json \<Rightarrow> link list \<Rightarrow> graph" where
  "insert_created g name kind properties links =
     g\<lparr>g_entities := bm_insert (object_reference g name)
         (created_entity g name kind properties links) (g_entities g)\<rparr>"

fun apply_operation :: "graph \<Rightarrow> operation \<Rightarrow> (graph, revision_error) result" where
  "apply_operation g (SetProperty target property value) = write_property g target property value"
| "apply_operation g (SetExpression target property expression) =
     write_property g target (''expressions.'' @ property) (JStr expression)"
| "apply_operation g (SketchSetDatum constraint value) =
     write_property g constraint ''datum'' (json_of_quantity value)"
| "apply_operation g (CreatePrimitive object primitive parameters) =
     res_bind (ensure (\<not> bm_contains (g_entities g) (object_reference g object))
                 (PreconditionFailed (''object already exists: '' @ object))) (\<lambda>_.
     Ok (insert_created g object ''cad.object''
           (jobj [(''primitive'', JStr primitive),
                  (''parameters'', JObj (map (\<lambda>(k, q). (k, json_of_quantity q)) parameters))])
           []))"
| "apply_operation g (Boolean result operation left right) =
     res_bind (ok_or (graph_entity g left) (EntityNotFound left)) (\<lambda>l.
     res_bind (ok_or (graph_entity g right) (EntityNotFound right)) (\<lambda>r.
     Ok (insert_created g result ''cad.feature.boolean''
           (jobj [(''operation'', JStr operation), (''valid'', JBool True)])
           [\<lparr>lk_relation = ''depends_on'', lk_target = en_ref l\<rparr>,
            \<lparr>lk_relation = ''depends_on'', lk_target = en_ref r\<rparr>])))"
| "apply_operation g (SetVisibility target visible) =
     write_property g target ''visible'' (JBool visible)"
| "apply_operation g (SetSelection targets mode) =
     Ok (g\<lparr>g_metadata := bm_insert ''selection''
           (jobj [(''targets'', json_of_list JStr targets), (''mode'', JStr mode)])
           (g_metadata g)\<rparr>)"
| "apply_operation g (SetView operation parameters) =
     Ok (g\<lparr>g_metadata := bm_insert ''view_operation''
           (jobj [(''operation'', JStr operation), (''parameters'', parameters)])
           (g_metadata g)\<rparr>)"
| "apply_operation g (CreateObject object kind properties) =
     Ok (insert_created g object kind properties [])"
| "apply_operation g (DeleteObject target require_no_dependents) =
     (let dependents = length (filter (\<lambda>e. has_relation e ''depends_on'' target)
                         (bm_values (g_entities g))) in
      if require_no_dependents \<and> 0 < dependents then Err (HasDependents target)
      else if bm_contains (g_entities g) target
      then Ok (g\<lparr>g_entities := bm_remove target (g_entities g)\<rparr>)
      else Err (EntityNotFound target))"
| "apply_operation g Undo = Err (UnsupportedOperation ''undo/redo require a live bridge'')"
| "apply_operation g Redo = Err (UnsupportedOperation ''undo/redo require a live bridge'')"

section \<open>Moving references to a new revision\<close>

definition replace_revision :: "string \<Rightarrow> string \<Rightarrow> string \<Rightarrow> string" where
  "replace_revision reference old_revision new_revision =
     (case strip_suffix (''@'' @ old_revision) reference of
        None \<Rightarrow> reference
      | Some prefix \<Rightarrow> prefix @ ''@'' @ new_revision)"

definition rekey_entity :: "string \<Rightarrow> string \<Rightarrow> entity_ref \<times> entity \<Rightarrow> entity_ref \<times> entity" where
  "rekey_entity old_revision new_revision =
     (\<lambda>(reference, e).
        let new_reference = replace_revision reference old_revision new_revision in
        (new_reference,
         e\<lparr>en_ref := new_reference, en_revision := new_revision,
           en_links := map (\<lambda>l. l\<lparr>lk_target :=
             replace_revision (lk_target l) old_revision new_revision\<rparr>) (en_links e)\<rparr>))"

definition rekey_fact :: "string \<Rightarrow> string \<Rightarrow> semantic_fact \<Rightarrow> semantic_fact" where
  "rekey_fact old_revision new_revision f =
     f\<lparr>fa_ref := replace_revision (fa_ref f) old_revision new_revision,
       fa_evidence := map (\<lambda>r. replace_revision r old_revision new_revision) (fa_evidence f),
       fa_contradicting :=
         map (\<lambda>r. replace_revision r old_revision new_revision) (fa_contradicting f)\<rparr>"

definition rekey_refs :: "graph \<Rightarrow> string \<Rightarrow> string \<Rightarrow> graph" where
  "rekey_refs g old_revision new_revision =
     (if old_revision = new_revision then g
      else g\<lparr>g_entities := bm_collect (map (rekey_entity old_revision new_revision) (g_entities g)),
             g_facts := map (rekey_fact old_revision new_revision) (g_facts g)\<rparr>)"

section \<open>The change set as a whole\<close>

definition changes_model :: "operation \<Rightarrow> bool" where
  "changes_model op \<longleftrightarrow> risk_of_operation op \<in> {Low, Medium, High}"

fun sets_label :: "operation \<Rightarrow> bool" where
  "sets_label (SetProperty target property value) = (property = ''label'')"
| "sets_label _ = False"

fun is_set_selection :: "operation \<Rightarrow> bool" where
  "is_set_selection (SetSelection targets mode) = True"
| "is_set_selection _ = False"

fun is_set_view :: "operation \<Rightarrow> bool" where
  "is_set_view (SetView operation parameters) = True"
| "is_set_view _ = False"

definition bump :: "bool \<Rightarrow> 64 word \<Rightarrow> 64 word" where
  "bump b w = (if b then w + 1 else w)"

definition next_revision :: "operation list \<Rightarrow> revision \<Rightarrow> revision" where
  "next_revision ops r =
     \<lparr>rev_geometry = bump (list_ex changes_model ops) (rev_geometry r),
      rev_metadata = bump (list_ex sets_label ops) (rev_metadata r),
      rev_focus = bump (list_ex is_set_selection ops) (rev_focus r),
      rev_view = bump (list_ex is_set_view ops) (rev_view r),
      rev_epoch = rev_epoch r\<rparr>"

definition apply_changeset ::
  "codec \<Rightarrow> graph \<Rightarrow> changeset \<Rightarrow> (graph, revision_error) result" where
  "apply_changeset C g cs =
     res_bind (verify_preconditions C g cs) (\<lambda>_.
     res_bind (validate_operations g (cs_operations cs)) (\<lambda>_.
     res_bind (res_fold apply_operation g (cs_operations cs)) (\<lambda>g1.
     let g2 = g1\<lparr>g_revision := next_revision (cs_operations cs) (g_revision g1)\<rparr>;
         g3 = rekey_refs g2 (revision_id (g_revision g)) (revision_id (g_revision g2))
     in Ok (g3\<lparr>g_diagnostics := validate_invariants g3\<rparr>))))"

end
