(* ===== verification/ChangeLaws.thy ===== *)
theory ChangeLaws
  imports ChangeApply
begin

text \<open>
  Laws of change set application: what an accepted change set was allowed to touch, what each
  operation leaves alone, which errors and panics can occur, how the revision moves, and what
  the move of references preserves.
\<close>

section \<open>Single operations\<close>

text \<open>The entities an operation names, and the keys it may write.\<close>

fun op_targets :: "operation \<Rightarrow> entity_ref list" where
  "op_targets (SetProperty t p v) = [t]"
| "op_targets (SetExpression t p x) = [t]"
| "op_targets (SketchSetDatum c q) = [c]"
| "op_targets (SetVisibility t b) = [t]"
| "op_targets (SetSelection ts m) = ts"
| "op_targets (Boolean r k a b) = [a, b]"
| "op_targets (DeleteObject t b) = [t]"
| "op_targets _ = []"

fun op_created :: "graph \<Rightarrow> operation \<Rightarrow> entity_ref list" where
  "op_created g (CreatePrimitive n k ps) = [object_reference g n]"
| "op_created g (Boolean r k a b) = [object_reference g r]"
| "op_created g (CreateObject n k v) = [object_reference g n]"
| "op_created g _ = []"

fun op_writes :: "graph \<Rightarrow> operation \<Rightarrow> entity_ref list" where
  "op_writes g (SetProperty t p v) = [t]"
| "op_writes g (SetExpression t p x) = [t]"
| "op_writes g (SketchSetDatum c q) = [c]"
| "op_writes g (SetVisibility t b) = [t]"
| "op_writes g (DeleteObject t b) = [t]"
| "op_writes g op = op_created g op"

fun is_delete :: "operation \<Rightarrow> bool" where
  "is_delete (DeleteObject t b) = True"
| "is_delete _ = False"

fun is_set_visibility :: "operation \<Rightarrow> bool" where
  "is_set_visibility (SetVisibility t b) = True"
| "is_set_visibility _ = False"

lemma exact_entity_Ok_iff:
  "exact_entity g t = Ok e \<longleftrightarrow> graph_entity g t = Some e \<and> write_eligible (id_state (en_identity e))"
  by (auto simp: exact_entity_def)

lemma object_entity_Ok:
  "object_entity g t = Ok e \<Longrightarrow> graph_entity g t = Some e \<and> write_eligible (id_state (en_identity e))"
  by (auto simp: object_entity_def exact_entity_Ok_iff split: if_splits)

lemma object_entity_kind: "object_entity g t = Ok e \<Longrightarrow> en_kind e \<noteq> ''cad.document''"
  by (auto simp: object_entity_def split: if_splits)

lemma writable_entity_Ok_iff:
  "writable_entity g t = Ok e \<longleftrightarrow> graph_entity g t = Some e \<and> write_eligible (id_state (en_identity e))"
  by (auto simp: writable_entity_def split: if_splits)

lemma write_eligible_iff: "write_eligible s \<longleftrightarrow> s = Exact \<or> s = MappedExact"
  by (cases s) auto

lemma validated_targets:
  assumes "validate_operation g op = Ok ()" and "t \<in> set (op_targets op)"
  shows "\<exists>e. graph_entity g t = Some e \<and> write_eligible (id_state (en_identity e))"
  using assms
  by (cases op) (auto dest!: object_entity_Ok simp: exact_entity_Ok_iff Ball_def)

lemma write_property_Ok_iff:
  "write_property g t p v = Ok g' \<longleftrightarrow>
     (\<exists>e w. graph_entity g t = Some e \<and> write_eligible (id_state (en_identity e))
        \<and> set_property (en_properties e) p v = Some w
        \<and> g' = g\<lparr>g_entities := bm_insert t (e\<lparr>en_properties := w\<rparr>) (g_entities g)\<rparr>)"
  by (auto simp: write_property_def writable_entity_Ok_iff)

lemma graph_entity_insert [simp]:
  "graph_entity (g\<lparr>g_entities := bm_insert k e (g_entities g)\<rparr>) j =
     (if j = k then Some e else graph_entity g j)"
  by (simp add: graph_entity_def)

lemma graph_entity_remove [simp]:
  "graph_entity (g\<lparr>g_entities := bm_remove k (g_entities g)\<rparr>) j =
     (if j = k then None else graph_entity g j)"
  by (simp add: graph_entity_def)

lemma graph_entity_other_fields [simp]:
  "graph_entity (g\<lparr>g_metadata := m\<rparr>) j = graph_entity g j"
  "graph_entity (g\<lparr>g_diagnostics := ds\<rparr>) j = graph_entity g j"
  "graph_entity (g\<lparr>g_revision := r\<rparr>) j = graph_entity g j"
  by (simp_all add: graph_entity_def)

lemma graph_entity_insert_created [simp]:
  "graph_entity (insert_created g n k v ls) j =
     (if j = object_reference g n then Some (created_entity g n k v ls) else graph_entity g j)"
  by (simp add: insert_created_def)

text \<open>An operation keeps the session, the document, the revision, the facts and the diagnostics.\<close>

lemma apply_operation_keeps:
  assumes "apply_operation g op = Ok g'"
  shows "g_session g' = g_session g" and "g_document g' = g_document g"
    and "g_revision g' = g_revision g" and "g_facts g' = g_facts g"
    and "g_diagnostics g' = g_diagnostics g" and "g_schema_version g' = g_schema_version g"
  using assms
  by (cases op; auto simp: write_property_Ok_iff insert_created_def Let_def split: if_splits)+

lemma object_reference_keeps:
  "apply_operation g op = Ok g' \<Longrightarrow> object_reference g' n = object_reference g n"
  by (simp add: object_reference_def apply_operation_keeps)

text \<open>Entities at other keys are untouched, and an entity written in place only changes its properties.\<close>

lemma apply_operation_frame:
  assumes "apply_operation g op = Ok g'" and "k \<notin> set (op_writes g op)"
  shows "graph_entity g' k = graph_entity g k"
  using assms
  by (cases op) (auto simp: write_property_Ok_iff Let_def split: if_splits)

lemma apply_operation_in_place:
  assumes "apply_operation g op = Ok g'" and "k \<notin> set (op_created g op)"
    and "graph_entity g' k = Some e'"
  shows "\<exists>e. graph_entity g k = Some e \<and> e' = e\<lparr>en_properties := en_properties e'\<rparr>"
  using assms
  by (cases op) (auto simp: write_property_Ok_iff Let_def split: if_splits)

lemma apply_operation_keeps_entity:
  assumes "apply_operation g op = Ok g'" and "\<not> is_delete op" and "graph_entity g k \<noteq> None"
  shows "graph_entity g' k \<noteq> None"
  using assms
  by (cases op) (auto simp: write_property_Ok_iff split: if_splits)

lemma created_entity_simps [simp]:
  "en_ref (created_entity g n k v ls) = object_reference g n"
  "en_properties (created_entity g n k v ls) = v"
  "en_links (created_entity g n k v ls) = ls"
  "en_kind (created_entity g n k v ls) = k"
  "id_state (en_identity (created_entity g n k v ls)) = Exact"
  by (simp_all add: created_entity_def identity_default_def)

lemma set_bm_insert_subset: "set (bm_insert k v m) \<subseteq> insert (k, v) (set m)"
  by (induction k v m rule: bm_insert.induct) auto

lemma graph_wf_insert:
  "graph_wf g \<Longrightarrow> en_ref e = k \<Longrightarrow> graph_wf (g\<lparr>g_entities := bm_insert k e (g_entities g)\<rparr>)"
  using set_bm_insert_subset [of k e "g_entities g"] by (fastforce simp: graph_wf_def)

lemma graph_wf_remove: "graph_wf g \<Longrightarrow> graph_wf (g\<lparr>g_entities := bm_remove k (g_entities g)\<rparr>)"
  by (auto simp: graph_wf_def) (auto simp: bm_remove_def)

lemma graph_wf_metadata: "graph_wf g \<Longrightarrow> graph_wf (g\<lparr>g_metadata := bm_insert k v (g_metadata g)\<rparr>)"
  by (simp add: graph_wf_def)

lemma graph_wf_other_fields [simp]:
  "graph_wf (g\<lparr>g_diagnostics := ds\<rparr>) = graph_wf g"
  "graph_wf (g\<lparr>g_revision := r\<rparr>) = graph_wf g"
  "graph_wf (g\<lparr>g_facts := fs\<rparr>) = graph_wf g"
  by (simp_all add: graph_wf_def)

lemma apply_operation_wf:
  assumes "apply_operation g op = Ok g'" and "graph_wf g"
  shows "graph_wf g'"
  using assms
  by (cases op)
    (auto simp: write_property_Ok_iff insert_created_def Let_def graph_wf_entity_ref
          intro!: graph_wf_insert graph_wf_remove graph_wf_metadata split: if_splits)

section \<open>The revision\<close>

lemma bump_eq_iff [simp]: "bump b w = w \<longleftrightarrow> \<not> b"
  by (simp add: bump_def)

lemma next_revision_eq_iff:
  "next_revision ops r = r \<longleftrightarrow> list_all is_set_visibility ops"
proof -
  have op: "\<not> changes_model op \<and> \<not> sets_label op \<and> \<not> is_set_selection op \<and> \<not> is_set_view op
              \<longleftrightarrow> is_set_visibility op" for op
    by (cases op) (auto simp: changes_model_def)
  have "next_revision ops r = r \<longleftrightarrow>
      \<not> list_ex changes_model ops \<and> \<not> list_ex sets_label ops
      \<and> \<not> list_ex is_set_selection ops \<and> \<not> list_ex is_set_view ops"
    by (cases r) (simp add: next_revision_def)
  also have "\<dots> \<longleftrightarrow> list_all is_set_visibility ops"
    by (simp add: list_ex_iff list_all_iff op [symmetric] ball_conj_distrib)
  finally show ?thesis .
qed

lemma bump_le: "w \<noteq> - 1 \<Longrightarrow> w \<le> bump b w"
  by (simp add: bump_def word_less_inc less_imp_le)

lemma next_revision_advances:
  assumes "\<not> list_all is_set_visibility ops"
    and "rev_geometry r \<noteq> - 1" "rev_metadata r \<noteq> - 1" "rev_focus r \<noteq> - 1" "rev_view r \<noteq> - 1"
  shows "advances_from (next_revision ops r) r"
proof -
  have "next_revision ops r \<noteq> r" using assms(1) by (simp add: next_revision_eq_iff)
  then show ?thesis
    using assms(2-) by (simp add: advances_from_def bump_le) (simp add: next_revision_def bump_le)
qed

lemma res_fold_keeps:
  assumes "res_fold apply_operation g ops = Ok g'"
  shows "g_revision g' = g_revision g" and "g_session g' = g_session g"
    and "g_document g' = g_document g" and "g_facts g' = g_facts g"
proof -
  let ?P = "\<lambda>s. g_revision s = g_revision g \<and> g_session s = g_session g
    \<and> g_document s = g_document g \<and> g_facts s = g_facts g"
  have "?P g'"
    by (rule res_fold_invariant [OF assms, where P = ?P]) (simp_all add: apply_operation_keeps)
  then show "g_revision g' = g_revision g" and "g_session g' = g_session g"
    and "g_document g' = g_document g" and "g_facts g' = g_facts g" by simp_all
qed

lemma res_fold_wf:
  "res_fold apply_operation g ops = Ok g' \<Longrightarrow> graph_wf g \<Longrightarrow> graph_wf g'"
  by (erule res_fold_invariant [where P = graph_wf]) (auto intro: apply_operation_wf)

section \<open>Moving references\<close>

lemma replace_revision_cases:
  "replace_revision (p @ ''@'' @ old) old new = p @ ''@'' @ new"
  "strip_suffix (''@'' @ old) r = None \<Longrightarrow> replace_revision r old new = r"
  by (simp_all add: replace_revision_def del: append_Cons append_Nil)

definition ends_at :: "string \<Rightarrow> string \<Rightarrow> bool" where
  "ends_at r reference \<longleftrightarrow> strip_suffix (''@'' @ r) reference \<noteq> None"

lemma replace_revision_inject:
  assumes "\<not> ends_at new a" and "\<not> ends_at new b"
  shows "replace_revision a old new = replace_revision b old new \<longleftrightarrow> a = b"
proof (cases "strip_suffix (''@'' @ old) a"; cases "strip_suffix (''@'' @ old) b")
  fix p q
  assume a: "strip_suffix (''@'' @ old) a = Some p" and b: "strip_suffix (''@'' @ old) b = Some q"
  then have "a = p @ ''@'' @ old" "b = q @ ''@'' @ old"
    by (simp_all only: strip_suffix_Some_iff)
  then show ?thesis using a b by (simp add: replace_revision_def)
next
  fix q
  assume a: "strip_suffix (''@'' @ old) a = None" and b: "strip_suffix (''@'' @ old) b = Some q"
  have "a \<noteq> q @ ''@'' @ new" using assms(1) by (auto simp: ends_at_def strip_suffix_None_iff)
  moreover have "a \<noteq> b" using a b by auto
  ultimately show ?thesis using a b by (simp add: replace_revision_def)
next
  fix p
  assume a: "strip_suffix (''@'' @ old) a = Some p" and b: "strip_suffix (''@'' @ old) b = None"
  have "b \<noteq> p @ ''@'' @ new" using assms(2) by (auto simp: ends_at_def strip_suffix_None_iff)
  moreover have "a \<noteq> b" using a b by auto
  ultimately show ?thesis using a b by (simp add: replace_revision_def)
qed (simp add: replace_revision_def)

lemma rekey_entity_fst [simp]:
  "fst (rekey_entity old new p) = replace_revision (fst p) old new"
  by (simp add: rekey_entity_def split: prod.splits) (simp add: Let_def)

lemma rekey_entity_simps:
  "en_ref (snd (rekey_entity old new p)) = replace_revision (fst p) old new"
  "en_properties (snd (rekey_entity old new p)) = en_properties (snd p)"
  "en_identity (snd (rekey_entity old new p)) = en_identity (snd p)"
  "en_kind (snd (rekey_entity old new p)) = en_kind (snd p)"
  "map lk_target (en_links (snd (rekey_entity old new p))) =
     map (\<lambda>l. replace_revision (lk_target l) old new) (en_links (snd p))"
  by (cases p; simp add: rekey_entity_def Let_def)+

lemma set_bm_extend_subset: "set (bm_extend m kvs) \<subseteq> set m \<union> set kvs"
proof (induction kvs arbitrary: m)
  case (Cons p kvs)
  then show ?case
    using set_bm_insert_subset [of "fst p" "snd p" m] by (cases p) fastforce
qed simp

lemma rekey_refs_wf: "graph_wf g \<Longrightarrow> graph_wf (rekey_refs g old new)"
proof -
  assume wf: "graph_wf g"
  let ?m = "map (rekey_entity old new) (g_entities g)"
  have "en_ref e = k" if "(k, e) \<in> set (bm_collect ?m)" for k e
  proof -
    from that set_bm_extend_subset [of "[]" ?m] have "(k, e) \<in> set ?m" by auto
    then obtain p where "(k, e) = rekey_entity old new p" by auto
    then show ?thesis using rekey_entity_simps(1) [of old new p] rekey_entity_fst [of old new p]
      by (metis fst_conv snd_conv)
  qed
  then show ?thesis using wf by (auto simp: rekey_refs_def graph_wf_def)
qed

text \<open>A reference of the graph: a key, a link target or the name of a fact.\<close>

definition graph_refs :: "graph \<Rightarrow> string set" where
  "graph_refs g = set (bm_keys (g_entities g))
     \<union> (\<Union>e \<in> set (bm_values (g_entities g)). lk_target ` set (en_links e))
     \<union> fa_ref ` set (g_facts g)"

definition fresh_revision :: "string \<Rightarrow> graph \<Rightarrow> bool" where
  "fresh_revision r g \<longleftrightarrow> (\<forall>x \<in> graph_refs g. \<not> ends_at r x)"

lemma map_of_map_inj:
  assumes "\<And>p. p \<in> set ps \<Longrightarrow> fst (f p) = h (fst p)" and "inj_on h (insert k (fst ` set ps))"
  shows "map_of (map f ps) (h k) = map_option (\<lambda>v. snd (f (k, v))) (map_of ps k)"
  using assms
proof (induction ps)
  case (Cons p ps)
  have "inj_on h (insert k (fst ` set ps))"
    using Cons.prems(2) by (rule inj_on_subset) auto
  moreover have "fst (f q) = h (fst q)" if "q \<in> set ps" for q
    using that Cons.prems(1) by simp
  ultimately have IH: "map_of (map f ps) (h k) = map_option (\<lambda>v. snd (f (k, v))) (map_of ps k)"
    using Cons.IH by blast
  have p: "fst (f p) = h (fst p)" using Cons.prems(1) by simp
  have "h (fst p) = h k \<longleftrightarrow> fst p = k" using Cons.prems(2) by (auto simp: inj_on_def)
  then show ?case using IH p by (cases p; cases "f p") auto
qed simp

lemma rekey_refs_entity:
  assumes "graph_wf g" and "fresh_revision new g" and "\<not> ends_at new k" and "old \<noteq> new"
  shows "graph_entity (rekey_refs g old new) (replace_revision k old new) =
    map_option (\<lambda>e. snd (rekey_entity old new (k, e))) (graph_entity g k)"
proof -
  let ?h = "\<lambda>x. replace_revision x old new"
  let ?m = "map (rekey_entity old new) (g_entities g)"
  have inj: "inj_on ?h (insert k (fst ` set (g_entities g)))"
  proof (rule inj_onI)
    fix x y
    assume "x \<in> insert k (fst ` set (g_entities g))" "y \<in> insert k (fst ` set (g_entities g))"
    then have "\<not> ends_at new x" "\<not> ends_at new y"
      using assms(2,3) by (auto simp: fresh_revision_def graph_refs_def)
    then show "?h x = ?h y \<Longrightarrow> x = y" by (simp add: replace_revision_inject)
  qed
  have keys: "map fst ?m = map ?h (bm_keys (g_entities g))" by simp
  have "distinct (bm_keys (g_entities g))"
    using assms(1) by (simp add: graph_wf_def bm_wf_distinct)
  moreover have "inj_on ?h (set (bm_keys (g_entities g)))"
    using inj by (rule inj_on_subset) auto
  ultimately have "distinct (map fst ?m)" unfolding keys distinct_map by blast
  then have "bm_get (bm_collect ?m) (?h k) = map_of ?m (?h k)"
    by (rule bm_get_collect_distinct)
  also have "\<dots> = map_option (\<lambda>e. snd (rekey_entity old new (k, e))) (map_of (g_entities g) k)"
    using inj by (rule map_of_map_inj [rotated]) simp
  finally show ?thesis using assms(4) by (simp add: graph_entity_def rekey_refs_def)
qed

lemma link_resolves_rekey:
  assumes "graph_wf g" and "fresh_revision new g" and "\<not> ends_at new t" and "old \<noteq> new"
  shows "link_resolves (rekey_refs g old new) (replace_revision t old new) = link_resolves g t"
proof -
  have "bm_contains (g_entities (rekey_refs g old new)) (replace_revision t old new)
      = bm_contains (g_entities g) t"
    using rekey_refs_entity [OF assms] by (simp add: bm_contains_def graph_entity_def)
  moreover have "list_ex (\<lambda>f. fa_ref f = replace_revision t old new) (g_facts (rekey_refs g old new))
      = list_ex (\<lambda>f. fa_ref f = t) (g_facts g)"
  proof -
    have "replace_revision (fa_ref f) old new = replace_revision t old new \<longleftrightarrow> fa_ref f = t"
      if "f \<in> set (g_facts g)" for f
      using that assms(2,3)
      by (intro replace_revision_inject) (auto simp: fresh_revision_def graph_refs_def)
    then show ?thesis using assms(4) by (auto simp: rekey_refs_def rekey_fact_def list_ex_iff)
  qed
  ultimately show ?thesis by (simp add: link_resolves_def)
qed

section \<open>Panics\<close>

definition props_ok :: "entity \<Rightarrow> bool" where
  "props_ok e \<longleftrightarrow> is_object (en_properties e) \<or> en_properties e = JNull"

lemma is_object_JObj [simp]: "is_object (JObj kvs)" and is_object_jobj [simp]: "is_object (jobj kvs)"
  by (simp_all add: is_object_iff jobj_def)

lemma set_path_total:
  "is_object v \<or> v = JNull \<Longrightarrow> ks \<noteq> [] \<Longrightarrow> \<exists>v'. set_path ks x v = Some v' \<and> is_object v'"
proof (induction ks x v rule: set_path.induct)
  case (2 k x v)
  then show ?case by (auto simp: is_object_iff)
next
  case (3 k k' ks x v)
  let ?step = "case jget k v of
      Some w \<Rightarrow> if is_object w then Some (v, w)
                else map_option (\<lambda>v'. (v', JObj [])) (jset k (JObj []) v)
    | None \<Rightarrow> map_option (\<lambda>v'. (v', JObj [])) (jset k (JObj []) v)"
  obtain u where u: "jset k (JObj []) v = Some u" "is_object u"
    using 3(2) by (auto simp: is_object_iff)
  have "\<exists>v1 w. ?step = Some (v1, w) \<and> (is_object v1 \<or> v1 = JNull) \<and> is_object w"
    using u 3(2) by (cases "jget k v") auto
  then obtain v1 w where vw: "?step = Some (v1, w)"
    and v1: "is_object v1 \<or> v1 = JNull" and w: "is_object w"
    by blast
  from 3(1) [OF vw refl] w obtain w' where w': "set_path (k' # ks) x w = Some w'" by auto
  have "\<exists>x. jset k w' v1 = Some x \<and> is_object x"
    using v1 by (auto simp: is_object_iff)
  then show ?case using vw w' by simp
qed simp

lemma set_property_total:
  "props_ok e \<Longrightarrow> \<exists>v'. set_property (en_properties e) path x = Some v' \<and> is_object v'"
  unfolding set_property_def props_ok_def by (rule set_path_total) auto

lemma res_fold_no_Err:
  assumes "P s"
    and "\<And>s t x. x \<in> set xs \<Longrightarrow> P s \<Longrightarrow> f s x = Ok t \<Longrightarrow> P t"
    and "\<And>s x. x \<in> set xs \<Longrightarrow> P s \<Longrightarrow> f s x \<noteq> Err e"
  shows "res_fold f s xs \<noteq> Err e"
  using assms
proof (induction xs arbitrary: s)
  case (Cons x xs)
  show ?case
  proof (cases "f s x")
    case (Inl e')
    then show ?thesis using Cons.prems(3) [of x s] Cons.prems(1) by auto
  next
    case (Inr t)
    have "P t" using Cons.prems(1,2) Inr by auto
    then have "res_fold f t xs \<noteq> Err e"
      using Cons.prems(2,3) by (intro Cons.IH) auto
    then show ?thesis using Inr by simp
  qed
qed simp

text \<open>
  While a validated change set runs, an entity the base graph knows keeps properties that can
  be written: new entities with arbitrary properties only appear at new keys.
\<close>

definition base_props_ok :: "graph \<Rightarrow> graph \<Rightarrow> bool" where
  "base_props_ok g s \<longleftrightarrow> g_session s = g_session g \<and> g_document s = g_document g
     \<and> (\<forall>k e. graph_entity g k \<noteq> None \<longrightarrow> graph_entity s k = Some e \<longrightarrow> props_ok e)"

lemma base_props_object_reference: "base_props_ok g s \<Longrightarrow> object_reference s n = object_reference g n"
  by (simp add: base_props_ok_def object_reference_def)

lemma write_property_props_ok:
  "write_property s t p v = Ok s' \<Longrightarrow> base_props_ok g s \<Longrightarrow> graph_entity g t \<noteq> None \<Longrightarrow> base_props_ok g s'"
proof -
  assume w: "write_property s t p v = Ok s'" and b: "base_props_ok g s"
    and t: "graph_entity g t \<noteq> None"
  from w obtain e q where e: "graph_entity s t = Some e" "set_property (en_properties e) p v = Some q"
    and s': "s' = s\<lparr>g_entities := bm_insert t (e\<lparr>en_properties := q\<rparr>) (g_entities s)\<rparr>"
    by (auto simp: write_property_Ok_iff)
  have "props_ok e" using b t e(1) by (auto simp: base_props_ok_def)
  then have "is_object q" using set_property_total [of e p v] e(2) by auto
  then show ?thesis using b s' by (auto simp: base_props_ok_def props_ok_def)
qed

lemma insert_created_props_ok:
  "base_props_ok g s \<Longrightarrow> is_object v \<or> graph_entity g (object_reference g n) = None
     \<Longrightarrow> base_props_ok g (insert_created s n k v ls)"
  using base_props_object_reference [of g s n]
  by (auto simp: base_props_ok_def props_ok_def insert_created_def)

lemma ensure_new_object_Ok: "ensure_new_object g n = Ok () \<longleftrightarrow> graph_entity g (object_reference g n) = None"
  by (simp add: ensure_new_object_def bm_contains_def graph_entity_def)

lemma apply_operation_props_ok:
  assumes "validate_operation g op = Ok ()" and "base_props_ok g s" and "apply_operation s op = Ok s'"
  shows "base_props_ok g s'"
  using assms
proof (cases op)
  case (DeleteObject t b)
  then show ?thesis using assms by (auto simp: base_props_ok_def Let_def split: if_splits)
next
  case (SetSelection ts m)
  then show ?thesis using assms by (auto simp: base_props_ok_def)
next
  case (SetView v m)
  then show ?thesis using assms by (auto simp: base_props_ok_def)
qed (auto simp: ensure_new_object_Ok exact_entity_Ok_iff dest!: object_entity_Ok
       elim!: write_property_props_ok intro!: insert_created_props_ok)

lemma write_property_no_panic:
  "base_props_ok g s \<Longrightarrow> graph_entity g t \<noteq> None \<Longrightarrow> write_property s t p v \<noteq> Err (RevPanic m)"
proof -
  assume b: "base_props_ok g s" and t: "graph_entity g t \<noteq> None"
  show ?thesis
  proof (cases "graph_entity s t")
    case None
    then show ?thesis by (simp add: write_property_def writable_entity_def)
  next
    case (Some e)
    then have "props_ok e" using b t by (auto simp: base_props_ok_def)
    then show ?thesis using set_property_total [of e p v] Some
      by (auto simp: write_property_def writable_entity_def)
  qed
qed

lemma apply_operation_no_panic:
  assumes "validate_operation g op = Ok ()" and "base_props_ok g s"
  shows "apply_operation s op \<noteq> Err (RevPanic m)"
  using assms
  by (cases op)
    (auto simp: Let_def res_bind_Err_iff exact_entity_Ok_iff dest!: object_entity_Ok
      dest: write_property_no_panic)

lemma validate_operation_no_panic: "validate_operation g op \<noteq> Err (RevPanic m)"
proof -
  have [simp]: "exact_entity g t \<noteq> Err (RevPanic m)" for t
    by (simp add: exact_entity_def res_bind_Err_iff)
  have [simp]: "object_entity g t \<noteq> Err (RevPanic m)" for t
    by (auto simp: object_entity_def res_bind_Err_iff split: if_splits)
  have [simp]: "validate_identifier n \<noteq> Err (RevPanic m)"
    and [simp]: "validate_property_name n \<noteq> Err (RevPanic m)"
    and [simp]: "ensure_new_object g n \<noteq> Err (RevPanic m)" for n
    by (auto simp: validate_identifier_def validate_property_name_def ensure_new_object_def)
  show ?thesis
    by (cases op) (auto simp: res_bind_Err_iff dest!: res_each_Err)
qed

lemma verify_precondition_no_panic: "verify_precondition C g p \<noteq> Err (RevPanic m)"
  by (cases p) (auto simp: res_bind_Err_iff)

section \<open>Link integrity of a running change set\<close>

lemma validate_identifier_chars:
  "validate_identifier n = Ok () \<Longrightarrow> CHR ''@'' \<notin> set n \<and> CHR ''/'' \<notin> set n"
  by (auto simp: validate_identifier_def list_all_iff ascii_defs split: if_splits)

definition links_closed :: "graph \<Rightarrow> bool" where
  "links_closed g \<longleftrightarrow> validate_invariants g = []"

lemma links_closed_iff:
  "graph_wf g \<Longrightarrow> links_closed g \<longleftrightarrow>
     (\<forall>k e. graph_entity g k = Some e \<longrightarrow> (\<forall>l \<in> set (en_links e). link_resolves g (lk_target l)))"
  unfolding links_closed_def validate_invariants_empty_iff
  by (metis graph_entity_iff)

lemma link_resolves_iff:
  "link_resolves g t \<longleftrightarrow> graph_entity g t \<noteq> None \<or> (\<exists>f \<in> set (g_facts g). fa_ref f = t)"
  by (auto simp: link_resolves_def bm_contains_def graph_entity_def list_ex_iff)

lemma link_resolves_mono:
  "(\<And>k. graph_entity g k \<noteq> None \<Longrightarrow> graph_entity h k \<noteq> None) \<Longrightarrow> g_facts h = g_facts g
     \<Longrightarrow> link_resolves g t \<Longrightarrow> link_resolves h t"
  by (auto simp: link_resolves_iff)

lemma created_links_resolve:
  assumes "apply_operation g op = Ok g'" and "graph_wf g" and "\<not> is_delete op"
    and "k \<in> set (op_created g op)" and "graph_entity g' k = Some e" and "l \<in> set (en_links e)"
  shows "graph_entity g (lk_target l) \<noteq> None"
  using assms by (cases op) (auto simp: graph_wf_entity_ref)

lemma apply_operation_closed:
  assumes "apply_operation g op = Ok g'" and "graph_wf g" and "links_closed g" and "\<not> is_delete op"
  shows "links_closed g'"
proof -
  have wf': "graph_wf g'" using assms(1,2) by (rule apply_operation_wf)
  have mono: "link_resolves g' t" if "link_resolves g t" for t
    using that apply_operation_keeps_entity [OF assms(1,4)] apply_operation_keeps(4) [OF assms(1)]
    by (rule link_resolves_mono [rotated 2]) simp_all
  have "link_resolves g' (lk_target l)"
    if e: "graph_entity g' k = Some e" and l: "l \<in> set (en_links e)" for k e l
  proof (cases "k \<in> set (op_created g op)")
    case True
    then have "link_resolves g (lk_target l)"
      using created_links_resolve [OF assms(1,2,4) _ e l] by (auto simp: link_resolves_iff)
    then show ?thesis by (rule mono)
  next
    case False
    then obtain e0 where "graph_entity g k = Some e0" "en_links e = en_links e0"
      using apply_operation_in_place [OF assms(1) _ e] by (metis entity.select_convs(12) entity.surjective entity.update_convs(11))
    then have "link_resolves g (lk_target l)"
      using l assms(3) links_closed_iff [OF assms(2)] by auto
    then show ?thesis by (rule mono)
  qed
  then show ?thesis using links_closed_iff [OF wf'] by blast
qed

end
