(* ===== verification/Changes.thy ===== *)
theory Changes
  imports ChangeLaws Samples
begin

text \<open>
  The properties of a change set as a whole, as \<^verbatim>\<open>apply_changeset\<close> of the crate
  \<^verbatim>\<open>revision-store\<close> runs it: the laws of single operations of the theory \<open>ChangeLaws\<close> are lifted
  over the loop, the new revision and the move of references.
\<close>

section \<open>The parts of an accepted change set\<close>

lemma apply_changeset_Ok_iff:
  "apply_changeset C g cs = Ok g' \<longleftrightarrow>
     verify_preconditions C g cs = Ok () \<and> validate_operations g (cs_operations cs) = Ok () \<and>
     (\<exists>g1. res_fold apply_operation g (cs_operations cs) = Ok g1 \<and>
        (let n = next_revision (cs_operations cs) (g_revision g);
             g3 = rekey_refs (g1\<lparr>g_revision := n\<rparr>) (revision_id (g_revision g)) (revision_id n)
         in g' = g3\<lparr>g_diagnostics := validate_invariants g3\<rparr>))"
  by (auto simp: apply_changeset_def Let_def res_fold_keeps)

lemma apply_changeset_parts:
  assumes "apply_changeset C g cs = Ok g'"
  obtains g1 where "res_fold apply_operation g (cs_operations cs) = Ok g1"
    and "\<And>op. op \<in> set (cs_operations cs) \<Longrightarrow> validate_operation g op = Ok ()"
    and "g_revision g' = next_revision (cs_operations cs) (g_revision g)"
    and "\<And>k. graph_entity g' k = graph_entity
           (rekey_refs (g1\<lparr>g_revision := g_revision g'\<rparr>) (revision_id (g_revision g))
              (revision_id (g_revision g'))) k"
    and "graph_wf g' = graph_wf
           (rekey_refs (g1\<lparr>g_revision := g_revision g'\<rparr>) (revision_id (g_revision g))
              (revision_id (g_revision g')))"
    and "g_diagnostics g' = validate_invariants
           (rekey_refs (g1\<lparr>g_revision := g_revision g'\<rparr>) (revision_id (g_revision g))
              (revision_id (g_revision g')))"
proof -
  have rev_rekey: "g_revision (rekey_refs h a b) = g_revision h" for h a b
    by (simp add: rekey_refs_def)
  show thesis
    using assms that by (auto simp: apply_changeset_Ok_iff Let_def validate_operations_def rev_rekey)
qed

lemma apply_changeset_revision:
  "apply_changeset C g cs = Ok g' \<Longrightarrow> g_revision g' = next_revision (cs_operations cs) (g_revision g)"
  by (erule apply_changeset_parts)

section \<open>References while a change set runs\<close>

lemma object_reference_not_at:
  assumes "validate_identifier n = Ok ()" and "CHR ''/'' \<notin> set r"
  shows "\<not> ends_at r (object_reference g n)"
proof
  assume "ends_at r (object_reference g n)"
  then obtain p where p: "object_reference g n = p @ CHR ''@'' # r"
    by (auto simp: ends_at_def strip_suffix_Some_iff)
  have n: "CHR ''@'' \<notin> set n" "CHR ''/'' \<notin> set n"
    using validate_identifier_chars [OF assms(1)] by simp_all
  obtain a where a: "object_reference g n = a @ CHR ''/'' # n"
  proof
    show "object_reference g n =
        (''fc://session/'' @ g_session g @ ''/document/'' @ g_document g @ ''/object'') @ CHR ''/'' # n"
      by (simp add: object_reference_def)
  qed
  have "\<exists>q. n = q @ CHR ''@'' # r"
  proof (cases "CHR ''/'' \<in> set p")
    case True
    then obtain b q where "p = b @ CHR ''/'' # q" and "CHR ''/'' \<notin> set q"
      using split_list_last by fastforce
    then have "object_reference g n = b @ CHR ''/'' # (q @ CHR ''@'' # r)"
      and "CHR ''/'' \<notin> set (q @ CHR ''@'' # r)"
      using p assms(2) by auto
    then have "rsplit_once (CHR ''/'') (object_reference g n) = Some (b, q @ CHR ''@'' # r)"
      unfolding rsplit_once_Some_iff by blast
    moreover have "rsplit_once (CHR ''/'') (object_reference g n) = Some (a, n)"
      using a n(2) unfolding rsplit_once_Some_iff by blast
    ultimately show ?thesis by auto
  next
    case False
    then have "CHR ''/'' \<notin> set (object_reference g n)" using p assms(2) by auto
    then show ?thesis using a by simp
  qed
  then show False using n(1) by auto
qed

lemma created_refs_not_at:
  assumes "validate_operation g op = Ok ()" and "CHR ''/'' \<notin> set r" and "x \<in> set (op_created s op)"
  shows "\<not> ends_at r x"
  using assms by (cases op) (auto simp: object_reference_not_at)

lemma graph_refs_iff:
  "graph_wf g \<Longrightarrow> x \<in> graph_refs g \<longleftrightarrow> graph_entity g x \<noteq> None
     \<or> (\<exists>k e. graph_entity g k = Some e \<and> x \<in> lk_target ` set (en_links e))
     \<or> x \<in> fa_ref ` set (g_facts g)"
proof -
  assume wf: "graph_wf g"
  have "x \<in> set (bm_keys (g_entities g)) \<longleftrightarrow> graph_entity g x \<noteq> None"
    by (simp add: graph_entity_def bm_get_None_iff)
  moreover have "(\<exists>e \<in> set (bm_values (g_entities g)). x \<in> lk_target ` set (en_links e))
      \<longleftrightarrow> (\<exists>k e. graph_entity g k = Some e \<and> x \<in> lk_target ` set (en_links e))"
    using graph_entity_iff [OF wf] by blast
  ultimately show ?thesis by (auto simp: graph_refs_def)
qed

lemma apply_operation_refs:
  assumes "apply_operation g op = Ok g'" and "graph_wf g" and "x \<in> graph_refs g'"
  shows "x \<in> graph_refs g \<or> x \<in> set (op_created g op)"
proof (cases "x \<in> set (op_created g op)")
  case False
  have wf': "graph_wf g'" using assms(1,2) by (rule apply_operation_wf)
  have old: "graph_entity g k \<noteq> None" if "graph_entity g' k \<noteq> None" "k \<notin> set (op_created g op)" for k
    using apply_operation_in_place [OF assms(1) that(2)] that(1) by auto
  consider "graph_entity g' x \<noteq> None"
    | k e where "graph_entity g' k = Some e" "x \<in> lk_target ` set (en_links e)"
    | "x \<in> fa_ref ` set (g_facts g')"
    using assms(3) graph_refs_iff [OF wf'] by blast
  then show ?thesis
  proof cases
    case 1
    then show ?thesis using old [OF 1 False] graph_refs_iff [OF assms(2)] by auto
  next
    case 2
    show ?thesis
    proof (cases "k \<in> set (op_created g op)")
      case True
      then have "graph_entity g x \<noteq> None"
        using assms(1,2) 2 by (cases op) (auto simp: graph_wf_entity_ref Let_def split: if_splits)
      then show ?thesis using graph_refs_iff [OF assms(2)] by auto
    next
      case k: False
      from apply_operation_in_place [OF assms(1) k 2(1)] obtain e0
        where e0: "graph_entity g k = Some e0" "e = e0\<lparr>en_properties := en_properties e\<rparr>" by blast
      have "en_links (e0\<lparr>en_properties := en_properties e\<rparr>) = en_links e0" by simp
      then have "en_links e = en_links e0" using e0(2) by metis
      then have "\<exists>k e. graph_entity g k = Some e \<and> x \<in> lk_target ` set (en_links e)"
        using e0(1) 2(2) by metis
      then show ?thesis using graph_refs_iff [OF assms(2)] by blast
    qed
  next
    case 3
    then show ?thesis using apply_operation_keeps(4) [OF assms(1)] graph_refs_iff [OF assms(2)] by auto
  qed
qed simp

lemma res_fold_fresh:
  assumes "res_fold apply_operation g ops = Ok g1" and "graph_wf g" and "fresh_revision r g"
    and "\<And>op. op \<in> set ops \<Longrightarrow> validate_operation g op = Ok ()" and "CHR ''/'' \<notin> set r"
  shows "fresh_revision r g1"
proof -
  have "graph_wf g1 \<and> fresh_revision r g1"
  proof (rule res_fold_invariant [OF assms(1), where P = "\<lambda>s. graph_wf s \<and> fresh_revision r s"])
    show "graph_wf g \<and> fresh_revision r g" using assms(2,3) ..
  next
    fix s t op
    assume op: "op \<in> set ops" and s: "graph_wf s \<and> fresh_revision r s"
      and t: "apply_operation s op = Ok t"
    have "fresh_revision r t"
      unfolding fresh_revision_def
    proof
      fix x
      assume "x \<in> graph_refs t"
      then show "\<not> ends_at r x"
        using apply_operation_refs [OF t] s created_refs_not_at [OF assms(4) [OF op] assms(5)]
        by (auto simp: fresh_revision_def)
    qed
    then show "graph_wf t \<and> fresh_revision r t" using apply_operation_wf [OF t] s by blast
  qed
  then show ?thesis by blast
qed

text \<open>The hypotheses under which a change set moves every reference to its own new name.\<close>

definition movable :: "graph \<Rightarrow> changeset \<Rightarrow> bool" where
  "movable g cs \<longleftrightarrow> graph_wf g \<and> CHR ''/'' \<notin> set (rev_epoch (g_revision g))
     \<and> fresh_revision (revision_id (next_revision (cs_operations cs) (g_revision g))) g"

lemma slash_notin_show_u64 [simp]: "CHR ''/'' \<notin> set (show_u64 w)"
  by (rule show_u64_no_char) (simp add: is_ascii_digit_def)

lemma slash_notin_revision_id:
  "CHR ''/'' \<notin> set (revision_id r) \<longleftrightarrow> CHR ''/'' \<notin> set (rev_epoch r)"
  by (auto simp: revision_id_def)

lemma next_revision_epoch [simp]: "rev_epoch (next_revision ops r) = rev_epoch r"
  by (simp add: next_revision_def)

lemma rekeyed_graph:
  assumes "graph_wf g1" and "fresh_revision new g1" and "\<not> ends_at new k"
  shows "graph_entity (rekey_refs g1 old new) (replace_revision k old new) =
    map_option (\<lambda>e. if old = new then e else snd (rekey_entity old new (k, e))) (graph_entity g1 k)"
proof (cases "old = new")
  case True
  have "strip_suffix (''@'' @ new) k = None" using assms(3) by (simp add: ends_at_def)
  then have "replace_revision k old new = k" using True by (simp add: replace_revision_cases)
  then show ?thesis using True by (simp add: rekey_refs_def option.map_ident)
next
  case False
  then show ?thesis using rekey_refs_entity [OF assms] by simp
qed

text \<open>
  The graph after a change set, at the moved name of a key: what the loop of operations left
  there, moved.
\<close>

lemma apply_changeset_entity:
  assumes ok: "apply_changeset C g cs = Ok g'" and mov: "movable g cs"
  obtains g1 where "res_fold apply_operation g (cs_operations cs) = Ok g1"
    and "graph_wf g1" and "fresh_revision (revision_id (g_revision g')) g1"
    and "\<And>k e. graph_entity g1 k = Some e \<Longrightarrow>
      \<exists>e'. graph_entity g' (replace_revision k (revision_id (g_revision g)) (revision_id (g_revision g'))) = Some e'
        \<and> en_properties e' = en_properties e \<and> en_identity e' = en_identity e \<and> en_kind e' = en_kind e
        \<and> map lk_target (en_links e') = map (\<lambda>l. replace_revision (lk_target l)
              (revision_id (g_revision g)) (revision_id (g_revision g'))) (en_links e)"
proof -
  let ?old = "revision_id (g_revision g)" and ?new = "revision_id (g_revision g')"
  from ok obtain g1 where g1: "res_fold apply_operation g (cs_operations cs) = Ok g1"
    and val: "\<And>op. op \<in> set (cs_operations cs) \<Longrightarrow> validate_operation g op = Ok ()"
    and rev: "g_revision g' = next_revision (cs_operations cs) (g_revision g)"
    and ent: "\<And>k. graph_entity g' k =
        graph_entity (rekey_refs (g1\<lparr>g_revision := g_revision g'\<rparr>) ?old ?new) k"
    by (rule apply_changeset_parts) blast
  let ?g2 = "g1\<lparr>g_revision := g_revision g'\<rparr>"
  have wf1: "graph_wf g1" using res_fold_wf [OF g1] mov by (simp add: movable_def)
  have fresh1: "fresh_revision ?new g1"
    using mov rev by (intro res_fold_fresh [OF g1 _ _ val])
      (auto simp: movable_def slash_notin_revision_id)
  have fresh2: "fresh_revision ?new ?g2" using fresh1 by (simp add: fresh_revision_def graph_refs_def)
  have entity: "\<exists>e'. graph_entity g' (replace_revision k ?old ?new) = Some e'
        \<and> en_properties e' = en_properties e \<and> en_identity e' = en_identity e \<and> en_kind e' = en_kind e
        \<and> map lk_target (en_links e') = map (\<lambda>l. replace_revision (lk_target l) ?old ?new) (en_links e)"
    if e: "graph_entity g1 k = Some e" for k e
  proof -
    have k: "x \<in> graph_refs g1 \<Longrightarrow> \<not> ends_at ?new x" for x
      using fresh1 by (simp add: fresh_revision_def)
    have "k \<in> graph_refs g1" using e wf1 by (auto simp: graph_refs_iff)
    then have "graph_entity g' (replace_revision k ?old ?new) =
        Some (if ?old = ?new then e else snd (rekey_entity ?old ?new (k, e)))"
      using rekeyed_graph [OF _ fresh2 k, of k ?old] wf1 e by (simp add: ent)
    moreover have "lk_target l \<in> graph_refs g1" if "l \<in> set (en_links e)" for l
      using e that wf1 by (auto simp: graph_refs_iff)
    then have "map (\<lambda>l. replace_revision (lk_target l) ?old ?new) (en_links e) = map lk_target (en_links e)"
      if "?old = ?new"
      using k that by (auto simp: ends_at_def replace_revision_cases)
    ultimately show ?thesis by (auto simp: rekey_entity_simps)
  qed
  show thesis by (rule that [OF g1 wf1 fresh1]) (rule entity)
qed

lemma op_writes_keeps:
  "apply_operation g op = Ok g' \<Longrightarrow> op_writes g' op' = op_writes g op'"
  by (cases op') (simp_all add: object_reference_keeps)

lemma res_fold_frame:
  assumes "res_fold apply_operation g ops = Ok g1"
    and "\<forall>op \<in> set ops. k \<notin> set (op_writes g op)"
  shows "graph_entity g1 k = graph_entity g k"
proof -
  let ?P = "\<lambda>s. graph_entity s k = graph_entity g k \<and> (\<forall>op. op_writes s op = op_writes g op)"
  have "?P g1"
  proof (rule res_fold_invariant [OF assms(1), where P = ?P])
    fix s t op
    assume op: "op \<in> set ops" and s: "?P s" and t: "apply_operation s op = Ok t"
    have "k \<notin> set (op_writes s op)" using op s assms(2) by simp
    then show "?P t" using apply_operation_frame [OF t] op_writes_keeps [OF t] s by simp
  qed simp
  then show ?thesis ..
qed

lemma set_path_get: "ks \<noteq> [] \<Longrightarrow> set_path ks x v = Some w \<Longrightarrow> jpath ks w = Some x"
proof (induction ks arbitrary: v w)
  case (Cons k ks)
  show ?case
  proof (cases ks)
    case Nil
    then show ?thesis using Cons.prems by simp
  next
    case (Cons k' ls)
    then obtain v1 u u' where "set_path ks x u = Some u'" and "jset k u' v1 = Some w"
      using Cons.prems(2) by (auto split: option.splits)
    then show ?thesis using Cons Cons.IH [of u u'] by simp
  qed
qed simp

lemma set_property_get: "set_property v p x = Some w \<Longrightarrow> property_value w p = Some x"
  by (simp add: set_property_def property_value_def set_path_get)

lemma rekey_refs_keeps:
  "g_diagnostics (rekey_refs g old new) = g_diagnostics g"
  "g_revision (rekey_refs g old new) = g_revision g"
  by (simp_all add: rekey_refs_def)

text \<open>Moving references keeps everything but the references and the revision of the entities.\<close>

lemma replace_revision_same [simp]: "replace_revision x r r = x"
  by (auto simp: replace_revision_def strip_suffix_Some_iff split: option.split)

lemma rekey_fact_id: "rekey_fact r r f = f"
  by (simp add: rekey_fact_def)

lemma rekey_refs_facts: "g_facts (rekey_refs g old new) = map (rekey_fact old new) (g_facts g)"
proof (cases "old = new")
  case True
  then show ?thesis by (simp add: rekey_refs_def rekey_fact_id map_idI)
qed (simp add: rekey_refs_def)

lemma rekey_refs_other:
  "g_schema_version (rekey_refs g old new) = g_schema_version g" "g_session (rekey_refs g old new) = g_session g"
  "g_document (rekey_refs g old new) = g_document g" "g_metadata (rekey_refs g old new) = g_metadata g"
  by (simp_all add: rekey_refs_def)

lemma rekeyed_entity:
  assumes "graph_wf g" and "fresh_revision new g" and "graph_entity g k = Some e"
  shows "\<exists>e'. graph_entity (rekey_refs g old new) (replace_revision k old new) = Some e'
    \<and> e'\<lparr>en_revision := en_revision e\<rparr> = e\<lparr>en_ref := replace_revision (en_ref e) old new,
        en_links := map (\<lambda>l. l\<lparr>lk_target := replace_revision (lk_target l) old new\<rparr>) (en_links e)\<rparr>
    \<and> en_revision e' = (if old = new then en_revision e else new)"
proof -
  have "k \<in> graph_refs g" "en_ref e = k" using assms(1,3) by (auto simp: graph_refs_iff graph_wf_def graph_entity_def bm_get_Some_iff)
  then have "\<not> ends_at new k" using assms(2) by (simp add: fresh_revision_def)
  from rekeyed_graph [OF assms(1,2) this, of old] show ?thesis
    using assms(3) \<open>en_ref e = k\<close> by (auto simp: rekey_entity_def Let_def)
qed

lemma rekeyed_only:
  assumes "graph_wf g" and "graph_entity (rekey_refs g old new) k' \<noteq> None"
  shows "\<exists>k. k' = replace_revision k old new \<and> graph_entity g k \<noteq> None"
proof (cases "old = new")
  case True
  then show ?thesis using assms(2) by (simp add: rekey_refs_def)
next
  case False
  let ?m = "map (rekey_entity old new) (g_entities g)"
  have "k' \<in> set (map fst ?m)"
    using assms(2) False by (auto simp: graph_entity_def rekey_refs_def bm_get_extend map_add_def map_of_eq_None_iff
        image_iff simp del: map_map split: option.splits)
  then obtain k e where "(k, e) \<in> set (g_entities g)" "k' = replace_revision k old new" by auto
  then show ?thesis using assms(1) by (force simp: graph_entity_def bm_get_None_iff)
qed

lemma validate_invariants_other_fields [simp]:
  "validate_invariants (g\<lparr>g_diagnostics := ds\<rparr>) = validate_invariants g"
  "validate_invariants (g\<lparr>g_revision := r\<rparr>) = validate_invariants g"
  by (simp_all add: validate_invariants_def link_resolves_def)

lemma rekey_closed:
  assumes "graph_wf g" and "fresh_revision new g" and "links_closed g"
  shows "validate_invariants (rekey_refs (g\<lparr>g_revision := r\<rparr>) old new) = []"
proof (cases "old = new")
  case True
  then show ?thesis using assms(3) by (simp add: rekey_refs_def links_closed_def)
next
  case False
  let ?h = "g\<lparr>g_revision := r\<rparr>"
  have h: "graph_wf ?h" "fresh_revision new ?h"
    using assms(1,2) by (simp_all add: fresh_revision_def graph_refs_def)
  have "link_resolves (rekey_refs ?h old new) (lk_target l')"
    if e': "(k', e') \<in> set (g_entities (rekey_refs ?h old new))" and l': "l' \<in> set (en_links e')"
    for k' e' l'
  proof -
    have "set (g_entities (rekey_refs ?h old new)) \<subseteq> rekey_entity old new ` set (g_entities g)"
      using set_bm_extend_subset [of "[]" "map (rekey_entity old new) (g_entities g)"] False
      by (auto simp: rekey_refs_def)
    then obtain k e where e: "(k, e) \<in> set (g_entities g)" "(k', e') = rekey_entity old new (k, e)"
      using e' by auto
    obtain l where l: "l \<in> set (en_links e)" "lk_target l' = replace_revision (lk_target l) old new"
      using l' e(2) by (auto simp: rekey_entity_def Let_def)
    have "lk_target l \<in> graph_refs g" using e(1) l(1) by (force simp: graph_refs_def)
    then have "\<not> ends_at new (lk_target l)" using assms(2) by (simp add: fresh_revision_def)
    moreover have "link_resolves ?h (lk_target l)"
      using assms(3) e(1) l(1)
      by (force simp: links_closed_def validate_invariants_empty_iff link_resolves_def)
    ultimately show ?thesis using link_resolves_rekey [OF h _ False] l(2) by simp
  qed
  then show ?thesis unfolding validate_invariants_empty_iff by force
qed

section \<open>Properties\<close>

text \<open>C1: An accepted change set only names entities whose identity is exact or exactly mapped in
  the graph it is applied to, contains no undo or redo, and all its preconditions hold there.\<close>

theorem accepted_targets_are_exact:
  assumes "apply_changeset C g cs = Ok g'"
  shows "(\<forall>op \<in> set (cs_operations cs). op \<noteq> Undo \<and> op \<noteq> Redo \<and>
           (\<forall>t \<in> set (op_targets op). \<exists>e. graph_entity g t = Some e
              \<and> id_state (en_identity e) \<in> {Exact, MappedExact}))
     \<and> (\<forall>p \<in> set (cs_preconditions cs). verify_precondition C g p = Ok ())"
proof -
  have val: "validate_operation g op = Ok ()" if "op \<in> set (cs_operations cs)" for op
    using assms that by (auto simp: apply_changeset_Ok_iff validate_operations_def)
  have "\<exists>e. graph_entity g t = Some e \<and> id_state (en_identity e) \<in> {Exact, MappedExact}"
    if "op \<in> set (cs_operations cs)" "t \<in> set (op_targets op)" for op t
    using validated_targets [OF val that(2)] that(1) by (auto simp: write_eligible_iff)
  moreover have "op \<noteq> Undo \<and> op \<noteq> Redo" if "op \<in> set (cs_operations cs)" for op
    using val [OF that] by auto
  moreover have "\<forall>p \<in> set (cs_preconditions cs). verify_precondition C g p = Ok ()"
    using assms by (auto simp: apply_changeset_Ok_iff verify_preconditions_def)
  ultimately show ?thesis by blast
qed

lemma sample_applies: "apply_changeset sample_codec sample_graph sample_change = Ok sample_next"
  by code_simp

lemma sample_movable: "movable sample_graph sample_change"
  by code_simp

theorem accepted_targets_are_exact_witness:
  "(\<exists>e. graph_entity sample_graph box_a = Some e \<and> id_state (en_identity e) \<in> {Exact, MappedExact})
     \<and> verify_preconditions sample_codec sample_graph sample_change = Ok ()"
  using accepted_targets_are_exact [OF sample_applies]
  by (simp add: sample_change_def changeset_new_def verify_preconditions_def)

text \<open>A change set advances exactly the counters of the kinds of operations it contains, stays in
  the same epoch, and leaves the revision (and so its identifier) alone exactly when all its
  operations are visibility changes.\<close>

theorem changeset_revision:
  assumes "apply_changeset C g cs = Ok g'"
  shows "g_revision g' = next_revision (cs_operations cs) (g_revision g)
     \<and> (revision_id (g_revision g') = revision_id (g_revision g)
          \<longleftrightarrow> list_all is_set_visibility (cs_operations cs))
     \<and> (\<not> list_all is_set_visibility (cs_operations cs)
          \<and> rev_geometry (g_revision g) \<noteq> - 1 \<and> rev_metadata (g_revision g) \<noteq> - 1
          \<and> rev_focus (g_revision g) \<noteq> - 1 \<and> rev_view (g_revision g) \<noteq> - 1
          \<longrightarrow> advances_from (g_revision g') (g_revision g))"
proof -
  have rev: "g_revision g' = next_revision (cs_operations cs) (g_revision g)"
    using assms by (rule apply_changeset_revision)
  then have "revision_id (g_revision g') = revision_id (g_revision g)
      \<longleftrightarrow> list_all is_set_visibility (cs_operations cs)"
    by (simp add: revision_id_eq_iff next_revision_eq_iff)
  then show ?thesis using rev next_revision_advances by auto
qed

theorem changeset_revision_witness:
  "g_revision sample_next = sample_revision\<lparr>rev_geometry := 2\<rparr>
     \<and> advances_from (g_revision sample_next) sample_revision"
  using changeset_revision [OF sample_applies]
  by (simp add: sample_defs next_revision_def bump_def changes_model_def)

lemma changeset_wf: "apply_changeset C g cs = Ok g' \<Longrightarrow> graph_wf g \<Longrightarrow> graph_wf g'"
  by (elim apply_changeset_parts) (simp add: rekey_refs_wf res_fold_wf)

lemma sample_wf: "graph_wf sample_graph"
  by code_simp

text \<open>C7: An entity no operation of the change set writes is found after it under its moved name, with
  the same kind, identity and properties, and with its links moved along.\<close>

theorem changeset_frame:
  assumes "apply_changeset C g cs = Ok g'" and "movable g cs" and "graph_entity g k = Some e"
    and "\<forall>op \<in> set (cs_operations cs). k \<notin> set (op_writes g op)"
  shows "\<exists>e'. graph_entity g' (replace_revision k (revision_id (g_revision g)) (revision_id (g_revision g'))) = Some e'
     \<and> en_properties e' = en_properties e \<and> en_identity e' = en_identity e \<and> en_kind e' = en_kind e
     \<and> map lk_target (en_links e') = map (\<lambda>l. replace_revision (lk_target l)
           (revision_id (g_revision g)) (revision_id (g_revision g'))) (en_links e)"
proof -
  obtain g1 where g1: "res_fold apply_operation g (cs_operations cs) = Ok g1"
    and moved: "\<And>k e. graph_entity g1 k = Some e \<Longrightarrow>
      \<exists>e'. graph_entity g' (replace_revision k (revision_id (g_revision g)) (revision_id (g_revision g'))) = Some e'
        \<and> en_properties e' = en_properties e \<and> en_identity e' = en_identity e \<and> en_kind e' = en_kind e
        \<and> map lk_target (en_links e') = map (\<lambda>l. replace_revision (lk_target l)
              (revision_id (g_revision g)) (revision_id (g_revision g'))) (en_links e)"
    using assms(1,2) by (rule apply_changeset_entity) blast
  have "graph_entity g1 k = Some e"
    using res_fold_frame [OF g1 assms(4)] assms(3) by simp
  then show ?thesis by (rule moved)
qed

lemma sample_box_b: "graph_entity sample_graph box_b =
    Some (sample_box box_b ''B'' 20 [\<lparr>lk_relation = ''depends_on'', lk_target = box_a\<rparr>])"
  by code_simp

lemma sample_change_writes:
  "\<forall>op \<in> set (cs_operations sample_change). box_b \<notin> set (op_writes sample_graph op)"
  by code_simp

theorem changeset_frame_witness:
  "\<exists>e'. graph_entity sample_next (replace_revision box_b (revision_id (g_revision sample_graph))
        (revision_id (g_revision sample_next))) = Some e'
     \<and> en_properties e' = JObj [(''Length'', JNum (PosInt 20)), (''visible'', JBool True)]"
  using changeset_frame [OF sample_applies sample_movable sample_box_b sample_change_writes]
  by (auto simp: sample_box_def)


text \<open>When the last operation sets a property, the property has the given value in the new graph.\<close>

theorem set_property_lands:
  assumes "apply_changeset C g cs = Ok g'" and "movable g cs"
    and "cs_operations cs = ops @ [SetProperty t p v]"
  shows "\<exists>e'. graph_entity g' (replace_revision t (revision_id (g_revision g)) (revision_id (g_revision g'))) = Some e'
     \<and> property_value (en_properties e') p = Some v"
proof -
  obtain g1 where g1: "res_fold apply_operation g (cs_operations cs) = Ok g1"
    and moved: "\<And>k e. graph_entity g1 k = Some e \<Longrightarrow>
      \<exists>e'. graph_entity g' (replace_revision k (revision_id (g_revision g)) (revision_id (g_revision g'))) = Some e'
        \<and> en_properties e' = en_properties e \<and> en_identity e' = en_identity e \<and> en_kind e' = en_kind e
        \<and> map lk_target (en_links e') = map (\<lambda>l. replace_revision (lk_target l)
              (revision_id (g_revision g)) (revision_id (g_revision g'))) (en_links e)"
    using assms(1,2) by (rule apply_changeset_entity) blast
  from g1 assms(3) obtain s where "apply_operation s (SetProperty t p v) = Ok g1"
    by (auto simp: res_fold_append)
  then obtain e w where e: "set_property (en_properties e) p v = Some w"
    and "graph_entity g1 t = Some (e\<lparr>en_properties := w\<rparr>)"
    by (auto simp: write_property_Ok_iff)
  from moved [OF this(2)] show ?thesis using set_property_get [OF e] by auto
qed

theorem set_property_lands_witness:
  "\<exists>e'. graph_entity sample_next (replace_revision box_a (revision_id (g_revision sample_graph))
        (revision_id (g_revision sample_next))) = Some e'
     \<and> property_value (en_properties e') ''Length'' = Some (JNum (PosInt 12))"
  by (rule set_property_lands [OF sample_applies sample_movable, of "[SetVisibility box_a False]"])
    (simp add: sample_change_def changeset_new_def)

text \<open>C6: Without deletions, a graph whose links all resolve becomes one whose links all resolve: the
  references are moved consistently in keys, links and facts, new objects link to existing ones, and
  the new graph carries no diagnostic.\<close>

theorem changeset_preserves_links:
  assumes "apply_changeset C g cs = Ok g'" and "movable g cs" and "validate_invariants g = []"
    and "\<not> list_ex is_delete (cs_operations cs)"
  shows "validate_invariants g' = [] \<and> g_diagnostics g' = []"
proof -
  obtain g1 where g1: "res_fold apply_operation g (cs_operations cs) = Ok g1"
    and wf1: "graph_wf g1" and fresh: "fresh_revision (revision_id (g_revision g')) g1"
    using assms(1,2) by (rule apply_changeset_entity) blast
  have "graph_wf g1 \<and> links_closed g1"
  proof (rule res_fold_invariant [OF g1, where P = "\<lambda>s. graph_wf s \<and> links_closed s"])
    show "graph_wf g \<and> links_closed g" using assms(2,3) by (simp add: movable_def links_closed_def)
  qed (use assms(4) apply_operation_closed apply_operation_wf in \<open>auto simp: list_ex_iff\<close>)
  then have closed: "validate_invariants (rekey_refs (g1\<lparr>g_revision := r\<rparr>) old (revision_id (g_revision g'))) = []" for r old
    using rekey_closed [OF _ fresh] by (simp add: links_closed_def)
  from assms(1) have "g_diagnostics g' = []" and "validate_invariants g' = validate_invariants
      (rekey_refs (g1\<lparr>g_revision := g_revision g'\<rparr>) (revision_id (g_revision g)) (revision_id (g_revision g')))"
    using g1 closed
    by (auto simp: apply_changeset_Ok_iff Let_def rekey_refs_keeps)
  then show ?thesis using closed by simp
qed

theorem changeset_preserves_links_witness: "g_diagnostics sample_next = []"
proof -
  have "validate_invariants sample_graph = []" and "\<not> list_ex is_delete (cs_operations sample_change)"
    by code_simp+
  then show ?thesis using changeset_preserves_links [OF sample_applies sample_movable] by blast
qed

text \<open>When the properties of every entity are an object or null, applying a change set cannot
  panic: every failure is an error value.\<close>

theorem changeset_no_panic:
  assumes "\<forall>(k, e) \<in> set (g_entities g). is_object (en_properties e) \<or> en_properties e = JNull"
  shows "apply_changeset C g cs \<noteq> Err (RevPanic m)"
proof
  assume panic: "apply_changeset C g cs = Err (RevPanic m)"
  have base: "base_props_ok g g"
    using assms by (auto simp: base_props_ok_def props_ok_def graph_entity_def dest!: map_of_SomeD)
  have "validate_operations g (cs_operations cs) \<noteq> Err (RevPanic m)"
    and "verify_preconditions C g cs \<noteq> Err (RevPanic m)"
    using validate_operation_no_panic verify_precondition_no_panic
    by (auto simp: validate_operations_def verify_preconditions_def dest!: res_each_Err)
  with panic have val: "\<And>op. op \<in> set (cs_operations cs) \<Longrightarrow> validate_operation g op = Ok ()"
    and fold: "res_fold apply_operation g (cs_operations cs) = Err (RevPanic m)"
    by (auto simp: apply_changeset_def res_bind_Err_iff validate_operations_def Let_def)
  have "res_fold apply_operation g (cs_operations cs) \<noteq> Err (RevPanic m)"
    by (rule res_fold_no_Err [where P = "base_props_ok g"])
      (use base val apply_operation_props_ok apply_operation_no_panic in blast)+
  with fold show False by simp
qed

theorem changeset_no_panic_witness:
  "apply_changeset sample_codec sample_graph sample_change \<noteq> Err (RevPanic ''cannot access key in JSON value'')"
  by (rule changeset_no_panic) (simp add: sample_defs is_object_def)

text \<open>The check that a new object does not exist yet never fires in a graph whose references carry
  its revision: the reference it builds has no revision suffix, so an object of the same name is not
  found.\<close>

theorem new_object_check_misses_revisioned_objects:
  assumes "\<forall>k \<in> set (bm_keys (g_entities g)). ends_at (revision_id (g_revision g)) k"
    and "CHR ''/'' \<notin> set (rev_epoch (g_revision g))"
    and "validate_identifier n = Ok ()" and "kind \<in> set object_types"
  shows "validate_operation g (CreateObject n kind properties) = Ok ()"
proof -
  have "\<not> ends_at (revision_id (g_revision g)) (object_reference g n)"
    using assms(2,3) by (intro object_reference_not_at) (simp_all add: slash_notin_revision_id)
  then have "\<not> bm_contains (g_entities g) (object_reference g n)"
    using assms(1) by (auto simp: bm_contains_iff)
  then show ?thesis using assms(3,4) by (simp add: ensure_new_object_def)
qed

theorem new_object_check_misses_revisioned_objects_witness:
  "validate_operation sample_graph (CreateObject ''A'' ''Part::Feature'' JNull) = Ok ()"
  by (rule new_object_check_misses_revisioned_objects) code_simp+

end
