(* ===== verification/GraphDiff.thy ===== *)
theory GraphDiff
  imports Changes
begin

text \<open>
  \<^verbatim>\<open>diff_graphs\<close> of the crate \<^verbatim>\<open>revision-store\<close>: two graphs are compared by the logical path of
  their references, the part before the last at sign.  The unwraps on entities looked up by
  a reference of the same graph are panics of the model; they are shown not to happen.
\<close>

section \<open>The code\<close>

definition logical_path :: "string \<Rightarrow> string" where
  "logical_path reference =
     (case rsplit_once CHR ''@'' reference of None \<Rightarrow> reference | Some (path, _) \<Rightarrow> path)"

definition logical_paths :: "graph \<Rightarrow> (string, entity_ref) bmap" where
  "logical_paths g = bm_collect (map (\<lambda>reference. (logical_path reference, reference)) (bm_keys (g_entities g)))"

definition add_if :: "bool \<Rightarrow> string \<Rightarrow> string list \<Rightarrow> string list" where
  "add_if b field fs = (if b then set_add field fs else fs)"

definition changed_fields :: "entity \<Rightarrow> entity \<Rightarrow> string list" where
  "changed_fields old new =
     (let fs = [];
          fs = add_if (en_kind old \<noteq> en_kind new) ''kind'' fs;
          fs = add_if (en_name old \<noteq> en_name new) ''name'' fs;
          fs = add_if (en_label old \<noteq> en_label new) ''label'' fs;
          fs = add_if (en_properties old \<noteq> en_properties new) ''properties'' fs;
          fs = add_if (en_links old \<noteq> en_links new) ''links'' fs;
          fs = add_if (map_option json_of_bounds (en_bounds old)
                           \<noteq> map_option json_of_bounds (en_bounds new)) ''bounds'' fs
      in fs)"

definition source_fingerprint :: "entity \<Rightarrow> string option" where
  "source_fingerprint e = (case en_source e of None \<Rightarrow> None | Some s \<Rightarrow> src_fingerprint s)"

definition same_fingerprint :: "entity \<Rightarrow> entity \<Rightarrow> bool" where
  "same_fingerprint old new \<longleftrightarrow>
     en_kind old = en_kind new \<and> source_fingerprint old = source_fingerprint new"

definition path_mapping :: "string \<Rightarrow> entity_ref \<Rightarrow> entity_ref \<Rightarrow> bool \<Rightarrow> entity_mapping" where
  "path_mapping target_revision from_reference to_reference same =
     (let state = (if same then MappedExact else MappedHeuristic) in
      \<lparr>em_source = from_reference, em_target_revision = target_revision, em_state = state,
       em_candidates =
         [\<lparr>mc_reference = to_reference, mc_confidence = (if same then Finite 1 else f64_round (55 / 100)),
           mc_signals = (if same
             then [''same_logical_path'', ''same_kind'', ''same_source_fingerprint'']
             else [''same_logical_path'', ''path_only''])\<rparr>],
       em_write_eligible = write_eligible state,
       em_recommended_action = (if same then ''use the mapped current reference''
         else ''re-resolve at a higher-level feature; heuristic mapping is read-only'')\<rparr>)"

definition deleted_mapping :: "string \<Rightarrow> entity_ref \<Rightarrow> entity_mapping" where
  "deleted_mapping target_revision from_reference =
     \<lparr>em_source = from_reference, em_target_revision = target_revision, em_state = Deleted,
      em_candidates = [], em_write_eligible = False,
      em_recommended_action = ''reselect or target the owning feature''\<rparr>"

text \<open>The acc the two loops of \<^verbatim>\<open>diff_graphs\<close> push to.\<close>

record diff_lists =
  dl_added :: "entity_ref list"
  dl_removed :: "entity_ref list"
  dl_changed :: "entity_change list"
  dl_mappings :: "entity_mapping list"

definition unwrap_entity :: "graph \<Rightarrow> string \<Rightarrow> (entity, revision_error) result" where
  "unwrap_entity g reference =
     ok_or (graph_entity g reference) (RevPanic ''called Option::unwrap() on a None value'')"

definition entity_changes :: "entity_ref \<Rightarrow> entity \<Rightarrow> entity \<Rightarrow> entity_change list" where
  "entity_changes reference old new =
     (if json_of_entity old \<noteq> json_of_entity new
      then [\<lparr>ec_reference = reference, ec_fields = changed_fields old new,
             ec_old = json_of_entity old, ec_new = json_of_entity new\<rparr>]
      else [])"

definition diff_to_path ::
  "graph \<Rightarrow> graph \<Rightarrow> diff_lists \<Rightarrow> string \<times> entity_ref \<Rightarrow> (diff_lists, revision_error) result" where
  "diff_to_path from_g to_g acc = (\<lambda>(path, to_reference).
     (case bm_get (logical_paths from_g) path of
        None \<Rightarrow> Ok (acc\<lparr>dl_added := dl_added acc @ [to_reference]\<rparr>)
      | Some from_reference \<Rightarrow>
          res_bind (unwrap_entity from_g from_reference) (\<lambda>old.
          res_bind (unwrap_entity to_g to_reference) (\<lambda>new.
          Ok (acc\<lparr>dl_changed := dl_changed acc @ entity_changes to_reference old new,
                    dl_mappings := dl_mappings acc @
                      (if from_reference \<noteq> to_reference
                       then [path_mapping (revision_id (g_revision to_g)) from_reference
                               to_reference (same_fingerprint old new)]
                       else [])\<rparr>)))))"

definition diff_from_path ::
  "graph \<Rightarrow> diff_lists \<Rightarrow> string \<times> entity_ref \<Rightarrow> (diff_lists, revision_error) result" where
  "diff_from_path to_g acc = (\<lambda>(path, from_reference).
     (if bm_contains (logical_paths to_g) path then Ok acc
      else Ok (acc\<lparr>dl_removed := dl_removed acc @ [from_reference],
                     dl_mappings := dl_mappings acc @
                       [deleted_mapping (revision_id (g_revision to_g)) from_reference]\<rparr>)))"

definition facts_missing_in :: "semantic_fact list \<Rightarrow> semantic_fact list \<Rightarrow> semantic_fact list" where
  "facts_missing_in others facts = filter (\<lambda>f. fa_ref f \<notin> fa_ref ` set others) facts"

definition diff_graphs :: "graph \<Rightarrow> graph \<Rightarrow> string \<Rightarrow> (diff, revision_error) result" where
  "diff_graphs from_g to_g source_name =
     res_bind (res_fold (diff_to_path from_g to_g)
       \<lparr>dl_added = [], dl_removed = [], dl_changed = [], dl_mappings = []\<rparr>
       (logical_paths to_g)) (\<lambda>acc.
     res_bind (res_fold (diff_from_path to_g) acc (logical_paths from_g)) (\<lambda>acc.
     Ok \<lparr>df_from = g_revision from_g, df_to = g_revision to_g,
         df_added = dl_added acc, df_removed = dl_removed acc,
         df_changed = dl_changed acc, df_mappings = dl_mappings acc,
         df_facts_added = facts_missing_in (g_facts from_g) (g_facts to_g),
         df_facts_removed = facts_missing_in (g_facts to_g) (g_facts from_g),
         df_diagnostics_changed = g_diagnostics to_g, df_source = source_name\<rparr>))"

section \<open>Logical paths\<close>

lemma logical_path_at: "CHR ''@'' \<notin> set r \<Longrightarrow> logical_path (p @ CHR ''@'' # r) = p"
proof -
  assume "CHR ''@'' \<notin> set r"
  then have "rsplit_once CHR ''@'' (p @ CHR ''@'' # r) = Some (p, r)"
    unfolding rsplit_once_Some_iff by blast
  then show ?thesis by (simp add: logical_path_def)
qed

lemma logical_path_replace_revision:
  assumes "CHR ''@'' \<notin> set old" and "CHR ''@'' \<notin> set new"
  shows "logical_path (replace_revision k old new) = logical_path k"
proof (cases "strip_suffix (''@'' @ old) k")
  case None
  then show ?thesis by (simp add: replace_revision_cases)
next
  case (Some p)
  then have k: "k = p @ CHR ''@'' # old" by (simp add: strip_suffix_Some_iff)
  have "replace_revision k old new = p @ CHR ''@'' # new"
    using Some by (simp add: replace_revision_def)
  then show ?thesis using k assms by (simp add: logical_path_at)
qed

lemma logical_paths_wf: "bm_wf (logical_paths g)"
  by (simp add: logical_paths_def)

lemma logical_paths_mem:
  "(p, r) \<in> set (logical_paths g) \<Longrightarrow> r \<in> set (bm_keys (g_entities g)) \<and> logical_path r = p"
  using set_bm_extend_subset [of "[]" "map (\<lambda>r. (logical_path r, r)) (bm_keys (g_entities g))"]
  by (auto simp: logical_paths_def)

lemma logical_paths_get:
  "bm_get (logical_paths g) p = Some r \<Longrightarrow> r \<in> set (bm_keys (g_entities g)) \<and> logical_path r = p"
  by (rule logical_paths_mem) (rule map_of_SomeD)

lemma logical_paths_dom:
  "bm_contains (logical_paths g) p \<longleftrightarrow> p \<in> logical_path ` set (bm_keys (g_entities g))"
  by (force simp: bm_contains_iff logical_paths_def fst_set_extend)

text \<open>A graph names every logical path once.\<close>

definition paths_unique :: "graph \<Rightarrow> bool" where
  "paths_unique g \<longleftrightarrow> inj_on logical_path (set (bm_keys (g_entities g)))"

lemma logical_paths_unique:
  assumes "paths_unique g"
  shows "(p, r) \<in> set (logical_paths g) \<longleftrightarrow> r \<in> set (bm_keys (g_entities g)) \<and> logical_path r = p"
proof
  assume r: "r \<in> set (bm_keys (g_entities g)) \<and> logical_path r = p"
  then obtain r' where "(p, r') \<in> set (logical_paths g)"
    using logical_paths_dom [of g p] by (auto simp: bm_contains_iff)
  moreover have "r' = r" using logical_paths_mem [OF calculation] r assms
    by (auto simp: paths_unique_def dest: inj_onD)
  ultimately show "(p, r) \<in> set (logical_paths g)" by simp
qed (rule logical_paths_mem)

section \<open>The two loops\<close>

lemma unwrap_entity_key:
  "r \<in> set (bm_keys (g_entities g)) \<Longrightarrow> \<exists>e. graph_entity g r = Some e \<and> unwrap_entity g r = Ok e"
  using bm_get_None_iff [of "g_entities g" r] by (auto simp: graph_entity_def unwrap_entity_def)

text \<open>What one path contributes to each list.\<close>

definition path_added :: "graph \<Rightarrow> string \<times> entity_ref \<Rightarrow> entity_ref list" where
  "path_added from_g = (\<lambda>(p, r). if bm_contains (logical_paths from_g) p then [] else [r])"

definition path_changed :: "graph \<Rightarrow> graph \<Rightarrow> string \<times> entity_ref \<Rightarrow> entity_change list" where
  "path_changed from_g to_g = (\<lambda>(p, r). case bm_get (logical_paths from_g) p of None \<Rightarrow> []
     | Some q \<Rightarrow> entity_changes r (the (graph_entity from_g q)) (the (graph_entity to_g r)))"

definition path_mapped :: "graph \<Rightarrow> graph \<Rightarrow> string \<times> entity_ref \<Rightarrow> entity_mapping list" where
  "path_mapped from_g to_g = (\<lambda>(p, r). case bm_get (logical_paths from_g) p of None \<Rightarrow> []
     | Some q \<Rightarrow> if q = r then [] else [path_mapping (revision_id (g_revision to_g)) q r
         (same_fingerprint (the (graph_entity from_g q)) (the (graph_entity to_g r)))])"

definition gone :: "graph \<Rightarrow> graph \<Rightarrow> entity_ref list" where
  "gone from_g to_g = map snd (filter (\<lambda>(p, r). \<not> bm_contains (logical_paths to_g) p) (logical_paths from_g))"

lemma diff_to_path_step:
  assumes "snd pr \<in> set (bm_keys (g_entities to_g))"
  shows "diff_to_path from_g to_g acc pr = Ok (acc
     \<lparr>dl_added := dl_added acc @ path_added from_g pr,
      dl_changed := dl_changed acc @ path_changed from_g to_g pr,
      dl_mappings := dl_mappings acc @ path_mapped from_g to_g pr\<rparr>)"
proof -
  obtain p r where pr: "pr = (p, r)" by force
  show ?thesis
  proof (cases "bm_get (logical_paths from_g) p")
    case None
    then show ?thesis using pr
      by (simp add: diff_to_path_def path_added_def path_changed_def path_mapped_def bm_contains_def)
  next
    case (Some q)
    obtain old where "graph_entity from_g q = Some old" "unwrap_entity from_g q = Ok old"
      using unwrap_entity_key logical_paths_get [OF Some] by blast
    moreover obtain new where "graph_entity to_g r = Some new" "unwrap_entity to_g r = Ok new"
      using unwrap_entity_key assms pr by auto
    ultimately show ?thesis using pr Some
      by (simp add: diff_to_path_def path_added_def path_changed_def path_mapped_def bm_contains_def)
  qed
qed

lemma diff_to_loop:
  assumes "\<forall>pr \<in> set prs. snd pr \<in> set (bm_keys (g_entities to_g))"
  shows "res_fold (diff_to_path from_g to_g) acc prs = Ok (acc
     \<lparr>dl_added := dl_added acc @ concat (map (path_added from_g) prs),
      dl_changed := dl_changed acc @ concat (map (path_changed from_g to_g) prs),
      dl_mappings := dl_mappings acc @ concat (map (path_mapped from_g to_g) prs)\<rparr>)"
  using assms by (induction prs arbitrary: acc) (simp_all add: diff_to_path_step)

lemma diff_from_loop:
  "res_fold (diff_from_path to_g) acc prs = Ok (acc
     \<lparr>dl_removed := dl_removed acc @ map snd (filter (\<lambda>(p, r). \<not> bm_contains (logical_paths to_g) p) prs),
      dl_mappings := dl_mappings acc @ map (deleted_mapping (revision_id (g_revision to_g)))
        (map snd (filter (\<lambda>(p, r). \<not> bm_contains (logical_paths to_g) p) prs))\<rparr>)"
proof (induction prs arbitrary: acc)
  case (Cons pr prs)
  then show ?case by (cases pr) (simp add: diff_from_path_def)
qed simp

lemma diff_graphs_eq:
  "diff_graphs from_g to_g s = Ok
     \<lparr>df_from = g_revision from_g, df_to = g_revision to_g,
      df_added = concat (map (path_added from_g) (logical_paths to_g)),
      df_removed = gone from_g to_g,
      df_changed = concat (map (path_changed from_g to_g) (logical_paths to_g)),
      df_mappings = concat (map (path_mapped from_g to_g) (logical_paths to_g))
        @ map (deleted_mapping (revision_id (g_revision to_g))) (gone from_g to_g),
      df_facts_added = facts_missing_in (g_facts from_g) (g_facts to_g),
      df_facts_removed = facts_missing_in (g_facts to_g) (g_facts from_g),
      df_diagnostics_changed = g_diagnostics to_g, df_source = s\<rparr>"
proof -
  have "\<forall>pr \<in> set (logical_paths to_g). snd pr \<in> set (bm_keys (g_entities to_g))"
    using logical_paths_mem by force
  then show ?thesis by (simp add: diff_graphs_def diff_to_loop diff_from_loop gone_def)
qed

section \<open>Properties\<close>

lemma json_of_entity_refl_changes [simp]: "entity_changes r e e = []"
  by (simp add: entity_changes_def)

lemma gone_set:
  "paths_unique from_g \<Longrightarrow> set (gone from_g to_g) = {r \<in> set (bm_keys (g_entities from_g)).
     logical_path r \<notin> logical_path ` set (bm_keys (g_entities to_g))}"
proof -
  assume u: "paths_unique from_g"
  have "r \<in> set (gone from_g to_g) \<longleftrightarrow>
      (\<exists>p. (p, r) \<in> set (logical_paths from_g) \<and> \<not> bm_contains (logical_paths to_g) p)" for r
    by (force simp: gone_def)
  then show ?thesis unfolding logical_paths_unique [OF u] logical_paths_dom by blast
qed

lemma added_set:
  "paths_unique to_g \<Longrightarrow> set (concat (map (path_added from_g) (logical_paths to_g))) =
     {r \<in> set (bm_keys (g_entities to_g)).
        logical_path r \<notin> logical_path ` set (bm_keys (g_entities from_g))}"
proof -
  assume u: "paths_unique to_g"
  have "r \<in> set (concat (map (path_added from_g) (logical_paths to_g))) \<longleftrightarrow>
      (\<exists>p. (p, r) \<in> set (logical_paths to_g) \<and> \<not> bm_contains (logical_paths from_g) p)" for r
    by (force simp: path_added_def)
  then show ?thesis unfolding logical_paths_unique [OF u] logical_paths_dom by blast
qed

text \<open>C9: Comparing two graphs never fails.  When references have distinct logical paths, the added and
  removed references are exactly those whose path the other graph does not have, and a change is listed
  exactly for the paths of both graphs at which the serialized entities differ.\<close>

theorem diff_sound_and_complete:
  assumes "paths_unique from_g" and "paths_unique to_g"
  shows "\<exists>d. diff_graphs from_g to_g s = Ok d
     \<and> set (df_added d) = {r \<in> set (bm_keys (g_entities to_g)).
          logical_path r \<notin> logical_path ` set (bm_keys (g_entities from_g))}
     \<and> set (df_removed d) = {r \<in> set (bm_keys (g_entities from_g)).
          logical_path r \<notin> logical_path ` set (bm_keys (g_entities to_g))}
     \<and> ec_reference ` set (df_changed d) = {r. \<exists>q old new. logical_path q = logical_path r
          \<and> graph_entity from_g q = Some old \<and> graph_entity to_g r = Some new
          \<and> json_of_entity old \<noteq> json_of_entity new}"
proof -
  let ?changed = "concat (map (path_changed from_g to_g) (logical_paths to_g))"
  have key: "graph_entity g r \<noteq> None \<longleftrightarrow> r \<in> set (bm_keys (g_entities g))" for g r
    by (simp add: graph_entity_def bm_get_None_iff)
  have from_get: "bm_get (logical_paths from_g) p = Some q \<longleftrightarrow> graph_entity from_g q \<noteq> None \<and> logical_path q = p" for p q
    unfolding bm_get_Some_iff [OF logical_paths_wf] logical_paths_unique [OF assms(1)] key ..
  have to_mem: "(p, r) \<in> set (logical_paths to_g) \<longleftrightarrow> graph_entity to_g r \<noteq> None \<and> logical_path r = p" for p r
    unfolding logical_paths_unique [OF assms(2)] key ..
  have added: "set (concat (map (path_added from_g) (logical_paths to_g))) = {r \<in> set (bm_keys (g_entities to_g)).
          logical_path r \<notin> logical_path ` set (bm_keys (g_entities from_g))}"
    by (rule added_set [OF assms(2)])
  have "r \<in> ec_reference ` set ?changed \<longleftrightarrow> (\<exists>q old new. logical_path q = logical_path r
          \<and> graph_entity from_g q = Some old \<and> graph_entity to_g r = Some new
          \<and> json_of_entity old \<noteq> json_of_entity new)" for r
  proof
    assume "r \<in> ec_reference ` set ?changed"
    then obtain p r' where "(p, r') \<in> set (logical_paths to_g)"
      and "r \<in> ec_reference ` set (path_changed from_g to_g (p, r'))"
      by auto
    then obtain q where "(p, r) \<in> set (logical_paths to_g)" "bm_get (logical_paths from_g) p = Some q"
      and "json_of_entity (the (graph_entity from_g q)) \<noteq> json_of_entity (the (graph_entity to_g r))"
      by (cases "bm_get (logical_paths from_g) p")
        (auto simp: path_changed_def entity_changes_def split: if_splits)
    then show "\<exists>q old new. logical_path q = logical_path r
          \<and> graph_entity from_g q = Some old \<and> graph_entity to_g r = Some new
          \<and> json_of_entity old \<noteq> json_of_entity new"
      using from_get to_mem by fastforce
  next
    assume "\<exists>q old new. logical_path q = logical_path r
          \<and> graph_entity from_g q = Some old \<and> graph_entity to_g r = Some new
          \<and> json_of_entity old \<noteq> json_of_entity new"
    then obtain q old new where h: "logical_path q = logical_path r" "graph_entity from_g q = Some old"
      "graph_entity to_g r = Some new" "json_of_entity old \<noteq> json_of_entity new" by blast
    then have "path_changed from_g to_g (logical_path r, r) =
        [\<lparr>ec_reference = r, ec_fields = changed_fields old new,
          ec_old = json_of_entity old, ec_new = json_of_entity new\<rparr>]"
      using from_get [of "logical_path r" q] by (simp add: path_changed_def entity_changes_def)
    moreover have "(logical_path r, r) \<in> set (logical_paths to_g)" using to_mem h(3) by simp
    ultimately show "r \<in> ec_reference ` set ?changed" by force
  qed
  then have changed: "ec_reference ` set ?changed = {r. \<exists>q old new. logical_path q = logical_path r
          \<and> graph_entity from_g q = Some old \<and> graph_entity to_g r = Some new
          \<and> json_of_entity old \<noteq> json_of_entity new}"
    by blast
  show ?thesis
    by (rule exI, intro conjI, rule diff_graphs_eq)
      (simp_all only: diff.select_convs added changed gone_set [OF assms(1)])
qed

theorem diff_sound_and_complete_witness:
  "\<exists>d. diff_graphs sample_graph sample_next ''agent_preview'' = Ok d \<and> df_added d = [] \<and> df_removed d = []"
proof -
  have "paths_unique sample_graph" "paths_unique sample_next"
    by code_simp+
  from diff_sound_and_complete [OF this] obtain d
    where d: "diff_graphs sample_graph sample_next ''agent_preview'' = Ok d"
      "set (df_added d) = {r \<in> set (bm_keys (g_entities sample_next)).
          logical_path r \<notin> logical_path ` set (bm_keys (g_entities sample_graph))}"
      "set (df_removed d) = {r \<in> set (bm_keys (g_entities sample_graph)).
          logical_path r \<notin> logical_path ` set (bm_keys (g_entities sample_next))}"
    by blast
  have "{r \<in> set (bm_keys (g_entities sample_next)).
      logical_path r \<notin> logical_path ` set (bm_keys (g_entities sample_graph))} = {}"
    and "{r \<in> set (bm_keys (g_entities sample_graph)).
      logical_path r \<notin> logical_path ` set (bm_keys (g_entities sample_next))} = {}"
    by code_simp+
  from trans [OF d(2) this(1)] trans [OF d(3) this(2)] d(1) show ?thesis by simp
qed

text \<open>A graph compared with itself shows nothing: no addition, removal, change, mapping or fact.\<close>

theorem diff_with_itself_is_empty:
  "diff_graphs g g s = Ok
     \<lparr>df_from = g_revision g, df_to = g_revision g, df_added = [], df_removed = [], df_changed = [],
      df_mappings = [], df_facts_added = [], df_facts_removed = [],
      df_diagnostics_changed = g_diagnostics g, df_source = s\<rparr>"
proof -
  have get: "bm_get (logical_paths g) p = Some r" if "(p, r) \<in> set (logical_paths g)" for p r
    using that logical_paths_wf by (simp add: bm_get_Some_iff)
  have "path_added g pr = [] \<and> path_changed g g pr = [] \<and> path_mapped g g pr = []"
    if "pr \<in> set (logical_paths g)" for pr
    using get that
    by (cases pr) (auto simp: path_added_def path_changed_def path_mapped_def bm_contains_def)
  moreover have "gone g g = []"
    by (auto simp: gone_def filter_empty_conv bm_contains_def get)
  moreover have "facts_missing_in fs fs = []" for fs
    by (auto simp: facts_missing_in_def filter_empty_conv)
  ultimately show ?thesis by (simp add: diff_graphs_eq concat_eq_Nil_conv)
qed

text \<open>A mapping of a diff lets its source be written exactly when it leads to an entity of the new
  graph at the same logical path with the same kind and the same source fingerprint; two entities that
  have no fingerprint at all count as having the same.\<close>

theorem mapping_write_gate:
  assumes "diff_graphs from_g to_g s = Ok d" and "m \<in> set (df_mappings d)"
  shows "em_write_eligible m \<longleftrightarrow>
     (\<exists>c old new. em_candidates m = [c] \<and> logical_path (mc_reference c) = logical_path (em_source m)
        \<and> graph_entity from_g (em_source m) = Some old \<and> graph_entity to_g (mc_reference c) = Some new
        \<and> en_kind old = en_kind new \<and> source_fingerprint old = source_fingerprint new)"
proof -
  from assms consider
      p r where "(p, r) \<in> set (logical_paths to_g)" "m \<in> set (path_mapped from_g to_g (p, r))"
    | r where "m = deleted_mapping (revision_id (g_revision to_g)) r"
    by (auto simp: diff_graphs_eq)
  then show ?thesis
  proof cases
    case 1
    then have "\<exists>q. bm_get (logical_paths from_g) p = Some q
      \<and> m = path_mapping (revision_id (g_revision to_g)) q r
         (same_fingerprint (the (graph_entity from_g q)) (the (graph_entity to_g r)))"
      by (cases "bm_get (logical_paths from_g) p") (auto simp: path_mapped_def split: if_splits)
    then obtain q where q: "bm_get (logical_paths from_g) p = Some q"
      and m: "m = path_mapping (revision_id (g_revision to_g)) q r
         (same_fingerprint (the (graph_entity from_g q)) (the (graph_entity to_g r)))"
      by blast
    obtain old where "graph_entity from_g q = Some old" "logical_path q = p"
      using logical_paths_get [OF q] unwrap_entity_key by blast
    moreover obtain new where "graph_entity to_g r = Some new" "logical_path r = p"
      using logical_paths_mem [OF 1(1)] unwrap_entity_key by blast
    ultimately show ?thesis using m
      by (auto simp: path_mapping_def same_fingerprint_def Let_def)
  qed (simp add: deleted_mapping_def)
qed

theorem mapping_write_gate_witness:
  "em_write_eligible (path_mapping ''g2.m0.f0.v0.e'' box_a next_a True)"
proof -
  let ?m = "path_mapping ''g2.m0.f0.v0.e'' box_a next_a True"
  obtain d where d: "diff_graphs sample_graph sample_next ''agent_preview'' = Ok d"
    using diff_graphs_eq by blast
  have "?m \<in> set (df_mappings (projr (diff_graphs sample_graph sample_next ''agent_preview'')))"
    by code_simp
  then have m: "?m \<in> set (df_mappings d)" using d by simp
  have "(case (graph_entity sample_graph box_a,
        graph_entity sample_next next_a) of
      (Some old, Some new) \<Rightarrow> en_kind old = en_kind new \<and> source_fingerprint old = source_fingerprint new
    | _ \<Rightarrow> False)"
    by code_simp
  then have "\<exists>old new. graph_entity sample_graph box_a = Some old
      \<and> graph_entity sample_next next_a = Some new
      \<and> en_kind old = en_kind new \<and> source_fingerprint old = source_fingerprint new"
    by (auto split: option.splits prod.splits)
  moreover have "logical_path next_a = logical_path box_a"
    by code_simp
  ultimately show ?thesis
    using mapping_write_gate [OF d m] by (auto simp: path_mapping_def Let_def)
qed

end
