(* ===== verification/RevisionStore.thy ===== *)
theory RevisionStore
  imports GraphDiff
begin

text \<open>
  The store of the crate \<^verbatim>\<open>revision-store\<close>: the current graph, the retained history, the undo
  and redo stacks, and the operations preview, commit, undo, redo and observe.  A method that
  takes \<^verbatim>\<open>&mut self\<close> returns its result together with the store it leaves behind.
\<close>

section \<open>State\<close>

record revision_record =
  rr_revision :: revision
  rr_fingerprint :: string
  rr_parent :: "string option"
  rr_source :: string
  rr_graph :: graph

record preview =
  pv_base_revision :: string
  pv_preview_revision :: string
  pv_base_fingerprint :: string
  pv_preview_fingerprint :: string
  pv_graph :: graph
  pv_diff :: diff
  pv_changeset_hash :: string
  pv_rolled_back :: bool
  pv_rollback_verified :: bool

record store =
  st_current :: graph
  st_history :: "(string, revision_record) bmap"
  st_max_revisions :: nat
  st_undo :: "graph list"
  st_redo :: "graph list"

section \<open>Operations\<close>

definition make_record :: "codec \<Rightarrow> graph \<Rightarrow> string option \<Rightarrow> string \<Rightarrow> revision_record" where
  "make_record C g parent source_name =
     \<lparr>rr_revision = g_revision g, rr_fingerprint = fingerprint C g, rr_parent = parent,
      rr_source = source_name, rr_graph = g\<rparr>"

definition store_new :: "codec \<Rightarrow> graph \<Rightarrow> store" where
  "store_new C g =
     \<lparr>st_current = g, st_history = [(revision_id (g_revision g), make_record C g None ''initial'')],
      st_max_revisions = 50, st_undo = [], st_redo = []\<rparr>"

definition with_retention :: "store \<Rightarrow> nat \<Rightarrow> store" where
  "with_retention s max_revisions = s\<lparr>st_max_revisions := max max_revisions 1\<rparr>"

definition store_get :: "store \<Rightarrow> string \<Rightarrow> revision_record option" where
  "store_get s revision = bm_get (st_history s) revision"

definition current_fingerprint :: "codec \<Rightarrow> store \<Rightarrow> string" where
  "current_fingerprint C s = fingerprint C (st_current s)"

definition verify_base :: "store \<Rightarrow> changeset \<Rightarrow> (unit, revision_error) result" where
  "verify_base s cs =
     (let current = revision_id (g_revision (st_current s)) in
      if cs_base_revision cs \<noteq> current
         \<and> cs_base_revision cs \<noteq> geometry_id (g_revision (st_current s))
      then Err (RevisionConflict (cs_base_revision cs) current) else Ok ())"

definition store_preview :: "codec \<Rightarrow> store \<Rightarrow> changeset \<Rightarrow> (preview, revision_error) result" where
  "store_preview C s cs =
     res_bind (verify_base s cs) (\<lambda>_.
     let base = st_current s; base_fingerprint = fingerprint C base in
     res_bind (apply_changeset C base cs) (\<lambda>nxt.
     res_bind (diff_graphs base nxt ''agent_preview'') (\<lambda>d.
     Ok \<lparr>pv_base_revision = revision_id (g_revision base),
         pv_preview_revision = revision_id (g_revision nxt),
         pv_base_fingerprint = base_fingerprint,
         pv_preview_fingerprint = fingerprint C nxt,
         pv_graph = nxt, pv_diff = d, pv_changeset_hash = changeset_hash C cs,
         pv_rolled_back = True,
         pv_rollback_verified = (fingerprint C base = base_fingerprint)\<rparr>)))"

definition preview_hash :: "codec \<Rightarrow> preview \<Rightarrow> string" where
  "preview_hash C p = sha256_json C (text_of_diff_tuple C)
     (pv_base_revision p, pv_preview_revision p, pv_base_fingerprint p, pv_preview_fingerprint p,
      pv_diff p, pv_changeset_hash p)"

lemma length_bm_remove_hd: "length (bm_remove k ((k, v) # m)) < Suc (length m)"
  by (simp add: bm_remove_def le_imp_less_Suc)

function trim_history ::
  "nat \<Rightarrow> (string, revision_record) bmap \<Rightarrow> (string, revision_record) bmap" where
  "trim_history max_revisions m =
     (if max_revisions < length m
      then (case m of [] \<Rightarrow> m | (first, r) # rest \<Rightarrow> trim_history max_revisions (bm_remove first m))
      else m)"
  by pat_completeness auto
termination
  by (relation "measure (\<lambda>(_, m). length m)") (auto simp: length_bm_remove_hd)

declare trim_history.simps [simp del]

text \<open>The end that commit, undo and redo and observe have in common: the record enters the history.\<close>

definition retain :: "store \<Rightarrow> revision_record \<Rightarrow> store" where
  "retain s r = s\<lparr>st_history := trim_history (st_max_revisions s)
     (bm_insert (revision_id (rr_revision r)) r (st_history s))\<rparr>"

definition reviewed_preview ::
  "codec \<Rightarrow> store \<Rightarrow> changeset \<Rightarrow> string \<Rightarrow> (preview, revision_error) result" where
  "reviewed_preview C s cs expected_preview_hash =
     res_bind (store_preview C s cs) (\<lambda>p.
     res_bind (ensure (preview_hash C p = expected_preview_hash)
                 (PreconditionFailed ''preview hash differs from reviewed state'')) (\<lambda>_.
     res_bind (ensure (pv_rollback_verified p)
                 (PreconditionFailed ''rollback fingerprint was not verified'')) (\<lambda>_.
     Ok p)))"

definition store_commit ::
  "codec \<Rightarrow> store \<Rightarrow> changeset \<Rightarrow> string \<Rightarrow> (revision_record, revision_error) result \<times> store" where
  "store_commit C s cs expected_preview_hash =
     (case reviewed_preview C s cs expected_preview_hash of
        Err e \<Rightarrow> (Err e, s)
      | Ok p \<Rightarrow>
          let parent = revision_id (g_revision (st_current s));
              r = make_record C (pv_graph p) (Some parent) ''agent_commit''
          in (Ok r, retain (s\<lparr>st_undo := st_undo s @ [st_current s], st_redo := [],
                             st_current := pv_graph p\<rparr>) r))"

definition next_geometry :: "revision \<Rightarrow> revision" where
  "next_geometry r = r\<lparr>rev_geometry := rev_geometry r + 1\<rparr>"

definition publish_navigation ::
  "codec \<Rightarrow> store \<Rightarrow> graph \<Rightarrow> string \<Rightarrow> (revision_record, revision_error) result \<times> store" where
  "publish_navigation C s g source_name =
     (let old = st_current s;
          source_revision_id = revision_id (g_revision g);
          g1 = g\<lparr>g_revision := next_geometry (g_revision old)\<rparr>;
          g2 = rekey_refs g1 source_revision_id (revision_id (g_revision g1));
          g3 = g2\<lparr>g_diagnostics := validate_invariants g2\<rparr>;
          r = make_record C g3 (Some (revision_id (g_revision old))) source_name
      in (Ok r, retain (s\<lparr>st_current := g3\<rparr>) r))"

definition store_undo :: "codec \<Rightarrow> store \<Rightarrow> (revision_record, revision_error) result \<times> store" where
  "store_undo C s =
     (if st_undo s = [] then (Err NoUndo, s)
      else publish_navigation C
             (s\<lparr>st_undo := butlast (st_undo s), st_redo := st_redo s @ [st_current s]\<rparr>)
             (last (st_undo s)) ''agent_undo'')"

definition store_redo :: "codec \<Rightarrow> store \<Rightarrow> (revision_record, revision_error) result \<times> store" where
  "store_redo C s =
     (if st_redo s = [] then (Err NoRedo, s)
      else publish_navigation C
             (s\<lparr>st_redo := butlast (st_redo s), st_undo := st_undo s @ [st_current s]\<rparr>)
             (last (st_redo s)) ''agent_redo'')"

definition store_observe ::
  "codec \<Rightarrow> store \<Rightarrow> graph \<Rightarrow> string \<Rightarrow> (diff, revision_error) result \<times> store" where
  "store_observe C s g source_name =
     (let old = st_current s in
      if rev_epoch (g_revision g) \<noteq> rev_epoch (g_revision old)
      then (Err (PreconditionFailed ''session epoch changed; full rescan is required''), s)
      else
        let g' = (if revision_id (g_revision g) = revision_id (g_revision old)
                  then g\<lparr>g_revision := (g_revision g)\<lparr>rev_geometry := rev_geometry (g_revision old) + 1\<rparr>\<rparr>
                  else g) in
        case diff_graphs old g' source_name of
          Err e \<Rightarrow> (Err e, s)
        | Ok d \<Rightarrow>
            let r = make_record C g' (Some (revision_id (g_revision old))) (df_source d)
            in (Ok d, retain (s\<lparr>st_undo := st_undo s @ [old], st_redo := [], st_current := g'\<rparr>) r))"

section \<open>Laws\<close>

lemma make_record_simps [simp]:
  "rr_revision (make_record C g p src) = g_revision g"
  "rr_fingerprint (make_record C g p src) = fingerprint C g"
  "rr_parent (make_record C g p src) = p"
  "rr_source (make_record C g p src) = src"
  "rr_graph (make_record C g p src) = g"
  by (simp_all add: make_record_def)

lemma retain_simps [simp]:
  "st_current (retain s r) = st_current s"
  "st_undo (retain s r) = st_undo s"
  "st_redo (retain s r) = st_redo s"
  "st_max_revisions (retain s r) = st_max_revisions s"
  by (simp_all add: retain_def)

lemma verify_base_Ok_iff [simp]:
  "verify_base s cs = Ok u \<longleftrightarrow> cs_base_revision cs = revision_id (g_revision (st_current s))
     \<or> cs_base_revision cs = geometry_id (g_revision (st_current s))"
  by (simp add: verify_base_def Let_def)

lemma store_preview_Ok_iff:
  "store_preview C s cs = Ok p \<longleftrightarrow> verify_base s cs = Ok () \<and>
     (\<exists>g d. apply_changeset C (st_current s) cs = Ok g
        \<and> diff_graphs (st_current s) g ''agent_preview'' = Ok d
        \<and> p = \<lparr>pv_base_revision = revision_id (g_revision (st_current s)),
               pv_preview_revision = revision_id (g_revision g),
               pv_base_fingerprint = fingerprint C (st_current s),
               pv_preview_fingerprint = fingerprint C g, pv_graph = g, pv_diff = d,
               pv_changeset_hash = changeset_hash C cs, pv_rolled_back = True,
               pv_rollback_verified = True\<rparr>)"
  by (auto simp: store_preview_def Let_def)

lemma reviewed_preview_Ok_iff:
  "reviewed_preview C s cs h = Ok p \<longleftrightarrow> store_preview C s cs = Ok p \<and> preview_hash C p = h"
  by (auto simp: reviewed_preview_def store_preview_Ok_iff)

lemma store_commit_Ok:
  "store_commit C s cs h = (Ok r, s') \<longleftrightarrow> (\<exists>p. store_preview C s cs = Ok p \<and> preview_hash C p = h
     \<and> r = make_record C (pv_graph p) (Some (revision_id (g_revision (st_current s)))) ''agent_commit''
     \<and> s' = retain (s\<lparr>st_undo := st_undo s @ [st_current s], st_redo := [], st_current := pv_graph p\<rparr>) r)"
proof (cases "reviewed_preview C s cs h")
  case (Inl e)
  have "\<not> (store_preview C s cs = Ok p \<and> preview_hash C p = h)" for p
    using reviewed_preview_Ok_iff [of C s cs h p] Inl by simp
  then show ?thesis using Inl by (auto simp: store_commit_def)
next
  case (Inr p)
  then have "store_preview C s cs = Ok p \<and> preview_hash C p = h"
    by (simp only: reviewed_preview_Ok_iff)
  then show ?thesis using Inr by (auto simp: store_commit_def Let_def)
qed

lemma store_commit_Err: "store_commit C s cs h = (Err e, s') \<Longrightarrow> s' = s"
  by (auto simp: store_commit_def Let_def split: sum.splits)

lemma bm_remove_hd: "bm_wf ((k, v) # m) \<Longrightarrow> bm_remove k ((k, v) # m) = m"
  by (auto simp: bm_remove_def bm_wf_Cons filter_id_conv)

lemma trim_history_drop: "bm_wf m \<Longrightarrow> trim_history n m = drop (length m - n) m"
proof (induction n m rule: trim_history.induct)
  case (1 n m)
  show ?case
  proof (cases "n < length m")
    case True
    then obtain k r rest where m: "m = (k, r) # rest" by (cases m) auto
    have "trim_history n m = trim_history n rest"
      using True m bm_remove_hd [of k r rest] 1(2) by (subst trim_history.simps) simp
    moreover have "trim_history n rest = drop (length rest - n) rest"
      using 1(1) [OF True m refl] bm_remove_hd [of k r rest] 1(2) m by (simp add: bm_wf_Cons)
    ultimately show ?thesis using True m by (simp add: Suc_diff_le)
  next
    case False
    then show ?thesis by (subst trim_history.simps) simp
  qed
qed

lemma bm_wf_drop: "bm_wf m \<Longrightarrow> bm_wf (drop n m)"
  by (simp add: bm_wf_def drop_map [symmetric] sorted_wrt_drop)

lemma trim_history_facts:
  assumes "bm_wf m"
  shows "bm_wf (trim_history n m)" and "length (trim_history n m) = min n (length m)"
    and "set (trim_history n m) \<subseteq> set m"
  using assms by (auto simp: trim_history_drop bm_wf_drop dest: in_set_dropD)

end
