(* ===== verification/StoreRuns.thy ===== *)
theory StoreRuns
  imports RevisionStore
begin

text \<open>
  Runs of the revision store: its invariant, the contract of commit, undo, redo and observe, and
  what the retention of revisions keeps.
\<close>

section \<open>The invariant\<close>

definition record_ok :: "codec \<Rightarrow> string \<Rightarrow> revision_record \<Rightarrow> bool" where
  "record_ok C k r \<longleftrightarrow> k = revision_id (rr_revision r) \<and> g_revision (rr_graph r) = rr_revision r
     \<and> rr_fingerprint r = fingerprint C (rr_graph r) \<and> graph_wf (rr_graph r)"

definition store_wf :: "codec \<Rightarrow> store \<Rightarrow> bool" where
  "store_wf C s \<longleftrightarrow> graph_wf (st_current s) \<and> bm_wf (st_history s)
     \<and> (\<forall>(k, r) \<in> set (st_history s). record_ok C k r)
     \<and> length (st_history s) \<le> st_max_revisions s \<and> 1 \<le> st_max_revisions s
     \<and> (\<forall>g \<in> set (st_undo s @ st_redo s). graph_wf g)"

text \<open>The calls that change a store, with any change set, hash, graph and source.\<close>

inductive store_step :: "codec \<Rightarrow> store \<Rightarrow> store \<Rightarrow> bool" for C where
  commit: "store_commit C s cs h = (r, s') \<Longrightarrow> store_step C s s'"
| undo: "store_undo C s = (r, s') \<Longrightarrow> store_step C s s'"
| redo: "store_redo C s = (r, s') \<Longrightarrow> store_step C s s'"
| observe: "graph_wf g \<Longrightarrow> store_observe C s g src = (d, s') \<Longrightarrow> store_step C s s'"

inductive_cases store_stepE: "store_step C s s'"

lemma retain_wf:
  assumes "graph_wf (st_current s)" and "bm_wf (st_history s)"
    and "\<forall>(k, r) \<in> set (st_history s). record_ok C k r" and "1 \<le> st_max_revisions s"
    and "\<forall>g \<in> set (st_undo s @ st_redo s). graph_wf g"
    and "r = make_record C (st_current s) p src"
  shows "store_wf C (retain s r)"
proof -
  let ?m = "bm_insert (revision_id (rr_revision r)) r (st_history s)"
  have wf: "bm_wf ?m" using assms(2) by simp
  have "record_ok C (revision_id (rr_revision r)) r" using assms(1,6) by (simp add: record_ok_def)
  then have "\<forall>(k, r) \<in> set ?m. record_ok C k r"
    using assms(3) set_bm_insert_subset by fast
  then have "\<forall>(k, r) \<in> set (trim_history (st_max_revisions s) ?m). record_ok C k r"
    using trim_history_facts(3) [OF wf] by blast
  then show ?thesis
    using assms trim_history_facts(1,2) [OF wf] by (simp add: store_wf_def retain_def)
qed

lemma publish_navigation_wf:
  assumes "store_wf C s" and "graph_wf g"
  shows "store_wf C (snd (publish_navigation C s g src))"
  using assms unfolding publish_navigation_def Let_def snd_conv
  by (intro retain_wf) (auto simp: store_wf_def rekey_refs_wf)

lemma pop_wf:
  "store_wf C s \<Longrightarrow> st_undo s \<noteq> [] \<Longrightarrow>
     store_wf C (s\<lparr>st_undo := butlast (st_undo s), st_redo := st_redo s @ [st_current s]\<rparr>)"
  "store_wf C s \<Longrightarrow> st_undo s \<noteq> [] \<Longrightarrow> graph_wf (last (st_undo s))"
  "store_wf C s \<Longrightarrow> st_redo s \<noteq> [] \<Longrightarrow>
     store_wf C (s\<lparr>st_redo := butlast (st_redo s), st_undo := st_undo s @ [st_current s]\<rparr>)"
  "store_wf C s \<Longrightarrow> st_redo s \<noteq> [] \<Longrightarrow> graph_wf (last (st_redo s))"
  by (auto simp: store_wf_def dest: in_set_butlastD)

lemma store_observe_cases:
  obtains "store_observe C s g src = (Err (PreconditionFailed
        ''session epoch changed; full rescan is required''), s)"
      and "rev_epoch (g_revision g) \<noteq> rev_epoch (g_revision (st_current s))"
  | d g' where "rev_epoch (g_revision g) = rev_epoch (g_revision (st_current s))"
      and "g' = (if g_revision g = g_revision (st_current s)
                 then g\<lparr>g_revision := next_geometry (g_revision g)\<rparr> else g)"
      and "diff_graphs (st_current s) g' src = Ok d"
      and "store_observe C s g src = (Ok d, retain (s\<lparr>st_undo := st_undo s @ [st_current s],
             st_redo := [], st_current := g'\<rparr>)
           (make_record C g' (Some (revision_id (g_revision (st_current s)))) src))"
  using that
  by (cases "rev_epoch (g_revision g) = rev_epoch (g_revision (st_current s))")
    (simp_all add: store_observe_def Let_def revision_id_eq_iff diff_graphs_eq next_geometry_def)

lemma store_step_wf: "store_step C s s' \<Longrightarrow> store_wf C s \<Longrightarrow> store_wf C s'"
proof (erule store_stepE)
  fix cs h r
  assume wf: "store_wf C s" and c: "store_commit C s cs h = (r, s')"
  show "store_wf C s'"
  proof (cases r)
    case (Inl e)
    then show ?thesis using store_commit_Err [of C s cs h] c wf by auto
  next
    case (Inr r')
    then obtain p where p: "store_preview C s cs = Ok p"
      and r': "r' = make_record C (pv_graph p) (Some (revision_id (g_revision (st_current s)))) ''agent_commit''"
      and s': "s' = retain (s\<lparr>st_undo := st_undo s @ [st_current s], st_redo := [], st_current := pv_graph p\<rparr>) r'"
      using c by (auto simp: store_commit_Ok)
    have "graph_wf (pv_graph p)"
      using p wf changeset_wf by (auto simp: store_preview_Ok_iff store_wf_def)
    then show ?thesis unfolding s' using wf r' by (intro retain_wf) (auto simp: store_wf_def)
  qed
next
  fix r
  assume wf: "store_wf C s" and u: "store_undo C s = (r, s')"
  show "store_wf C s'"
  proof (cases "st_undo s = []")
    case False
    have "store_wf C (snd (store_undo C s))" unfolding store_undo_def
      using pop_wf(1,2) [OF wf False] False by (simp add: publish_navigation_wf)
    then show ?thesis using u by simp
  qed (use wf u in \<open>simp add: store_undo_def\<close>)
next
  fix r
  assume wf: "store_wf C s" and u: "store_redo C s = (r, s')"
  show "store_wf C s'"
  proof (cases "st_redo s = []")
    case False
    have "store_wf C (snd (store_redo C s))" unfolding store_redo_def
      using pop_wf(3,4) [OF wf False] False by (simp add: publish_navigation_wf)
    then show ?thesis using u by simp
  qed (use wf u in \<open>simp add: store_redo_def\<close>)
next
  fix g src d
  assume wf: "store_wf C s" and g: "graph_wf g" and o: "store_observe C s g src = (d, s')"
  show "store_wf C s'"
  proof (rule store_observe_cases [of C s g src])
    fix d' g'
    assume g': "g' = (if g_revision g = g_revision (st_current s)
                 then g\<lparr>g_revision := next_geometry (g_revision g)\<rparr> else g)"
      and eq: "store_observe C s g src = (Ok d', retain (s\<lparr>st_undo := st_undo s @ [st_current s],
             st_redo := [], st_current := g'\<rparr>)
           (make_record C g' (Some (revision_id (g_revision (st_current s)))) src))"
    have "graph_wf g'" using g g' by simp
    then have "store_wf C (snd (store_observe C s g src))"
      unfolding eq snd_conv using wf by (intro retain_wf) (auto simp: store_wf_def)
    then show ?thesis using o by simp
  qed (use wf o in simp)
qed

lemma store_step_keeps:
  assumes "store_step C s s'"
  shows "st_max_revisions s' = st_max_revisions s"
    and "rev_epoch (g_revision (st_current s')) = rev_epoch (g_revision (st_current s))"
proof -
  have nav: "st_max_revisions (snd (publish_navigation C t g src)) = st_max_revisions t
      \<and> rev_epoch (g_revision (st_current (snd (publish_navigation C t g src))))
        = rev_epoch (g_revision (st_current t))" for t g src
    by (simp add: publish_navigation_def Let_def rekey_refs_keeps next_geometry_def)
  have "st_max_revisions s' = st_max_revisions s
    \<and> rev_epoch (g_revision (st_current s')) = rev_epoch (g_revision (st_current s))"
    using assms
  proof (rule store_stepE)
    fix cs h r
    assume "store_commit C s cs h = (r, s')"
    then show ?thesis
      by (cases r) (auto dest!: store_commit_Err elim!: apply_changeset_parts
          simp: store_commit_Ok store_preview_Ok_iff)
  next
    fix r
    assume "store_undo C s = (r, s')"
    then have "s' = snd (store_undo C s)" by simp
    then show ?thesis using nav by (simp add: store_undo_def)
  next
    fix r
    assume "store_redo C s = (r, s')"
    then have "s' = snd (store_redo C s)" by simp
    then show ?thesis using nav by (simp add: store_redo_def)
  next
    fix g src d
    assume "store_observe C s g src = (d, s')"
    then show ?thesis
      by (rule_tac store_observe_cases [of C s g src]) (auto simp: next_geometry_def)
  qed
  then show "st_max_revisions s' = st_max_revisions s"
    and "rev_epoch (g_revision (st_current s')) = rev_epoch (g_revision (st_current s))" by simp_all
qed

interpretation store_runs: step_invariant "store_step C" "store_wf C" for C
  by unfold_locales (rule store_step_wf)

interpretation store_constants: step_invariant "store_step C"
  "\<lambda>s. st_max_revisions s = n \<and> rev_epoch (g_revision (st_current s)) = e" for C n e
  by unfold_locales (simp add: store_step_keeps)

section \<open>Properties\<close>

lemma bm_insert_least: "\<forall>j \<in> set (bm_keys m). k < j \<Longrightarrow> bm_insert k v m = (k, v) # m"
  by (cases m) auto

text \<open>Removing the least entry after an insertion cannot remove an entry that was not the least.\<close>

lemma insert_not_least_retained:
  assumes "bm_wf m" and "length m \<le> n" and "\<exists>j \<in> set (bm_keys m). j \<le> k"
  shows "bm_get (drop (length (bm_insert k v m) - n) (bm_insert k v m)) k = Some v"
proof -
  have len: "length (bm_insert k v m) \<le> Suc (length m)"
    by (induction k v m rule: bm_insert.induct) auto
  consider "length (bm_insert k v m) - n = 0"
    | "length (bm_insert k v m) - n = 1" "length (bm_insert k v m) = Suc (length m)"
    using len assms(2) by linarith
  then show ?thesis
  proof cases
    case 1
    then show ?thesis by simp
  next
    case 2
    from assms(3) obtain j w m' where m: "m = (j, w) # m'" by (cases m) auto
    then have "j \<le> k" using assms(1,3) by (fastforce simp: bm_wf_Cons)
    then show ?thesis using 2 m by (cases "j = k") auto
  qed
qed

text \<open>C5: Any run of commits, undos, redos and observations of a store made from a well-formed graph
  keeps every graph of the store well-formed, the history sorted by revision identifier, within the
  retention limit, with each record under its own identifier and carrying the fingerprint of its graph,
  and never leaves the session epoch.\<close>

theorem store_invariant:
  assumes "graph_wf g" and "rtranclp (store_step C) (with_retention (store_new C g) n) s"
  shows "store_wf C s \<and> st_max_revisions s = max n 1
     \<and> rev_epoch (g_revision (st_current s)) = rev_epoch (g_revision g)"
proof -
  let ?s0 = "with_retention (store_new C g) n"
  have "store_wf C ?s0"
    using assms(1) by (simp add: store_wf_def with_retention_def store_new_def record_ok_def bm_wf_def)
  then have "store_wf C s" using assms(2) by (rule store_runs.runs_inv [rotated])
  moreover have "st_max_revisions s = max n 1
      \<and> rev_epoch (g_revision (st_current s)) = rev_epoch (g_revision g)"
    using assms(2) by (rule store_constants.runs_inv) (simp add: with_retention_def store_new_def)
  ultimately show ?thesis by blast
qed

definition sample_store :: store where
  "sample_store = store_new sample_codec sample_graph"

definition sample_preview :: preview where
  "sample_preview = \<lparr>pv_base_revision = revision_id (g_revision sample_graph),
     pv_preview_revision = revision_id (g_revision sample_next),
     pv_base_fingerprint = fingerprint sample_codec sample_graph,
     pv_preview_fingerprint = fingerprint sample_codec sample_next, pv_graph = sample_next,
     pv_diff = projr (diff_graphs sample_graph sample_next ''agent_preview''),
     pv_changeset_hash = changeset_hash sample_codec sample_change, pv_rolled_back = True,
     pv_rollback_verified = True\<rparr>"

definition sample_hash :: string where
  "sample_hash = preview_hash sample_codec sample_preview"

definition sample_committed :: store where
  "sample_committed = snd (store_commit sample_codec sample_store sample_change sample_hash)"

lemma sample_store_current: "st_current sample_store = sample_graph" "st_undo sample_store = []"
  by (simp_all add: sample_store_def store_new_def)

lemma sample_previews: "store_preview sample_codec sample_store sample_change = Ok sample_preview"
proof -
  have "cs_base_revision sample_change = revision_id (g_revision sample_graph)"
    by code_simp
  then show ?thesis
    by (simp add: store_preview_Ok_iff sample_store_current sample_applies sample_preview_def diff_graphs_eq)
qed

lemma sample_commits:
  "\<exists>r. store_commit sample_codec sample_store sample_change sample_hash = (Ok r, sample_committed)"
  "st_current sample_committed = sample_next"
proof -
  have "\<exists>r s'. store_commit sample_codec sample_store sample_change sample_hash = (Ok r, s')
      \<and> st_current s' = sample_next"
    using store_commit_Ok [of sample_codec sample_store sample_change sample_hash] sample_previews
    by (auto simp: sample_hash_def sample_preview_def)
  then show "\<exists>r. store_commit sample_codec sample_store sample_change sample_hash = (Ok r, sample_committed)"
    and "st_current sample_committed = sample_next"
    by (auto simp: sample_committed_def)
qed

theorem store_invariant_witness:
  "store_wf sample_codec (snd (store_undo sample_codec (with_retention (store_new sample_codec sample_graph) 3)))"
proof -
  let ?s = "with_retention (store_new sample_codec sample_graph) 3"
  have "store_step sample_codec ?s (snd (store_undo sample_codec ?s))"
    by (rule store_step.undo [OF prod.collapse [symmetric]])
  then show ?thesis using store_invariant [OF sample_wf r_into_rtranclp] by blast
qed

text \<open>C3: A commit takes effect only for a change set whose preview against the current graph has the
  reviewed hash: then the graph of that preview becomes current with its record, the replaced graph can
  be undone to, and nothing is left to redo.  In every other case the store is unchanged.\<close>

theorem commit_applies_reviewed_preview:
  "(case store_commit C s cs h of
      (Err e, s') \<Rightarrow> s' = s \<and> (\<forall>p. store_preview C s cs = Ok p \<longrightarrow> preview_hash C p \<noteq> h)
    | (Ok r, s') \<Rightarrow> (\<exists>p. store_preview C s cs = Ok p \<and> preview_hash C p = h
         \<and> apply_changeset C (st_current s) cs = Ok (pv_graph p)
         \<and> st_current s' = pv_graph p \<and> st_undo s' = st_undo s @ [st_current s] \<and> st_redo s' = []
         \<and> rr_graph r = pv_graph p \<and> rr_fingerprint r = pv_preview_fingerprint p
         \<and> rr_parent r = Some (revision_id (g_revision (st_current s)))))"
proof (cases "reviewed_preview C s cs h")
  case (Inl e)
  have "\<not> (store_preview C s cs = Ok p \<and> preview_hash C p = h)" for p
    using reviewed_preview_Ok_iff [of C s cs h p] Inl by simp
  then show ?thesis using Inl by (auto simp: store_commit_def)
next
  case (Inr p)
  then have p: "store_preview C s cs = Ok p" "preview_hash C p = h"
    by (simp_all only: reviewed_preview_Ok_iff)
  have "apply_changeset C (st_current s) cs = Ok (pv_graph p)"
    and "pv_preview_fingerprint p = fingerprint C (pv_graph p)"
    using p(1) by (auto simp: store_preview_Ok_iff)
  then show ?thesis using Inr p by (auto simp: store_commit_def Let_def)
qed

theorem commit_applies_reviewed_preview_witness:
  "st_undo sample_committed = [sample_graph] \<and> is_ok (fst (store_commit sample_codec sample_store sample_change sample_hash))"
proof -
  obtain r where "store_commit sample_codec sample_store sample_change sample_hash = (Ok r, sample_committed)"
    using sample_commits(1) by blast
  then show ?thesis
    using commit_applies_reviewed_preview [where C = sample_codec and s = sample_store
        and cs = sample_change and h = sample_hash]
    by (auto simp: sample_store_current)
qed

text \<open>C8: Undoing right after a commit brings back the graph that was current before it, under references
  moved to a new revision: exactly its entities, each equal to the earlier one apart from its revision
  and from the moved names in it and in its links; its facts with their references moved; its session,
  document and metadata.  The earlier undo stack is back, and the committed graph is ready to be redone.\<close>

theorem undo_restores_content:
  assumes "store_commit C s cs h = (Ok r, s')" and "graph_wf (st_current s)"
    and "fresh_revision (revision_id (next_geometry (g_revision (st_current s')))) (st_current s)"
  shows "\<exists>r' s''. store_undo C s' = (Ok r', s'') \<and> st_undo s'' = st_undo s \<and> st_redo s'' = [st_current s']
     \<and> g_revision (st_current s'') = next_geometry (g_revision (st_current s'))
     \<and> g_metadata (st_current s'') = g_metadata (st_current s)
     \<and> g_schema_version (st_current s'') = g_schema_version (st_current s)
     \<and> g_session (st_current s'') = g_session (st_current s) \<and> g_document (st_current s'') = g_document (st_current s)
     \<and> (let old = revision_id (g_revision (st_current s)); new = revision_id (g_revision (st_current s''));
            moved = (\<lambda>x. replace_revision x old new) in
          (\<forall>k e. graph_entity (st_current s) k = Some e \<longrightarrow>
             (\<exists>e'. graph_entity (st_current s'') (moved k) = Some e'
                \<and> e'\<lparr>en_revision := en_revision e\<rparr> = e\<lparr>en_ref := moved (en_ref e),
                    en_links := map (\<lambda>l. l\<lparr>lk_target := moved (lk_target l)\<rparr>) (en_links e)\<rparr>
                \<and> en_revision e' = (if old = new then en_revision e else new)))
        \<and> (\<forall>k'. graph_entity (st_current s'') k' \<noteq> None \<longrightarrow>
             (\<exists>k. k' = moved k \<and> graph_entity (st_current s) k \<noteq> None))
        \<and> g_facts (st_current s'') = map (\<lambda>f. f\<lparr>fa_ref := moved (fa_ref f), fa_evidence := map moved (fa_evidence f),
               fa_contradicting := map moved (fa_contradicting f)\<rparr>) (g_facts (st_current s)))"
proof -
  let ?g = "st_current s" and ?n = "next_geometry (g_revision (st_current s'))"
  let ?h = "?g\<lparr>g_revision := ?n\<rparr>"
  from assms(1) have s': "st_undo s' = st_undo s @ [?g]" "st_redo s' = []"
    by (auto simp: store_commit_Ok)
  obtain r' s'' where u: "store_undo C s' = (Ok r', s'')"
    and cur: "st_current s'' = (rekey_refs ?h (revision_id (g_revision ?g)) (revision_id ?n))
        \<lparr>g_diagnostics := validate_invariants (rekey_refs ?h (revision_id (g_revision ?g)) (revision_id ?n))\<rparr>"
    and stacks: "st_undo s'' = st_undo s" "st_redo s'' = [st_current s']"
    using s' by (simp add: store_undo_def publish_navigation_def Let_def)
  have h: "graph_wf ?h" "fresh_revision (revision_id ?n) ?h" "\<And>k. graph_entity ?h k = graph_entity ?g k"
    using assms(2,3) by (simp_all add: fresh_revision_def graph_refs_def graph_wf_def graph_entity_def)
  have new: "g_revision (st_current s'') = ?n" by (simp add: cur rekey_refs_keeps)
  have same: "graph_entity (st_current s'') = graph_entity (rekey_refs ?h (revision_id (g_revision ?g)) (revision_id ?n))"
    by (simp add: cur graph_entity_def fun_eq_iff)
  have facts: "g_facts (st_current s'') = map (rekey_fact (revision_id (g_revision ?g)) (revision_id ?n)) (g_facts ?g)"
    by (simp add: cur rekey_refs_facts)
  show ?thesis
    using rekeyed_entity [OF h(1,2)] rekeyed_only [OF h(1)]
    by (intro exI [of _ r'] exI [of _ s''] conjI u stacks)
      (simp_all add: Let_def new same h(3) facts rekey_fact_def, simp_all add: cur rekey_refs_other)
qed

theorem undo_restores_content_witness:
  "let undone = st_current (snd (store_undo sample_codec sample_committed));
       moved = (\<lambda>x. replace_revision x (revision_id (g_revision sample_graph)) (revision_id (g_revision undone))) in
   \<exists>e'. graph_entity undone (moved box_b) = Some e'
     \<and> en_properties e' = JObj [(''Length'', JNum (PosInt 20)), (''visible'', JBool True)]
     \<and> en_links e' = [\<lparr>lk_relation = ''depends_on'', lk_target = moved box_a\<rparr>]"
proof -
  obtain r where r: "store_commit sample_codec sample_store sample_change sample_hash = (Ok r, sample_committed)"
    using sample_commits(1) by blast
  have fresh: "fresh_revision (revision_id (next_geometry (g_revision (st_current sample_committed)))) sample_graph"
    unfolding sample_commits(2) by code_simp
  note restored = undo_restores_content [OF r, unfolded sample_store_current(1), OF sample_wf fresh, unfolded Let_def]
  from restored show ?thesis
    unfolding Let_def
  proof (elim exE conjE, goal_cases)
    case (1 r' s'')
    let ?moved = "\<lambda>x. replace_revision x (revision_id (g_revision sample_graph)) (revision_id (g_revision (st_current s'')))"
    let ?link = "\<lparr>lk_relation = ''depends_on'', lk_target = box_a\<rparr>"
    obtain e' where e': "graph_entity (st_current s'') (?moved box_b) = Some e'"
      and same: "e'\<lparr>en_revision := en_revision (sample_box box_b ''B'' 20 [?link])\<rparr>
        = (sample_box box_b ''B'' 20 [?link])\<lparr>en_ref := ?moved (en_ref (sample_box box_b ''B'' 20 [?link])),
            en_links := map (\<lambda>l. l\<lparr>lk_target := ?moved (lk_target l)\<rparr>) (en_links (sample_box box_b ''B'' 20 [?link]))\<rparr>"
      using 1(9) sample_box_b by blast
    have "en_properties e' = JObj [(''Length'', JNum (PosInt 20)), (''visible'', JBool True)]"
      "en_links e' = [\<lparr>lk_relation = ''depends_on'', lk_target = ?moved box_a\<rparr>]"
      using arg_cong [OF same, of en_properties] arg_cong [OF same, of en_links] by (simp_all add: sample_box_def)
    then show ?case using e' by (simp add: 1(1))
  qed
qed

text \<open>The record of a commit stays in the history exactly when the history has room for it or an
  older record has a smaller identifier.  Identifiers are compared as text, so going from nine to ten
  makes the newest record the smallest, and a full history drops it at once.\<close>

theorem committed_record_retained_iff:
  assumes "store_wf C s" and "store_commit C s cs h = (Ok r, s')"
  shows "store_get s' (revision_id (rr_revision r)) = Some r \<longleftrightarrow>
     length (st_history s) < st_max_revisions s
     \<or> (\<exists>k \<in> set (bm_keys (st_history s)). k \<le> revision_id (rr_revision r))"
proof -
  let ?k = "revision_id (rr_revision r)" and ?h = "st_history s"
  let ?m = "bm_insert ?k r ?h"
  have wf: "bm_wf ?h" "length ?h \<le> st_max_revisions s" using assms(1) by (auto simp: store_wf_def)
  have h': "st_history s' = drop (length ?m - st_max_revisions s) ?m"
    using assms(2) wf(1) by (auto simp: store_commit_Ok retain_def trim_history_drop)
  show ?thesis
  proof (cases "\<exists>j \<in> set (bm_keys ?h). j \<le> ?k")
    case True
    then show ?thesis using insert_not_least_retained [OF wf True] h' by (simp add: store_get_def)
  next
    case False
    then have m: "?m = (?k, r) # ?h" by (intro bm_insert_least) auto
    have "bm_get ?h ?k = None" using False by (auto simp: bm_get_None_iff)
    then show ?thesis using False m h' wf(2)
      by (cases "length ?h < st_max_revisions s") (auto simp: store_get_def)
  qed
qed


definition nine_store :: store where
  "nine_store = with_retention (store_new sample_codec
     (sample_graph\<lparr>g_entities := [], g_revision := sample_revision\<lparr>rev_geometry := 9\<rparr>\<rparr>)) 1"

definition nine_change :: changeset where
  "nine_change = changeset_new ''u3'' ''s'' ''d'' ''g9.m0.f0.v0.e''
     [CreateObject ''C'' ''Part::Feature'' (JObj [])]"

definition ten_graph :: graph where
  "ten_graph = sample_graph\<lparr>g_revision := sample_revision\<lparr>rev_geometry := 10\<rparr>,
     g_entities := [(object_reference sample_graph ''C'',
       (created_entity (sample_graph\<lparr>g_revision := sample_revision\<lparr>rev_geometry := 9\<rparr>\<rparr>)
          ''C'' ''Part::Feature'' (JObj []) [])\<lparr>en_revision := ''g10.m0.f0.v0.e''\<rparr>)]\<rparr>"

lemma nine_applies: "apply_changeset sample_codec (st_current nine_store) nine_change = Ok ten_graph"
  by code_simp

theorem committed_record_retained_iff_witness:
  "\<exists>h r s'. store_commit sample_codec nine_store nine_change h = (Ok r, s')
     \<and> store_get s' (revision_id (rr_revision r)) \<noteq> Some r"
proof -
  have "verify_base nine_store nine_change = Ok ()"
    by code_simp
  then obtain p where "store_preview sample_codec nine_store nine_change = Ok p" "pv_graph p = ten_graph"
    using nine_applies store_preview_Ok_iff [of sample_codec nine_store nine_change]
    by (auto simp: diff_graphs_eq)
  then have "\<exists>h r s'. store_commit sample_codec nine_store nine_change h = (Ok r, s')
      \<and> rr_revision r = g_revision ten_graph"
    using store_commit_Ok by fastforce
  then obtain h r s' where c: "store_commit sample_codec nine_store nine_change h = (Ok r, s')"
    and r: "rr_revision r = sample_revision\<lparr>rev_geometry := 10\<rparr>"
    by (auto simp: ten_graph_def)
  have wf: "store_wf sample_codec nine_store"
    by code_simp
  have "\<not> (length (st_history nine_store) < st_max_revisions nine_store
      \<or> (\<exists>k \<in> set (bm_keys (st_history nine_store)). k \<le> revision_id (sample_revision\<lparr>rev_geometry := 10\<rparr>)))"
    by code_simp
  then show ?thesis using committed_record_retained_iff [OF wf c] r c by metis
qed

text \<open>An observation of the same epoch becomes the current graph with its entities as they are, under
  a revision different from the current one; when the observed graph carries the current revision, its
  geometry counter is advanced and the references inside the graph keep the old revision.  An observation
  of another epoch changes nothing.\<close>

theorem observe_effect:
  "(case store_observe C s g src of
      (Err e, s') \<Rightarrow> s' = s \<and> rev_epoch (g_revision g) \<noteq> rev_epoch (g_revision (st_current s))
    | (Ok d, s') \<Rightarrow> rev_epoch (g_revision g) = rev_epoch (g_revision (st_current s))
         \<and> g_entities (st_current s') = g_entities g
         \<and> revision_id (g_revision (st_current s')) \<noteq> revision_id (g_revision (st_current s))
         \<and> (g_revision g \<noteq> g_revision (st_current s) \<longrightarrow> st_current s' = g)
         \<and> st_undo s' = st_undo s @ [st_current s] \<and> st_redo s' = []
         \<and> diff_graphs (st_current s) (st_current s') src = Ok d)"
proof (rule store_observe_cases [of C s g src])
  fix d g'
  assume "rev_epoch (g_revision g) = rev_epoch (g_revision (st_current s))"
    and g': "g' = (if g_revision g = g_revision (st_current s)
                 then g\<lparr>g_revision := next_geometry (g_revision g)\<rparr> else g)"
    and "diff_graphs (st_current s) g' src = Ok d"
    and eq: "store_observe C s g src = (Ok d, retain (s\<lparr>st_undo := st_undo s @ [st_current s],
             st_redo := [], st_current := g'\<rparr>)
           (make_record C g' (Some (revision_id (g_revision (st_current s)))) src))"
  moreover have "next_geometry r \<noteq> r" for r
    by (cases r) (simp add: next_geometry_def)
  ultimately show ?thesis by (simp add: eq revision_id_eq_iff)
qed simp

theorem observe_effect_witness:
  "revision_id (g_revision (st_current (snd (store_observe sample_codec sample_store sample_graph ''scan''))))
      \<noteq> revision_id (g_revision sample_graph)
   \<and> g_entities (st_current (snd (store_observe sample_codec sample_store sample_graph ''scan''))) = g_entities sample_graph"
proof -
  show ?thesis
    using sample_store_current observe_effect [where C = sample_codec and s = sample_store and g = sample_graph and src = "''scan''"]
    by (cases "store_observe sample_codec sample_store sample_graph ''scan''";
        cases "fst (store_observe sample_codec sample_store sample_graph ''scan'')") auto
qed

text \<open>The preview of a change set without deletions removes nothing: every reference of the current
  graph has a successor at its logical path.\<close>

theorem preview_removes_nothing:
  assumes "store_preview C s cs = Ok p" and "movable (st_current s) cs"
    and "\<not> list_ex is_delete (cs_operations cs)" and "CHR ''@'' \<notin> set (rev_epoch (g_revision (st_current s)))"
  shows "df_removed (pv_diff p) = [] \<and> pv_rolled_back p \<and> pv_rollback_verified p"
proof -
  let ?g = "st_current s"
  from assms(1) obtain g' where g': "apply_changeset C ?g cs = Ok g'"
    and d: "diff_graphs ?g g' ''agent_preview'' = Ok (pv_diff p)"
    and v: "pv_rolled_back p" "pv_rollback_verified p"
    by (auto simp: store_preview_Ok_iff)
  let ?old = "revision_id (g_revision ?g)" and ?new = "revision_id (g_revision g')"
  obtain g1 where g1: "res_fold apply_operation ?g (cs_operations cs) = Ok g1"
    and moved: "\<And>k e. graph_entity g1 k = Some e \<Longrightarrow> \<exists>e'. graph_entity g' (replace_revision k ?old ?new) = Some e'"
    using g' assms(2) by (rule apply_changeset_entity) blast
  have at: "CHR ''@'' \<notin> set ?old" "CHR ''@'' \<notin> set ?new"
    using assms(4) apply_changeset_revision [OF g'] by (simp_all add: at_notin_revision_id)
  have "logical_path k \<in> logical_path ` set (bm_keys (g_entities g'))"
    if "k \<in> set (bm_keys (g_entities ?g))" for k
  proof -
    have "graph_entity ?g k \<noteq> None"
      using that bm_get_None_iff [of "g_entities ?g" k] by (simp add: graph_entity_def)
    then have "graph_entity g1 k \<noteq> None"
      using assms(3) apply_operation_keeps_entity
      by (intro res_fold_invariant [OF g1, where P = "\<lambda>s. graph_entity s k \<noteq> None"])
        (auto simp: list_ex_iff)
    then obtain e' where "graph_entity g' (replace_revision k ?old ?new) = Some e'" using moved by blast
    then have "replace_revision k ?old ?new \<in> set (bm_keys (g_entities g'))"
      using bm_get_None_iff [of "g_entities g'" "replace_revision k ?old ?new"]
      by (simp add: graph_entity_def)
    then show ?thesis using logical_path_replace_revision [OF at, of k] by (metis imageI)
  qed
  then have "gone ?g g' = []"
    by (auto simp: gone_def filter_empty_conv logical_paths_dom dest!: logical_paths_mem)
  moreover have "df_removed (pv_diff p) = gone ?g g'"
    using arg_cong [where f = "\<lambda>x. df_removed (projr x)", OF d] by (simp add: diff_graphs_eq)
  ultimately show ?thesis using v by simp
qed

theorem preview_removes_nothing_witness: "df_removed (pv_diff sample_preview) = []"
proof -
  have "\<not> list_ex is_delete (cs_operations sample_change)"
    and "CHR ''@'' \<notin> set (rev_epoch (g_revision sample_graph))"
    by code_simp+
  then show ?thesis using preview_removes_nothing [OF sample_previews, unfolded sample_store_current(1), OF sample_movable] by blast
qed

end
