(* ===== verification/Policy.thy ===== *)
theory Policy
  imports Samples
begin

text \<open>
  The crate \<^verbatim>\<open>policy\<close>: capability profiles, approval tokens bound to a reviewed change set,
  signed workspace rules, idempotency keys and the audit log.  Milliseconds are the \<^verbatim>\<open>u128\<close> words
  the code uses.  HMAC-SHA256 and the JSON text of tokens and rules are parameters; random nonces
  are arguments.
\<close>

section \<open>Types\<close>

datatype policy_error =
    CapabilityDenied string
  | ApprovalRequired
  | InvalidApproval string
  | ExpiredApproval
  | DuplicateIdempotency
  | WorkspaceError string
  | PolicySerialization string

datatype policy_profile = NeverWrite | ApproveEach | ApproveHighRisk | WorkspacePolicy | Developer

datatype capability =
    ReadDocumentStructure | ReadExactGeometry | ReadAnnotationsText | ReadFilePaths
  | WriteSelection | WriteView | WriteModelLowRisk | WriteModelHighRisk | ExportArtifacts
  | FilesystemOutsideArtifactRoot | NetworkAccess | ArbitraryCode | ReadAudit

text \<open>The position of a capability in its declaration gives the derived order.\<close>

fun capability_ord :: "capability \<Rightarrow> nat" where
  "capability_ord ReadDocumentStructure = 0"
| "capability_ord ReadExactGeometry = 1"
| "capability_ord ReadAnnotationsText = 2"
| "capability_ord ReadFilePaths = 3"
| "capability_ord WriteSelection = 4"
| "capability_ord WriteView = 5"
| "capability_ord WriteModelLowRisk = 6"
| "capability_ord WriteModelHighRisk = 7"
| "capability_ord ExportArtifacts = 8"
| "capability_ord FilesystemOutsideArtifactRoot = 9"
| "capability_ord NetworkAccess = 10"
| "capability_ord ArbitraryCode = 11"
| "capability_ord ReadAudit = 12"

lemma capability_ord_inject: "capability_ord a = capability_ord b \<Longrightarrow> a = b"
  by (cases a; cases b) simp_all

instantiation capability :: linorder
begin

definition less_eq_capability :: "capability \<Rightarrow> capability \<Rightarrow> bool" where
  "less_eq_capability a b \<longleftrightarrow> capability_ord a \<le> capability_ord b"

definition less_capability :: "capability \<Rightarrow> capability \<Rightarrow> bool" where
  "less_capability a b \<longleftrightarrow> capability_ord a < capability_ord b"

instance
  by standard (auto simp: less_eq_capability_def less_capability_def intro: capability_ord_inject)

end

text \<open>The \<^verbatim>\<open>Debug\<close> text of a capability.\<close>

fun capability_name :: "capability \<Rightarrow> string" where
  "capability_name ReadDocumentStructure = ''ReadDocumentStructure''"
| "capability_name ReadExactGeometry = ''ReadExactGeometry''"
| "capability_name ReadAnnotationsText = ''ReadAnnotationsText''"
| "capability_name ReadFilePaths = ''ReadFilePaths''"
| "capability_name WriteSelection = ''WriteSelection''"
| "capability_name WriteView = ''WriteView''"
| "capability_name WriteModelLowRisk = ''WriteModelLowRisk''"
| "capability_name WriteModelHighRisk = ''WriteModelHighRisk''"
| "capability_name ExportArtifacts = ''ExportArtifacts''"
| "capability_name FilesystemOutsideArtifactRoot = ''FilesystemOutsideArtifactRoot''"
| "capability_name NetworkAccess = ''NetworkAccess''"
| "capability_name ArbitraryCode = ''ArbitraryCode''"
| "capability_name ReadAudit = ''ReadAudit''"

record approval_token =
  at_version :: string
  at_client_id :: string
  at_session :: string
  at_document :: string
  at_base_revision :: string
  at_changeset_hash :: string
  at_preview_hash :: string
  at_risk :: risk_class
  at_expires_at_ms :: "128 word"
  at_nonce :: string
  at_mac :: string

record audit_event =
  ae_id :: string
  ae_timestamp_ms :: "128 word"
  ae_client_id :: string
  ae_policy :: policy_profile
  ae_session :: string
  ae_document :: string
  ae_base_revision :: string
  ae_resulting_revision :: "string option"
  ae_changeset_hash :: "string option"
  ae_preview_hash :: "string option"
  ae_operation_summary :: "string list"
  ae_decision :: string
  ae_status :: string
  ae_error_category :: "string option"

record workspace_rules =
  wr_schema_version :: string
  wr_workspace_id :: string
  wr_document_prefix :: string
  wr_allowed_operations :: "string list"
  wr_max_risk :: risk_class
  wr_signature :: string

record policy =
  pl_profile :: policy_profile
  pl_client_id :: string
  pl_secret :: string
  pl_used_idempotency :: "string list"
  pl_audit :: "audit_event list"
  pl_workspace :: "workspace_rules option"

text \<open>
  What the development takes from the crates \<^verbatim>\<open>hmac\<close>, \<^verbatim>\<open>hex\<close> and \<^verbatim>\<open>serde_json\<close>: the keyed digest
  (which accepts keys of any length) and the texts of tokens and rules; parsing a text that is not a
  token gives the message of the error.
\<close>

record crypto =
  hmac_hex :: "string \<Rightarrow> string \<Rightarrow> string"
  token_text :: "approval_token \<Rightarrow> string"
  token_parse :: "string \<Rightarrow> (approval_token, string) result"
  rules_text :: "workspace_rules \<Rightarrow> string"

section \<open>Construction\<close>

definition workspace_mac :: "crypto \<Rightarrow> workspace_rules \<Rightarrow> string \<Rightarrow> string" where
  "workspace_mac K rules secret = hmac_hex K secret (rules_text K (rules\<lparr>wr_signature := []\<rparr>))"

definition rules_signed :: "crypto \<Rightarrow> workspace_rules \<Rightarrow> string \<Rightarrow> workspace_rules" where
  "rules_signed K rules secret =
     (let cleared = rules\<lparr>wr_signature := []\<rparr>
      in cleared\<lparr>wr_signature := workspace_mac K cleared secret\<rparr>)"

definition policy_new :: "policy_profile \<Rightarrow> string \<Rightarrow> string \<Rightarrow> policy" where
  "policy_new profile client_id secret =
     \<lparr>pl_profile = profile, pl_client_id = client_id, pl_secret = secret,
      pl_used_idempotency = [], pl_audit = [], pl_workspace = None\<rparr>"

definition with_workspace_rules ::
  "crypto \<Rightarrow> policy \<Rightarrow> workspace_rules \<Rightarrow> (policy, policy_error) result" where
  "with_workspace_rules K p rules =
     (if wr_schema_version rules \<noteq> ''policy/1.0''
      then Err (WorkspaceError ''unsupported schema version'')
      else if wr_signature rules \<noteq> workspace_mac K rules (pl_secret p)
      then Err (WorkspaceError ''signature mismatch'')
      else Ok (p\<lparr>pl_workspace := Some rules\<rparr>))"

text \<open>\<^verbatim>\<open>read_only_default\<close>; the fresh UUID whose bytes are the secret is an argument.\<close>

definition read_only_default :: "string \<Rightarrow> policy" where
  "read_only_default uuid_bytes = policy_new NeverWrite ''stdio-client'' uuid_bytes"

section \<open>Authorization\<close>

definition capabilities :: "policy \<Rightarrow> capability list" where
  "capabilities p =
     (let base = set_add ReadExactGeometry (set_add ReadDocumentStructure []);
          writes = (\<lambda>s. set_add WriteModelHighRisk (set_add WriteModelLowRisk
                      (set_add WriteView (set_add WriteSelection s))))
      in case pl_profile p of
           NeverWrite \<Rightarrow> base
         | Developer \<Rightarrow> set_add ReadAudit (set_add ExportArtifacts (writes base))
         | _ \<Rightarrow> writes base)"

definition authorize_capability :: "policy \<Rightarrow> capability \<Rightarrow> (unit, policy_error) result" where
  "authorize_capability p c =
     ensure (c \<in> set (capabilities p)) (CapabilityDenied (capability_name c))"

definition risk :: "changeset \<Rightarrow> risk_class" where
  "risk cs = (case map risk_of_operation (cs_operations cs) of
                [] \<Rightarrow> Low | r # rs \<Rightarrow> foldl max r rs)"

definition approval_required :: "policy \<Rightarrow> risk_class \<Rightarrow> bool" where
  "approval_required p r =
     (case pl_profile p of
        NeverWrite \<Rightarrow> True
      | ApproveEach \<Rightarrow> True
      | ApproveHighRisk \<Rightarrow> r = Medium \<or> r = High
      | WorkspacePolicy \<Rightarrow> r = Medium \<or> r = High
      | Developer \<Rightarrow> False)"

definition capability_for :: "changeset \<Rightarrow> risk_class \<Rightarrow> capability" where
  "capability_for cs r =
     (if r = Ui
      then if list_ex (\<lambda>op. case op of SetSelection _ _ \<Rightarrow> True | _ \<Rightarrow> False) (cs_operations cs)
           then WriteSelection else WriteView
      else if r = High then WriteModelHighRisk
      else WriteModelLowRisk)"

fun operation_name :: "operation \<Rightarrow> string" where
  "operation_name (SetProperty _ _ _) = ''set_property''"
| "operation_name (SetExpression _ _ _) = ''set_expression''"
| "operation_name (SketchSetDatum _ _) = ''sketch_set_datum''"
| "operation_name (CreatePrimitive _ _ _) = ''create_primitive''"
| "operation_name (Boolean _ _ _ _) = ''boolean''"
| "operation_name (SetVisibility _ _) = ''set_visibility''"
| "operation_name (SetSelection _ _) = ''set_selection''"
| "operation_name (SetView _ _) = ''set_view''"
| "operation_name (CreateObject _ _ _) = ''create_object''"
| "operation_name (DeleteObject _ _) = ''delete_object''"
| "operation_name Undo = ''undo''"
| "operation_name Redo = ''redo''"

fun risk_rank :: "risk_class \<Rightarrow> nat" where
  "risk_rank Ui = 0"
| "risk_rank Low = 1"
| "risk_rank Medium = 2"
| "risk_rank High = 3"

definition authorize_workspace ::
  "policy \<Rightarrow> changeset \<Rightarrow> risk_class \<Rightarrow> (unit, policy_error) result" where
  "authorize_workspace p cs r =
     (if pl_profile p \<noteq> WorkspacePolicy then Ok ()
      else res_bind (ok_or (pl_workspace p)
             (WorkspaceError ''a signed workspace policy is required'')) (\<lambda>rules.
           res_bind (ensure (starts_with (wr_document_prefix rules) (cs_document cs))
             (WorkspaceError ''document is outside the signed workspace scope'')) (\<lambda>_.
           res_bind (ensure (risk_rank r \<le> risk_rank (wr_max_risk rules))
             (WorkspaceError ''ChangeSet risk exceeds workspace policy'')) (\<lambda>_.
           res_each (\<lambda>op.
             ensure (operation_name op \<in> set (wr_allowed_operations rules))
               (WorkspaceError (''operation is not allowed by workspace policy: ''
                  @ operation_name op))) (cs_operations cs)))))"

definition authorize_changeset :: "policy \<Rightarrow> changeset \<Rightarrow> (unit, policy_error) result" where
  "authorize_changeset p cs =
     (let r = risk cs in
      res_bind (authorize_workspace p cs r) (\<lambda>_.
      authorize_capability p (capability_for cs r)))"

section \<open>Approval tokens\<close>

definition saturating_add :: "128 word \<Rightarrow> 128 word \<Rightarrow> 128 word" where
  "saturating_add a b = (if a + b < a then - 1 else a + b)"

definition token_mac :: "crypto \<Rightarrow> policy \<Rightarrow> approval_token \<Rightarrow> string" where
  "token_mac K p token = hmac_hex K (pl_secret p) (token_text K (token\<lparr>at_mac := []\<rparr>))"

definition issue_approval ::
  "codec \<Rightarrow> crypto \<Rightarrow> string \<Rightarrow> policy \<Rightarrow> changeset \<Rightarrow> string \<Rightarrow> 128 word \<Rightarrow> 128 word
     \<Rightarrow> (string, policy_error) result" where
  "issue_approval C K uuid p cs preview_hash now_ms ttl_ms =
     (if pl_profile p = NeverWrite
      then Err (CapabilityDenied ''model writes are disabled by never_write'')
      else res_bind (authorize_changeset p cs) (\<lambda>_.
        let token = \<lparr>at_version = ''approval/1.0'', at_client_id = pl_client_id p,
              at_session = cs_session cs, at_document = cs_document cs,
              at_base_revision = cs_base_revision cs, at_changeset_hash = changeset_hash C cs,
              at_preview_hash = preview_hash, at_risk = risk cs,
              at_expires_at_ms = saturating_add now_ms ttl_ms, at_nonce = uuid, at_mac = []\<rparr>
        in Ok (token_text K (token\<lparr>at_mac := token_mac K p token\<rparr>))))"

definition verify_approval ::
  "codec \<Rightarrow> crypto \<Rightarrow> policy \<Rightarrow> string \<Rightarrow> changeset \<Rightarrow> string \<Rightarrow> 128 word
     \<Rightarrow> (unit, policy_error) result" where
  "verify_approval C K p raw cs preview_hash now_ms =
     res_bind (map_err InvalidApproval (token_parse K raw)) (\<lambda>token.
     res_bind (ensure (\<not> at_expires_at_ms token < now_ms) ExpiredApproval) (\<lambda>_.
     res_bind (ensure (at_client_id token = pl_client_id p \<and> at_session token = cs_session cs
                   \<and> at_document token = cs_document cs
                   \<and> at_base_revision token = cs_base_revision cs
                   \<and> at_preview_hash token = preview_hash)
       (InvalidApproval ''binding does not match the reviewed ChangeSet'')) (\<lambda>_.
     res_bind (ensure (at_changeset_hash token = changeset_hash C cs)
       (InvalidApproval ''ChangeSet hash differs'')) (\<lambda>_.
     ensure (at_mac token = token_mac K p (token\<lparr>at_mac := []\<rparr>))
       (InvalidApproval ''MAC mismatch'')))))"

definition authorize_commit ::
  "codec \<Rightarrow> crypto \<Rightarrow> policy \<Rightarrow> changeset \<Rightarrow> string \<Rightarrow> 128 word
     \<Rightarrow> (unit, policy_error) result \<times> policy" where
  "authorize_commit C K p cs preview_hash now_ms =
     (let r = risk cs;
          required = (if r = Ui then False else approval_required p r)
      in case res_bind (authorize_changeset p cs) (\<lambda>_.
               if required
               then res_bind (ok_or (cs_approval_token cs) ApprovalRequired) (\<lambda>raw.
                    verify_approval C K p raw cs preview_hash now_ms)
               else Ok ()) of
           Err e \<Rightarrow> (Err e, p)
         | Ok _ \<Rightarrow>
             (case set_insert (cs_idempotency_key cs) (pl_used_idempotency p) of
                (is_new, used) \<Rightarrow>
                  (if is_new then Ok () else Err DuplicateIdempotency,
                   p\<lparr>pl_used_idempotency := used\<rparr>)))"

definition policy_record :: "policy \<Rightarrow> audit_event \<Rightarrow> policy" where
  "policy_record p event = p\<lparr>pl_audit := pl_audit p @ [event]\<rparr>"

section \<open>Laws\<close>

lemma set_capabilities: "set (capabilities p) = {ReadDocumentStructure, ReadExactGeometry}
    \<union> (if pl_profile p = NeverWrite then {}
       else {WriteSelection, WriteView, WriteModelLowRisk, WriteModelHighRisk})
    \<union> (if pl_profile p = Developer then {ExportArtifacts, ReadAudit} else {})"
  by (auto simp: capabilities_def Let_def split: policy_profile.splits)

lemma capability_for_writes: "capability_for cs r \<in> {WriteSelection, WriteView, WriteModelLowRisk, WriteModelHighRisk}"
  by (simp add: capability_for_def)

lemma authorize_capability_for_iff:
  "authorize_capability p (capability_for cs r) = Ok () \<longleftrightarrow> pl_profile p \<noteq> NeverWrite"
  using capability_for_writes [of cs r] by (auto simp: authorize_capability_def set_capabilities)

lemma foldl_max: "foldl max r rs = Max (set (r # rs))" for r :: "'a::linorder"
proof (induction rs arbitrary: r)
  case (Cons a rs)
  then show ?case
    by (cases "set rs = {}") (simp_all add: max.commute max.left_commute)
qed simp

text \<open>The risk of a change set is the greatest risk of its operations.\<close>

lemma risk_Max: "cs_operations cs \<noteq> [] \<Longrightarrow> risk cs = Max (set (map risk_of_operation (cs_operations cs)))"
  by (cases "cs_operations cs") (simp_all add: risk_def foldl_max)

lemma risk_upper: "op \<in> set (cs_operations cs) \<Longrightarrow> risk_of_operation op \<le> risk cs"
  by (subst risk_Max) auto

lemma risk_rank_le: "risk_rank a \<le> risk_rank b \<longleftrightarrow> a \<le> b"
proof -
  have "risk_rank r = risk_ord r" for r by (cases r) simp_all
  then show ?thesis by (simp add: less_eq_risk_class_def)
qed

lemma authorize_workspace_Ok_iff:
  "authorize_workspace p cs r = Ok () \<longleftrightarrow> pl_profile p \<noteq> WorkspacePolicy \<or>
     (\<exists>rules. pl_workspace p = Some rules \<and> starts_with (wr_document_prefix rules) (cs_document cs)
        \<and> r \<le> wr_max_risk rules
        \<and> (\<forall>op \<in> set (cs_operations cs). operation_name op \<in> set (wr_allowed_operations rules)))"
  by (auto simp: authorize_workspace_def risk_rank_le)

lemma authorize_changeset_Ok_iff:
  "authorize_changeset p cs = Ok () \<longleftrightarrow>
     pl_profile p \<noteq> NeverWrite \<and> authorize_workspace p cs (risk cs) = Ok ()"
  by (auto simp: authorize_changeset_def Let_def authorize_capability_for_iff)

lemma risk_token [simp]: "risk (cs\<lparr>cs_approval_token := t\<rparr>) = risk cs"
  by (simp add: risk_def)

lemma authorize_changeset_token:
  "authorize_changeset p (cs\<lparr>cs_approval_token := t\<rparr>) = authorize_changeset p cs"
proof -
  have "authorize_workspace p (cs\<lparr>cs_approval_token := t\<rparr>) r = authorize_workspace p cs r"
    and "capability_for (cs\<lparr>cs_approval_token := t\<rparr>) r = capability_for cs r" for r
    by (simp_all add: authorize_workspace_def capability_for_def)
  then show ?thesis by (simp only: authorize_changeset_def risk_token)
qed

lemma verify_approval_Ok_iff:
  "verify_approval C K p raw cs h now = Ok () \<longleftrightarrow> (\<exists>token. token_parse K raw = Ok token
     \<and> now \<le> at_expires_at_ms token \<and> at_client_id token = pl_client_id p
     \<and> at_session token = cs_session cs \<and> at_document token = cs_document cs
     \<and> at_base_revision token = cs_base_revision cs \<and> at_preview_hash token = h
     \<and> at_changeset_hash token = changeset_hash C cs
     \<and> at_mac token = token_mac K p token)"
  by (auto simp: verify_approval_def not_less token_mac_def)

definition approval_needed :: "policy \<Rightarrow> changeset \<Rightarrow> bool" where
  "approval_needed p cs \<longleftrightarrow> risk cs \<noteq> Ui \<and> approval_required p (risk cs)"

lemma authorize_commit_Ok_iff:
  "authorize_commit C K p cs h now = (Ok u, p') \<longleftrightarrow> authorize_changeset p cs = Ok ()
     \<and> (approval_needed p cs \<longrightarrow> (\<exists>raw. cs_approval_token cs = Some raw
           \<and> verify_approval C K p raw cs h now = Ok ()))
     \<and> cs_idempotency_key cs \<notin> set (pl_used_idempotency p)
     \<and> p' = p\<lparr>pl_used_idempotency := set_add (cs_idempotency_key cs) (pl_used_idempotency p)\<rparr>"
  by (auto simp: authorize_commit_def Let_def approval_needed_def set_insert_def ok_or.simps
      split: sum.splits option.splits if_splits)

end
