(* ===== verification/Approvals.thy ===== *)
theory Approvals
  imports Policy
begin

text \<open>
  Properties of the policy: who may commit, what an approval token is bound to, and that every
  idempotency key commits at most once over any sequence of calls.
\<close>

section \<open>A concrete token format\<close>

text \<open>
  Used only to evaluate the theorems: every field is written with a mark before each character and
  a closing semicolon, so that it can be read back.
\<close>

definition put_field :: "string \<Rightarrow> string" where
  "put_field s = concat (map (\<lambda>c. [CHR ''x'', c]) s) @ '';''"

fun take_field :: "string \<Rightarrow> string \<times> string" where
  "take_field (a # c # r) =
     (if a = CHR ''x'' then (case take_field r of (f, rest) \<Rightarrow> (c # f, rest)) else ([], c # r))"
| "take_field _ = ([], [])"

fun take_fields :: "nat \<Rightarrow> string \<Rightarrow> string list" where
  "take_fields 0 s = []"
| "take_fields (Suc n) s = (case take_field s of (f, rest) \<Rightarrow> f # take_fields n rest)"

lemma take_field_put: "take_field (put_field s @ r) = (s, r)"
  by (induction s) (simp_all add: put_field_def, cases r, simp_all)

lemma take_fields_put: "take_fields (length ss) (concat (map put_field ss)) = ss"
  by (induction ss) (simp_all add: take_field_put)

definition risk_name :: "risk_class \<Rightarrow> string" where
  "risk_name r = (case r of Ui \<Rightarrow> ''u'' | Low \<Rightarrow> ''l'' | Medium \<Rightarrow> ''m'' | High \<Rightarrow> ''h'')"

definition risk_of_name :: "string \<Rightarrow> risk_class" where
  "risk_of_name s = (if s = ''u'' then Ui else if s = ''l'' then Low else if s = ''m'' then Medium else High)"

definition sample_token_text :: "approval_token \<Rightarrow> string" where
  "sample_token_text t = concat (map put_field [at_version t, at_client_id t, at_session t,
     at_document t, at_base_revision t, at_changeset_hash t, at_preview_hash t, risk_name (at_risk t),
     show_nat (unat (at_expires_at_ms t)), at_nonce t, at_mac t])"

definition sample_token_parse :: "string \<Rightarrow> (approval_token, string) result" where
  "sample_token_parse s =
     (case take_fields 11 s of
        [v, cl, se, d, b, ch, ph, r, ex, n, m] \<Rightarrow>
          Ok \<lparr>at_version = v, at_client_id = cl, at_session = se, at_document = d,
              at_base_revision = b, at_changeset_hash = ch, at_preview_hash = ph,
              at_risk = risk_of_name r, at_expires_at_ms = of_nat (dec_value ex),
              at_nonce = n, at_mac = m\<rparr>
      | _ \<Rightarrow> Err ''missing field'')"

definition sample_crypto :: crypto where
  "sample_crypto = \<lparr>hmac_hex = (\<lambda>k s. k @ show_nat (length s)), token_text = sample_token_text,
     token_parse = sample_token_parse, rules_text = wr_document_prefix\<rparr>"

lemma sample_token_round_trip: "token_parse sample_crypto (token_text sample_crypto t) = Ok t"
proof -
  let ?fs = "[at_version t, at_client_id t, at_session t,
     at_document t, at_base_revision t, at_changeset_hash t, at_preview_hash t, risk_name (at_risk t),
     show_nat (unat (at_expires_at_ms t)), at_nonce t, at_mac t]"
  have "take_fields 11 (sample_token_text t) = ?fs"
  proof -
    have "take_fields (length ?fs) (sample_token_text t) = ?fs"
      unfolding sample_token_text_def by (rule take_fields_put)
    moreover have "length ?fs = 11" by simp
    ultimately show ?thesis by (simp only:)
  qed
  then show ?thesis
    by (cases t) (auto simp: sample_crypto_def sample_token_parse_def risk_of_name_def risk_name_def
        split: risk_class.splits)
qed

section \<open>The invariant of a run\<close>

text \<open>
  A run of commits that are accepted or rejected and of audit records, with the keys of the commits
  accepted so far.
\<close>

inductive policy_run :: "codec \<Rightarrow> crypto \<Rightarrow> policy \<Rightarrow> string list \<Rightarrow> policy \<Rightarrow> bool" for C K p where
  start: "policy_run C K p [] p"
| accept: "policy_run C K p ks q \<Longrightarrow> authorize_commit C K q cs h now = (Ok (), q')
     \<Longrightarrow> policy_run C K p (ks @ [cs_idempotency_key cs]) q'"
| reject: "policy_run C K p ks q \<Longrightarrow> authorize_commit C K q cs h now = (Err e, q')
     \<Longrightarrow> policy_run C K p ks q'"
| audited: "policy_run C K p ks q \<Longrightarrow> policy_run C K p ks (policy_record q event)"

lemma authorize_commit_Err:
  assumes "authorize_commit C K p cs h now = (Err e, p')" and "sorted_wrt (<) (pl_used_idempotency p)"
  shows "p' = p"
proof -
  have "set_add k s = s" if "sorted_wrt (<) s" "k \<in> set s" for k :: string and s
    using that by (induction s) auto
  then show ?thesis using assms
    by (auto simp: authorize_commit_def Let_def set_insert_def split: sum.splits if_splits)
qed

lemma sorted_used: "policy_run C K p ks q \<Longrightarrow> sorted_wrt (<) (pl_used_idempotency p)
    \<Longrightarrow> sorted_wrt (<) (pl_used_idempotency q)"
proof (induction rule: policy_run.induct)
  case (accept ks q cs h now q')
  then show ?case by (auto simp: authorize_commit_Ok_iff sorted_set_add)
next
  case (reject ks q cs h now e q')
  then show ?case using authorize_commit_Err by blast
qed (simp_all add: policy_record_def)

section \<open>Properties\<close>

text \<open>Under the profile that never writes, no approval can be issued and no change set is authorized or
  committed, whatever its operations and token; the policy stays as it is.\<close>

theorem never_write_denies_everything:
  assumes "pl_profile p = NeverWrite"
  shows "(\<exists>e. issue_approval C K uuid p cs h now ttl = Err e)
     \<and> (\<exists>e. authorize_changeset p cs = Err e)
     \<and> (\<exists>e. authorize_commit C K p cs h now = (Err e, p))"
proof -
  have "authorize_changeset p cs \<noteq> Ok ()" using assms by (simp add: authorize_changeset_Ok_iff)
  then obtain e where "authorize_changeset p cs = Err e" by (cases "authorize_changeset p cs") auto
  then show ?thesis using assms by (simp add: issue_approval_def authorize_commit_def Let_def)
qed

theorem never_write_denies_everything_witness:
  "\<exists>e. authorize_commit sample_codec sample_crypto (read_only_default ''k'') sample_change ''h'' 0
      = (Err e, read_only_default ''k'')"
  using never_write_denies_everything [of "read_only_default ''k''"]
  by (simp add: read_only_default_def policy_new_def)

text \<open>C2: A commit the policy accepts satisfies every gate: the profile may write; under a workspace
  policy the signed rules cover the document, every operation and its risk; where approval is needed, the
  token it carries parses, has not expired, was made for this client, session, document, base revision,
  preview and change set, and carries the right authentication code; and its key was never used.\<close>

theorem accepted_commit_passed_every_gate:
  assumes "authorize_commit C K p cs h now = (Ok (), p')"
  shows "pl_profile p \<noteq> NeverWrite
     \<and> (pl_profile p = WorkspacePolicy \<longrightarrow> (\<exists>rules. pl_workspace p = Some rules
          \<and> starts_with (wr_document_prefix rules) (cs_document cs)
          \<and> (\<forall>op \<in> set (cs_operations cs). operation_name op \<in> set (wr_allowed_operations rules)
               \<and> risk_of_operation op \<le> wr_max_risk rules)))
     \<and> (approval_needed p cs \<longrightarrow> (\<exists>raw token. cs_approval_token cs = Some raw
          \<and> token_parse K raw = Ok token \<and> now \<le> at_expires_at_ms token
          \<and> at_client_id token = pl_client_id p \<and> at_session token = cs_session cs
          \<and> at_document token = cs_document cs \<and> at_base_revision token = cs_base_revision cs
          \<and> at_preview_hash token = h \<and> at_changeset_hash token = changeset_hash C cs
          \<and> at_mac token = token_mac K p token))
     \<and> cs_idempotency_key cs \<notin> set (pl_used_idempotency p)
     \<and> set (pl_used_idempotency p') = insert (cs_idempotency_key cs) (set (pl_used_idempotency p))"
proof -
  from assms have a: "authorize_changeset p cs = Ok ()"
    and t: "approval_needed p cs \<longrightarrow> (\<exists>raw. cs_approval_token cs = Some raw
           \<and> verify_approval C K p raw cs h now = Ok ())"
    and k: "cs_idempotency_key cs \<notin> set (pl_used_idempotency p)"
    and p': "p' = p\<lparr>pl_used_idempotency := set_add (cs_idempotency_key cs) (pl_used_idempotency p)\<rparr>"
    by (simp_all add: authorize_commit_Ok_iff)
  have "\<exists>rules. pl_workspace p = Some rules
          \<and> starts_with (wr_document_prefix rules) (cs_document cs)
          \<and> (\<forall>op \<in> set (cs_operations cs). operation_name op \<in> set (wr_allowed_operations rules)
               \<and> risk_of_operation op \<le> wr_max_risk rules)" if "pl_profile p = WorkspacePolicy"
    using a that risk_upper order_trans
    by (fastforce simp: authorize_changeset_Ok_iff authorize_workspace_Ok_iff)
  moreover have "approval_needed p cs \<longrightarrow> (\<exists>raw token. cs_approval_token cs = Some raw
          \<and> token_parse K raw = Ok token \<and> now \<le> at_expires_at_ms token
          \<and> at_client_id token = pl_client_id p \<and> at_session token = cs_session cs
          \<and> at_document token = cs_document cs \<and> at_base_revision token = cs_base_revision cs
          \<and> at_preview_hash token = h \<and> at_changeset_hash token = changeset_hash C cs
          \<and> at_mac token = token_mac K p token)"
    using t by (simp add: verify_approval_Ok_iff)
  ultimately show ?thesis using a k p' by (simp add: authorize_changeset_Ok_iff)
qed

definition sample_policy :: policy where
  "sample_policy = policy_new ApproveEach ''client'' ''secret''"

definition sample_approved :: changeset where
  "sample_approved = sample_change\<lparr>cs_approval_token := Some
     (case issue_approval sample_codec sample_crypto ''n'' sample_policy sample_change ''preview'' 100 1000 of
        Ok raw \<Rightarrow> raw | Err e \<Rightarrow> [])\<rparr>"

definition sample_policy_after :: policy where
  "sample_policy_after = sample_policy\<lparr>pl_used_idempotency := [''u1'']\<rparr>"

lemma sample_authorized:
  "authorize_commit sample_codec sample_crypto sample_policy sample_approved ''preview'' 200
     = (Ok (), sample_policy_after)"
  by code_simp

theorem accepted_commit_passed_every_gate_witness:
  "\<exists>raw token. cs_approval_token sample_approved = Some raw \<and> token_parse sample_crypto raw = Ok token
     \<and> at_preview_hash token = ''preview'' \<and> 200 \<le> at_expires_at_ms token"
proof -
  have "approval_needed sample_policy sample_approved" by code_simp
  then show ?thesis using accepted_commit_passed_every_gate [OF sample_authorized] by blast
qed

text \<open>A token issued for a change set and preview lets exactly that change set be committed with
  that preview until the token expires, if its key is new: for a serializer whose tokens parse back.\<close>

theorem issued_approval_authorizes_commit:
  assumes "\<And>t. token_parse K (token_text K t) = Ok t"
    and "issue_approval C K uuid p cs h now ttl = Ok raw"
    and "later \<le> saturating_add now ttl" and "cs_idempotency_key cs \<notin> set (pl_used_idempotency p)"
  shows "fst (authorize_commit C K p (cs\<lparr>cs_approval_token := Some raw\<rparr>) h later) = Ok ()"
proof -
  let ?cs = "cs\<lparr>cs_approval_token := Some raw\<rparr>"
  from assms(2) have a: "authorize_changeset p cs = Ok ()"
    and raw: "\<exists>t. raw = token_text K t \<and> later \<le> at_expires_at_ms t \<and> at_client_id t = pl_client_id p
       \<and> at_session t = cs_session cs \<and> at_document t = cs_document cs
       \<and> at_base_revision t = cs_base_revision cs \<and> at_preview_hash t = h
       \<and> at_changeset_hash t = changeset_hash C cs \<and> at_mac t = token_mac K p t"
    using assms(3) by (auto simp: issue_approval_def Let_def token_mac_def split: if_splits)
  have "verify_approval C K p raw ?cs h later = Ok ()"
    using raw assms(1) by (auto simp: verify_approval_Ok_iff changeset_hash_ignores_token)
  moreover have "authorize_changeset p ?cs = Ok ()"
    using a by (simp add: authorize_changeset_token)
  ultimately have "authorize_commit C K p ?cs h later
      = (Ok (), p\<lparr>pl_used_idempotency := set_add (cs_idempotency_key cs) (pl_used_idempotency p)\<rparr>)"
    using assms(4) by (simp add: authorize_commit_Ok_iff)
  then show ?thesis by simp
qed

theorem issued_approval_authorizes_commit_witness:
  "fst (authorize_commit sample_codec sample_crypto sample_policy
     (sample_change\<lparr>cs_approval_token := Some (projr (issue_approval sample_codec sample_crypto ''n''
        sample_policy sample_change ''preview'' 100 1000))\<rparr>) ''preview'' 1100) = Ok ()"
proof -
  have "is_ok (issue_approval sample_codec sample_crypto ''n'' sample_policy sample_change ''preview'' 100 1000)"
    by code_simp
  then have i: "issue_approval sample_codec sample_crypto ''n'' sample_policy sample_change ''preview'' 100 1000
      = Ok (projr (issue_approval sample_codec sample_crypto ''n'' sample_policy sample_change ''preview'' 100 1000))"
    by (auto simp: is_ok_iff)
  have "1100 \<le> saturating_add 100 1000"
    and "cs_idempotency_key sample_change \<notin> set (pl_used_idempotency sample_policy)"
    by code_simp+
  then show ?thesis by (rule issued_approval_authorizes_commit [OF sample_token_round_trip i])
qed

text \<open>C4: Over any run of commits and audit records, every idempotency key is accepted at most once, keys
  used before are never accepted again, and the used keys grow by exactly the accepted ones: rejected
  commits consume none.\<close>

theorem keys_commit_at_most_once:
  assumes "policy_run C K p ks q" and "sorted_wrt (<) (pl_used_idempotency p)"
  shows "distinct ks \<and> set ks \<inter> set (pl_used_idempotency p) = {}
     \<and> set (pl_used_idempotency q) = set (pl_used_idempotency p) \<union> set ks"
  using assms
proof (induction rule: policy_run.induct)
  case (accept ks q cs h now q')
  then show ?case by (auto simp: authorize_commit_Ok_iff)
next
  case (reject ks q cs h now e q')
  then show ?case using authorize_commit_Err [OF reject(2)] sorted_used [OF reject(1)] by simp
qed (simp_all add: policy_record_def)

theorem keys_commit_at_most_once_witness:
  "set (pl_used_idempotency sample_policy_after) = {''u1''}"
proof -
  have "policy_run sample_codec sample_crypto sample_policy ([] @ [cs_idempotency_key sample_approved]) sample_policy_after"
    by (rule policy_run.accept [OF policy_run.start sample_authorized])
  moreover have "sorted_wrt (<) (pl_used_idempotency sample_policy)" by code_simp
  ultimately have "set (pl_used_idempotency sample_policy_after)
      = set (pl_used_idempotency sample_policy) \<union> set ([] @ [cs_idempotency_key sample_approved])"
    using keys_commit_at_most_once by blast
  then show ?thesis
    by (simp add: sample_policy_def policy_new_def sample_approved_def sample_change_def changeset_new_def)
qed

text \<open>Workspace rules are accepted exactly when they have the supported version and the signature made
  with the secret of the policy; rules signed with that secret always verify.\<close>

theorem signed_workspace_rules_verify:
  "with_workspace_rules K p (rules_signed K rules (pl_secret p)) =
     (if wr_schema_version rules = ''policy/1.0''
      then Ok (p\<lparr>pl_workspace := Some (rules_signed K rules (pl_secret p))\<rparr>)
      else Err (WorkspaceError ''unsupported schema version''))
   \<and> (is_ok (with_workspace_rules K p rules) \<longleftrightarrow> wr_schema_version rules = ''policy/1.0''
        \<and> wr_signature rules = hmac_hex K (pl_secret p) (rules_text K (rules\<lparr>wr_signature := []\<rparr>)))"
  by (simp add: with_workspace_rules_def rules_signed_def workspace_mac_def Let_def)

end
