(* ===== verification/QueryEngine.thy ===== *)
theory QueryEngine
  imports Samples "HOL-Library.Product_Lexorder" "HOL-Library.Option_ord"
begin

text \<open>
  The crate \<^verbatim>\<open>query-engine\<close>: bounded queries over a graph with traversal, predicates, order,
  pages and continuation tokens, and the explanation of dependencies.

  Slicing past the end is the error \<open>QueryPanic\<close>.  The text of a request (for its hash), of a chain
  of hops (for the set of visited chains) and of a document (for comparing values of different
  kinds) are serializers, taken as parameters.  \<^verbatim>\<open>sort_by\<close> is a stable insertion sort; sums of
  costs stay far below the range of \<^verbatim>\<open>u64\<close> for lists that fit in memory, the product saturates.
\<close>

section \<open>Types\<close>

datatype query_error =
    RevisionMismatch string string
  | CostExceeded nat nat
  | InvalidContinuation
  | DepthExceeded nat
  | QueryPanic string

datatype query_scope = Document | Selection | Refs "entity_ref list"

record traversal_step =
  ts_relation :: string
  ts_max_depth :: nat

datatype sort_direction = Asc | Desc

record order_by =
  ob_field :: string
  ob_direction :: sort_direction

record query_request =
  qr_revision :: string
  qr_from :: query_scope
  qr_kind :: "string list"
  qr_predicate :: json
  qr_traverse :: "traversal_step list"
  qr_select :: "string list"
  qr_order_by :: "order_by list"
  qr_limit :: nat
  qr_continuation :: "string option"
  qr_cost_budget :: "nat option"
  qr_tolerance :: "quantity option"

record query_match =
  qm_ref :: entity_ref
  qm_projection :: json
  qm_evidence_path :: "string list"

record query_cost =
  qc_estimated :: nat
  qc_executed :: nat
  qc_indexed :: bool
  qc_exact_callbacks :: nat

record query_result =
  qs_query_hash :: string
  qs_observed_revision :: string
  qs_complete :: bool
  qs_matches :: "query_match list"
  qs_omitted_counts :: "(string, nat) bmap"
  qs_continuation :: "string option"
  qs_tolerances :: "(string, json) bmap"
  qs_cost :: query_cost

record dependency_hop =
  dh_from :: entity_ref
  dh_relation :: string
  dh_to :: entity_ref

record dependency_explanation =
  de_reference :: entity_ref
  de_paths :: "dependency_hop list list"
  de_controlling_properties :: "json list"
  de_cycles :: "entity_ref list list"
  de_health :: "diagnostic list"

text \<open>The serializers the crate uses, beside those of \<^typ>\<open>codec\<close>.\<close>

record query_codec =
  qk_codec :: codec
  text_of_request :: "query_request \<Rightarrow> string"
  text_of_hops :: "dependency_hop list \<Rightarrow> string"

section \<open>Fields and predicates\<close>

definition field_value :: "entity \<Rightarrow> string \<Rightarrow> json option" where
  "field_value e field =
     (if field = ''ref'' then Some (JStr (en_ref e))
      else if field = ''kind'' then Some (JStr (en_kind e))
      else if field = ''name'' then map_option JStr (en_name e)
      else if field = ''label'' then map_option JStr (en_label e)
      else if field = ''identity.state'' then Some (JStr (identity_state_name (id_state (en_identity e))))
      else if field = ''bounds.volume'' then map_option (\<lambda>b. json_of_f64 (bounds_volume b)) (en_bounds e)
      else jpath (split_on CHR ''.'' field) (en_properties e))"

definition compare_f64 :: "(f64 \<Rightarrow> f64 \<Rightarrow> bool) \<Rightarrow> json option \<Rightarrow> json \<Rightarrow> bool" where
  "compare_f64 R actual wanted =
     (case (Option.bind actual as_f64, as_f64 wanted) of (Some a, Some b) \<Rightarrow> R a b | _ \<Rightarrow> False)"

definition relation_condition :: "graph \<Rightarrow> entity \<Rightarrow> string \<times> json \<Rightarrow> bool" where
  "relation_condition g e = (\<lambda>(relation, v).
     list_ex (\<lambda>l. lk_relation l = relation \<and>
       ((case as_bool v of None \<Rightarrow> True | Some b \<Rightarrow> b) \<or>
        (case graph_entity g (lk_target l) of None \<Rightarrow> False
         | Some t \<Rightarrow> en_kind t = (case as_str v of None \<Rightarrow> [] | Some s \<Rightarrow> s)))) (en_links e))"

definition field_condition :: "json option \<Rightarrow> string \<times> json \<Rightarrow> bool" where
  "field_condition actual = (\<lambda>(op_name, wanted).
     if op_name = ''eq'' then actual = Some wanted
     else if op_name = ''ne'' then actual \<noteq> Some wanted
     else if op_name = ''between_mm'' then
       (case (Option.bind actual as_f64, as_array wanted) of
          (Some v, Some [lo, hi]) \<Rightarrow>
            (case as_f64 lo of None \<Rightarrow> False | Some l \<Rightarrow> f64_le l v)
            \<and> (case as_f64 hi of None \<Rightarrow> False | Some h \<Rightarrow> f64_le v h)
        | _ \<Rightarrow> False)
     else if op_name = ''gte'' then compare_f64 (\<lambda>a b. f64_le b a) actual wanted
     else if op_name = ''lte'' then compare_f64 f64_le actual wanted
     else if op_name = ''contains'' then
       (case (Option.bind actual as_str, as_str wanted) of
          (Some t, Some part) \<Rightarrow> str_contains part t
        | _ \<Rightarrow> False)
     else if op_name = ''present'' then
       (actual \<noteq> None) = (case as_bool wanted of None \<Rightarrow> False | Some b \<Rightarrow> b)
     else False)"

definition predicate_field :: "graph \<Rightarrow> entity \<Rightarrow> string \<times> json \<Rightarrow> bool" where
  "predicate_field g e = (\<lambda>(field, expected).
     if field = ''topology'' \<or> field = ''relation'' then
       (case as_object expected of None \<Rightarrow> False
        | Some conditions \<Rightarrow> list_all (relation_condition g e) conditions)
     else
       (case as_object expected of
          None \<Rightarrow> field_value e field = Some expected
        | Some conditions \<Rightarrow> list_all (field_condition (field_value e field)) conditions))"

lemma size_map_of: "map_of kvs k = Some v \<Longrightarrow> size v < size (JObj kvs)"
  by (induction kvs) (auto split: if_splits)

lemma size_array_member: "as_array v = Some xs \<Longrightarrow> x \<in> set xs \<Longrightarrow> size x < size v"
proof -
  assume "as_array v = Some xs" and x: "x \<in> set xs"
  then have "v = JArr xs" by (cases v) auto
  then show ?thesis using x size_list_estimation' [of x xs "size x" size] by (simp add: less_Suc_eq_le)
qed

lemma size_child: "as_object p = Some obj \<Longrightarrow> map_of obj k = Some x \<Longrightarrow> size x < size p"
  using size_map_of [of obj k x] by (cases p) auto

lemma size_children:
  "as_object p = Some obj \<Longrightarrow> Option.bind (map_of obj k) as_array = Some cs \<Longrightarrow> x \<in> set cs
     \<Longrightarrow> size x < size p"
  using size_child size_array_member by (fastforce simp: bind_eq_Some_conv intro: less_trans)

function matches_predicate :: "graph \<Rightarrow> entity \<Rightarrow> json \<Rightarrow> bool" where
  "matches_predicate g e predicate =
     (case as_object predicate of
        None \<Rightarrow> True
      | Some obj \<Rightarrow>
          (case Option.bind (bm_get obj ''all'') as_array of
             Some cs \<Rightarrow> list_all (matches_predicate g e) cs
           | None \<Rightarrow>
          (case Option.bind (bm_get obj ''any'') as_array of
             Some cs \<Rightarrow> list_ex (matches_predicate g e) cs
           | None \<Rightarrow>
          (case bm_get obj ''not'' of
             Some child \<Rightarrow> \<not> matches_predicate g e child
           | None \<Rightarrow> list_all (predicate_field g e) obj))))"
  by pat_completeness auto
termination
  by (relation "measure (\<lambda>(_, _, p). size p)") (auto intro: size_children size_child)

declare matches_predicate.simps [simp del]

section \<open>Traversal\<close>

text \<open>One reference of the frontier: its links of the relation whose targets are new follow.\<close>

definition follow_links ::
  "graph \<Rightarrow> string \<Rightarrow> entity_ref list \<times> entity_ref list \<Rightarrow> entity_ref \<Rightarrow> entity_ref list \<times> entity_ref list" where
  "follow_links g relation acc reference =
     (case graph_entity g reference of
        None \<Rightarrow> acc
      | Some e \<Rightarrow>
          foldl (\<lambda>(seen, following) l.
            if lk_relation l = relation
            then (case set_insert (lk_target l) seen of
                    (is_new, seen') \<Rightarrow>
                      (seen', if is_new then following @ [lk_target l] else following))
            else (seen, following)) acc (en_links e))"

definition follow_frontier ::
  "graph \<Rightarrow> string \<Rightarrow> entity_ref list \<Rightarrow> entity_ref list \<Rightarrow> entity_ref list \<times> entity_ref list" where
  "follow_frontier g relation seen frontier = foldl (follow_links g relation) (seen, []) frontier"

text \<open>The loop over the depth; the references that followed in each round are collected in order.\<close>

fun expand ::
  "graph \<Rightarrow> string \<Rightarrow> nat \<Rightarrow> entity_ref list \<Rightarrow> entity_ref list \<Rightarrow> entity_ref list" where
  "expand g relation 0 seen frontier = []"
| "expand g relation (Suc d) seen frontier =
     (case follow_frontier g relation seen frontier of
        (seen', following) \<Rightarrow>
          following @ (if following = [] then [] else expand g relation d seen' following))"

definition traverse_step :: "graph \<Rightarrow> entity_ref list \<Rightarrow> traversal_step \<Rightarrow> entity_ref list" where
  "traverse_step g current step =
     concat (map (\<lambda>start. expand g (ts_relation step) (ts_max_depth step) [start] [start]) current)"

definition traverse :: "graph \<Rightarrow> entity_ref list \<Rightarrow> traversal_step list \<Rightarrow> entity_ref list" where
  "traverse g starts steps = remdups_adj (sort (foldl (traverse_step g) starts steps))"

section \<open>Order and projection\<close>

fun insert_by :: "('a \<Rightarrow> 'a \<Rightarrow> ordering) \<Rightarrow> 'a \<Rightarrow> 'a list \<Rightarrow> 'a list" where
  "insert_by c x [] = [x]"
| "insert_by c x (y # ys) = (if c x y = Greater then y # insert_by c x ys else x # y # ys)"

definition sort_by :: "('a \<Rightarrow> 'a \<Rightarrow> ordering) \<Rightarrow> 'a list \<Rightarrow> 'a list" where
  "sort_by c xs = foldr (insert_by c) xs []"

fun compare_values :: "(json \<Rightarrow> string) \<Rightarrow> json option \<Rightarrow> json option \<Rightarrow> ordering" where
  "compare_values to_text (Some (JStr a)) (Some (JStr b)) = cmp a b"
| "compare_values to_text (Some (JNum a)) (Some (JNum b)) =
     (case (as_f64 (JNum a), as_f64 (JNum b)) of
        (Some x, Some y) \<Rightarrow> (case f64_partial_cmp x y of Some r \<Rightarrow> r | None \<Rightarrow> Equal)
      | _ \<Rightarrow> Equal)"
| "compare_values to_text (Some a) (Some b) = cmp (to_text a) (to_text b)"
| "compare_values to_text None None = Equal"
| "compare_values to_text None (Some b) = Less"
| "compare_values to_text (Some a) None = Greater"

definition entity_key :: "entity \<Rightarrow> string \<times> string option \<times> string" where
  "entity_key e = (en_kind e, en_name e, en_ref e)"

fun compare_entities ::
  "(json \<Rightarrow> string) \<Rightarrow> order_by list \<Rightarrow> entity option \<Rightarrow> entity option \<Rightarrow> ordering" where
  "compare_entities to_text [] left right = cmp (map_option entity_key left) (map_option entity_key right)"
| "compare_entities to_text (item # items) left right =
     (let ordering = compare_values to_text
            (Option.bind left (\<lambda>e. field_value e (ob_field item)))
            (Option.bind right (\<lambda>e. field_value e (ob_field item)))
      in if ordering \<noteq> Equal
         then (if ob_direction item = Desc then ordering_reverse ordering else ordering)
         else compare_entities to_text items left right)"

definition project :: "entity \<Rightarrow> string list \<Rightarrow> json" where
  "project e fs =
     (if fs = [] then entity_summary e
      else JObj (foldl (\<lambda>m field. case field_value e field of
                           None \<Rightarrow> m | Some v \<Rightarrow> bm_insert field v m) [] fs))"

definition evidence_path :: "string \<Rightarrow> query_scope \<Rightarrow> string list" where
  "evidence_path reference scope =
     (case scope of
        Selection \<Rightarrow> [''selection'', ''contains'', reference]
      | Refs _ \<Rightarrow> [''explicit_scope'', reference]
      | Document \<Rightarrow> [''document'', ''contains'', reference])"

section \<open>Execution\<close>

definition hash_request :: "query_codec \<Rightarrow> query_request \<Rightarrow> string" where
  "hash_request Q r = ''sha256:'' @ sha256_hex (qk_codec Q) (text_of_request Q (r\<lparr>qr_continuation := None\<rparr>))"

definition continuation_offset :: "string option \<Rightarrow> string \<Rightarrow> (nat, query_error) result" where
  "continuation_offset token query_hash =
     (case token of
        None \<Rightarrow> Ok 0
      | Some t \<Rightarrow>
          res_bind (ok_or (strip_prefix ''qcont:'' t) InvalidContinuation) (\<lambda>rest.
          res_bind (ok_or (rsplit_once CHR '':'' rest) InvalidContinuation) (\<lambda>(token_hash, offset).
          if token_hash \<noteq> query_hash then Err InvalidContinuation
          else ok_or (parse_usize offset) InvalidContinuation)))"

definition estimate_cost :: "graph \<Rightarrow> query_request \<Rightarrow> nat" where
  "estimate_cost g r =
     (let scope = (case qr_from r of
            Document \<Rightarrow> length (g_entities g) | Selection \<Rightarrow> 8 | Refs refs \<Rightarrow> length refs);
          traversal = sum_list (map (\<lambda>s. (ts_max_depth s + 1) * 4) (qr_traverse r))
      in min u64_max (scope * (1 + traversal + length (qr_select r))))"

definition scope_refs :: "graph \<Rightarrow> query_request \<Rightarrow> entity_ref list \<Rightarrow> entity_ref list" where
  "scope_refs g r selection =
     (let refs = (case qr_from r of
            Document \<Rightarrow> bm_keys (g_entities g) | Selection \<Rightarrow> selection | Refs refs \<Rightarrow> refs)
      in if qr_traverse r \<noteq> [] then traverse g refs (qr_traverse r) else refs)"

definition selected :: "graph \<Rightarrow> query_request \<Rightarrow> string \<Rightarrow> bool" where
  "selected g r reference \<longleftrightarrow>
     (case graph_entity g reference of
        None \<Rightarrow> False
      | Some e \<Rightarrow> (qr_kind r = [] \<or> list_ex (\<lambda>kind. kind = en_kind e) (qr_kind r))
                  \<and> matches_predicate g e (qr_predicate r))"

definition result_refs :: "query_codec \<Rightarrow> graph \<Rightarrow> query_request \<Rightarrow> entity_ref list \<Rightarrow> entity_ref list" where
  "result_refs Q g r selection =
     remdups_adj (sort_by (\<lambda>left right. compare_entities (json_text (qk_codec Q)) (qr_order_by r)
         (graph_entity g left) (graph_entity g right))
       (filter (selected g r) (scope_refs g r selection)))"

text \<open>\<^verbatim>\<open>refs[start..end]\<close>: a start past the end panics.\<close>

definition slice :: "'a list \<Rightarrow> nat \<Rightarrow> nat \<Rightarrow> ('a list, query_error) result" where
  "slice xs start stop =
     (if stop < start \<or> length xs < stop then Err (QueryPanic ''range start is past the end'')
      else Ok (take (stop - start) (drop start xs)))"

definition page_end :: "nat \<Rightarrow> nat \<Rightarrow> nat \<Rightarrow> nat" where
  "page_end start limit len = min ((start + limit) mod 2 ^ 64) len"

definition make_match :: "graph \<Rightarrow> query_request \<Rightarrow> string \<Rightarrow> query_match option" where
  "make_match g r reference =
     map_option (\<lambda>e. \<lparr>qm_ref = reference, qm_projection = project e (qr_select r),
                       qm_evidence_path = evidence_path reference (qr_from r)\<rparr>)
       (graph_entity g reference)"

definition execute ::
  "query_codec \<Rightarrow> graph \<Rightarrow> query_request \<Rightarrow> entity_ref list \<Rightarrow> (query_result, query_error) result" where
  "execute Q g r selection =
     (let actual = revision_id (g_revision g);
          depth = foldl max 0 (map ts_max_depth (qr_traverse r));
          query_hash = hash_request Q r;
          estimated = estimate_cost g r;
          budget = (case qr_cost_budget r of None \<Rightarrow> 10000 | Some b \<Rightarrow> b)
      in
      if qr_revision r \<noteq> actual \<and> qr_revision r \<noteq> geometry_id (g_revision g)
      then Err (RevisionMismatch (qr_revision r) actual)
      else if 8 < depth then Err (DepthExceeded depth)
      else if budget < estimated then Err (CostExceeded estimated budget)
      else
        let refs = result_refs Q g r selection in
        res_bind (continuation_offset (qr_continuation r) query_hash) (\<lambda>start.
        let limit = min (max (qr_limit r) 1) 1000;
            stop = page_end start limit (length refs) in
        res_bind (slice refs start stop) (\<lambda>page.
        Ok \<lparr>qs_query_hash = query_hash, qs_observed_revision = actual,
            qs_complete = (stop = length refs),
            qs_matches = List.map_filter (make_match g r) page,
            qs_omitted_counts = (if stop < length refs
              then [(''matches_after_limit'', length refs - stop)] else []),
            qs_continuation = (if stop < length refs
              then Some (''qcont:'' @ query_hash @ '':'' @ show_nat stop) else None),
            qs_tolerances = bm_insert ''angular_deg'' (json_of_f64 (f64_round (1 / 10)))
              (case qr_tolerance r of None \<Rightarrow> [] | Some t \<Rightarrow> bm_insert ''linear'' (json_of_quantity t) []),
            qs_cost = \<lparr>qc_estimated = estimated, qc_executed = stop - start, qc_indexed = True,
                       qc_exact_callbacks = 0\<rparr>\<rparr>)))"

section \<open>Dependency explanations\<close>

type_synonym explore_item = "entity_ref \<times> dependency_hop list \<times> nat"

definition neighbors :: "graph \<Rightarrow> string \<Rightarrow> string \<Rightarrow> (entity_ref \<times> string) list" where
  "neighbors g direction current =
     (if direction = ''upstream''
      then concat (map (\<lambda>e. map (\<lambda>l. (en_ref e, lk_relation l))
                           (filter (\<lambda>l. lk_target l = current) (en_links e)))
                     (bm_values (g_entities g)))
      else (case graph_entity g current of
              None \<Rightarrow> []
            | Some e \<Rightarrow> map (\<lambda>l. (lk_target l, lk_relation l)) (en_links e)))"

definition make_hop :: "string \<Rightarrow> string \<Rightarrow> string \<times> string \<Rightarrow> dependency_hop" where
  "make_hop direction current = (\<lambda>(neighbor, relation).
     if direction = ''upstream''
     then \<lparr>dh_from = neighbor, dh_relation = relation, dh_to = current\<rparr>
     else \<lparr>dh_from = current, dh_relation = relation, dh_to = neighbor\<rparr>)"

text \<open>What the loops collect: the chains found, their texts, the cycles, and the items still to visit.\<close>

record explored =
  xp_paths :: "dependency_hop list list"
  xp_visited :: "string list"
  xp_cycles :: "entity_ref list list"

definition explore_neighbor ::
  "query_codec \<Rightarrow> string \<Rightarrow> explore_item \<Rightarrow> explored \<times> explore_item list \<Rightarrow> entity_ref \<times> string
     \<Rightarrow> explored \<times> explore_item list" where
  "explore_neighbor Q direction = (\<lambda>(current, path, depth) (x, queue) (neighbor, relation).
     if list_ex (\<lambda>h. dh_from h = neighbor \<or> dh_to h = neighbor) path
     then (x\<lparr>xp_cycles := xp_cycles x @ [map dh_from path]\<rparr>, queue)
     else
       let extended = path @ [make_hop direction current (neighbor, relation)] in
       case set_insert (text_of_hops Q extended) (xp_visited x) of
         (is_new, visited) \<Rightarrow>
           if is_new
           then (x\<lparr>xp_visited := visited, xp_paths := xp_paths x @ [extended]\<rparr>,
                 queue @ [(neighbor, extended, depth + 1)])
           else (x\<lparr>xp_visited := visited\<rparr>, queue))"

text \<open>
  The loop over the queue.  Every item of a queue below the depth limit is replaced by items one
  level deeper, at most one for each link of the graph, which bounds the number of rounds.
\<close>

definition link_total :: "graph \<Rightarrow> nat" where
  "link_total g = sum_list (map (\<lambda>e. length (en_links e)) (bm_values (g_entities g)))"

definition queue_weight :: "graph \<Rightarrow> nat \<Rightarrow> explore_item list \<Rightarrow> nat" where
  "queue_weight g depth queue =
     sum_list (map (\<lambda>(_, _, d). (link_total g + 2) ^ (Suc depth - d)) queue)"

lemma explore_queue: "\<exists>new. snd (foldl (explore_neighbor Q direction (c, p, d)) (x, q) ns) = q @ new
    \<and> length new \<le> length ns \<and> (\<forall>i \<in> set new. snd (snd i) = Suc d)"
proof (induction ns arbitrary: x q)
  case (Cons n ns)
  obtain m r where n: "n = (m, r)" by force
  have "\<exists>x' q1. explore_neighbor Q direction (c, p, d) (x, q) n = (x', q @ q1)
      \<and> length q1 \<le> 1 \<and> (\<forall>i \<in> set q1. snd (snd i) = Suc d)"
    by (cases "list_ex (\<lambda>h. dh_from h = m \<or> dh_to h = m) p";
        cases "text_of_hops Q (p @ [make_hop direction c (m, r)]) \<in> set (xp_visited x)")
      (simp_all add: n explore_neighbor_def Let_def set_insert_def)
  then obtain x' q1 where step: "explore_neighbor Q direction (c, p, d) (x, q) n = (x', q @ q1)"
    and q1: "length q1 \<le> 1" "\<forall>i \<in> set q1. snd (snd i) = Suc d"
    by blast
  show ?case using Cons.IH [of x' "q @ q1"] step q1 by fastforce
qed simp

lemma length_neighbors: "length (neighbors g direction current) \<le> link_total g"
proof (cases "direction = ''upstream''")
  case True
  have "(\<Sum>x \<leftarrow> ps. length (filter P (en_links (snd x)))) \<le> (\<Sum>x \<leftarrow> ps. length (en_links (snd x)))"
    for P and ps :: "(string \<times> entity) list"
    by (rule sum_list_mono) simp
  then show ?thesis using True by (simp add: neighbors_def link_total_def length_concat o_def)
next
  case False
  have "length (en_links e) \<le> link_total g" if "graph_entity g current = Some e" for e
    using that unfolding link_total_def graph_entity_def
    by (intro member_le_sum_list) (force dest: map_of_SomeD)+
  then show ?thesis using False by (auto simp: neighbors_def split: option.splits)
qed

lemma queue_weight_new:
  assumes "\<forall>i \<in> set new. snd (snd i) = Suc d" and "length new \<le> link_total g" and "d < depth"
  shows "queue_weight g depth new < (link_total g + 2) ^ (Suc depth - d)"
proof -
  have "queue_weight g depth new = length new * (link_total g + 2) ^ (Suc depth - Suc d)"
    using assms(1) by (induction new) (auto simp: queue_weight_def)
  also have "\<dots> \<le> link_total g * (link_total g + 2) ^ (Suc depth - Suc d)"
    using assms(2) by simp
  also have "\<dots> < (link_total g + 2) * (link_total g + 2) ^ (Suc depth - Suc d)"
    by (rule mult_strict_right_mono) simp_all
  also have "\<dots> = (link_total g + 2) ^ (Suc depth - d)"
    using assms(3) by (simp add: Suc_diff_le)
  finally show ?thesis .
qed

function explore ::
  "query_codec \<Rightarrow> graph \<Rightarrow> string \<Rightarrow> nat \<Rightarrow> explored \<Rightarrow> explore_item list \<Rightarrow> explored" where
  "explore Q g direction depth x [] = x"
| "explore Q g direction depth x ((current, path, d) # queue) =
     (if depth \<le> d then explore Q g direction depth x queue
      else (case foldl (explore_neighbor Q direction (current, path, d)) (x, queue)
                   (neighbors g direction current) of
              (x', queue') \<Rightarrow> explore Q g direction depth x' queue'))"
  by pat_completeness auto
termination
proof (relation "measure (\<lambda>(_, g, _, depth, _, queue). queue_weight g depth queue)", goal_cases)
  case (2 Q g direction depth x current path d queue)
  then show ?case by (simp add: queue_weight_def)
next
  case (3 Q g direction depth x current path d queue x' queue')
  obtain new where "queue' = queue @ new" "length new \<le> length (neighbors g direction current)"
    "\<forall>i \<in> set new. snd (snd i) = Suc d"
    using explore_queue [of Q direction current path d x queue "neighbors g direction current"] 3(2)
    by (metis snd_conv)
  then show ?case
    using queue_weight_new [of new d g depth] length_neighbors [of g direction current] 3(1)
    by (simp add: queue_weight_def)
qed simp

definition explain_dependencies ::
  "query_codec \<Rightarrow> graph \<Rightarrow> entity_ref \<Rightarrow> string \<Rightarrow> nat \<Rightarrow> dependency_explanation option" where
  "explain_dependencies Q g reference direction depth =
     (if 8 < depth \<or> graph_entity g reference = None then None
      else
        let x = explore Q g direction depth \<lparr>xp_paths = [], xp_visited = [], xp_cycles = []\<rparr>
                  [(reference, [], 0)] in
        Some \<lparr>de_reference = reference, de_paths = xp_paths x,
              de_controlling_properties =
                (case Option.bind (Option.bind (graph_entity g reference)
                        (\<lambda>e. jget ''controlling_properties'' (en_properties e))) as_array of
                   None \<Rightarrow> [] | Some vs \<Rightarrow> vs),
              de_cycles = xp_cycles x, de_health = g_diagnostics g\<rparr>)"

end
