(* ===== verification/QueryLaws.thy ===== *)
theory QueryLaws
  imports QueryEngine "HOL-Library.Multiset"
begin

text \<open>
  Properties of the query engine: traversal reaches exactly what bounded chains of links reach,
  answers are bounded and satisfy the request, pages fetched by continuation tokens give every
  result once, and explanations consist of real chains of links.
\<close>

section \<open>Search by layers\<close>

text \<open>
  The interface between the traversal loop and the routine that expands a frontier: what the routine
  promises about the nodes seen and the nodes that follow, and how the loop runs it.
\<close>

locale layered_search =
  fixes succ :: "'a \<Rightarrow> 'a set" and layer :: "'a list \<Rightarrow> 'a list \<Rightarrow> 'a list \<times> 'a list"
    and rounds :: "nat \<Rightarrow> 'a list \<Rightarrow> 'a list \<Rightarrow> 'a list"
  assumes layer_seen: "set (fst (layer S F)) = set S \<union> (\<Union>f \<in> set F. succ f)"
    and layer_new: "set (snd (layer S F)) = (\<Union>f \<in> set F. succ f) - set S"
    and rounds_0: "rounds 0 S F = []"
    and rounds_Suc: "rounds (Suc d) S F =
      snd (layer S F) @ (if snd (layer S F) = [] then []
                         else rounds d (fst (layer S F)) (snd (layer S F)))"
begin

definition edges :: "('a \<times> 'a) set" where
  "edges = {(a, b). b \<in> succ a}"

definition expanded :: "'a list \<Rightarrow> 'a list \<Rightarrow> bool" where
  "expanded S F \<longleftrightarrow> set F \<subseteq> set S \<and> (\<forall>s \<in> set S - set F. succ s \<subseteq> set S)"

lemma layer_nil: "snd (layer S []) = []"
  using layer_new [of S "[]"] by simp

lemma expanded_start: "expanded [a] [a]"
  by (simp add: expanded_def)

lemma expanded_layer:
  assumes "expanded S F" shows "expanded (fst (layer S F)) (snd (layer S F))"
proof -
  have "succ s \<subseteq> set S \<union> (\<Union>f \<in> set F. succ f)" if "s \<in> set S" for s
    using that assms by (cases "s \<in> set F") (auto simp: expanded_def)
  then show ?thesis by (auto simp: expanded_def layer_seen layer_new)
qed

text \<open>A chain that leaves the seen nodes passes through the next frontier.\<close>

lemma escape:
  "(s, r) \<in> edges ^^ n \<Longrightarrow> s \<in> set S \<Longrightarrow> r \<notin> set S \<Longrightarrow> expanded S F
     \<Longrightarrow> \<exists>f \<in> set (snd (layer S F)). \<exists>m < n. (f, r) \<in> edges ^^ m"
proof (induction n arbitrary: s)
  case 0
  then show ?case by simp
next
  case (Suc n)
  obtain t where t: "(s, t) \<in> edges" "(t, r) \<in> edges ^^ n"
    using Suc.prems(1) by (meson relpow_Suc_D2)
  show ?case
  proof (cases "t \<in> set S")
    case True
    then show ?thesis using Suc.IH [OF t(2) True Suc.prems(3,4)] by (auto intro: less_SucI)
  next
    case False
    then have "s \<in> set F" using t(1) Suc.prems(2,4) by (auto simp: expanded_def edges_def)
    then have "t \<in> set (snd (layer S F))" using t(1) False by (auto simp: layer_new edges_def)
    then show ?thesis using t(2) by auto
  qed
qed

lemma rounds_exact:
  "expanded S F \<Longrightarrow> r \<in> set (rounds d S F) \<longleftrightarrow>
     r \<notin> set S \<and> (\<exists>n \<le> d. \<exists>f \<in> set F. (f, r) \<in> edges ^^ n)"
proof (induction d arbitrary: S F)
  case 0
  then show ?case by (auto simp: rounds_0 expanded_def)
next
  case (Suc d)
  let ?S = "fst (layer S F)" and ?F = "snd (layer S F)"
  have IH: "r \<in> set (rounds d ?S ?F) \<longleftrightarrow> r \<notin> set ?S \<and> (\<exists>n \<le> d. \<exists>f \<in> set ?F. (f, r) \<in> edges ^^ n)"
    using Suc.IH expanded_layer [OF Suc.prems] by blast
  have "rounds d ?S [] = []" if "?F = []"
    by (cases d) (simp_all add: rounds_0 rounds_Suc layer_nil)
  then have mem: "r \<in> set (rounds (Suc d) S F) \<longleftrightarrow> r \<in> set ?F \<or> r \<in> set (rounds d ?S ?F)"
    by (auto simp: rounds_Suc)
  show ?case
  proof
    assume "r \<in> set (rounds (Suc d) S F)"
    then consider "r \<in> set ?F" | n f where "r \<notin> set ?S" "n \<le> d" "f \<in> set ?F" "(f, r) \<in> edges ^^ n"
      using mem IH by blast
    then show "r \<notin> set S \<and> (\<exists>n \<le> Suc d. \<exists>f \<in> set F. (f, r) \<in> edges ^^ n)"
    proof cases
      case 1
      then obtain f where "f \<in> set F" "(f, r) \<in> edges ^^ 1" "r \<notin> set S"
        by (auto simp: layer_new edges_def)
      then show ?thesis by (metis One_nat_def Suc_le_mono le0)
    next
      case 2
      then obtain f0 where "f0 \<in> set F" "(f0, f) \<in> edges" by (auto simp: layer_new edges_def)
      then have "(f0, r) \<in> edges ^^ Suc n" using 2(4) by (meson relpow_Suc_I2)
      moreover have "Suc n \<le> Suc d" "r \<notin> set S" using 2(1,2) layer_seen [of S F] by auto
      ultimately show ?thesis using \<open>f0 \<in> set F\<close> by blast
    qed
  next
    assume r: "r \<notin> set S \<and> (\<exists>n \<le> Suc d. \<exists>f \<in> set F. (f, r) \<in> edges ^^ n)"
    then obtain n f where "n \<le> Suc d" "f \<in> set S" "(f, r) \<in> edges ^^ n"
      using Suc.prems by (auto simp: expanded_def)
    then obtain f' m where "f' \<in> set ?F" "m \<le> d" "(f', r) \<in> edges ^^ m"
      using escape [of f r n S F] r Suc.prems by (metis less_Suc_eq_le order_less_le_trans)
    then show "r \<in> set (rounds (Suc d) S F)"
      using mem IH r layer_seen [of S F] layer_new [of S F] by blast
  qed
qed

end

section \<open>The traversal of the engine\<close>

definition linked :: "graph \<Rightarrow> string \<Rightarrow> string \<Rightarrow> string \<Rightarrow> bool" where
  "linked g relation a b \<longleftrightarrow> (\<exists>e. graph_entity g a = Some e
     \<and> (\<exists>l \<in> set (en_links e). lk_relation l = relation \<and> lk_target l = b))"

lemma follow_links_loop:
  assumes "foldl (\<lambda>(seen, following) l.
            if lk_relation l = relation
            then (case set_insert (lk_target l) seen of
                    (is_new, seen') \<Rightarrow>
                      (seen', if is_new then following @ [lk_target l] else following))
            else (seen, following)) (seen, following) ls = (seen', following')"
    and "set following = set seen - S" and "S \<subseteq> set seen"
  shows "set seen' = set seen \<union> {lk_target l |l. l \<in> set ls \<and> lk_relation l = relation}
     \<and> set following' = set seen' - S"
  using assms
proof (induction ls arbitrary: seen following)
  case (Cons l ls)
  show ?case
  proof (cases "lk_relation l = relation")
    case True
    let ?f = "if lk_target l \<notin> set seen then following @ [lk_target l] else following"
    have "set ?f = set (set_add (lk_target l) seen) - S" using Cons.prems(2,3) by auto
    moreover have "S \<subseteq> set (set_add (lk_target l) seen)" using Cons.prems(3) by auto
    ultimately show ?thesis
      using Cons.IH [of "set_add (lk_target l) seen" ?f] Cons.prems(1) True
      by (auto simp: set_insert_def)
  next
    case False
    then show ?thesis using Cons.IH [of seen following] Cons.prems by auto
  qed
qed simp

lemma follow_links_step:
  assumes "follow_links g relation (seen, following) r = (seen', following')"
    and "set following = set seen - S" and "S \<subseteq> set seen"
  shows "set seen' = set seen \<union> {t. linked g relation r t} \<and> set following' = set seen' - S"
proof (cases "graph_entity g r")
  case None
  then show ?thesis using assms by (auto simp: follow_links_def linked_def)
next
  case (Some e)
  then have "{t. linked g relation r t} = {lk_target l |l. l \<in> set (en_links e) \<and> lk_relation l = relation}"
    by (auto simp: linked_def)
  then show ?thesis
    using follow_links_loop [of relation seen following "en_links e" seen' following' S] assms Some
    by (simp add: follow_links_def)
qed

lemma follow_frontier_loop:
  assumes "foldl (follow_links g relation) (seen, following) rs = (seen', following')"
    and "set following = set seen - S" and "S \<subseteq> set seen"
  shows "set seen' = set seen \<union> (\<Union>r \<in> set rs. {t. linked g relation r t})
     \<and> set following' = set seen' - S"
  using assms
proof (induction rs arbitrary: seen following)
  case (Cons r rs)
  obtain s f where sf: "follow_links g relation (seen, following) r = (s, f)" by force
  have "set s = set seen \<union> {t. linked g relation r t} \<and> set f = set s - S"
    using follow_links_step [OF sf Cons.prems(2,3)] .
  then show ?case using Cons.IH [of s f] Cons.prems sf by auto
qed simp

lemma follow_frontier_sets:
  "set (fst (follow_frontier g relation S F)) = set S \<union> (\<Union>f \<in> set F. {t. linked g relation f t})"
  "set (snd (follow_frontier g relation S F)) = (\<Union>f \<in> set F. {t. linked g relation f t}) - set S"
proof -
  obtain s f where sf: "follow_frontier g relation S F = (s, f)" by force
  have "set s = set S \<union> (\<Union>f \<in> set F. {t. linked g relation f t}) \<and> set f = set s - set S"
    using follow_frontier_loop [of g relation S "[]" F s f "set S"] sf
    by (simp add: follow_frontier_def)
  then show "set (fst (follow_frontier g relation S F)) = set S \<union> (\<Union>f \<in> set F. {t. linked g relation f t})"
    and "set (snd (follow_frontier g relation S F)) = (\<Union>f \<in> set F. {t. linked g relation f t}) - set S"
    using sf by auto
qed

interpretation links: layered_search "\<lambda>r. {t. linked g relation r t}" "follow_frontier g relation"
  "expand g relation" for g relation
  by unfold_locales (simp_all add: follow_frontier_sets split: prod.splits)

text \<open>What one step reaches from a reference: another reference, by at most \<open>max_depth\<close> links.\<close>

definition reaches :: "graph \<Rightarrow> traversal_step \<Rightarrow> (string \<times> string) set" where
  "reaches g step = {(s, r). r \<noteq> s \<and>
     (\<exists>n \<le> ts_max_depth step. (s, r) \<in> {(a, b). linked g (ts_relation step) a b} ^^ n)}"

lemma traverse_step_set: "set (traverse_step g current step) = reaches g step `` set current"
proof -
  have "r \<in> set (expand g relation d [a] [a]) \<longleftrightarrow>
      r \<noteq> a \<and> (\<exists>n \<le> d. (a, r) \<in> {(a, b). linked g relation a b} ^^ n)" for r relation d a
    using links.rounds_exact [OF links.expanded_start] by (simp add: links.edges_def)
  then show ?thesis
    unfolding traverse_step_def reaches_def by (simp add: set_eq_iff Image_iff)
qed

lemma traverse_steps_set:
  "set (foldl (traverse_step g) starts steps) = foldl (\<lambda>S step. reaches g step `` S) (set starts) steps"
  by (induction steps arbitrary: starts) (simp_all add: traverse_step_set)

section \<open>Sorting and duplicates\<close>

lemma mset_insert_by: "mset (insert_by c x xs) = add_mset x (mset xs)"
  by (induction xs) simp_all

lemma mset_sort_by: "mset (sort_by c xs) = mset xs"
  by (induction xs) (simp_all add: sort_by_def mset_insert_by)

lemma set_sort_by [simp]: "set (sort_by c xs) = set xs"
  by (metis mset_sort_by set_mset_mset)

lemma distinct_sort_by [simp]: "distinct (sort_by c xs) = distinct xs"
  by (metis mset_sort_by mset_eq_imp_distinct_iff)

lemma remdups_adj_id: "distinct xs \<Longrightarrow> remdups_adj xs = xs"
  by (rule remdups_adj_distinct)

lemma result_refs_set:
  "set (result_refs Q g r selection) = {x \<in> set (scope_refs g r selection). selected g r x}"
  by (auto simp: result_refs_def)

lemma selected_iff: "selected g r x \<longleftrightarrow> (\<exists>e. graph_entity g x = Some e
    \<and> (qr_kind r = [] \<or> en_kind e \<in> set (qr_kind r)) \<and> matches_predicate g e (qr_predicate r))"
  by (auto simp: selected_def list_ex_iff split: option.splits)

section \<open>Pages\<close>

lemma selected_without_continuation [simp]: "selected g (r\<lparr>qr_continuation := t\<rparr>) = selected g r"
  by (simp add: fun_eq_iff selected_def split: option.split)

lemma scope_without_continuation [simp]: "scope_refs g (r\<lparr>qr_continuation := t\<rparr>) = scope_refs g r"
  by (simp add: fun_eq_iff scope_refs_def Let_def)

lemma without_continuation [simp]:
  "result_refs Q g (r\<lparr>qr_continuation := t\<rparr>) selection = result_refs Q g r selection"
  "hash_request Q (r\<lparr>qr_continuation := t\<rparr>) = hash_request Q r"
  "estimate_cost g (r\<lparr>qr_continuation := t\<rparr>) = estimate_cost g r"
  "make_match g (r\<lparr>qr_continuation := t\<rparr>) = make_match g r"
  by (simp_all add: result_refs_def hash_request_def estimate_cost_def fun_eq_iff make_match_def)

definition page_token :: "string \<Rightarrow> nat \<Rightarrow> string" where
  "page_token query_hash n = ''qcont:'' @ query_hash @ '':'' @ show_nat n"

lemma continuation_offset_token:
  assumes "n \<le> u64_max"
  shows "continuation_offset (Some (page_token h n)) h' = (if h = h' then Ok n else Err InvalidContinuation)"
proof -
  have "CHR '':'' \<notin> set (show_nat n)" by (rule show_nat_no_char) (simp add: is_ascii_digit_def)
  then have "rsplit_once CHR '':'' (h @ CHR '':'' # show_nat n) = Some (h, show_nat n)"
    unfolding rsplit_once_Some_iff by simp
  then show ?thesis
    using parse_usize_show_nat [OF assms] by (simp add: continuation_offset_def page_token_def)
qed

text \<open>A request the engine admits: right revision, depth and cost within their limits.\<close>

definition admitted :: "graph \<Rightarrow> query_request \<Rightarrow> bool" where
  "admitted g r \<longleftrightarrow>
     (qr_revision r = revision_id (g_revision g) \<or> qr_revision r = geometry_id (g_revision g))
     \<and> foldl max 0 (map ts_max_depth (qr_traverse r)) \<le> 8
     \<and> estimate_cost g r \<le> (case qr_cost_budget r of None \<Rightarrow> 10000 | Some b \<Rightarrow> b)"

definition page_limit :: "query_request \<Rightarrow> nat" where
  "page_limit r = min (max (qr_limit r) 1) 1000"

lemma execute_Ok:
  assumes "execute Q g r selection = Ok res"
  obtains start where "admitted g r" and "continuation_offset (qr_continuation r) (hash_request Q r) = Ok start"
    and "start \<le> page_end start (page_limit r) (length (result_refs Q g r selection))"
    and "qs_matches res = List.map_filter (make_match g r)
           (take (page_end start (page_limit r) (length (result_refs Q g r selection)) - start)
              (drop start (result_refs Q g r selection)))"
    and "qs_continuation res =
           (if page_end start (page_limit r) (length (result_refs Q g r selection))
                < length (result_refs Q g r selection)
            then Some (page_token (hash_request Q r)
                   (page_end start (page_limit r) (length (result_refs Q g r selection)))) else None)"
    and "qs_complete res \<longleftrightarrow> page_end start (page_limit r) (length (result_refs Q g r selection))
           = length (result_refs Q g r selection)"
proof -
  let ?refs = "result_refs Q g r selection"
  let ?stop = "\<lambda>start. page_end start (page_limit r) (length ?refs)"
  from assms obtain start page h v om t c where
    "\<not> (qr_revision r \<noteq> revision_id (g_revision g) \<and> qr_revision r \<noteq> geometry_id (g_revision g))"
    "\<not> 8 < foldl max 0 (map ts_max_depth (qr_traverse r))"
    "\<not> (case qr_cost_budget r of None \<Rightarrow> 10000 | Some b \<Rightarrow> b) < estimate_cost g r"
    and start: "continuation_offset (qr_continuation r) (hash_request Q r) = Ok start"
    and page: "slice ?refs start (?stop start) = Ok page"
    and res: "res = \<lparr>qs_query_hash = h, qs_observed_revision = v, qs_complete = (?stop start = length ?refs),
      qs_matches = List.map_filter (make_match g r) page, qs_omitted_counts = om,
      qs_continuation = (if ?stop start < length ?refs
        then Some (page_token (hash_request Q r) (?stop start)) else None),
      qs_tolerances = t, qs_cost = c\<rparr>"
    unfolding execute_def Let_def if_Err_Ok_iff res_bind_Ok_iff page_limit_def [symmetric]
      page_token_def [symmetric]
    by - (elim conjE exE, drule Inr_inject, rule that, (assumption | erule sym)+)
  then have "admitted g r" by (auto simp: admitted_def)
  then show thesis
    using start page by (intro that) (simp_all add: res slice_def split: if_split_asm)
qed

lemma page_end_le: "page_end start limit len \<le> len"
  by (simp add: page_end_def)

lemma execute_admitted:
  assumes "admitted g r" and "continuation_offset (qr_continuation r) (hash_request Q r) = Ok start"
  shows "execute Q g r selection = Err (QueryPanic ''range start is past the end'')
       \<and> page_end start (page_limit r) (length (result_refs Q g r selection)) < start
    \<or> (\<exists>res. execute Q g r selection = Ok res)
       \<and> start \<le> page_end start (page_limit r) (length (result_refs Q g r selection))"
  using assms page_end_le [of start "page_limit r" "length (result_refs Q g r selection)"]
  by (cases "page_end start (page_limit r) (length (result_refs Q g r selection)) < start")
    (simp_all add: execute_def Let_def admitted_def page_limit_def slice_def not_less)

lemma result_refs_entities: "x \<in> set (result_refs Q g r selection) \<Longrightarrow> graph_entity g x \<noteq> None"
  by (auto simp: result_refs_set selected_iff)

lemma map_filter_make_match:
  "(\<And>x. x \<in> set xs \<Longrightarrow> graph_entity g x \<noteq> None) \<Longrightarrow> map qm_ref (List.map_filter (make_match g r) xs) = xs"
proof (induction xs)
  case (Cons a xs)
  then obtain e where "graph_entity g a = Some e" by auto
  then show ?case using Cons by (simp add: map_filter_simps make_match_def)
qed (simp add: map_filter_simps)

text \<open>
  A client that fetches the pages of a request one after the other: the matches it collects when it
  starts with a given token.
\<close>

inductive pages :: "query_codec \<Rightarrow> graph \<Rightarrow> query_request \<Rightarrow> entity_ref list \<Rightarrow> string option
    \<Rightarrow> query_match list \<Rightarrow> bool" for Q g r selection where
  last_page: "execute Q g (r\<lparr>qr_continuation := t\<rparr>) selection = Ok res \<Longrightarrow> qs_continuation res = None
     \<Longrightarrow> pages Q g r selection t (qs_matches res)"
| next_page: "execute Q g (r\<lparr>qr_continuation := t\<rparr>) selection = Ok res \<Longrightarrow> qs_continuation res = Some t'
     \<Longrightarrow> pages Q g r selection (Some t') ms \<Longrightarrow> pages Q g r selection t (qs_matches res @ ms)"

inductive_cases pagesE: "pages Q g r selection t ms"

definition token_at :: "query_codec \<Rightarrow> query_request \<Rightarrow> nat \<Rightarrow> string option \<Rightarrow> bool" where
  "token_at Q r n t \<longleftrightarrow> continuation_offset t (hash_request Q r) = Ok n"

text \<open>One page from an offset inside the results.\<close>

lemma page_from:
  assumes "admitted g r" and "token_at Q r n t" and "n \<le> length (result_refs Q g r selection)"
    and "length (result_refs Q g r selection) + 1000 < 2 ^ 64"
  shows "\<exists>res. execute Q g (r\<lparr>qr_continuation := t\<rparr>) selection = Ok res
     \<and> map qm_ref (qs_matches res) = take (page_limit r) (drop n (result_refs Q g r selection))
     \<and> qs_continuation res = (if n + page_limit r < length (result_refs Q g r selection)
          then Some (page_token (hash_request Q r) (n + page_limit r)) else None)"
proof -
  let ?R = "result_refs Q g r selection" and ?r = "r\<lparr>qr_continuation := t\<rparr>"
  have lim: "page_limit r \<le> 1000" "page_limit ?r = page_limit r" by (simp_all add: page_limit_def)
  then have stop: "page_end n (page_limit r) (length ?R) = min (n + page_limit r) (length ?R)"
    using assms(3,4) by (simp add: page_end_def)
  have adm: "admitted g ?r" using assms(1) by (simp add: admitted_def)
  have tok: "continuation_offset (qr_continuation ?r) (hash_request Q ?r) = Ok n"
    using assms(2) by (simp add: token_at_def)
  obtain res where res: "execute Q g ?r selection = Ok res"
    using execute_admitted [OF adm tok, of selection] stop assms(3) lim(2) by auto
  then show ?thesis
  proof (rule execute_Ok)
    fix start
    assume s: "continuation_offset (qr_continuation ?r) (hash_request Q ?r) = Ok start"
      and m: "qs_matches res = List.map_filter (make_match g ?r)
           (take (page_end start (page_limit ?r) (length (result_refs Q g ?r selection)) - start)
              (drop start (result_refs Q g ?r selection)))"
      and c: "qs_continuation res =
           (if page_end start (page_limit ?r) (length (result_refs Q g ?r selection))
                < length (result_refs Q g ?r selection)
            then Some (page_token (hash_request Q ?r)
                   (page_end start (page_limit ?r) (length (result_refs Q g ?r selection)))) else None)"
    have start: "start = n" using s tok by simp
    have "take (min (n + page_limit r) (length ?R) - n) (drop n ?R) = take (page_limit r) (drop n ?R)"
      using assms(3) by (simp add: min_def take_all)
    then have "qs_matches res = List.map_filter (make_match g r) (take (page_limit r) (drop n ?R))"
      using m stop lim(2) start by simp
    moreover have "x \<in> set (take (page_limit r) (drop n ?R)) \<Longrightarrow> graph_entity g x \<noteq> None" for x
      by (meson in_set_dropD in_set_takeD result_refs_entities)
    ultimately have "map qm_ref (qs_matches res) = take (page_limit r) (drop n ?R)"
      using map_filter_make_match by simp
    then show ?thesis using res c stop lim(2) start by (auto simp: min_def)
  qed
qed

lemma page_limit_pos: "0 < page_limit r"
  by (simp add: page_limit_def)

lemma pages_from:
  assumes "admitted g r" and "length (result_refs Q g r selection) + 1000 < 2 ^ 64"
  shows "token_at Q r n t \<Longrightarrow> n \<le> length (result_refs Q g r selection)
     \<Longrightarrow> (\<exists>ms. pages Q g r selection t ms)
       \<and> (\<forall>ms. pages Q g r selection t ms \<longrightarrow> map qm_ref ms = drop n (result_refs Q g r selection))"
proof (induction "length (result_refs Q g r selection) - n" arbitrary: n t rule: less_induct)
  case less
  let ?R = "result_refs Q g r selection"
  obtain res where res: "execute Q g (r\<lparr>qr_continuation := t\<rparr>) selection = Ok res"
    and m: "map qm_ref (qs_matches res) = take (page_limit r) (drop n ?R)"
    and c: "qs_continuation res = (if n + page_limit r < length ?R
          then Some (page_token (hash_request Q r) (n + page_limit r)) else None)"
    using page_from [OF assms(1) less.prems assms(2)] by blast
  show ?case
  proof (cases "n + page_limit r < length ?R")
    case True
    let ?t = "page_token (hash_request Q r) (n + page_limit r)"
    have "n + page_limit r \<le> u64_max" using True assms(2) by (simp add: u64_max_def)
    then have tok: "token_at Q r (n + page_limit r) (Some ?t)"
      by (simp add: token_at_def continuation_offset_token)
    have IH: "(\<exists>ms. pages Q g r selection (Some ?t) ms)
       \<and> (\<forall>ms. pages Q g r selection (Some ?t) ms \<longrightarrow> map qm_ref ms = drop (n + page_limit r) ?R)"
      using less.hyps [OF _ tok] True page_limit_pos [of r] by simp
    have nxt: "qs_continuation res = Some ?t" using c True by simp
    from IH obtain ms where "pages Q g r selection (Some ?t) ms" by blast
    then have "pages Q g r selection t (qs_matches res @ ms)"
      using pages.next_page [OF res nxt] by blast
    moreover have "map qm_ref ms' = drop n ?R" if p: "pages Q g r selection t ms'" for ms'
      using p
    proof (rule pagesE)
      fix res'
      assume "execute Q g (r\<lparr>qr_continuation := t\<rparr>) selection = Ok res'" "qs_continuation res' = None"
      then show ?thesis using res nxt by simp
    next
      fix res' t' ms2
      assume "ms' = qs_matches res' @ ms2" "execute Q g (r\<lparr>qr_continuation := t\<rparr>) selection = Ok res'"
        "qs_continuation res' = Some t'" "pages Q g r selection (Some t') ms2"
      then show ?thesis using res nxt IH m
        by (simp add: add.commute [of n] drop_drop [symmetric] append_take_drop_id del: drop_drop)
    qed
    ultimately show ?thesis by blast
  next
    case False
    then have none: "qs_continuation res = None" using c by simp
    then have "pages Q g r selection t (qs_matches res)" using pages.last_page [OF res] by blast
    moreover have "map qm_ref ms' = drop n ?R" if p: "pages Q g r selection t ms'" for ms'
      using p by (rule pagesE) (use res none m False in auto)
    ultimately show ?thesis by blast
  qed
qed

section \<open>Chains of an explanation\<close>

definition has_link :: "graph \<Rightarrow> dependency_hop \<Rightarrow> bool" where
  "has_link g h \<longleftrightarrow> linked g (dh_relation h) (dh_from h) (dh_to h)"

text \<open>Hops that start at a reference, follow links of the graph in the direction asked for, and end at another.\<close>

fun chain :: "graph \<Rightarrow> string \<Rightarrow> entity_ref \<Rightarrow> dependency_hop list \<Rightarrow> entity_ref \<Rightarrow> bool" where
  "chain g direction a [] b = (a = b)"
| "chain g direction a (h # hs) b = (has_link g h \<and>
     (if direction = ''upstream'' then dh_to h = a \<and> chain g direction (dh_from h) hs b
      else dh_from h = a \<and> chain g direction (dh_to h) hs b))"

lemma chain_append: "chain g direction a (hs @ hs') c \<longleftrightarrow>
    (\<exists>b. chain g direction a hs b \<and> chain g direction b hs' c)"
  by (induction hs arbitrary: a) auto

definition neighbor_ok :: "graph \<Rightarrow> string \<Rightarrow> entity_ref \<Rightarrow> entity_ref \<times> string \<Rightarrow> bool" where
  "neighbor_ok g direction c n \<longleftrightarrow> chain g direction c [make_hop direction c n] (fst n)"

lemma neighbors_linked:
  assumes "graph_wf g" and "(n, rel) \<in> set (neighbors g direction c)"
  shows "neighbor_ok g direction c (n, rel)"
proof (cases "direction = ''upstream''")
  case True
  then obtain e l where "e \<in> set (bm_values (g_entities g))" "l \<in> set (en_links e)"
    "lk_target l = c" "n = en_ref e" "rel = lk_relation l"
    using assms(2) by (auto simp: neighbors_def)
  then have "linked g rel n c" using graph_entity_iff [OF assms(1)] by (auto simp: linked_def)
  then show ?thesis using True by (simp add: make_hop_def has_link_def neighbor_ok_def)
next
  case False
  then obtain e where "graph_entity g c = Some e"
    using assms(2) by (cases "graph_entity g c") (simp_all add: neighbors_def)
  then show ?thesis using assms(2) False
    by (auto simp: neighbors_def make_hop_def has_link_def linked_def neighbor_ok_def)
qed

definition explored_ok :: "query_codec \<Rightarrow> graph \<Rightarrow> string \<Rightarrow> nat \<Rightarrow> entity_ref \<Rightarrow> explored \<Rightarrow> bool" where
  "explored_ok Q g direction depth start x \<longleftrightarrow> distinct (xp_paths x)
     \<and> (\<forall>p \<in> set (xp_paths x). text_of_hops Q p \<in> set (xp_visited x) \<and> p \<noteq> []
          \<and> length p \<le> depth \<and> (\<exists>t. chain g direction start p t))"

definition item_ok :: "graph \<Rightarrow> string \<Rightarrow> entity_ref \<Rightarrow> explore_item \<Rightarrow> bool" where
  "item_ok g direction start = (\<lambda>(c, p, d). length p = d \<and> chain g direction start p c)"

lemma explore_neighbor_ok:
  assumes "explored_ok Q g direction depth start x" and "item_ok g direction start (c, p, d)"
    and "d < depth" and "neighbor_ok g direction c n"
    and "\<forall>i \<in> set q. item_ok g direction start i"
    and "explore_neighbor Q direction (c, p, d) (x, q) n = (x', q')"
  shows "explored_ok Q g direction depth start x' \<and> (\<forall>i \<in> set q'. item_ok g direction start i)"
proof -
  obtain m rel where n: "n = (m, rel)" by force
  let ?e = "p @ [make_hop direction c (m, rel)]"
  have e: "chain g direction start ?e m" "length ?e = Suc d"
    using assms(2,4) n by (auto simp: item_ok_def chain_append neighbor_ok_def)
  show ?thesis
  proof (cases "list_ex (\<lambda>h. dh_from h = m \<or> dh_to h = m) p")
    case True
    then show ?thesis using assms(1,5,6) n by (auto simp: explore_neighbor_def explored_ok_def)
  next
    case new: False
    show ?thesis
    proof (cases "text_of_hops Q ?e \<in> set (xp_visited x)")
      case True
      then show ?thesis using new assms(1,5,6) n
        by (auto simp: explore_neighbor_def explored_ok_def set_insert_def Let_def)
    next
      case False
      then have x': "x' = x\<lparr>xp_visited := set_add (text_of_hops Q ?e) (xp_visited x),
          xp_paths := xp_paths x @ [?e]\<rparr>" "q' = q @ [(m, ?e, d + 1)]"
        using new assms(6) n by (auto simp: explore_neighbor_def set_insert_def Let_def)
      have "?e \<notin> set (xp_paths x)" using False assms(1) by (auto simp: explored_ok_def)
      then show ?thesis using assms(1,3,5) e x' by (auto simp: explored_ok_def item_ok_def)
    qed
  qed
qed

lemma explore_neighbors_ok:
  assumes "explored_ok Q g direction depth start x" and "item_ok g direction start (c, p, d)"
    and "d < depth" and "\<forall>n \<in> set ns. neighbor_ok g direction c n"
    and "\<forall>i \<in> set q. item_ok g direction start i"
    and "foldl (explore_neighbor Q direction (c, p, d)) (x, q) ns = (x', q')"
  shows "explored_ok Q g direction depth start x' \<and> (\<forall>i \<in> set q'. item_ok g direction start i)"
  using assms
proof (induction ns arbitrary: x q)
  case (Cons n ns)
  obtain y r where y: "explore_neighbor Q direction (c, p, d) (x, q) n = (y, r)" by force
  have "explored_ok Q g direction depth start y \<and> (\<forall>i \<in> set r. item_ok g direction start i)"
    using explore_neighbor_ok [OF Cons.prems(1-3) _ Cons.prems(5) y] Cons.prems(4) by simp
  then show ?case using Cons.IH [of y r] Cons.prems y by simp
qed simp

lemma explore_ok:
  "graph_wf g \<Longrightarrow> explored_ok Q g direction depth start x \<Longrightarrow> \<forall>i \<in> set queue. item_ok g direction start i
     \<Longrightarrow> explored_ok Q g direction depth start (explore Q g direction depth x queue)"
proof (induction Q g direction depth x queue rule: explore.induct)
  case (2 Q g direction depth x current path d queue)
  show ?case
  proof (cases "depth \<le> d")
    case True
    then show ?thesis using 2 by simp
  next
    case False
    obtain x' q' where f: "foldl (explore_neighbor Q direction (current, path, d)) (x, queue)
        (neighbors g direction current) = (x', q')" by force
    have "\<forall>n \<in> set (neighbors g direction current). neighbor_ok g direction current n"
      using neighbors_linked [OF 2(3)] by auto
    then have "explored_ok Q g direction depth start x' \<and> (\<forall>i \<in> set q'. item_ok g direction start i)"
      using explore_neighbors_ok [OF 2(4) _ _ _ _ f] 2(5) False by simp
    then show ?thesis using 2(2) [OF False f [symmetric] 2(3)] False f by simp
  qed
qed simp

lemma sorted_distinct_adj: "sorted xs \<Longrightarrow> distinct_adj xs \<Longrightarrow> distinct xs" for xs :: "'a::linorder list"
proof (induction xs)
  case (Cons x xs)
  then show ?case by (cases xs) auto
qed simp

lemma foldl_max_upper: "d \<in> set ds \<or> d \<le> a \<Longrightarrow> d \<le> foldl max a ds" for d :: nat
proof (induction ds arbitrary: a)
  case (Cons x xs)
  then have "d \<in> set xs \<or> d \<le> max a x" by (auto simp: le_max_iff_disj)
  then show ?case using Cons.IH by simp
qed simp

section \<open>Properties\<close>

text \<open>C12: Traversal gives, sorted and without duplicates, exactly the references that the steps reach one
  after the other: each step leads from a reference to the other references a chain of at most its
  maximal number of links of its relation leads to.\<close>

theorem traverse_exact:
  "set (traverse g starts steps) = foldl (\<lambda>S step. {r. \<exists>s \<in> S. r \<noteq> s \<and> (\<exists>n \<le> ts_max_depth step.
        (s, r) \<in> {(a, b). linked g (ts_relation step) a b} ^^ n)}) (set starts) steps
   \<and> sorted (traverse g starts steps) \<and> distinct (traverse g starts steps)"
proof -
  have "(\<lambda>S step. {r. \<exists>s \<in> S. r \<noteq> s \<and> (\<exists>n \<le> ts_max_depth step.
        (s, r) \<in> {(a, b). linked g (ts_relation step) a b} ^^ n)}) = (\<lambda>S step. reaches g step `` S)"
    by (simp add: fun_eq_iff reaches_def Image_def)
  moreover have "sorted (remdups_adj (sort xs)) \<and> distinct (remdups_adj (sort xs))" for xs :: "string list"
    by (simp add: sorted_remdups_adj sorted_distinct_adj)
  ultimately show ?thesis by (simp add: traverse_def traverse_steps_set)
qed

definition sample_query_codec :: query_codec where
  "sample_query_codec = \<lparr>qk_codec = sample_codec, text_of_request = (\<lambda>r. concat (qr_kind r)),
     text_of_hops = (\<lambda>hs. concat (map (\<lambda>h. dh_from h @ ''>'' @ dh_relation h @ ''>'' @ dh_to h @ '';'') hs))\<rparr>"

definition sample_request :: query_request where
  "sample_request = \<lparr>qr_revision = ''g1.m0.f0.v0.e'', qr_from = Document, qr_kind = [''cad.object''],
     qr_predicate = JObj [(''visible'', JBool True)], qr_traverse = [], qr_select = [''Length''],
     qr_order_by = [], qr_limit = 1, qr_continuation = None, qr_cost_budget = None, qr_tolerance = None\<rparr>"

text \<open>C10: A query that succeeds was asked for the revision of the graph, stayed within depth and cost limits,
  and returns at most a thousand matches, each an entity of the graph inside the scope, of a wanted kind,
  satisfying the predicate, and projected to the selected fields.\<close>

theorem execute_sound:
  assumes "execute Q g r selection = Ok res"
  shows "(qr_revision r = revision_id (g_revision g) \<or> qr_revision r = geometry_id (g_revision g))
     \<and> (\<forall>s \<in> set (qr_traverse r). ts_max_depth s \<le> 8)
     \<and> length (qs_matches res) \<le> min 1000 (max (qr_limit r) 1)
     \<and> (\<forall>m \<in> set (qs_matches res). \<exists>e. graph_entity g (qm_ref m) = Some e
          \<and> qm_ref m \<in> set (scope_refs g r selection)
          \<and> (qr_kind r = [] \<or> en_kind e \<in> set (qr_kind r)) \<and> matches_predicate g e (qr_predicate r)
          \<and> qm_projection m = project e (qr_select r))"
  using assms
proof (rule execute_Ok)
  fix start
  let ?R = "result_refs Q g r selection" and ?stop = "page_end start (page_limit r) (length (result_refs Q g r selection))"
  let ?page = "take (?stop - start) (drop start ?R)"
  assume adm: "admitted g r" and m: "qs_matches res = List.map_filter (make_match g r) ?page"
  have "foldl max 0 ds \<le> (8::nat) \<Longrightarrow> d \<in> set ds \<Longrightarrow> d \<le> 8" for d and ds :: "nat list"
    using foldl_max_upper [of d ds 0] by simp
  then have depth: "\<forall>s \<in> set (qr_traverse r). ts_max_depth s \<le> 8"
    using adm by (fastforce simp: admitted_def)
  have sub: "set ?page \<subseteq> set ?R" by (meson in_set_dropD in_set_takeD subsetI)
  have "map qm_ref (qs_matches res) = ?page"
    unfolding m by (rule map_filter_make_match) (use sub result_refs_entities in blast)
  then have "length (qs_matches res) = length ?page" by (metis length_map)
  also have "\<dots> \<le> ?stop - start" by simp
  also have "\<dots> \<le> page_limit r" by (simp add: page_end_def mod_less_eq_dividend le_diff_conv min.coboundedI1 add.commute)
  finally have len: "length (qs_matches res) \<le> min 1000 (max (qr_limit r) 1)"
    by (simp add: page_limit_def min.commute)
  have "\<exists>e. graph_entity g (qm_ref q) = Some e
          \<and> qm_ref q \<in> set (scope_refs g r selection)
          \<and> (qr_kind r = [] \<or> en_kind e \<in> set (qr_kind r)) \<and> matches_predicate g e (qr_predicate r)
          \<and> qm_projection q = project e (qr_select r)" if "q \<in> set (qs_matches res)" for q
  proof -
    from that m obtain x where x: "x \<in> set ?page" "make_match g r x = Some q"
      by (auto simp: map_filter_def)
    then have "x \<in> set ?R" using sub by blast
    then show ?thesis using x(2) by (auto simp: result_refs_set selected_iff make_match_def)
  qed
  then show ?thesis using adm depth len by (auto simp: admitted_def)
qed

lemma sample_admitted: "admitted sample_graph sample_request"
proof -
  have "qr_revision sample_request = revision_id (g_revision sample_graph)"
    by code_simp
  then show ?thesis
    by (simp add: admitted_def estimate_cost_def u64_max_def sample_request_def sample_graph_def)
qed

lemma sample_results: "result_refs sample_query_codec sample_graph sample_request [] = [box_a, box_b]"
  by code_simp

lemma sample_pages:
  "\<exists>res. execute sample_query_codec sample_graph sample_request [] = Ok res"
  "\<exists>res. execute sample_query_codec sample_graph
     (sample_request\<lparr>qr_continuation := Some (page_token (hash_request sample_query_codec sample_request) 1)\<rparr>) [] = Ok res"
proof -
  have len: "length (result_refs sample_query_codec sample_graph sample_request []) + 1000 < 2 ^ 64"
    by (simp add: sample_results)
  have "sample_request\<lparr>qr_continuation := None\<rparr> = sample_request" by (simp add: sample_request_def)
  moreover have "token_at sample_query_codec sample_request 0 None"
    by (simp add: token_at_def continuation_offset_def)
  ultimately show "\<exists>res. execute sample_query_codec sample_graph sample_request [] = Ok res"
    using page_from [OF sample_admitted _ _ len] by (metis le0)
  have "token_at sample_query_codec sample_request 1
      (Some (page_token (hash_request sample_query_codec sample_request) 1))"
    by (simp add: token_at_def continuation_offset_token u64_max_def)
  then show "\<exists>res. execute sample_query_codec sample_graph
     (sample_request\<lparr>qr_continuation := Some (page_token (hash_request sample_query_codec sample_request) 1)\<rparr>) [] = Ok res"
    using page_from [OF sample_admitted _ _ len] sample_results by fastforce
qed

theorem execute_sound_witness:
  "\<exists>res. execute sample_query_codec sample_graph sample_request [] = Ok res \<and> length (qs_matches res) \<le> 1"
proof -
  obtain res where res: "execute sample_query_codec sample_graph sample_request [] = Ok res"
    using sample_pages(1) by blast
  show ?thesis using execute_sound [OF res] res by (auto simp: sample_request_def)
qed

text \<open>C11: A client that follows the continuation tokens of an admitted query until there is none left always
  comes to an end, and has then received every result exactly once, in order.\<close>

theorem pages_cover_all_results:
  assumes "admitted g r" and "length (result_refs Q g r selection) + 1000 < 2 ^ 64"
  shows "(\<exists>ms. pages Q g r selection None ms)
     \<and> (\<forall>ms. pages Q g r selection None ms \<longrightarrow> map qm_ref ms = result_refs Q g r selection)"
  using pages_from [OF assms, of 0 None] by (simp add: token_at_def continuation_offset_def)

theorem pages_cover_all_results_witness:
  "\<exists>ms. pages sample_query_codec sample_graph sample_request [] None ms \<and> map qm_ref ms = [box_a, box_b]"
proof -
  have "length (result_refs sample_query_codec sample_graph sample_request []) + 1000 < 2 ^ 64"
    by (simp add: sample_results)
  then show ?thesis using pages_cover_all_results [OF sample_admitted] sample_results by metis
qed

text \<open>A continuation token is accepted only for the request it was made for: one that carries another
  query hash is rejected, and every accepted token carries the hash and an offset in decimal.\<close>

theorem continuation_bound_to_query:
  assumes "execute Q g r selection = Ok res" and "qr_continuation r = Some t"
  shows "\<exists>digits n. t = ''qcont:'' @ hash_request Q r @ '':'' @ digits \<and> parse_usize digits = Some n
     \<and> n \<le> length (result_refs Q g r selection)"
  using assms(1)
proof (rule execute_Ok)
  fix start
  assume "continuation_offset (qr_continuation r) (hash_request Q r) = Ok start"
    and le: "start \<le> page_end start (page_limit r) (length (result_refs Q g r selection))"
  then have "\<exists>digits. t = ''qcont:'' @ hash_request Q r @ '':'' @ digits \<and> parse_usize digits = Some start"
    using assms(2)
    by (auto simp: continuation_offset_def strip_prefix_Some_iff rsplit_once_Some_iff split: if_splits)
  then show ?thesis using le page_end_le order_trans by blast
qed

theorem continuation_bound_to_query_witness:
  "\<exists>digits. page_token (hash_request sample_query_codec sample_request) 1
     = ''qcont:'' @ hash_request sample_query_codec sample_request @ '':'' @ digits"
proof -
  obtain res where "execute sample_query_codec sample_graph
     (sample_request\<lparr>qr_continuation := Some (page_token (hash_request sample_query_codec sample_request) 1)\<rparr>) [] = Ok res"
    using sample_pages(2) by blast
  from continuation_bound_to_query [OF this] show ?thesis by auto
qed

text \<open>A token of the same query with an offset past the end of the results makes the slice panic.\<close>

lemma past_end_panics:
  assumes "admitted g r" and "length (result_refs Q g r selection) < n" and "n + 1000 < 2 ^ 64"
    and "qr_continuation r = Some (page_token (hash_request Q r) n)"
  shows "execute Q g r selection = Err (QueryPanic ''range start is past the end'')"
proof -
  have "continuation_offset (qr_continuation r) (hash_request Q r) = Ok n"
    using assms(3,4) by (simp add: continuation_offset_token u64_max_def)
  moreover have "page_end n (page_limit r) (length (result_refs Q g r selection)) < n"
    using assms(2) page_end_le le_less_trans by blast
  ultimately show ?thesis using execute_admitted [OF assms(1), of Q n selection] by auto
qed

lemma sample_offset:
  defines "r \<equiv> sample_request\<lparr>qr_continuation := Some (page_token (hash_request sample_query_codec sample_request) 3)\<rparr>"
  shows "admitted sample_graph r" and "length (result_refs sample_query_codec sample_graph r []) < 3"
    and "qr_continuation r = Some (page_token (hash_request sample_query_codec r) 3)"
  using sample_admitted by (simp_all add: r_def admitted_def sample_results hash_request_def)

text \<open>A relation predicate whose value is the name of a kind holds for every entity that has a link of the
  relation, whatever the kind of the link's target: the value is not a boolean, which counts as true.\<close>

theorem relation_kind_is_not_checked:
  "predicate_field g e (''relation'', JObj [(relation, JStr kind)]) \<longleftrightarrow>
     (\<exists>l \<in> set (en_links e). lk_relation l = relation)"
  by (auto simp: predicate_field_def relation_condition_def list_ex_iff)

text \<open>Every path of an explanation is a chain of at most the asked number of existing links that starts at
  the reference and runs in the asked direction; no path is listed twice, and more than eight levels are
  refused.\<close>

theorem explanation_paths_are_chains:
  assumes "graph_wf g" and "explain_dependencies Q g reference direction depth = Some x"
  shows "depth \<le> 8 \<and> distinct (de_paths x) \<and> (\<forall>p \<in> set (de_paths x). p \<noteq> [] \<and> length p \<le> depth
     \<and> (\<exists>t. chain g direction reference p t))"
proof -
  let ?x = "explore Q g direction depth \<lparr>xp_paths = [], xp_visited = [], xp_cycles = []\<rparr> [(reference, [], 0)]"
  have "explored_ok Q g direction depth reference ?x"
    using assms(1) by (rule explore_ok) (simp_all add: explored_ok_def item_ok_def)
  then show ?thesis using assms(2)
    by (auto simp: explain_dependencies_def explored_ok_def Let_def if_None_Some_iff split del: if_split)
qed

theorem explanation_paths_are_chains_witness:
  "\<exists>x. explain_dependencies sample_query_codec sample_graph box_b ''downstream'' 8 = Some x \<and> distinct (de_paths x)"
proof -
  have "graph_wf sample_graph" and "graph_entity sample_graph box_b \<noteq> None" by code_simp+
  moreover from this(2) obtain x
    where "explain_dependencies sample_query_codec sample_graph box_b ''downstream'' 8 = Some x"
    by (auto simp: explain_dependencies_def Let_def)
  ultimately show ?thesis using explanation_paths_are_chains by blast
qed

end
