(* ===== verification/BridgeDto.thy ===== *)
theory BridgeDto
  imports Policy
begin

text \<open>
  The crates \<^verbatim>\<open>bridge-dto\<close> and \<^verbatim>\<open>ipc-client\<close>: the records exchanged with the bridge inside the
  CAD process, the framing of messages (a big-endian 32-bit length, then the JSON text), the pairing
  proof, and the client's requests.

  A stream is the bytes still to be read and the bytes written so far; reading past the end is an
  I/O error, writing always succeeds.  Texts of values are parameters.
\<close>

section \<open>Records\<close>

definition IPC_VERSION :: string where
  "IPC_VERSION = ''ipc/1.0''"

definition DTO_VERSION :: string where
  "DTO_VERSION = ''bridge-dto/1.0''"

definition MAX_FRAME :: nat where
  "MAX_FRAME = 4 * 1024 * 1024"

datatype wire_error = WireIo string | WireSerialization string | FrameTooLarge nat | InvalidProof

record ipc_request =
  iq_protocol_version :: string
  iq_message :: string
  iq_request_id :: string
  iq_session_epoch :: string
  iq_deadline_ms :: nat
  iq_payload :: json

datatype response_status = RespOk | RespError | RespCancelled | RespBusy

record ipc_response =
  ir_protocol_version :: string
  ir_message :: string
  ir_request_id :: string
  ir_status :: response_status
  ir_session_epoch :: string
  ir_payload :: "json option"
  ir_diagnostics :: "diagnostic list"

record freecad_info =
  fi_version :: string
  fi_python :: string
  fi_occt :: string
  fi_mode :: string
  fi_active_workbench :: "string option"

record bridge_limits =
  bl_max_control_message_bytes :: nat
  bl_max_pending_requests :: nat
  bl_max_entities_per_snapshot :: nat

record bridge_hello =
  bh_message :: string
  bh_ipc_versions :: "string list"
  bh_dto_versions :: "string list"
  bh_freecad :: freecad_info
  bh_extractors :: "string list"
  bh_operations :: "string list"
  bh_transaction_safety :: "(string, string) bmap"
  bh_limits :: bridge_limits
  bh_capabilities :: "string list"

record shape_summary =
  sh_shape_type :: string
  sh_topology :: "(string, nat) bmap"
  sh_geometry_type :: "string option"
  sh_exact :: bool
  sh_properties :: json

record bridge_source =
  bs_object :: "string option"
  bs_subelement :: "string option"
  bs_extractor :: string
  bs_kernel_tolerance :: "quantity option"
  bs_fingerprint :: "string option"

record bridge_entity =
  be_ref :: entity_ref
  be_kind :: string
  be_name :: "string option"
  be_label :: "string option"
  be_frame :: "string option"
  be_units :: "(string, string) bmap"
  be_source :: "bridge_source option"
  be_identity :: identity
  be_properties :: json
  be_links :: "link list"
  be_bounds :: "bounds option"
  be_shape :: "shape_summary option"

record selection_item =
  si_ref :: entity_ref
  si_selection_index :: nat
  si_subelement :: "string option"
  si_source :: string

record view_state =
  vs_view_id :: string
  vs_projection :: string
  vs_camera_position :: "vec3 option"
  vs_camera_orientation :: "json option"
  vs_look_direction :: "vec3 option"
  vs_up_direction :: "vec3 option"
  vs_target :: "vec3 option"
  vs_field_of_view_deg :: "f64 option"
  vs_orthographic_scale :: "f64 option"
  vs_clipping :: "(f64 \<times> f64) option"
  vs_viewport :: "(nat \<times> nat \<times> nat) option"
  vs_visible_objects :: "entity_ref list"
  vs_hidden_objects :: "entity_ref list"
  vs_section_planes :: "json list"
  vs_timestamp_ms :: nat

record bridge_snapshot =
  sn_schema_version :: string
  sn_session :: string
  sn_session_epoch :: string
  sn_document :: string
  sn_document_label :: "string option"
  sn_revision :: revision
  sn_active_workbench :: "string option"
  sn_gui_mode :: bool
  sn_active_object :: "entity_ref option"
  sn_active_edit :: "entity_ref option"
  sn_selection :: "selection_item list"
  sn_view :: "view_state option"
  sn_entities :: "bridge_entity list"
  sn_diagnostics :: "diagnostic list"
  sn_metadata :: "(string, json) bmap"

record snapshot_request =
  sq_session :: "string option"
  sq_document :: "string option"
  sq_freshness :: string
  sq_entity_refs :: "entity_ref list"

record change_request =
  cq_changeset :: changeset
  cq_preview_hash :: "string option"

record validation_check =
  vc_id :: string
  vc_status :: string
  vc_message :: string
  vc_evidence :: "entity_ref list"

record validation_result =
  vr_status :: string
  vr_checks :: "validation_check list"

record change_response =
  cr_base_revision :: string
  cr_resulting_revision :: "string option"
  cr_changeset_hash :: string
  cr_preview_hash :: "string option"
  cr_rolled_back :: bool
  cr_rollback_fingerprint_verified :: bool
  cr_diff :: "json option"
  cr_validation :: validation_result

record session_advertisement =
  sa_session :: string
  sa_session_epoch :: string
  sa_endpoint :: string
  sa_pid :: nat
  sa_started_at_ms :: nat
  sa_hello :: bridge_hello
  sa_documents :: "string list"

section \<open>Frames\<close>

definition byte_of_char :: "char \<Rightarrow> 8 word" where
  "byte_of_char c = word_of_nat (of_char c)"

definition be_bytes :: "32 word \<Rightarrow> string" where
  "be_bytes w = map (\<lambda>k. char_of (unat (drop_bit k w) mod 256)) [24, 16, 8, 0]"

definition from_be_bytes :: "string \<Rightarrow> 32 word" where
  "from_be_bytes bs = foldl (\<lambda>w c. w * 256 + word_of_nat (of_char c)) 0 bs"

text \<open>\<^verbatim>\<open>write_frame\<close> of a value with the given text, to a stream with the given output.\<close>

definition write_frame :: "string \<Rightarrow> string \<Rightarrow> (string, wire_error) result" where
  "write_frame bytes output =
     (if MAX_FRAME < length bytes then Err (FrameTooLarge (length bytes))
      else Ok (output @ be_bytes (word_of_nat (length bytes)) @ bytes))"

definition read_exact :: "nat \<Rightarrow> string \<Rightarrow> (string \<times> string, wire_error) result" where
  "read_exact n input =
     (if length input < n then Err (WireIo ''failed to fill whole buffer'')
      else Ok (take n input, drop n input))"

definition read_frame ::
  "(string \<Rightarrow> ('a, string) result) \<Rightarrow> string \<Rightarrow> ('a \<times> string, wire_error) result" where
  "read_frame parse input =
     res_bind (read_exact 4 input) (\<lambda>(len, rest).
     let frame_size = unat (from_be_bytes len) in
     if MAX_FRAME < frame_size then Err (FrameTooLarge frame_size)
     else res_bind (read_exact frame_size rest) (\<lambda>(bytes, rest).
          res_bind (map_err WireSerialization (parse bytes)) (\<lambda>v. Ok (v, rest))))"

section \<open>Pairing\<close>

definition pairing_proof :: "crypto \<Rightarrow> string \<Rightarrow> string \<Rightarrow> string" where
  "pairing_proof K secret nonce = hmac_hex K secret nonce"

definition verify_pairing :: "crypto \<Rightarrow> string \<Rightarrow> string \<Rightarrow> string \<Rightarrow> bool" where
  "verify_pairing K secret nonce proof_text =
     (let expected = pairing_proof K secret nonce in
      length expected = length proof_text
      \<and> foldl (\<lambda>difference (left, right). or difference (xor left right)) (0 :: 8 word)
          (zip (map byte_of_char expected) (map byte_of_char proof_text)) = 0)"

section \<open>The client\<close>

datatype ipc_error =
    IpcIo string
  | IpcSerialization string
  | IpcFrameTooLarge nat
  | BridgeFailure response_status string
  | Authentication
  | UnsupportedTransport

fun ipc_error_of_wire :: "wire_error \<Rightarrow> ipc_error" where
  "ipc_error_of_wire (WireIo e) = IpcIo e"
| "ipc_error_of_wire (WireSerialization e) = IpcSerialization e"
| "ipc_error_of_wire (FrameTooLarge n) = IpcFrameTooLarge n"
| "ipc_error_of_wire InvalidProof = Authentication"

text \<open>The texts of requests and the parser of responses.\<close>

record wire_codec =
  wk_request_text :: "ipc_request \<Rightarrow> string"
  wk_response_parse :: "string \<Rightarrow> (ipc_response, string) result"

text \<open>The client: what the bridge will send, what was sent to it, the pairing secret and the epoch.\<close>

record ipc_client =
  ic_input :: string
  ic_output :: string
  ic_secret :: string
  ic_session_epoch :: string

definition client_new :: "string \<Rightarrow> string \<Rightarrow> ipc_client" where
  "client_new input secret = \<lparr>ic_input = input, ic_output = [], ic_secret = secret, ic_session_epoch = []\<rparr>"

text \<open>The two kinds of sockets, each with what comes from its other end.\<close>

definition connect_endpoint ::
  "(string \<Rightarrow> (string, string) result) \<Rightarrow> (string \<Rightarrow> (string, string) result) \<Rightarrow> string \<Rightarrow> string
     \<Rightarrow> (ipc_client, ipc_error) result" where
  "connect_endpoint tcp unix endpoint secret =
     res_bind (map_err IpcIo (case strip_prefix ''tcp://'' endpoint of
         Some address \<Rightarrow> tcp address
       | None \<Rightarrow> unix endpoint)) (\<lambda>input.
     Ok (client_new input secret))"

definition decode_payload ::
  "(json \<Rightarrow> ('a, string) result) \<Rightarrow> ipc_response \<Rightarrow> ('a, ipc_error) result" where
  "decode_payload from_json response =
     map_err IpcSerialization (from_json (case ir_payload response of None \<Rightarrow> JNull | Some v \<Rightarrow> v))"

definition client_request ::
  "wire_codec \<Rightarrow> string \<Rightarrow> ipc_client \<Rightarrow> string \<Rightarrow> json \<Rightarrow> (ipc_response, ipc_error) result \<times> ipc_client" where
  "client_request W uuid c message payload =
     (let request = \<lparr>iq_protocol_version = IPC_VERSION, iq_message = message, iq_request_id = uuid,
            iq_session_epoch = ic_session_epoch c, iq_deadline_ms = 10000, iq_payload = payload\<rparr>
      in case write_frame (wk_request_text W request) (ic_output c) of
           Err e \<Rightarrow> (Err (ipc_error_of_wire e), c)
         | Ok output \<Rightarrow>
             let c = c\<lparr>ic_output := output\<rparr> in
             case read_frame (wk_response_parse W) (ic_input c) of
               Err e \<Rightarrow> (Err (ipc_error_of_wire e), c)
             | Ok (response, rest) \<Rightarrow>
                 let c = c\<lparr>ic_input := rest\<rparr> in
                 if ir_status response = RespError \<or> ir_status response = RespBusy
                 then (Err (BridgeFailure (ir_status response)
                              (join_with ''; '' (map dg_message (ir_diagnostics response)))), c)
                 else (Ok response, c))"

definition client_authenticate ::
  "wire_codec \<Rightarrow> crypto \<Rightarrow> string \<Rightarrow> string \<Rightarrow> ipc_client \<Rightarrow> (ipc_response, ipc_error) result \<times> ipc_client" where
  "client_authenticate W K nonce uuid c =
     (case client_request W uuid c ''bridge.authenticate''
             (jobj [(''nonce'', JStr nonce), (''proof'', JStr (pairing_proof K (ic_secret c) nonce))]) of
        (Err e, c) \<Rightarrow> (Err e, c)
      | (Ok response, c) \<Rightarrow>
          if ir_status response \<noteq> RespOk then (Err Authentication, c)
          else (Ok response, c\<lparr>ic_session_epoch := ir_session_epoch response\<rparr>))"

definition client_call ::
  "wire_codec \<Rightarrow> string \<Rightarrow> (json \<Rightarrow> ('a, string) result) \<Rightarrow> ipc_client \<Rightarrow> string \<Rightarrow> json
     \<Rightarrow> ('a, ipc_error) result \<times> ipc_client" where
  "client_call W uuid from_json c message payload =
     (case client_request W uuid c message payload of
        (r, c) \<Rightarrow> (res_bind r (decode_payload from_json), c))"

section \<open>Laws\<close>

lemma of_char_lt: "(of_char c :: nat) < 256"
  by (cases c) (simp add: of_char_def)

lemma byte_of_char_inject [simp]: "byte_of_char a = byte_of_char b \<longleftrightarrow> a = b"
proof
  assume "byte_of_char a = byte_of_char b"
  then have "unat (byte_of_char a) = unat (byte_of_char b)" by simp
  then have "(of_char a :: nat) = of_char b"
    using of_char_lt [of a] of_char_lt [of b] by (simp add: byte_of_char_def unat_of_nat)
  then show "a = b" by (rule of_char_eq_iff [THEN iffD1])
qed simp

lemma length_be_bytes [simp]: "length (be_bytes w) = 4"
  by (simp add: be_bytes_def)

lemma base_256_digits:
  fixes n :: nat
  assumes "n < 2 ^ 32"
  shows "((n div 2 ^ 24 mod 256 * 256 + n div 2 ^ 16 mod 256) * 256 + n div 2 ^ 8 mod 256) * 256
    + n mod 256 = n"
proof -
  have step: "n div k * 256 + (n div l mod 256) = n div l" if "k = l * 256" for k l
    using that div_mult2_eq [of n l 256] div_mult_mod_eq [of "n div l" 256] by simp
  have "n div 2 ^ 24 mod 256 = n div 2 ^ 24" using assms by simp
  moreover have "n div 2 ^ 24 * 256 + n div 2 ^ 16 mod 256 = n div 2 ^ 16" by (rule step) simp
  moreover have "n div 2 ^ 16 * 256 + n div 2 ^ 8 mod 256 = n div 2 ^ 8" by (rule step) simp
  moreover have "n div 2 ^ 8 * 256 + n mod 256 = n" using step [of "2 ^ 8" 1] by simp
  ultimately show ?thesis by simp
qed

lemma from_be_bytes_be_bytes [simp]: "from_be_bytes (be_bytes w) = w"
proof -
  let ?n = "unat w"
  have "from_be_bytes (be_bytes w) = word_of_nat (((?n div 2 ^ 24 mod 256 * 256 + ?n div 2 ^ 16 mod 256) * 256
      + ?n div 2 ^ 8 mod 256) * 256 + ?n mod 256)"
    by (simp add: from_be_bytes_def be_bytes_def unat_drop_bit_eq drop_bit_eq_div unat_div_distrib)
  also have "\<dots> = word_of_nat ?n"
    using base_256_digits [of ?n] unsigned_less [of w, where ?'a = nat] by (simp only: len_num0 len_num1 len_bit0 len_bit1) simp
  finally show ?thesis by simp
qed

lemma read_exact_append [simp]: "length a = n \<Longrightarrow> read_exact n (a @ b) = Ok (a, b)"
  by (simp add: read_exact_def)

lemma length_frame: "n \<le> MAX_FRAME \<Longrightarrow> unat (word_of_nat n :: 32 word) = n"
  by (simp add: MAX_FRAME_def unat_of_nat)

lemma zip_xor_fold:
  "length as = length bs \<Longrightarrow>
   foldl (\<lambda>d (l, r). or d (xor l r)) acc (zip as bs) = 0 \<longleftrightarrow> acc = 0 \<and> as = bs" for acc :: "8 word"
proof (induction as bs arbitrary: acc rule: list_induct2)
  case (Cons a as b bs)
  have or0: "or x y = 0 \<longleftrightarrow> x = 0 \<and> y = 0" for x y :: "8 word"
    by (simp add: bit_eq_iff bit_or_iff) blast
  have "xor a b = 0 \<longleftrightarrow> a = b"
    by (auto simp: bit_eq_iff bit_xor_iff)
  then show ?case using Cons.IH by (auto simp: or0)
qed simp

section \<open>Properties\<close>

text \<open>A value written as a frame is read back from the front of the stream, leaving exactly the bytes
  after it; a value whose text exceeds the frame limit is refused before anything is written, and a frame
  whose announced length exceeds the limit is refused before its body is read.\<close>

theorem frame_round_trip:
  assumes "parse bytes = Ok v"
  shows "(if length bytes \<le> MAX_FRAME
          then \<exists>frame. write_frame bytes sink = Ok (sink @ frame)
             \<and> read_frame parse (frame @ rest) = Ok (v, rest)
          else write_frame bytes sink = Err (FrameTooLarge (length bytes)))
     \<and> (MAX_FRAME < unat w \<longrightarrow> read_frame parse (be_bytes w @ rest) = Err (FrameTooLarge (unat w)))"
  using assms by (simp add: write_frame_def read_frame_def length_frame not_le)

theorem frame_round_trip_witness:
  "\<exists>frame. write_frame ''true'' ''x'' = Ok (''x'' @ frame)
     \<and> read_frame (\<lambda>s. if s = ''true'' then Ok True else Err ''expected value'') (frame @ ''y'') = Ok (True, ''y'')"
proof -
  let ?parse = "\<lambda>s. if s = ''true'' then Ok True else Err ''expected value''"
  have "?parse ''true'' = Ok True" by simp
  then show ?thesis using frame_round_trip [where parse = ?parse and bytes = "''true''" and v = True
        and sink = "''x''" and rest = "''y''" and w = 0]
    by (simp add: MAX_FRAME_def)
qed

text \<open>The bytewise comparison of pairing proofs, which looks at every byte, accepts exactly the proof that
  the secret gives for the nonce.\<close>

theorem verify_pairing_iff:
  "verify_pairing K secret nonce proof_text \<longleftrightarrow> proof_text = hmac_hex K secret nonce"
proof -
  have "map byte_of_char a = map byte_of_char b \<longleftrightarrow> a = b" for a b
    by (rule inj_map_eq_map) (simp add: inj_def)
  then show ?thesis
    by (auto simp: verify_pairing_def pairing_proof_def Let_def zip_xor_fold)
qed

end
