(* ===== verification/ArtifactStore.thy ===== *)
theory ArtifactStore
  imports Ccir
begin

text \<open>
  The crate \<^verbatim>\<open>artifact-store\<close>: files named by the digest of their content, a manifest beside each,
  and a quota on the bytes of content.

  The root directory is the ordered map from file names to contents, read in name order; file modes
  and interrupted writes are not modelled.  Creating a file that exists fails, renaming replaces the
  target.  The digest and the manifest's text are parameters, the process id and the clock arguments.
\<close>

section \<open>Types\<close>

datatype artifact_error =
    ArtifactRoot string
  | ArtifactNotFound string
  | QuotaExceeded
  | InvalidMetadata string
  | ArtifactSerialization string

record artifact_manifest =
  am_uri :: string
  am_media_type :: string
  am_bytes :: nat
  am_source_revision :: string
  am_source_entities :: "string list"
  am_generator :: string
  am_parameters :: json
  am_arrays :: "(string, json) bmap"
  am_created_at_ms :: nat
  am_expires_at_ms :: "nat option"

record artifact_input =
  ai_bytes :: string
  ai_media_type :: string
  ai_source_revision :: string
  ai_source_entities :: "string list"
  ai_generator :: string
  ai_parameters :: json
  ai_expires_at_ms :: "nat option"

type_synonym directory = "(string, string) bmap"

record artifact_store =
  as_root :: directory
  as_max_bytes :: nat

record artifact_codec =
  ak_sha256_hex :: "string \<Rightarrow> string"
  ak_manifest_text :: "artifact_manifest \<Rightarrow> string"
  ak_manifest_parse :: "string \<Rightarrow> (artifact_manifest, string) result"

section \<open>Operations\<close>

text \<open>\<^verbatim>\<open>Path::extension\<close> of a file name: what follows the last dot, unless the dot is the first character.\<close>

definition extension :: "string \<Rightarrow> string option" where
  "extension name =
     (case rsplit_once CHR ''.'' name of
        None \<Rightarrow> None | Some (stem, ext) \<Rightarrow> if stem = [] then None else Some ext)"

definition artifact_digest :: "artifact_codec \<Rightarrow> string \<Rightarrow> string" where
  "artifact_digest A bytes = ''sha256-'' @ ak_sha256_hex A bytes"

definition normalize_hash :: "string \<Rightarrow> (string, artifact_error) result" where
  "normalize_hash v =
     (let hash = (case rsplit_once CHR ''/'' v of None \<Rightarrow> v | Some (_, last_part) \<Rightarrow> last_part) in
      if \<not> starts_with ''sha256-'' hash \<or> length hash \<noteq> 71
         \<or> \<not> list_all is_ascii_hexdigit (drop 7 hash)
      then Err (InvalidMetadata v) else Ok hash)"

definition current_bytes :: "artifact_store \<Rightarrow> nat" where
  "current_bytes s =
     sum_list (map (\<lambda>(name, content). if extension name = None then length content else 0) (as_root s))"

definition create_renamed :: "string \<Rightarrow> string \<Rightarrow> string \<Rightarrow> artifact_store
    \<Rightarrow> (unit, artifact_error) result \<times> artifact_store" where
  "create_renamed temporary target content s =
     (if bm_contains (as_root s) temporary then (Err (ArtifactRoot ''File exists''), s)
      else (Ok (), s\<lparr>as_root := bm_insert target content (as_root s)\<rparr>))"

definition make_manifest :: "artifact_codec \<Rightarrow> nat \<Rightarrow> artifact_input \<Rightarrow> artifact_manifest" where
  "make_manifest A now input =
     \<lparr>am_uri = ''freecad://artifact/'' @ artifact_digest A (ai_bytes input),
      am_media_type = ai_media_type input, am_bytes = length (ai_bytes input),
      am_source_revision = ai_source_revision input,
      am_source_entities = ai_source_entities input, am_generator = ai_generator input,
      am_parameters = ai_parameters input, am_arrays = [], am_created_at_ms = now,
      am_expires_at_ms = ai_expires_at_ms input\<rparr>"

definition store_content :: "artifact_codec \<Rightarrow> nat \<Rightarrow> string \<Rightarrow> artifact_store
    \<Rightarrow> (unit, artifact_error) result \<times> artifact_store" where
  "store_content A pid bytes s =
     (let digest = artifact_digest A bytes in
      if bm_contains (as_root s) digest then (Ok (), s)
      else if as_max_bytes s < length bytes \<or> as_max_bytes s < current_bytes s + length bytes
      then (Err QuotaExceeded, s)
      else create_renamed (''.'' @ digest @ ''.tmp-'' @ show_nat pid) digest bytes s)"

definition artifact_put :: "artifact_codec \<Rightarrow> nat \<Rightarrow> nat \<Rightarrow> artifact_input \<Rightarrow> artifact_store
    \<Rightarrow> (artifact_manifest, artifact_error) result \<times> artifact_store" where
  "artifact_put A pid now input s =
     (let digest = artifact_digest A (ai_bytes input) in
      case store_content A pid (ai_bytes input) s of
        (Err e, s) \<Rightarrow> (Err e, s)
      | (Ok _, s) \<Rightarrow>
          let manifest = make_manifest A now input in
          case create_renamed (''.'' @ digest @ ''.json.tmp-'' @ show_nat pid) (digest @ ''.json'')
                 (ak_manifest_text A manifest) s of
            (Err e, s) \<Rightarrow> (Err e, s)
          | (Ok _, s) \<Rightarrow> (Ok manifest, s))"

definition artifact_manifest_of :: "artifact_codec \<Rightarrow> artifact_store \<Rightarrow> string
    \<Rightarrow> (artifact_manifest, artifact_error) result" where
  "artifact_manifest_of A s uri_or_hash =
     res_bind (normalize_hash uri_or_hash) (\<lambda>hash.
     res_bind (ok_or (bm_get (as_root s) (hash @ ''.json'')) (ArtifactNotFound uri_or_hash)) (\<lambda>contents.
     map_err ArtifactSerialization (ak_manifest_parse A contents)))"

definition artifact_read :: "artifact_store \<Rightarrow> string \<Rightarrow> (string, artifact_error) result" where
  "artifact_read s uri_or_hash =
     res_bind (normalize_hash uri_or_hash) (\<lambda>hash.
     ok_or (bm_get (as_root s) hash) (ArtifactNotFound uri_or_hash))"

text \<open>One directory entry: an expired manifest is removed together with the content it names.\<close>

definition expire_entry :: "artifact_codec \<Rightarrow> nat \<Rightarrow> artifact_store \<times> nat \<Rightarrow> string \<times> string
    \<Rightarrow> (artifact_store \<times> nat, artifact_error \<times> artifact_store) result" where
  "expire_entry A now = (\<lambda>(s, removed) (name, contents).
     if extension name \<noteq> Some ''json'' then Ok (s, removed)
     else
       (case ak_manifest_parse A contents of
          Err e \<Rightarrow> Err (ArtifactSerialization e, s)
        | Ok manifest \<Rightarrow>
            if (case am_expires_at_ms manifest of None \<Rightarrow> False | Some expires \<Rightarrow> expires \<le> now)
            then (case normalize_hash (am_uri manifest) of
                    Err e \<Rightarrow> Err (e, s)
                  | Ok hash \<Rightarrow>
                      Ok (s\<lparr>as_root := bm_remove name (bm_remove hash (as_root s))\<rparr>, removed + 1))
            else Ok (s, removed)))"

definition remove_expired :: "artifact_codec \<Rightarrow> nat \<Rightarrow> artifact_store
    \<Rightarrow> (nat, artifact_error) result \<times> artifact_store" where
  "remove_expired A now s =
     (case res_fold (expire_entry A now) (s, 0) (as_root s) of
        Err (e, s) \<Rightarrow> (Err e, s)
      | Ok (s, removed) \<Rightarrow> (Ok removed, s))"

section \<open>Laws\<close>

lemma normalize_hash_Ok:
  "normalize_hash v = Ok h \<Longrightarrow> length h = 71 \<and> (\<exists>hex. h = ''sha256-'' @ hex \<and> list_all is_ascii_hexdigit hex)
     \<and> (\<exists>p. v = p @ h \<and> (p = [] \<or> last p = CHR ''/''))"
  by (auto simp: normalize_hash_def Let_def starts_with_iff rsplit_once_Some_iff rsplit_once_None_iff
      split: if_splits option.splits)

lemma hexdigit_chars: "is_ascii_hexdigit c \<Longrightarrow> c \<noteq> CHR ''/'' \<and> c \<noteq> CHR ''.''"
  by (auto simp: ascii_defs)

lemma plain_name_extension: "CHR ''.'' \<notin> set name \<Longrightarrow> extension name = None"
  by (simp add: extension_def rsplit_once_None_iff [THEN iffD2])

lemma extension_dotted: "stem \<noteq> [] \<Longrightarrow> CHR ''.'' \<notin> set ext \<Longrightarrow> extension (stem @ CHR ''.'' # ext) = Some ext"
proof -
  assume stem: "stem \<noteq> []" and "CHR ''.'' \<notin> set ext"
  then have "rsplit_once CHR ''.'' (stem @ CHR ''.'' # ext) = Some (stem, ext)"
    unfolding rsplit_once_Some_iff by blast
  then show ?thesis using stem by (simp add: extension_def)
qed

text \<open>What a file counts against the quota.\<close>

definition counted :: "string \<times> string \<Rightarrow> nat" where
  "counted = (\<lambda>(name, content). if extension name = None then length content else 0)"

lemma counted_Pair [simp]: "counted (k, v) = (if extension k = None then length v else 0)"
  by (simp add: counted_def)

lemma current_bytes_counted: "current_bytes s = sum_list (map counted (as_root s))"
  by (simp add: current_bytes_def counted_def)

lemma counted_insert_new:
  "bm_get m k = None \<Longrightarrow> sum_list (map counted (bm_insert k v m)) = counted (k, v) + sum_list (map counted m)"
  by (induction k v m rule: bm_insert.induct) (auto split: if_splits)

lemma counted_insert_json:
  "extension k \<noteq> None \<Longrightarrow> sum_list (map counted (bm_insert k v m)) = sum_list (map counted m)"
  by (induction k v m rule: bm_insert.induct) auto

lemma counted_remove: "sum_list (map counted (bm_remove k m)) \<le> sum_list (map counted m)"
  by (induction m) (auto simp: bm_remove_def)

lemma hexdigits_chars: "list_all is_ascii_hexdigit s \<Longrightarrow> CHR ''/'' \<notin> set s \<and> CHR ''.'' \<notin> set s"
  using hexdigit_chars by (auto simp: list_all_iff)

text \<open>The digest crates give 64 hexadecimal digits.\<close>

definition hex_digest :: "artifact_codec \<Rightarrow> bool" where
  "hex_digest A \<longleftrightarrow> (\<forall>b. length (ak_sha256_hex A b) = 64 \<and> list_all is_ascii_hexdigit (ak_sha256_hex A b))"

lemma digest_plain:
  assumes "hex_digest A"
  shows "CHR ''.'' \<notin> set (artifact_digest A b)" and "CHR ''/'' \<notin> set (artifact_digest A b)"
proof -
  have "CHR ''/'' \<notin> set (ak_sha256_hex A b) \<and> CHR ''.'' \<notin> set (ak_sha256_hex A b)"
    using assms hexdigits_chars by (simp add: hex_digest_def)
  then show "CHR ''.'' \<notin> set (artifact_digest A b)" and "CHR ''/'' \<notin> set (artifact_digest A b)"
    by (auto simp: artifact_digest_def)
qed

lemma normalize_digest:
  assumes "hex_digest A"
  shows "normalize_hash (''freecad://artifact/'' @ artifact_digest A b) = Ok (artifact_digest A b)"
proof -
  have "''freecad://artifact/'' @ artifact_digest A b = ''freecad://artifact'' @ CHR ''/'' # artifact_digest A b"
    by simp
  then have "rsplit_once CHR ''/'' (''freecad://artifact/'' @ artifact_digest A b)
      = Some (''freecad://artifact'', artifact_digest A b)"
    unfolding rsplit_once_Some_iff using digest_plain(2) [OF assms] by blast
  moreover have "starts_with ''sha256-'' (artifact_digest A b)" "length (artifact_digest A b) = 71"
    "list_all is_ascii_hexdigit (drop 7 (artifact_digest A b))"
    using assms by (simp_all add: artifact_digest_def starts_with_iff hex_digest_def)
  ultimately show ?thesis by (simp add: normalize_hash_def)
qed

text \<open>The file with content, after a successful store.\<close>

lemma store_content_Ok:
  assumes "store_content A pid bytes s = (Ok u, s')"
  shows "as_max_bytes s' = as_max_bytes s
    \<and> (s' = s \<and> bm_contains (as_root s) (artifact_digest A bytes)
       \<or> bm_get (as_root s) (artifact_digest A bytes) = None
         \<and> as_root s' = bm_insert (artifact_digest A bytes) bytes (as_root s)
         \<and> current_bytes s + length bytes \<le> as_max_bytes s)"
  using assms by (auto simp: store_content_def create_renamed_def bm_contains_def Let_def split: if_splits)

lemma artifact_put_cases:
  obtains e where "artifact_put A pid now input s = (Err e, s)"
  | e s1 where "artifact_put A pid now input s = (Err e, s1)"
      and "store_content A pid (ai_bytes input) s = (Ok (), s1)"
  | s1 where "store_content A pid (ai_bytes input) s = (Ok (), s1)"
      and "artifact_put A pid now input s = (Ok (make_manifest A now input),
             s1\<lparr>as_root := bm_insert (artifact_digest A (ai_bytes input) @ ''.json'')
                  (ak_manifest_text A (make_manifest A now input)) (as_root s1)\<rparr>)"
proof -
  obtain r s1 where r: "store_content A pid (ai_bytes input) s = (r, s1)" by force
  show thesis
  proof (cases r)
    case (Inl e)
    then have "s1 = s"
      using r by (auto simp: store_content_def create_renamed_def Let_def split: if_splits)
    then show thesis using r Inl that(1) by (simp add: artifact_put_def Let_def)
  next
    case (Inr u)
    show thesis
    proof (cases "bm_contains (as_root s1) (''.'' @ artifact_digest A (ai_bytes input) @ ''.json.tmp-'' @ show_nat pid)")
      case True
      show thesis
        by (rule that(2) [of "ArtifactRoot ''File exists''" s1])
          (use r Inr True in \<open>simp_all add: artifact_put_def Let_def create_renamed_def\<close>)
    next
      case False
      show thesis
        by (rule that(3) [of s1])
          (use r Inr False in \<open>simp_all add: artifact_put_def Let_def create_renamed_def\<close>)
    qed
  qed
qed

section \<open>The quota\<close>

definition within_quota :: "artifact_store \<Rightarrow> bool" where
  "within_quota s \<longleftrightarrow> current_bytes s \<le> as_max_bytes s"

inductive artifact_step :: "artifact_codec \<Rightarrow> artifact_store \<Rightarrow> artifact_store \<Rightarrow> bool" for A where
  put: "artifact_put A pid now input s = (r, s') \<Longrightarrow> artifact_step A s s'"
| expire: "remove_expired A now s = (n, s') \<Longrightarrow> artifact_step A s s'"

inductive_cases artifact_stepE: "artifact_step A s s'"

lemma store_content_quota:
  assumes "hex_digest A" and "store_content A pid bytes s = (Ok u, s')" and "within_quota s"
  shows "within_quota s'"
  using store_content_Ok [OF assms(2)] assms(3)
    plain_name_extension [OF digest_plain(1) [OF assms(1)], of bytes]
  by (auto simp: within_quota_def current_bytes_counted counted_insert_new)

lemma json_file_counted:
  "extension (artifact_digest A b @ ''.json'') = Some ''json''"
  using extension_dotted [of "artifact_digest A b" "''json''"] by (simp add: artifact_digest_def)

lemma artifact_put_quota:
  assumes "hex_digest A" and "artifact_put A pid now input s = (r, s')" and "within_quota s"
  shows "within_quota s'"
proof (rule artifact_put_cases [of A pid now input s])
  fix e
  assume "artifact_put A pid now input s = (Err e, s)"
  then show ?thesis using assms(2,3) by simp
next
  fix e s1
  assume "artifact_put A pid now input s = (Err e, s1)" "store_content A pid (ai_bytes input) s = (Ok (), s1)"
  then show ?thesis using store_content_quota assms by (metis snd_conv)
next
  fix s1
  assume s1: "store_content A pid (ai_bytes input) s = (Ok (), s1)"
    and eq: "artifact_put A pid now input s = (Ok (make_manifest A now input),
             s1\<lparr>as_root := bm_insert (artifact_digest A (ai_bytes input) @ ''.json'')
                  (ak_manifest_text A (make_manifest A now input)) (as_root s1)\<rparr>)"
  have "within_quota s1" using store_content_quota [OF assms(1) s1 assms(3)] .
  then show ?thesis using eq assms(2) json_file_counted [of A "ai_bytes input"]
    by (auto simp: within_quota_def current_bytes_counted counted_insert_json)
qed

lemma expire_entry_shrinks:
  "expire_entry A now (s, n) x = Ok (t, m) \<Longrightarrow> current_bytes t \<le> current_bytes s \<and> as_max_bytes t = as_max_bytes s"
  "expire_entry A now (s, n) x = Err (e, t) \<Longrightarrow> t = s"
proof -
  have shrink: "current_bytes (s\<lparr>as_root := bm_remove k (bm_remove h (as_root s))\<rparr>) \<le> current_bytes s" for k h
    using counted_remove [of k "bm_remove h (as_root s)"] counted_remove [of h "as_root s"]
    by (simp add: current_bytes_counted)
  obtain name contents where x: "x = (name, contents)" by force
  show "expire_entry A now (s, n) x = Ok (t, m) \<Longrightarrow> current_bytes t \<le> current_bytes s \<and> as_max_bytes t = as_max_bytes s"
    using shrink x by (auto simp: expire_entry_def split: if_splits sum.splits)
  show "expire_entry A now (s, n) x = Err (e, t) \<Longrightarrow> t = s"
    using x by (auto simp: expire_entry_def split: if_splits sum.splits)
qed

lemma remove_expired_shrinks:
  assumes "remove_expired A now s = (r, s')"
  shows "current_bytes s' \<le> current_bytes s \<and> as_max_bytes s' = as_max_bytes s"
proof -
  let ?small = "\<lambda>t. current_bytes t \<le> current_bytes s \<and> as_max_bytes t = as_max_bytes s"
  have "(case res_fold (expire_entry A now) (t, n) xs of Err (e, u) \<Rightarrow> ?small u | Ok (u, m) \<Rightarrow> ?small u)"
    if "?small t" for t n xs
    using that
  proof (induction xs arbitrary: t n)
    case (Cons x xs)
    show ?case
    proof (cases "expire_entry A now (t, n) x")
      case (Inl eu)
      then show ?thesis using Cons.prems expire_entry_shrinks(2) [of A now t n x] by (cases eu) auto
    next
      case (Inr um)
      obtain u m where um: "um = (u, m)" by force
      then have "?small u" using expire_entry_shrinks(1) [of A now t n x u m] Inr Cons.prems by auto
      then show ?thesis using Cons.IH [of u m] Inr um by simp
    qed
  qed simp
  from this [of s 0 "as_root s"] show ?thesis
    using assms by (auto simp: remove_expired_def split: sum.splits prod.splits)
qed

lemma artifact_step_quota: "artifact_step A s s' \<Longrightarrow> hex_digest A \<and> within_quota s \<Longrightarrow> hex_digest A \<and> within_quota s'"
  using artifact_put_quota remove_expired_shrinks
  by (elim artifact_stepE) (fastforce simp: within_quota_def)+

interpretation artifact_runs: step_invariant "artifact_step A" "\<lambda>s. hex_digest A \<and> within_quota s" for A
  by unfold_locales (rule artifact_step_quota)

section \<open>Properties\<close>

definition sample_artifacts :: artifact_codec where
  "sample_artifacts = \<lparr>ak_sha256_hex = (\<lambda>b. replicate 64 CHR ''a''),
     ak_manifest_text = (\<lambda>m. am_media_type m), ak_manifest_parse = (\<lambda>t. Err ''expected value'')\<rparr>"

definition sample_input :: artifact_input where
  "sample_input = \<lparr>ai_bytes = ''hello'', ai_media_type = ''text/plain'', ai_source_revision = ''g1'',
     ai_source_entities = [], ai_generator = ''test/1'', ai_parameters = JNull, ai_expires_at_ms = None\<rparr>"

definition empty_artifacts :: artifact_store where
  "empty_artifacts = \<lparr>as_root = [], as_max_bytes = 16\<rparr>"

lemma sample_hex: "hex_digest sample_artifacts"
  by (simp add: hex_digest_def sample_artifacts_def list_all_iff ascii_defs)

text \<open>What was put is read back under the address the manifest gives, when no stored file has a colliding
  digest; the manifest records its length and is stored beside it.\<close>

theorem put_then_read:
  assumes "artifact_put A pid now input s = (Ok m, s')" and "hex_digest A"
    and "\<And>c. bm_get (as_root s) (artifact_digest A (ai_bytes input)) = Some c \<Longrightarrow> c = ai_bytes input"
  shows "artifact_read s' (am_uri m) = Ok (ai_bytes input) \<and> am_bytes m = length (ai_bytes input)
     \<and> bm_get (as_root s') (artifact_digest A (ai_bytes input) @ ''.json'') = Some (ak_manifest_text A m)"
proof (rule artifact_put_cases [of A pid now input s])
  fix s1
  assume s1: "store_content A pid (ai_bytes input) s = (Ok (), s1)"
    and eq: "artifact_put A pid now input s = (Ok (make_manifest A now input),
             s1\<lparr>as_root := bm_insert (artifact_digest A (ai_bytes input) @ ''.json'')
                  (ak_manifest_text A (make_manifest A now input)) (as_root s1)\<rparr>)"
  have "bm_get (as_root s1) (artifact_digest A (ai_bytes input)) = Some (ai_bytes input)"
    using store_content_Ok [OF s1] assms(3) by (auto simp: bm_contains_def)
  then show ?thesis
    using eq assms(1) normalize_digest [OF assms(2), of "ai_bytes input"]
    by (auto simp: artifact_read_def make_manifest_def)
qed (use assms(1) in simp_all)

theorem put_then_read_witness:
  "artifact_read (snd (artifact_put sample_artifacts 7 0 sample_input empty_artifacts))
     (''freecad://artifact/sha256-'' @ replicate 64 CHR ''a'') = Ok ''hello''"
proof -
  have "is_ok (fst (artifact_put sample_artifacts 7 0 sample_input empty_artifacts))"
    by code_simp
  then obtain m s' where p: "artifact_put sample_artifacts 7 0 sample_input empty_artifacts = (Ok m, s')"
    unfolding is_ok_iff by (metis prod.collapse)
  have "am_uri (projr (fst (artifact_put sample_artifacts 7 0 sample_input empty_artifacts)))
      = ''freecad://artifact/sha256-'' @ replicate 64 CHR ''a''"
    by code_simp
  then show ?thesis
    using put_then_read [OF p sample_hex] p by (simp add: empty_artifacts_def sample_input_def)
qed

text \<open>C13: No sequence of puts and expirations, successful or not, takes the stored content over the quota; in
  particular a put that would exceed it changes nothing.\<close>

theorem quota_is_never_exceeded:
  assumes "rtranclp (artifact_step A) s s'" and "hex_digest A" and "current_bytes s \<le> as_max_bytes s"
  shows "current_bytes s' \<le> as_max_bytes s'"
  using artifact_runs.runs_inv [OF assms(1)] assms(2,3) by (simp add: within_quota_def)

theorem quota_is_never_exceeded_witness:
  "current_bytes (snd (artifact_put sample_artifacts 7 0 sample_input empty_artifacts))
     \<le> as_max_bytes (snd (artifact_put sample_artifacts 7 0 sample_input empty_artifacts))"
proof (rule quota_is_never_exceeded)
  show "rtranclp (artifact_step sample_artifacts) empty_artifacts
      (snd (artifact_put sample_artifacts 7 0 sample_input empty_artifacts))"
    by (rule r_into_rtranclp, rule artifact_step.put [OF prod.collapse [symmetric]])
qed (simp_all add: sample_hex current_bytes_def empty_artifacts_def)

text \<open>An address names a file of the store's own directory only: whatever text is given, the file name
  taken from it has 71 characters, starts with the digest name, and contains no slash and no dot.\<close>

theorem artifact_addresses_stay_inside:
  assumes "normalize_hash v = Ok h"
  shows "length h = 71 \<and> starts_with ''sha256-'' h \<and> CHR ''/'' \<notin> set h \<and> CHR ''.'' \<notin> set h"
  using normalize_hash_Ok [OF assms] by (auto simp: starts_with_iff dest: hexdigits_chars)

theorem artifact_addresses_stay_inside_witness:
  "CHR ''/'' \<notin> set (artifact_digest sample_artifacts ''hello'')"
  using artifact_addresses_stay_inside [OF normalize_digest [OF sample_hex]] by blast

end
