(* ===== verification/Geometry.thy ===== *)
theory Geometry
  imports Samples
begin

text \<open>
  The crate \<^verbatim>\<open>geometry-analysis\<close>: measurements between entities and the recognition of holes,
  with the vector operations of \<^verbatim>\<open>ccir-core\<close> it rests on.

  Square roots are correctly rounded, as IEEE 754 requires; the arc cosine, whose precision the
  standard library leaves open, is a parameter of \<^verbatim>\<open>measure\<close>.
\<close>

section \<open>More operations on doubles\<close>

fun isqrt :: "nat \<Rightarrow> nat" where
  "isqrt n = (if n = 0 then 0
     else let r = 2 * isqrt (n div 4) in if (r + 1) * (r + 1) \<le> n then r + 1 else r)"

declare isqrt.simps [simp del]

text \<open>
  The root of a positive double is \<^term>\<open>pow2 (k - 52)\<close> times a number of 53 bits, and is never half
  way between two of them.
\<close>

fun f64_sqrt :: "f64 \<Rightarrow> f64" where
  "f64_sqrt (Finite x) =
     (if x < 0 then NaN
      else if x = 0 then Finite 0
      else let u = pow2 (ilog2 x div 2 - 52);
               y = x / (u * u);
               f = isqrt (nat \<lfloor>y\<rfloor>);
               m = (if (of_nat f + 1 / 2) * (of_nat f + 1 / 2) < y then f + 1 else f)
           in Finite (of_nat m * u))"
| "f64_sqrt PosInf = PosInf"
| "f64_sqrt x = NaN"

definition f64_clamp :: "f64 \<Rightarrow> f64 \<Rightarrow> f64 \<Rightarrow> f64" where
  "f64_clamp x low high = (if f64_lt x low then low else if f64_lt high x then high else x)"

definition F64_EPSILON :: f64 where
  "F64_EPSILON = Finite (1 / 2 ^ 52)"

text \<open>\<^verbatim>\<open>{:.3}\<close>: three decimals, the exact value rounded half to even.\<close>

definition show_f64_3 :: "f64 \<Rightarrow> string" where
  "show_f64_3 x =
     (case x of
        Finite a \<Rightarrow>
          let n = nat (round_half_even (\<bar>a\<bar> * 1000)); d = n mod 1000 in
          (if a < 0 then ''-'' else []) @ show_nat (n div 1000) @ ''.''
            @ [digit_char (d div 100), digit_char (d div 10 mod 10), digit_char (d mod 10)]
      | PosInf \<Rightarrow> ''inf'' | NegInf \<Rightarrow> ''-inf'' | NaN \<Rightarrow> ''NaN'')"

section \<open>Vectors\<close>

definition vec3_zero :: vec3 where
  "vec3_zero = \<lparr>v_x = Finite 0, v_y = Finite 0, v_z = Finite 0\<rparr>"

definition vec3_norm :: "vec3 \<Rightarrow> f64" where
  "vec3_norm a = f64_sqrt (vec3_dot a a)"

definition vec3_distance :: "vec3 \<Rightarrow> vec3 \<Rightarrow> f64" where
  "vec3_distance a b = vec3_norm \<lparr>v_x = f64_sub (v_x a) (v_x b), v_y = f64_sub (v_y a) (v_y b),
     v_z = f64_sub (v_z a) (v_z b)\<rparr>"

definition vec3_normalized :: "vec3 \<Rightarrow> vec3 option" where
  "vec3_normalized a =
     (let l = vec3_norm a in
      if f64_lt F64_EPSILON l
      then Some \<lparr>v_x = f64_div (v_x a) l, v_y = f64_div (v_y a) l, v_z = f64_div (v_z a) l\<rparr>
      else None)"

section \<open>Measurements\<close>

datatype geometry_error =
    WrongEntityCount string nat
  | NotMeasurable string
  | InvalidValue string
  | GeometrySerialization string
  | GeometryCore ccir_error

datatype measurement_kind =
    Distance | Angle | Radius | Diameter | Length | Area | Volume | CenterOfMass | MBounds
  | WallThickness | Clearance | Transform

record measurement_request =
  mq_kind :: measurement_kind
  mq_entities :: "entity_ref list"
  mq_frame :: "string option"
  mq_tolerance :: "quantity option"

record measurement_result =
  mz_kind :: measurement_kind
  mz_value :: json
  mz_unit :: "string option"
  mz_exactness :: exactness
  mz_method :: string
  mz_tolerance :: "quantity option"
  mz_evidence :: "entity_ref list"
  mz_degeneracy :: "string option"

definition measurement_result_of ::
  "measurement_request \<Rightarrow> json \<Rightarrow> string option \<Rightarrow> exactness \<Rightarrow> string \<Rightarrow> measurement_result" where
  "measurement_result_of r v unit exactness method =
     \<lparr>mz_kind = mq_kind r, mz_value = v, mz_unit = unit, mz_exactness = exactness,
      mz_method = method, mz_tolerance = mq_tolerance r, mz_evidence = mq_entities r,
      mz_degeneracy = None\<rparr>"

definition require_count :: "entity list \<Rightarrow> nat \<Rightarrow> string \<Rightarrow> (unit, geometry_error) result" where
  "require_count es expected name = ensure (length es = expected) (WrongEntityCount name (length es))"

abbreviation value_at :: "json \<Rightarrow> string list \<Rightarrow> json option" where
  "value_at v path \<equiv> jpath path v"

definition number_at :: "json \<Rightarrow> string list \<Rightarrow> f64 option" where
  "number_at v path = Option.bind (value_at v path) as_f64"

definition string_at :: "json \<Rightarrow> string list \<Rightarrow> string option" where
  "string_at v path = Option.bind (value_at v path) as_str"

definition or_else :: "'a option \<Rightarrow> 'a option \<Rightarrow> 'a option" where
  "or_else a b = (case a of None \<Rightarrow> b | Some x \<Rightarrow> Some x)"

definition parse_vec3 :: "codec \<Rightarrow> json \<Rightarrow> (vec3, geometry_error) result" where
  "parse_vec3 C v =
     (case as_array v of
        Some [x, y, z] \<Rightarrow>
          res_bind (ok_or (as_f64 x) (InvalidValue (json_text C v))) (\<lambda>a.
          res_bind (ok_or (as_f64 y) (InvalidValue (json_text C v))) (\<lambda>b.
          res_bind (ok_or (as_f64 z) (InvalidValue (json_text C v))) (\<lambda>c.
          Ok \<lparr>v_x = a, v_y = b, v_z = c\<rparr>)))
      | _ \<Rightarrow> Err (InvalidValue (json_text C v)))"

definition point_for :: "codec \<Rightarrow> entity \<Rightarrow> (vec3, geometry_error) result" where
  "point_for C e =
     (case or_else (value_at (en_properties e) [''point'']) (value_at (en_properties e) [''center_of_mass'']) of
        Some v \<Rightarrow> parse_vec3 C v
      | None \<Rightarrow> Ok (case en_bounds e of None \<Rightarrow> vec3_zero | Some b \<Rightarrow> bounds_center b))"

definition direction_for :: "codec \<Rightarrow> entity \<Rightarrow> (vec3, geometry_error) result" where
  "direction_for C e =
     res_bind (ok_or (or_else (value_at (en_properties e) [''geometry'', ''axis''])
                       (or_else (value_at (en_properties e) [''axis''])
                                (value_at (en_properties e) [''normal''])))
                (NotMeasurable (en_ref e))) (\<lambda>v.
     res_bind (parse_vec3 C v) (\<lambda>a.
     ok_or (vec3_normalized a) (InvalidValue (en_ref e))))"

definition extents :: "bounds \<Rightarrow> f64 list" where
  "extents b = [f64_abs (f64_sub (v_x (b_max b)) (v_x (b_min b))),
     f64_abs (f64_sub (v_y (b_max b)) (v_y (b_min b))),
     f64_abs (f64_sub (v_z (b_max b)) (v_z (b_min b)))]"

definition axis_gap_on :: "(vec3 \<Rightarrow> f64) \<Rightarrow> bounds \<Rightarrow> bounds \<Rightarrow> f64" where
  "axis_gap_on c a b =
     f64_max (f64_max (f64_sub (c (b_min a)) (c (b_max b))) (f64_sub (c (b_min b)) (c (b_max a))))
       (Finite 0)"

definition axis_gap :: "bounds \<Rightarrow> bounds \<Rightarrow> f64" where
  "axis_gap a b = foldl f64_max (Finite 0) [axis_gap_on v_x a b, axis_gap_on v_y a b, axis_gap_on v_z a b]"

definition bounds_of :: "entity \<Rightarrow> (bounds, geometry_error) result" where
  "bounds_of e = ok_or (en_bounds e) (NotMeasurable (en_ref e))"

definition square_mm :: string where
  "square_mm = ''mm'' @ [CHR 0xC2, CHR 0xB2]"

definition cubic_mm :: string where
  "cubic_mm = ''mm'' @ [CHR 0xC2, CHR 0xB3]"

definition measure_entities ::
  "codec \<Rightarrow> (f64 \<Rightarrow> f64) \<Rightarrow> graph \<Rightarrow> measurement_request \<Rightarrow> (measurement_result, geometry_error) result" where
  "measure_entities C acos_degrees g r =
     res_bind (res_map (\<lambda>reference. ok_or (graph_entity g reference) (NotMeasurable reference))
                 (mq_entities r)) (\<lambda>es.
     let res = measurement_result_of r; e = es ! 0; props = en_properties (es ! 0) in
     case mq_kind r of
       Distance \<Rightarrow>
         res_bind (require_count es 2 ''two'') (\<lambda>_.
         res_bind (point_for C (es ! 0)) (\<lambda>a.
         res_bind (point_for C (es ! 1)) (\<lambda>b.
         Ok (res (json_of_f64 (vec3_distance a b)) (Some ''mm'') ObservedExact
              ''analytic point/center distance''))))
     | Angle \<Rightarrow>
         res_bind (require_count es 2 ''two'') (\<lambda>_.
         res_bind (direction_for C (es ! 0)) (\<lambda>a.
         res_bind (direction_for C (es ! 1)) (\<lambda>b.
         let cosine = f64_clamp (vec3_dot a b) (Finite (- 1)) (Finite 1) in
         Ok (res (json_of_f64 (acos_degrees cosine)) (Some ''deg'') ObservedExact
              ''analytic direction angle''))))
     | Radius \<Rightarrow>
         res_bind (require_count es 1 ''one'') (\<lambda>_.
         res_bind (ok_or (or_else (number_at props [''geometry'', ''radius'']) (number_at props [''radius'']))
                     (NotMeasurable (en_ref e))) (\<lambda>radius.
         Ok (res (json_of_f64 radius) (Some ''mm'') ObservedExact ''OCCT analytic radius'')))
     | Diameter \<Rightarrow>
         res_bind (require_count es 1 ''one'') (\<lambda>_.
         res_bind (ok_or (or_else (number_at props [''geometry'', ''radius'']) (number_at props [''radius'']))
                     (NotMeasurable (en_ref e))) (\<lambda>radius.
         Ok (res (json_of_f64 (f64_mul radius (Finite 2))) (Some ''mm'') ObservedExact
              ''OCCT analytic radius'')))
     | Length \<Rightarrow>
         res_bind (require_count es 1 ''one'') (\<lambda>_.
         res_bind (ok_or (or_else (number_at props [''length'']) (number_at props [''geometry'', ''length'']))
                     (NotMeasurable (en_ref e))) (\<lambda>v.
         Ok (res (json_of_f64 v) (Some ''mm'') ObservedExact ''OCCT curve length'')))
     | Area \<Rightarrow>
         res_bind (require_count es 1 ''one'') (\<lambda>_.
         res_bind (ok_or (or_else (number_at props [''area'']) (number_at props [''mass_properties'', ''area'']))
                     (NotMeasurable (en_ref e))) (\<lambda>v.
         Ok (res (json_of_f64 v) (Some square_mm) ObservedExact ''OCCT mass property'')))
     | Volume \<Rightarrow>
         res_bind (require_count es 1 ''one'') (\<lambda>_.
         res_bind (ok_or (or_else (number_at props [''volume'']) (number_at props [''mass_properties'', ''volume'']))
                     (NotMeasurable (en_ref e))) (\<lambda>v.
         Ok (res (json_of_f64 v) (Some cubic_mm) ObservedExact ''OCCT mass property'')))
     | CenterOfMass \<Rightarrow>
         res_bind (require_count es 1 ''one'') (\<lambda>_.
         res_bind (ok_or (or_else (value_at props [''center_of_mass''])
                                  (value_at props [''mass_properties'', ''center_of_mass'']))
                     (NotMeasurable (en_ref e))) (\<lambda>v.
         Ok (res v (Some ''mm'') ObservedExact ''OCCT center of mass'')))
     | MBounds \<Rightarrow>
         res_bind (require_count es 1 ''one'') (\<lambda>_.
         res_bind (bounds_of e) (\<lambda>b.
         Ok (res (json_of_bounds b) None ObservedExact ''axis-aligned bounding box'')))
     | WallThickness \<Rightarrow>
         res_bind (require_count es 1 ''one'') (\<lambda>_.
         res_bind (bounds_of e) (\<lambda>b.
         Ok (res (json_of_f64 (foldl f64_min PosInf (extents b))) (Some ''mm'') ObservedApproximate
              ''minimum axis-aligned extent; not an offset/raycast proof'')))
     | Clearance \<Rightarrow>
         res_bind (require_count es 2 ''two'') (\<lambda>_.
         res_bind (bounds_of (es ! 0)) (\<lambda>a.
         res_bind (bounds_of (es ! 1)) (\<lambda>b.
         Ok (res (json_of_f64 (axis_gap a b)) (Some ''mm'') ObservedApproximate
              ''axis-aligned bounds clearance''))))
     | Transform \<Rightarrow>
         res_bind (require_count es 1 ''one'') (\<lambda>_.
         res_bind (ok_or (value_at props [''placement'']) (NotMeasurable (en_ref e))) (\<lambda>v.
         Ok (res v None ObservedExact ''normalized placement''))))"

section \<open>Holes and shapes\<close>

function trim_start_matches :: "string \<Rightarrow> string \<Rightarrow> string" where
  "trim_start_matches p s =
     (if p = [] then s
      else case strip_prefix p s of None \<Rightarrow> s | Some rest \<Rightarrow> trim_start_matches p rest)"
  by pat_completeness auto
termination
  by (relation "measure (\<lambda>(_, s). length s)") (auto simp: strip_prefix_Some_iff)

declare trim_start_matches.simps [simp del]

text \<open>A digest has 64 digits, so the slice of its first 16 exists.\<close>

definition short_hash :: "codec \<Rightarrow> json \<Rightarrow> string" where
  "short_hash C v = take 16 (trim_start_matches ''sha256:'' (sha256_json C (json_text C) v))"

definition hole_radius :: "entity \<Rightarrow> f64 option" where
  "hole_radius e = or_else (number_at (en_properties e) [''geometry'', ''radius''])
                           (number_at (en_properties e) [''radius''])"

definition is_counterbore :: "graph \<Rightarrow> entity \<Rightarrow> f64 \<Rightarrow> bool" where
  "is_counterbore g e radius \<longleftrightarrow>
     list_ex (\<lambda>adjacent_radius. f64_lt (f64_round (1 / 10 ^ 6)) (f64_abs (f64_sub adjacent_radius radius)))
       (List.map_filter hole_radius
         (List.map_filter (\<lambda>l. graph_entity g (lk_target l))
           (filter (\<lambda>l. lk_relation l = ''adjacent_to'') (en_links e))))"

definition hole_fact :: "codec \<Rightarrow> graph \<Rightarrow> entity \<Rightarrow> semantic_fact option" where
  "hole_fact C g e =
     (let props = en_properties e in
      if or_else (string_at props [''geometry'', ''surface_type'']) (string_at props [''surface_type''])
           \<noteq> Some ''cylinder'' then None
      else if or_else (string_at props [''semantic'', ''orientation'']) (string_at props [''orientation''])
           \<noteq> Some ''interior'' then None
      else case hole_radius e of
        None \<Rightarrow> None
      | Some radius \<Rightarrow>
          let depth = or_else (number_at props [''geometry'', ''depth''])
                (or_else (number_at props [''depth''])
                  (map_option (\<lambda>b. foldl f64_max (Finite 0) (extents b)) (en_bounds e)));
              openings = (case or_else (number_at props [''semantic'', ''openings''])
                                 (number_at props [''openings'']) of None \<Rightarrow> Finite 1 | Some n \<Rightarrow> n);
              classification = (if is_counterbore g e radius then ''counterbored_blind''
                else if f64_le (Finite 2) openings then ''through'' else ''blind'');
              axis = (case or_else (value_at props [''geometry'', ''axis'']) (value_at props [''axis'']) of
                  None \<Rightarrow> JArr [JNum (Float 0), JNum (Float 0), JNum (Float 1)] | Some v \<Rightarrow> v);
              parameters = jobj
                [(''axis'', axis), (''radius_mm'', json_of_f64 radius),
                 (''diameter_mm'', json_of_f64 (f64_mul radius (Finite 2))),
                 (''depth_mm'', json_of_option json_of_f64 depth),
                 (''openings'', json_of_f64 openings),
                 (''inferred_from_final_geometry'',
                   JBool (Option.bind (en_source e) src_object \<noteq> None))] in
          Some \<lparr>fa_ref = g_document g @ ''/fact/hole/'' @ short_hash C parameters @ ''@''
                    @ revision_id (g_revision g),
                fa_kind = ''semantic.hole'', fa_classification = classification,
                fa_parameters = parameters, fa_evidence = [en_ref e], fa_contradicting = [],
                fa_algorithm = ''core.holes/1.0.0'', fa_exactness = Mixed,
                fa_tolerance = Some \<lparr>q_value = f64_round (1 / 100), q_unit = ''mm''\<rparr>,
                fa_confidence = \<lparr>cf_category = ''high'', cf_score = Some (f64_round (95 / 100))\<rparr>,
                fa_explanation = ''Interior cylindrical face with radius '' @ show_f64_3 radius
                  @ '' mm; classification '' @ classification
                  @ '' is derived from openings and adjacent coaxial geometry.''\<rparr>)"

definition recognize_holes :: "codec \<Rightarrow> graph \<Rightarrow> semantic_fact list" where
  "recognize_holes C g = List.map_filter (hole_fact C g) (bm_values (g_entities g))"

definition shape_diagnostic :: "entity \<Rightarrow> diagnostic option" where
  "shape_diagnostic e =
     (if Option.bind (jget ''valid'' (en_properties e)) as_bool = Some False
      then Some \<lparr>dg_code = ''invalid_shape'', dg_severity = Error,
                 dg_message = ''shape reports invalid geometry'', dg_entity = Some (en_ref e),
                 dg_retryable = False, dg_evidence = [en_ref e]\<rparr>
      else None)"

definition validate_shapes :: "graph \<Rightarrow> diagnostic list" where
  "validate_shapes g = List.map_filter shape_diagnostic (bm_values (g_entities g))"

end
