(* ===== verification/GeometryLaws.thy ===== *)
theory GeometryLaws
  imports Geometry
begin

text \<open>
  Laws of the doubles and of the measurements: rounding is odd and keeps the sign of differences of
  doubles, measurements between two entities do not depend on their order, and the clearance of
  two bounding boxes is zero exactly when they intersect.
\<close>

section \<open>Square roots of naturals\<close>

lemma isqrt_bounds: "isqrt n * isqrt n \<le> n \<and> n < (isqrt n + 1) * (isqrt n + 1)"
proof (induction n rule: isqrt.induct)
  case (1 n)
  show ?case
  proof (cases "n = 0")
    case True
    then show ?thesis by (simp add: isqrt.simps)
  next
    case False
    define q where "q = isqrt (n div 4)"
    have q: "q * q \<le> n div 4" "n div 4 < (q + 1) * (q + 1)" using 1 False by (simp_all add: q_def)
    have lower: "4 * (q * q) \<le> n" using q(1) by linarith
    have "n div 4 + 1 \<le> (q + 1) * (q + 1)" using q(2) by linarith
    then have "n < 4 * ((q + 1) * (q + 1))" by linarith
    then show ?thesis using False lower
      by (simp add: isqrt.simps [of n] Let_def q_def [symmetric] algebra_simps)
  qed
qed

section \<open>Rounding\<close>

lemma pow2_pos [simp]: "0 < pow2 e"
  by (simp add: pow2_def)

lemma pow2_add_nat: "pow2 (e + int n) = pow2 e * 2 ^ n"
proof (cases "0 \<le> e")
  case True
  then show ?thesis by (simp add: pow2_def nat_add_distrib power_add)
next
  case False
  then obtain m where m: "e = - int m" by (metis nat_le_iff neg_0_le_iff_le nle_le int_nat_eq minus_minus)
  show ?thesis
  proof (cases "m \<le> n")
    case True
    then have "(2::rat) ^ n = 2 ^ m * 2 ^ (n - m)" by (simp add: power_add [symmetric])
    then show ?thesis using True False m by (simp add: pow2_def nat_diff_distrib of_nat_diff)
  next
    case False
    then have "(2::rat) ^ m = 2 ^ n * 2 ^ (m - n)" by (simp add: power_add [symmetric])
    then show ?thesis using False m by (simp add: pow2_def nat_diff_distrib of_nat_diff field_simps)
  qed
qed

lemma pow2_mono_le: "d \<le> e \<Longrightarrow> pow2 d \<le> pow2 e"
proof -
  assume "d \<le> e"
  then obtain n where "e = d + int n" using zle_iff_zadd by blast
  then show ?thesis by (simp add: pow2_add_nat)
qed

lemma bit_len_bounds: "0 < n \<Longrightarrow> 2 ^ (bit_len n - 1) \<le> n \<and> n < 2 ^ bit_len n \<and> 0 < bit_len n"
proof (induction n rule: bit_len.induct)
  case (1 n)
  show ?case
  proof (cases "n div 2 = 0")
    case True
    then have "n = 1" using 1 by linarith
    then show ?thesis by (simp add: bit_len.simps)
  next
    case False
    then have IH: "2 ^ (bit_len (n div 2) - 1) \<le> n div 2" "n div 2 < 2 ^ bit_len (n div 2)"
      "0 < bit_len (n div 2)" using 1 by simp_all
    have "bit_len n = Suc (bit_len (n div 2))" using 1 by (simp add: bit_len.simps [of n])
    moreover have "(2::nat) ^ bit_len (n div 2) = 2 * 2 ^ (bit_len (n div 2) - 1)"
      using IH(3) by (cases "bit_len (n div 2)") simp_all
    ultimately show ?thesis using IH(1, 2) by simp linarith
  qed
qed

lemma ilog2_le: "x \<noteq> 0 \<Longrightarrow> pow2 (ilog2 x) \<le> \<bar>x\<bar>"
proof -
  assume x: "x \<noteq> 0"
  obtain p q where pq: "quotient_of \<bar>x\<bar> = (p, q)" by force
  have q: "0 < q" using quotient_of_denom_pos [OF pq] .
  have div: "\<bar>x\<bar> = of_int p / of_int q" using quotient_of_div [OF pq] .
  then have p: "0 < p" using x q
    by (metis abs_ge_zero abs_zero of_int_0 divide_eq_0_iff less_le of_int_0_le_iff of_int_0_less_iff
        zero_le_divide_iff abs_eq_0 not_less)
  define a where "a = bit_len (nat p)"
  define b where "b = bit_len (nat q)"
  have a: "2 ^ (a - 1) \<le> nat p" "0 < a" using bit_len_bounds [of "nat p"] p by (simp_all add: a_def)
  have b: "nat q < 2 ^ b" using bit_len_bounds [of "nat q"] q by (simp add: b_def)
  have "(of_nat (2 ^ (a - 1)) :: rat) \<le> of_nat (nat p)" using a(1) of_nat_le_iff by blast
  then have A: "(2::rat) ^ (a - 1) \<le> of_int p" using p by simp
  have "(of_nat (nat q) :: rat) \<le> of_nat (2 ^ b)" using b of_nat_le_iff less_imp_le by blast
  then have B: "of_int q \<le> (2::rat) ^ b" using q by simp
  have "pow2 (int a - int b - 1) * 2 ^ b = pow2 (int (a - 1))"
    using pow2_add_nat [of "int a - int b - 1" b] a(2) by (simp add: algebra_simps of_nat_diff)
  then have eq: "pow2 (int a - int b - 1) * 2 ^ b = 2 ^ (a - 1)" by (simp add: pow2_def)
  have "pow2 (int a - int b - 1) * of_int q \<le> pow2 (int a - int b - 1) * 2 ^ b"
    by (rule mult_left_mono [OF B]) (simp add: less_imp_le)
  also have "\<dots> \<le> of_int p" using A eq by simp
  finally have "pow2 (int a - int b - 1) \<le> \<bar>x\<bar>" using q by (simp add: div pos_le_divide_eq)
  then show ?thesis by (simp add: ilog2_def pq Let_def a_def b_def)
qed

lemma ilog2_neg [simp]: "ilog2 (- x) = ilog2 x"
  by (simp add: ilog2_def)

lemma round_half_even_neg: "round_half_even (- x) = - round_half_even x"
proof (cases "x \<in> \<int>")
  case True
  then obtain k where "x = of_int k" by (auto elim: Ints_cases)
  then show ?thesis by (simp add: round_half_even_def Let_def flip: of_int_minus)
next
  case False
  then have "x \<noteq> of_int \<lfloor>x\<rfloor>" by (metis Ints_of_int)
  then have f: "\<lfloor>- x\<rfloor> = - \<lfloor>x\<rfloor> - 1" using ceiling_altdef [of x] by (simp add: ceiling_def)
  show ?thesis unfolding round_half_even_def Let_def f by (auto simp: even_diff_iff)
qed

lemma f64_round_neg: "f64_round (- x) = f64_neg (f64_round x)"
proof -
  have le: "(- r \<le> - (2 ^ 1024)) = (2 ^ 1024 \<le> r)" "(2 ^ 1024 \<le> - r) = (r \<le> - (2 ^ 1024))"
    "2 ^ 1024 \<le> r \<Longrightarrow> \<not> r \<le> - (2 ^ 1024)" for r :: rat
  proof -
    show "(- r \<le> - (2 ^ 1024)) = (2 ^ 1024 \<le> r)" by (rule neg_le_iff_le)
    show "(2 ^ 1024 \<le> - r) = (r \<le> - (2 ^ 1024))" by (rule le_minus_iff)
    have "(0::rat) < 2 ^ 1024" by (rule zero_less_power) simp
    then show "2 ^ 1024 \<le> r \<Longrightarrow> \<not> r \<le> - (2 ^ 1024)" by linarith
  qed
  define u where "u = pow2 (max (ilog2 x - 52) (- 1074))"
  define r where "r = of_int (round_half_even (x / u)) * u"
  have "of_int (round_half_even (- x / u)) * u = - r"
    using round_half_even_neg [of "x / u"] by (simp add: r_def)
  then show ?thesis
    using le [of r]
    by (simp add: f64_round_def Let_def u_def [symmetric] r_def [symmetric] del: power_numeral)
qed


section \<open>Differences of doubles\<close>

definition finite_double :: "f64 \<Rightarrow> bool" where
  "finite_double x \<longleftrightarrow> (case x of Finite r \<Rightarrow> f64_round r = Finite r | _ \<Rightarrow> False)"

definition double_vec :: "vec3 \<Rightarrow> bool" where
  "double_vec v \<longleftrightarrow> finite_double (v_x v) \<and> finite_double (v_y v) \<and> finite_double (v_z v)"

definition double_bounds :: "bounds \<Rightarrow> bool" where
  "double_bounds b \<longleftrightarrow> double_vec (b_min b) \<and> double_vec (b_max b)"

lemma f64_round_FiniteD:
  "f64_round x = Finite r \<Longrightarrow> x \<noteq> 0 \<Longrightarrow>
     r = of_int (round_half_even (x / pow2 (max (ilog2 x - 52) (- 1074))))
           * pow2 (max (ilog2 x - 52) (- 1074))"
  by (auto simp: f64_round_def Let_def split: if_splits)

lemma finite_double_multiple: "f64_round r = Finite r \<Longrightarrow> \<exists>k::int. r = of_int k * pow2 (- 1074)"
proof (cases "r = 0")
  case False
  assume "f64_round r = Finite r"
  then obtain m where r: "r = of_int m * pow2 (max (ilog2 r - 52) (- 1074))"
    using f64_round_FiniteD False by blast
  obtain n where "max (ilog2 r - 52) (- 1074) = - 1074 + int n"
    using zle_iff_zadd [of "- 1074" "max (ilog2 r - 52) (- 1074)"] by auto
  then have "r = of_int (m * 2 ^ n) * pow2 (- 1074)" using r pow2_add_nat [of "- 1074" n] by simp
  then show ?thesis by blast
qed simp

lemma f64_round_pos: "pow2 (- 1074) \<le> r \<Longrightarrow> f64_lt (Finite 0) (f64_round r)"
proof -
  assume r: "pow2 (- 1074) \<le> r"
  define u where "u = pow2 (max (ilog2 r - 52) (- 1074))"
  have pos: "0 < r" using r pow2_pos [of "- 1074"] by linarith
  have "pow2 (ilog2 r - 52) \<le> pow2 (ilog2 r)" by (rule pow2_mono_le) simp
  then have "pow2 (ilog2 r - 52) \<le> r" using ilog2_le [of r] pos by simp
  then have u: "0 < u" "u \<le> r" using r by (simp_all add: u_def max_def)
  then have "1 \<le> r / u" by simp
  then have "1 \<le> round_half_even (r / u)"
    unfolding round_half_even_def Let_def by (auto simp: one_le_floor le_SucI intro: order_trans)
  then have m: "(1::rat) \<le> of_int (round_half_even (r / u))" by simp
  have "0 < of_int (round_half_even (r / u)) * u" using m u(1) by (intro mult_pos_pos) linarith+
  then have "\<not> of_int (round_half_even (r / u)) * u \<le> - (2 ^ 1024)"
    using zero_less_power [of "2::rat" 1024] by linarith
  then show ?thesis using pos \<open>0 < of_int (round_half_even (r / u)) * u\<close>
    by (simp add: f64_round_def Let_def u_def [symmetric] f64_lt_def cmp_def)
qed

lemma f64_sub_pos:
  assumes "f64_round a = Finite a" "f64_round b = Finite b" "b < a"
  shows "f64_lt (Finite 0) (f64_sub (Finite a) (Finite b))"
proof -
  obtain k l where kl: "a = of_int k * pow2 (- 1074)" "b = of_int l * pow2 (- 1074)"
    using assms(1, 2) finite_double_multiple by blast
  then have "l < k" using assms(3) pow2_pos [of "- 1074"] by simp
  then have "(1::rat) \<le> of_int (k - l)" by simp
  then have "pow2 (- 1074) \<le> of_int (k - l) * pow2 (- 1074)"
    using pow2_pos [of "- 1074"] by (simp add: less_imp_le)
  then have "pow2 (- 1074) \<le> a - b" by (simp add: kl left_diff_distrib)
  then show ?thesis using f64_round_pos [of "a - b"] by (simp add: f64_sub_def)
qed

lemma f64_sub_swap: "f64_sub y x = f64_neg (f64_sub x y)"
proof (cases "\<exists>a b. x = Finite a \<and> y = Finite b")
  case True
  then obtain a b where "x = Finite a" "y = Finite b" by blast
  then show ?thesis using f64_round_neg [of "a - b"] by (simp add: f64_sub_def)
next
  case False
  then show ?thesis by (cases x; cases y) (simp_all add: f64_sub_def)
qed

lemma f64_neg_neg [simp]: "f64_neg (f64_neg x) = x"
  by (cases x) simp_all

lemma f64_lt_neg: "f64_lt (f64_neg x) (f64_neg y) \<longleftrightarrow> f64_lt y x"
  by (cases x; cases y) (auto simp: f64_lt_def)

lemma f64_sub_le_zero:
  assumes "finite_double x" "finite_double y"
  shows "f64_le (f64_sub x y) (Finite 0) \<longleftrightarrow> f64_le x y" and "f64_sub x y \<noteq> NaN"
proof -
  obtain a b where ab: "x = Finite a" "y = Finite b" "f64_round a = Finite a" "f64_round b = Finite b"
    using assms by (auto simp: finite_double_def split: f64.splits)
  have "f64_lt (f64_sub x y) (Finite 0)" if "a < b"
    using f64_sub_pos [OF ab(4, 3) that] f64_lt_neg [of "f64_sub y x" "Finite 0"]
    by (simp add: ab(1, 2) f64_sub_swap [of "Finite a" "Finite b"])
  moreover have "f64_lt (Finite 0) (f64_sub x y)" if "b < a"
    using f64_sub_pos [OF ab(3, 4) that] by (simp add: ab(1, 2))
  moreover have "f64_sub x y = Finite 0" if "a = b"
    using that by (simp add: ab(1, 2) f64_sub_def f64_round_def)
  ultimately show "f64_le (f64_sub x y) (Finite 0) \<longleftrightarrow> f64_le x y" and "f64_sub x y \<noteq> NaN"
    by (cases a b rule: linorder_cases; cases "f64_sub x y"; force simp: ab(1, 2) f64_lt_def f64_le_def cmp_def)+
qed


section \<open>Order of the entities\<close>

lemma f64_mul_neg_neg: "f64_mul (f64_neg x) (f64_neg y) = f64_mul x y"
  by (cases x; cases y) (auto simp: not_less le_less)

lemma f64_mul_commute: "f64_mul x y = f64_mul y x"
  by (cases x; cases y) (auto simp: mult.commute)

lemma f64_max_commute: "f64_max x y = f64_max y x"
  by (cases x; cases y) (auto simp: f64_max_def f64_lt_def cmp_def)

lemma vec3_distance_commute: "vec3_distance a b = vec3_distance b a"
  by (simp add: vec3_distance_def vec3_norm_def vec3_dot_def f64_mul_neg_neg
      f64_sub_swap [of "v_x b" "v_x a"] f64_sub_swap [of "v_y b" "v_y a"] f64_sub_swap [of "v_z b" "v_z a"])

lemma vec3_dot_commute: "vec3_dot a b = vec3_dot b a"
  by (simp add: vec3_dot_def f64_mul_commute)

lemma axis_gap_commute: "axis_gap a b = axis_gap b a"
  by (simp add: axis_gap_def axis_gap_on_def f64_max_commute)

section \<open>Gaps between boxes\<close>

lemma f64_max_zero_iff:
  "p \<noteq> NaN \<Longrightarrow> q \<noteq> NaN \<Longrightarrow>
     (f64_max (f64_max p q) (Finite 0) = Finite 0 \<longleftrightarrow> f64_le p (Finite 0) \<and> f64_le q (Finite 0))
     \<and> f64_le (Finite 0) (f64_max (f64_max p q) (Finite 0))"
  by (cases p; cases q) (auto simp: f64_max_def f64_lt_def f64_le_def cmp_def split: if_splits)

lemma f64_max_fold_zero_iff:
  "f64_le (Finite 0) p \<Longrightarrow> f64_le (Finite 0) q \<Longrightarrow> f64_le (Finite 0) r \<Longrightarrow>
     foldl f64_max (Finite 0) [p, q, r] = Finite 0 \<longleftrightarrow> p = Finite 0 \<and> q = Finite 0 \<and> r = Finite 0"
  by (cases p; cases q; cases r) (auto simp: f64_max_def f64_lt_def f64_le_def cmp_def split: if_splits)

lemma axis_gap_zero_iff:
  assumes "double_bounds a" "double_bounds b"
  shows "axis_gap a b = Finite 0 \<longleftrightarrow> intersects a b"
proof -
  have d: "finite_double (v_x (b_min a))" "finite_double (v_y (b_min a))" "finite_double (v_z (b_min a))"
    "finite_double (v_x (b_max a))" "finite_double (v_y (b_max a))" "finite_double (v_z (b_max a))"
    "finite_double (v_x (b_min b))" "finite_double (v_y (b_min b))" "finite_double (v_z (b_min b))"
    "finite_double (v_x (b_max b))" "finite_double (v_y (b_max b))" "finite_double (v_z (b_max b))"
    using assms by (simp_all add: double_bounds_def double_vec_def)
  have axis: "(axis_gap_on c a b = Finite 0 \<longleftrightarrow>
      f64_le (c (b_min a)) (c (b_max b)) \<and> f64_le (c (b_min b)) (c (b_max a)))
      \<and> f64_le (Finite 0) (axis_gap_on c a b)"
    if "finite_double (c (b_min a))" "finite_double (c (b_max a))"
       "finite_double (c (b_min b))" "finite_double (c (b_max b))" for c
    using f64_max_zero_iff [OF f64_sub_le_zero(2) f64_sub_le_zero(2)] that
    by (simp add: axis_gap_on_def f64_sub_le_zero(1))
  show ?thesis
    using axis [of v_x] axis [of v_y] axis [of v_z] d
    by (simp add: axis_gap_def f64_max_fold_zero_iff intersects_def del: foldl.simps)
qed

lemma json_of_f64_zero_iff: "json_of_f64 x = JNum (Float 0) \<longleftrightarrow> x = Finite 0"
  by (cases x) simp_all

text \<open>A distance, an angle or a clearance measured between two entities is the same number when
  they are given in the other order.\<close>

theorem measurement_is_symmetric:
  assumes "mq_kind r \<in> {Distance, Angle, Clearance}" and "mq_entities r = [p, q]"
    and "measure_entities C acos_degrees g r = Ok z"
  shows "\<exists>z'. measure_entities C acos_degrees g (r\<lparr>mq_entities := [q, p]\<rparr>) = Ok z'
           \<and> mz_value z' = mz_value z \<and> mz_unit z' = mz_unit z"
proof -
  consider (dist) "mq_kind r = Distance" | (ang) "mq_kind r = Angle" | (clear) "mq_kind r = Clearance"
    using assms(1) by blast
  then show ?thesis
  proof cases
    case dist
    then show ?thesis using assms(2, 3) vec3_distance_commute
      by (auto simp: measure_entities_def Let_def measurement_result_of_def require_count_def)
  next
    case ang
    then show ?thesis using assms(2, 3) vec3_dot_commute
      by (auto simp: measure_entities_def Let_def measurement_result_of_def require_count_def)
  next
    case clear
    then show ?thesis using assms(2, 3) axis_gap_commute
      by (auto simp: measure_entities_def Let_def measurement_result_of_def require_count_def)
  qed
qed

text \<open>C16: The clearance of two entities whose bounds have finite coordinates is always measured, and is
  zero exactly when the bounds intersect.\<close>

theorem clearance_zero_iff_intersecting:
  assumes "mq_kind r = Clearance" and "mq_entities r = [p, q]"
    and "graph_entity g p = Some e" and "en_bounds e = Some a" and "double_bounds a"
    and "graph_entity g q = Some f" and "en_bounds f = Some b" and "double_bounds b"
  shows "\<exists>z. measure_entities C acos_degrees g r = Ok z
           \<and> (mz_value z = json_of_f64 (Finite 0) \<longleftrightarrow> intersects a b)"
  using assms axis_gap_zero_iff [OF assms(5, 8)]
  by (simp add: measure_entities_def Let_def require_count_def ensure_def bounds_of_def
      measurement_result_of_def json_of_f64_zero_iff)


section \<open>Witnesses\<close>

definition point_box :: "rat \<Rightarrow> bounds" where
  "point_box r = (let v = \<lparr>v_x = Finite r, v_y = Finite 0, v_z = Finite 0\<rparr> in
     \<lparr>b_min = v, b_max = v, b_frame = ''world''\<rparr>)"

definition measured_graph :: graph where
  "measured_graph = sample_graph\<lparr>g_entities :=
     [(''A'', (sample_box ''A'' ''A'' 10 [])\<lparr>en_bounds := Some (point_box 0)\<rparr>),
      (''B'', (sample_box ''B'' ''B'' 20 [])\<lparr>en_bounds := Some (point_box 1)\<rparr>)]\<rparr>"

definition measured_pair :: "measurement_kind \<Rightarrow> measurement_request" where
  "measured_pair k = \<lparr>mq_kind = k, mq_entities = [''A'', ''B''], mq_frame = None, mq_tolerance = None\<rparr>"

lemma f64_round_0 [simp]: "f64_round 0 = Finite 0"
  by (simp add: f64_round_def)

lemma f64_round_1 [simp]: "f64_round 1 = Finite 1"
proof -
  have "ilog2 1 = 0" by (simp add: ilog2_def bit_len.simps pow2_def)
  then show ?thesis by (simp add: f64_round_def pow2_def round_half_even_def)
qed

lemma point_box_double: "r \<in> {0, 1} \<Longrightarrow> double_bounds (point_box r)"
  by (auto simp: point_box_def Let_def double_bounds_def double_vec_def finite_double_def)

theorem clearance_zero_iff_intersecting_witness:
  "\<exists>z. measure_entities sample_codec (\<lambda>x. x) measured_graph (measured_pair Clearance) = Ok z
     \<and> (mz_value z = json_of_f64 (Finite 0) \<longleftrightarrow> intersects (point_box 0) (point_box 1))"
  by (rule clearance_zero_iff_intersecting [where p = "''A''" and q = "''B''"])
    (simp_all add: measured_graph_def measured_pair_def graph_entity_def sample_box_def entity_default_def point_box_double)+

theorem measurement_is_symmetric_witness:
  "\<exists>z'. measure_entities sample_codec (\<lambda>x. x) measured_graph
      ((measured_pair Clearance)\<lparr>mq_entities := [''B'', ''A'']\<rparr>) = Ok z'
     \<and> mz_value z' = json_of_f64 (axis_gap (point_box 0) (point_box 1)) \<and> mz_unit z' = Some ''mm''"
proof -
  have "measure_entities sample_codec (\<lambda>x. x) measured_graph (measured_pair Clearance)
      = Ok (measurement_result_of (measured_pair Clearance)
          (json_of_f64 (axis_gap (point_box 0) (point_box 1)))
          (Some ''mm'') ObservedApproximate ''axis-aligned bounds clearance'')"
    by (simp add: measure_entities_def measured_pair_def measured_graph_def graph_entity_def
        require_count_def ensure_def bounds_of_def)
  from measurement_is_symmetric [OF _ _ this, of "''A''" "''B''"] show ?thesis
    by (simp add: measured_pair_def measurement_result_of_def)
qed

end
