(* ===== verification/ContextCompiler.thy ===== *)
theory ContextCompiler
  imports Geometry BridgeDto QueryEngine
begin

text \<open>
  The crate \<^verbatim>\<open>context-compiler\<close>: a snapshot of the bridge is compiled to a graph, and a bounded
  context, the inspection of an entity or an explanation of the view are read off a graph.

  The text of a document is the serializer parameter \<^const>\<open>json_text\<close>; the budget counts its bytes.
  A serializer given a time stamp of more than 64 bits fails, and the \<^verbatim>\<open>json!\<close> macro panics then.
\<close>

datatype context_error =
    ContextEntityNotFound string
  | InvalidBudget
  | ContextSerialization string
  | ContextRevision string
  | ContextGeometry geometry_error
  | ContextPanic string

datatype detail_tier = Compact | Focused | Analytical

record focus_selector =
  fs_explicit_refs :: "entity_ref list"
  fs_use_selection :: bool
  fs_dependency_depth :: nat
  fs_topology_depth :: nat
  fs_view_relevance_threshold :: "f64 option"
  fs_semantic_kinds :: "string list"

record budget =
  bd_max_inline_bytes :: nat
  bd_max_entities :: nat

definition budget_default :: budget where
  "budget_default = \<lparr>bd_max_inline_bytes = 131072, bd_max_entities = 80\<rparr>"

record context_request =
  cq_detail :: detail_tier
  cq_focus :: focus_selector
  cq_budget :: budget
  cq_freshness :: string
  cq_include_recent_diff :: bool
  cq_task_profile :: "string option"

record suggested_call =
  sc_tool :: string
  sc_reason :: string
  sc_arguments :: json

record context_result =
  cr_schema_version :: string
  cr_observed_revision :: revision
  cr_complete :: bool
  cr_context :: json
  cr_diagnostics :: "diagnostic list"
  cr_omissions :: "omission list"
  cr_suggested_calls :: "suggested_call list"
  cr_cache_status :: string

record inspect_request =
  iq_ref :: entity_ref
  iq_profile :: string
  iq_neighborhood_depth :: nat
  iq_topology_depth :: nat
  iq_budget :: budget

record entity_result =
  er_ref :: entity_ref
  er_observed_revision :: revision
  er_entity :: json
  er_links :: "json list"
  er_facts :: "semantic_fact list"
  er_complete :: bool
  er_omissions :: "omission list"

section \<open>Serialized forms\<close>

fun exactness_name :: "exactness \<Rightarrow> string" where
  "exactness_name ObservedExact = ''observed_exact''"
| "exactness_name ObservedApproximate = ''observed_approximate''"
| "exactness_name InferredSemantic = ''inferred_semantic''"
| "exactness_name Mixed = ''mixed''"

definition json_of_fact :: "semantic_fact \<Rightarrow> json" where
  "json_of_fact f = jobj
     [(''ref_'', JStr (fa_ref f)), (''kind'', JStr (fa_kind f)),
      (''classification'', JStr (fa_classification f)), (''parameters'', fa_parameters f),
      (''evidence'', json_of_list JStr (fa_evidence f)),
      (''contradicting'', json_of_list JStr (fa_contradicting f)),
      (''algorithm'', JStr (fa_algorithm f)), (''exactness'', JStr (exactness_name (fa_exactness f))),
      (''tolerance'', json_of_option json_of_quantity (fa_tolerance f)),
      (''confidence'', jobj [(''category'', JStr (cf_category (fa_confidence f))),
                             (''score'', json_of_option json_of_f64 (cf_score (fa_confidence f)))]),
      (''explanation'', JStr (fa_explanation f))]"

definition json_of_selection_item :: "selection_item \<Rightarrow> json" where
  "json_of_selection_item i = jobj
     [(''ref'', JStr (si_ref i)), (''selection_index'', json_of_nat (si_selection_index i)),
      (''subelement'', json_of_option JStr (si_subelement i)), (''source'', JStr (si_source i))]"

definition json_of_viewport :: "nat \<times> nat \<times> nat \<Rightarrow> json" where
  "json_of_viewport = (\<lambda>(a, b, c). JArr [json_of_nat a, json_of_nat b, json_of_nat c])"

definition json_of_view_state :: "view_state \<Rightarrow> (json, string) result" where
  "json_of_view_state v =
     (if u64_max < vs_timestamp_ms v then Err ''number out of range''
      else Ok (jobj
        [(''view_id'', JStr (vs_view_id v)), (''projection'', JStr (vs_projection v)),
         (''camera_position'', json_of_option json_of_vec3 (vs_camera_position v)),
         (''camera_orientation'', json_of_option id (vs_camera_orientation v)),
         (''look_direction'', json_of_option json_of_vec3 (vs_look_direction v)),
         (''up_direction'', json_of_option json_of_vec3 (vs_up_direction v)),
         (''target'', json_of_option json_of_vec3 (vs_target v)),
         (''field_of_view_deg'', json_of_option json_of_f64 (vs_field_of_view_deg v)),
         (''orthographic_scale'', json_of_option json_of_f64 (vs_orthographic_scale v)),
         (''clipping'', json_of_option (\<lambda>(a, b). JArr [json_of_f64 a, json_of_f64 b]) (vs_clipping v)),
         (''viewport'', json_of_option json_of_viewport (vs_viewport v)),
         (''visible_objects'', json_of_list JStr (vs_visible_objects v)),
         (''hidden_objects'', json_of_list JStr (vs_hidden_objects v)),
         (''section_planes'', JArr (vs_section_planes v)),
         (''timestamp_ms'', json_of_nat (vs_timestamp_ms v))]))"

definition json_of_shape :: "shape_summary \<Rightarrow> json" where
  "json_of_shape s = jobj
     [(''shape_type'', JStr (sh_shape_type s)),
      (''topology'', JObj (map (\<lambda>(k, n). (k, json_of_nat n)) (sh_topology s))),
      (''geometry_type'', json_of_option JStr (sh_geometry_type s)),
      (''exact'', JBool (sh_exact s)), (''properties'', sh_properties s)]"

section \<open>From snapshots to graphs\<close>

definition source_from_dto :: "bridge_source \<Rightarrow> source" where
  "source_from_dto s = \<lparr>src_object = bs_object s, src_subelement = bs_subelement s,
     src_extractor = bs_extractor s, src_kernel_tolerance = bs_kernel_tolerance s,
     src_fingerprint = bs_fingerprint s\<rparr>"

text \<open>\<^verbatim>\<open>map.entry(key).or_insert(value)\<close>.\<close>

definition bm_or_insert :: "'k::linorder \<Rightarrow> 'v \<Rightarrow> ('k, 'v) bmap \<Rightarrow> ('k, 'v) bmap" where
  "bm_or_insert k v m = (if bm_contains m k then m else bm_insert k v m)"

definition merge_shape :: "json \<Rightarrow> shape_summary \<Rightarrow> json" where
  "merge_shape properties shape =
     (let root = bm_insert ''shape'' (json_of_shape shape)
            (case as_object properties of None \<Rightarrow> [] | Some kvs \<Rightarrow> kvs) in
      JObj (case sh_geometry_type shape of
          None \<Rightarrow> root
        | Some geometry_type \<Rightarrow>
            let root = bm_or_insert ''geometry'' (JObj []) root in
            (case bm_get root ''geometry'' of
               Some (JObj geometry) \<Rightarrow>
                 bm_insert ''geometry'' (JObj (bm_or_insert ''surface_type'' (JStr geometry_type) geometry)) root
             | _ \<Rightarrow> root)))"

definition entity_from_dto :: "bridge_entity \<Rightarrow> entity" where
  "entity_from_dto dto =
     \<lparr>en_ref = be_ref dto, en_kind = be_kind dto, en_schema_version = CCIR_SCHEMA_VERSION,
      en_revision = (case rsplit_once CHR ''@'' (be_ref dto) of None \<Rightarrow> [] | Some (_, r) \<Rightarrow> r),
      en_name = be_name dto, en_label = be_label dto, en_frame = be_frame dto, en_units = be_units dto,
      en_source = map_option source_from_dto (be_source dto), en_identity = be_identity dto,
      en_properties = (case be_shape dto of None \<Rightarrow> be_properties dto
                         | Some shape \<Rightarrow> merge_shape (be_properties dto) shape),
      en_links = be_links dto, en_omissions = [], en_bounds = be_bounds dto\<rparr>"

definition snapshot_metadata :: "bridge_snapshot \<Rightarrow> (string, json) bmap" where
  "snapshot_metadata s =
     bm_insert ''selection'' (json_of_list json_of_selection_item (sn_selection s))
       (bm_extend
         (bm_collect
           [(''document_label'', json_of_option JStr (sn_document_label s)),
            (''active_workbench'', json_of_option JStr (sn_active_workbench s)),
            (''gui_mode'', JBool (sn_gui_mode s)),
            (''active_object'', json_of_option JStr (sn_active_object s)),
            (''active_edit'', json_of_option JStr (sn_active_edit s))])
         (sn_metadata s))"

definition compile_snapshot :: "codec \<Rightarrow> bridge_snapshot \<Rightarrow> (graph, context_error) result" where
  "compile_snapshot C s =
     res_bind (case sn_view s of
         None \<Rightarrow> Ok (snapshot_metadata s)
       | Some view \<Rightarrow> res_bind (map_err ContextSerialization (json_of_view_state view))
           (\<lambda>v. Ok (bm_insert ''view'' v (snapshot_metadata s)))) (\<lambda>metadata.
     let g = (graph_new (sn_session s) (sn_document s) (sn_revision s))
               \<lparr>g_metadata := metadata,
                g_entities := bm_collect (map (\<lambda>dto. (be_ref dto, entity_from_dto dto)) (sn_entities s))\<rparr>;
         g = g\<lparr>g_diagnostics := sn_diagnostics s @ validate_shapes g @ validate_invariants g\<rparr>
     in Ok (g\<lparr>g_facts := recognize_holes C g\<rparr>))"

section \<open>Bounded contexts\<close>

definition rank :: "graph \<Rightarrow> entity_ref list \<Rightarrow> context_request \<Rightarrow> entity
    \<Rightarrow> nat \<times> nat \<times> nat \<times> string \<times> string" where
  "rank g focus r e =
     (of_bool (en_ref e \<in> set focus),
      of_bool (list_ex (\<lambda>d. dg_entity d = Some (en_ref e)) (g_diagnostics g)),
      of_bool (list_ex (\<lambda>kind. kind = en_kind e) (fs_semantic_kinds (cq_focus r))),
      en_kind e, en_ref e)"

definition ranked_entities :: "graph \<Rightarrow> entity_ref list \<Rightarrow> context_request \<Rightarrow> entity_ref list" where
  "ranked_entities g focus r =
     map en_ref (sort_by (\<lambda>a b. cmp (rank g focus r b) (rank g focus r a)) (bm_values (g_entities g)))"

definition select_entity :: "graph \<Rightarrow> nat \<Rightarrow> json list \<times> bool \<Rightarrow> entity_ref \<Rightarrow> json list \<times> bool" where
  "select_entity g max_entities = (\<lambda>(sel, whole) reference.
     if max_entities \<le> length sel then (sel, False)
     else case graph_entity g reference of
       None \<Rightarrow> (sel, whole)
     | Some e \<Rightarrow> (sel @ [entity_summary e], whole))"

definition entities_array :: "json \<Rightarrow> json list option" where
  "entities_array c = Option.bind (jget ''entities'' c) as_array"

fun set_entities :: "json list \<Rightarrow> json \<Rightarrow> json" where
  "set_entities xs (JObj kvs) = JObj (bm_insert ''entities'' (JArr xs) kvs)"
| "set_entities xs c = c"

lemma entities_array_set: "entities_array c \<noteq> None \<Longrightarrow> entities_array (set_entities xs c) = Some xs"
  by (cases c) (simp_all add: entities_array_def)

text \<open>The loop that drops the last entity until the text fits or no entity is left.\<close>

function trim_entities :: "codec \<Rightarrow> nat \<Rightarrow> json \<Rightarrow> json" where
  "trim_entities C max_bytes c =
     (if length (json_text C c) \<le> max_bytes then c
      else case entities_array c of
        None \<Rightarrow> c
      | Some xs \<Rightarrow> if xs = [] then c else trim_entities C max_bytes (set_entities (butlast xs) c))"
  by pat_completeness auto
termination
  by (relation "measure (\<lambda>(_, _, c). case entities_array c of None \<Rightarrow> 0 | Some xs \<Rightarrow> length xs)")
    (simp_all add: entities_array_set)

declare trim_entities.simps [simp del]

definition trim_to_budget ::
  "codec \<Rightarrow> budget \<Rightarrow> json \<times> omission list \<times> bool \<Rightarrow> json \<times> omission list \<times> bool" where
  "trim_to_budget C b = (\<lambda>(c, omissions, whole).
     if length (json_text C c) \<le> bd_max_inline_bytes b then (c, omissions, whole)
     else (trim_entities C (bd_max_inline_bytes b) c,
           omissions @ [\<lparr>om_kind = ''serialized_entity_detail'', om_count = 1, om_reason = ''budget'',
             om_retrieve_with = Some ''cad.inspect_entity'', om_profile = Some ''analytical''\<rparr>],
           False))"

definition view_summary :: "view_state \<Rightarrow> json" where
  "view_summary v = jobj
     [(''id'', JStr (vs_view_id v)), (''projection'', JStr (vs_projection v)),
      (''camera_position'', json_of_option json_of_vec3 (vs_camera_position v)),
      (''look_direction'', json_of_option json_of_vec3 (vs_look_direction v)),
      (''up_direction'', json_of_option json_of_vec3 (vs_up_direction v)),
      (''viewport'', json_of_option json_of_viewport (vs_viewport v)),
      (''visible_objects'', json_of_nat (length (vs_visible_objects v))),
      (''hidden_objects'', json_of_nat (length (vs_hidden_objects v))),
      (''timestamp_ms'', json_of_nat (vs_timestamp_ms v))]"

definition has_error :: "graph \<Rightarrow> bool" where
  "has_error g \<longleftrightarrow> list_ex (\<lambda>d. dg_severity d = Error) (g_diagnostics g)"

definition suggestions :: "graph \<Rightarrow> omission list \<Rightarrow> context_request \<Rightarrow> suggested_call list" where
  "suggestions g omissions r =
     (if list_ex (\<lambda>om. str_contains ''entity'' (om_kind om)) omissions
      then [\<lparr>sc_tool = ''cad.query_entities'',
             sc_reason = ''context was bounded; query the exact entity set'',
             sc_arguments = jobj [(''revision'', JStr (revision_id (g_revision g))),
                                  (''limit'', json_of_nat (bd_max_entities (cq_budget r)))]\<rparr>]
      else [])
     @ (if list_ex (\<lambda>om. str_contains ''topology'' (om_kind om)) omissions
        then [\<lparr>sc_tool = ''cad.inspect_entity'', sc_reason = ''topology detail was omitted'',
               sc_arguments = jobj [(''profile'', JStr ''topology'')]\<rparr>] else [])
     @ (if has_error g
        then [\<lparr>sc_tool = ''cad.validate'', sc_reason = ''current diagnostics include errors'',
               sc_arguments = jobj [(''revision'', JStr (revision_id (g_revision g)))]\<rparr>] else [])"

definition focus_refs :: "graph \<Rightarrow> context_request \<Rightarrow> entity_ref list \<Rightarrow> entity_ref list" where
  "focus_refs g r selection =
     remdups_adj (sort (filter (\<lambda>reference. graph_entity g reference \<noteq> None)
       (fs_explicit_refs (cq_focus r) @ (if fs_use_selection (cq_focus r) then selection else []))))"

definition context_json ::
  "graph \<Rightarrow> entity_ref list \<Rightarrow> entity_ref list \<Rightarrow> json list \<Rightarrow> view_state option \<Rightarrow> json option
     \<Rightarrow> omission list \<Rightarrow> json" where
  "context_json g focus selection sel view recent_diff omissions = jobj
     [(''session'', jobj
        [(''id'', JStr (g_session g)), (''epoch'', JStr (rev_epoch (g_revision g))),
         (''state'', JStr (if has_error g then ''degraded'' else ''ready_read_only''))]),
      (''document'', jobj
        [(''ref'', JStr (''fc://session/'' @ g_session g @ ''/document/'' @ g_document g @ ''@''
                     @ revision_id (g_revision g))),
         (''id'', JStr (g_document g)),
         (''label'', json_of_option id (bm_get (g_metadata g) ''document_label'')),
         (''revision'', json_of_revision (g_revision g)),
         (''health'', jobj
           [(''recompute'', JStr (if list_ex (\<lambda>d. dg_code d = ''recompute_error'') (g_diagnostics g)
                                then ''error'' else ''ok'')),
            (''invalid_shapes'',
              json_of_nat (length (filter (\<lambda>d. dg_code d = ''invalid_shape'') (g_diagnostics g))))])]),
      (''selection'', JArr (List.map_filter (\<lambda>reference. map_option entity_summary (graph_entity g reference))
                          selection)),
      (''active_edit'', json_of_option id (bm_get (g_metadata g) ''active_edit'')),
      (''view'', json_of_option view_summary view),
      (''resources'', jobj
        [(''current'', JStr (''freecad://session/'' @ g_session g @ ''/document/'' @ g_document g @ ''/current'')),
         (''revision'', JStr (''freecad://session/'' @ g_session g @ ''/document/'' @ g_document g
                           @ ''/revision/'' @ revision_id (g_revision g)))]),
      (''entities'', JArr sel),
      (''facts'', json_of_list json_of_fact
        (filter (\<lambda>f. list_ex (\<lambda>reference. reference \<in> set (fa_evidence f)) focus) (g_facts g))),
      (''recent_diff'', json_of_option id recent_diff),
      (''omissions'', json_of_list json_of_omission omissions)]"

definition assemble ::
  "codec \<Rightarrow> graph \<Rightarrow> context_request \<Rightarrow> entity_ref list \<Rightarrow> view_state option \<Rightarrow> json option
     \<Rightarrow> (context_result, context_error) result" where
  "assemble C g r selection view recent_diff =
     (if bd_max_inline_bytes (cq_budget r) = 0 \<or> bd_max_entities (cq_budget r) = 0 then Err InvalidBudget
      else
        let focus = focus_refs g r selection in
        case foldl (select_entity g (bd_max_entities (cq_budget r))) ([], True) (ranked_entities g focus r) of
          (sel, whole) \<Rightarrow>
            let omitted = length sel < length (g_entities g) \<and> cq_detail r \<noteq> Analytical;
                omissions = (if omitted
                  then [\<lparr>om_kind = ''entities'', om_count = of_nat (length (g_entities g) - length sel),
                         om_reason = ''budget'', om_retrieve_with = Some ''cad.query_entities'',
                         om_profile = Some ''focused''\<rparr>]
                  else []);
                whole = (if omitted then False else whole)
            in
            if (case view of None \<Rightarrow> False | Some v \<Rightarrow> u64_max < vs_timestamp_ms v)
            then Err (ContextPanic ''number out of range'')
            else case trim_to_budget C (cq_budget r)
                   (context_json g focus selection sel view recent_diff omissions, omissions, whole) of
              (c, omissions, whole) \<Rightarrow>
                Ok \<lparr>cr_schema_version = ''ccir.context/1.0'', cr_observed_revision = g_revision g,
                    cr_complete = whole, cr_context = c, cr_diagnostics = g_diagnostics g,
                    cr_omissions = omissions, cr_suggested_calls = suggestions g omissions r,
                    cr_cache_status = ''cold''\<rparr>)"


section \<open>Inspecting one entity\<close>

definition inspect_link ::
  "graph \<Rightarrow> nat \<Rightarrow> json list \<times> string list \<times> (entity_ref \<times> nat) list \<Rightarrow> link
     \<Rightarrow> json list \<times> string list \<times> (entity_ref \<times> nat) list" where
  "inspect_link g depth = (\<lambda>(links, visited, queue) l.
     case graph_entity g (lk_target l) of
       None \<Rightarrow> (links, visited, queue)
     | Some target \<Rightarrow>
         (case set_insert (en_ref target) visited of
            (is_new, visited') \<Rightarrow>
              (links @ [jobj [(''relation'', JStr (lk_relation l)), (''target'', entity_summary target)]],
               visited', if is_new then queue @ [(en_ref target, depth + 1)] else queue)))"

definition unvisited :: "graph \<Rightarrow> string list \<Rightarrow> nat" where
  "unvisited g visited = card (set (map en_ref (bm_values (g_entities g))) - set visited)"

lemma inspect_links_measure:
  "foldl (inspect_link g depth) (links, visited, queue) ls = (links', visited', queue') \<Longrightarrow>
     unvisited g visited' + length queue' = unvisited g visited + length queue"
proof (induction ls arbitrary: links visited queue)
  case (Cons l ls)
  obtain links1 visited1 queue1
    where step: "inspect_link g depth (links, visited, queue) l = (links1, visited1, queue1)"
    using prod_cases3 by blast
  have "unvisited g visited1 + length queue1 = unvisited g visited + length queue"
  proof (cases "graph_entity g (lk_target l)")
    case None
    then show ?thesis using step by (simp add: inspect_link_def)
  next
    case (Some t)
    then have mem: "en_ref t \<in> set (map en_ref (bm_values (g_entities g)))"
      by (force simp: graph_entity_def dest: map_of_SomeD)
    show ?thesis
    proof (cases "en_ref t \<in> set visited")
      case True
      then show ?thesis using step Some
        by (auto simp: inspect_link_def set_insert_def unvisited_def insert_absorb)
    next
      case False
      then have "set (map en_ref (bm_values (g_entities g))) - set visited \<noteq> {}" using mem by blast
      then have "0 < unvisited g visited" unfolding unvisited_def by (simp add: card_gt_0_iff)
      moreover have "unvisited g (set_add (en_ref t) visited) = unvisited g visited - 1"
        using mem False unfolding unvisited_def
        by (metis Diff_iff Diff_insert card_Diff_singleton set_set_add)
      ultimately show ?thesis using step Some False by (auto simp: inspect_link_def set_insert_def)
    qed
  qed
  then show ?case using Cons step by simp
qed simp

lemma inspect_links_total:
  "(case foldl (inspect_link g depth) (links, visited, queue) ls of
      (_, visited, queue) \<Rightarrow> unvisited g visited + length queue) = unvisited g visited + length queue"
  by (cases "foldl (inspect_link g depth) (links, visited, queue) ls") (simp add: inspect_links_measure)

text \<open>The search over the neighborhood; every round takes one item of the queue, and every item added
  is an entity visited for the first time.\<close>

function inspect_search ::
  "graph \<Rightarrow> nat \<Rightarrow> json list \<Rightarrow> string list \<Rightarrow> (entity_ref \<times> nat) list \<Rightarrow> json list" where
  "inspect_search g depth links visited [] = links"
| "inspect_search g depth links visited ((reference, current_depth) # queue) =
     (case graph_entity g reference of
        None \<Rightarrow> inspect_search g depth links visited queue
      | Some current \<Rightarrow>
          if depth \<le> current_depth then inspect_search g depth links visited queue
          else case foldl (inspect_link g current_depth) (links, visited, queue) (en_links current) of
            (links', visited', queue') \<Rightarrow> inspect_search g depth links' visited' queue')"
  by pat_completeness auto
termination
proof (relation "measure (\<lambda>(g, _, _, visited, queue). unvisited g visited + length queue)", goal_cases)
  case 4
  then show ?case by (auto simp: inspect_links_total)
qed simp_all

definition topology_links :: "json list \<Rightarrow> nat" where
  "topology_links links = length (filter (\<lambda>l. case Option.bind (jget ''relation'' l) as_str of
     None \<Rightarrow> False
   | Some relation \<Rightarrow> relation \<in> {''adjacent_to'', ''bounds'', ''bounded_by'', ''contains''}) links)"

definition entity_view :: "string \<Rightarrow> entity \<Rightarrow> json" where
  "entity_view profile e =
     (if profile \<in> {''parametric'', ''sketch_diagnostic'', ''topology'', ''analytical''}
      then jobj [(''entity'', json_of_entity e), (''properties'', en_properties e),
                 (''links'', json_of_list json_of_link (en_links e)),
                 (''source'', json_of_option json_of_source (en_source e)),
                 (''bounds'', json_of_option json_of_bounds (en_bounds e)),
                 (''identity'', json_of_identity (en_identity e))]
      else entity_summary e)"

definition inspect_entity :: "graph \<Rightarrow> inspect_request \<Rightarrow> (entity_result, context_error) result" where
  "inspect_entity g r =
     res_bind (ok_or (graph_entity g (iq_ref r)) (ContextEntityNotFound (iq_ref r))) (\<lambda>e.
     let links = inspect_search g (min (iq_neighborhood_depth r) 8) [] [en_ref e] [(en_ref e, 0)];
         omissions = (if iq_profile r = ''topology'' \<and> 0 < iq_topology_depth r \<and> topology_links links = 0
           then [\<lparr>om_kind = ''topology'', om_count = 1, om_reason = ''unsupported_or_absent'',
                  om_retrieve_with = None, om_profile = Some ''topology''\<rparr>]
           else [])
     in Ok \<lparr>er_ref = en_ref e, er_observed_revision = g_revision g,
            er_entity = entity_view (iq_profile r) e, er_links = links,
            er_facts = filter (\<lambda>f. en_ref e \<in> set (fa_evidence f)) (g_facts g),
            er_complete = (omissions = []), er_omissions = omissions\<rparr>)"

section \<open>Explaining the view\<close>

definition view_relevance :: "entity_ref list \<Rightarrow> entity \<Rightarrow> json option" where
  "view_relevance sel e = map_option (\<lambda>b.
     let projected_area = json_of_f64 (f64_sqrt (bounds_volume b));
         selected_bonus = (if en_ref e \<in> set sel then Finite 1 else Finite 0) in
     jobj [(''ref'', JStr (en_ref e)), (''projected_area_estimate'', projected_area),
           (''selected'', JBool (f64_lt (Finite 0) selected_bonus)),
           (''components'', jobj [(''projected_area'', projected_area),
                                (''selection'', json_of_f64 selected_bonus)])])
     (en_bounds e)"

fun option_partial_cmp :: "f64 option \<Rightarrow> f64 option \<Rightarrow> ordering option" where
  "option_partial_cmp (Some a) (Some b) = f64_partial_cmp a b"
| "option_partial_cmp None None = Some Equal"
| "option_partial_cmp None (Some b) = Some Less"
| "option_partial_cmp (Some a) None = Some Greater"

definition projected_area_of :: "json \<Rightarrow> f64 option" where
  "projected_area_of v = Option.bind (jget ''projected_area_estimate'' v) as_f64"

definition explain_view :: "graph \<Rightarrow> view_state option \<Rightarrow> entity_ref list \<Rightarrow> (json, context_error) result" where
  "explain_view g view sel =
     (case view of
        None \<Rightarrow> Ok (jobj [(''supported'', JBool False), (''reason'', JStr ''headless_or_view_api_unavailable'')])
      | Some v \<Rightarrow>
          res_bind (map_err ContextPanic (json_of_view_state v)) (\<lambda>view_json.
          Ok (jobj
            [(''view'', view_json), (''visibility_qualification'', JStr ''projected_bounds''),
             (''relevance'', JArr (sort_by
               (\<lambda>left right. case option_partial_cmp (projected_area_of right) (projected_area_of left) of
                  None \<Rightarrow> Equal | Some result \<Rightarrow> result)
               (List.map_filter (view_relevance sel) (bm_values (g_entities g)))))])))"

end
