(* ===== verification/ContextLaws.thy ===== *)
theory ContextLaws
  imports ContextCompiler QueryLaws
begin

text \<open>
  Laws of compilation and of bounded contexts: compiled graphs are well-formed and carry the
  diagnostics of their shapes and links, contexts stay within their budget and show the best ranked
  entities first, with the focus in front.
\<close>

section \<open>Compilation\<close>

lemma graph_entity_update [simp]:
  "graph_entity (g\<lparr>g_facts := fs\<rparr>) = graph_entity g" "graph_entity (g\<lparr>g_diagnostics := ds\<rparr>) = graph_entity g"
  by (simp_all add: graph_entity_def fun_eq_iff)

lemma recognize_holes_update [simp]:
  "recognize_holes C (g\<lparr>g_facts := fs\<rparr>) = recognize_holes C g"
  "recognize_holes C (g\<lparr>g_diagnostics := ds\<rparr>) = recognize_holes C g"
proof -
  have c: "is_counterbore (g\<lparr>g_facts := fs\<rparr>) = is_counterbore g"
    "is_counterbore (g\<lparr>g_diagnostics := ds\<rparr>) = is_counterbore g"
    by (simp_all add: is_counterbore_def fun_eq_iff)
  have "hole_fact C (g\<lparr>g_facts := fs\<rparr>) e = hole_fact C g e"
    "hole_fact C (g\<lparr>g_diagnostics := ds\<rparr>) e = hole_fact C g e" for e
    unfolding hole_fact_def c by (simp_all cong: option.case_cong if_cong)
  then have "hole_fact C (g\<lparr>g_facts := fs\<rparr>) = hole_fact C g"
    "hole_fact C (g\<lparr>g_diagnostics := ds\<rparr>) = hole_fact C g" by (simp_all add: fun_eq_iff)
  then show "recognize_holes C (g\<lparr>g_facts := fs\<rparr>) = recognize_holes C g"
    "recognize_holes C (g\<lparr>g_diagnostics := ds\<rparr>) = recognize_holes C g"
    by (simp_all add: recognize_holes_def)
qed

lemma validate_shapes_update [simp]:
  "validate_shapes (g\<lparr>g_facts := fs\<rparr>) = validate_shapes g"
  "validate_shapes (g\<lparr>g_diagnostics := ds\<rparr>) = validate_shapes g"
  by (simp_all add: validate_shapes_def)

lemma validate_invariants_update [simp]:
  "validate_invariants (g\<lparr>g_diagnostics := ds\<rparr>) = validate_invariants g"
  by (simp add: validate_invariants_def link_resolves_def[abs_def])

text \<open>The links are checked before the facts are there, so a link to a fact counts as missing.\<close>

lemma compile_snapshot_Ok:
  assumes "compile_snapshot C s = Ok g"
  shows "g_entities g = bm_collect (map (\<lambda>dto. (be_ref dto, entity_from_dto dto)) (sn_entities s))"
    and "g_session g = sn_session s" and "g_document g = sn_document s" and "g_revision g = sn_revision s"
    and "g_diagnostics g = sn_diagnostics s @ validate_shapes g @ validate_invariants (g\<lparr>g_facts := []\<rparr>)"
    and "g_facts g = recognize_holes C g"
    and "bm_wf (g_metadata g)"
proof -
  obtain m where m: "m = snapshot_metadata s \<or> (\<exists>v. m = bm_insert ''view'' v (snapshot_metadata s))"
    and g: "g = (let g = (graph_new (sn_session s) (sn_document s) (sn_revision s))
               \<lparr>g_metadata := m,
                g_entities := bm_collect (map (\<lambda>dto. (be_ref dto, entity_from_dto dto)) (sn_entities s))\<rparr>;
         g = g\<lparr>g_diagnostics := sn_diagnostics s @ validate_shapes g @ validate_invariants g\<rparr>
     in g\<lparr>g_facts := recognize_holes C g\<rparr>)"
    using assms by (auto simp: compile_snapshot_def Let_def split: option.splits)
  define b where "b = (graph_new (sn_session s) (sn_document s) (sn_revision s))
    \<lparr>g_metadata := m,
     g_entities := bm_collect (map (\<lambda>dto. (be_ref dto, entity_from_dto dto)) (sn_entities s))\<rparr>"
  have gb: "g = b\<lparr>g_diagnostics := sn_diagnostics s @ validate_shapes b @ validate_invariants b,
      g_facts := recognize_holes C b\<rparr>"
    unfolding g b_def [symmetric] Let_def by simp
  have "bm_wf (snapshot_metadata s)" unfolding snapshot_metadata_def
    by (intro bm_wf_insert bm_wf_extend bm_wf_Nil)
  then show "bm_wf (g_metadata g)" using m by (auto simp: gb b_def)
  have "g\<lparr>g_facts := []\<rparr> = b\<lparr>g_diagnostics := g_diagnostics g\<rparr>"
    unfolding gb by (simp add: b_def graph_new_def)
  then have "validate_invariants (g\<lparr>g_facts := []\<rparr>) = validate_invariants b" by simp
  then show "g_diagnostics g = sn_diagnostics s @ validate_shapes g @ validate_invariants (g\<lparr>g_facts := []\<rparr>)"
    unfolding gb by simp
  show "g_facts g = recognize_holes C g" unfolding gb by simp
  show "g_entities g = bm_collect (map (\<lambda>dto. (be_ref dto, entity_from_dto dto)) (sn_entities s))"
    and "g_session g = sn_session s" and "g_document g = sn_document s" and "g_revision g = sn_revision s"
    unfolding gb by (simp_all add: b_def graph_new_def)
qed

lemma collected_entries:
  "(k, e) \<in> set (bm_extend m (map (\<lambda>x. (f x, h x)) xs)) \<Longrightarrow> bm_wf m \<Longrightarrow>
     (k, e) \<in> set m \<or> (\<exists>x \<in> set xs. k = f x \<and> e = h x)"
  by (auto simp: bm_get_Some_iff [symmetric] bm_get_extend map_add_Some_iff dest!: map_of_SomeD)

lemma compile_snapshot_wf: "compile_snapshot C s = Ok g \<Longrightarrow> graph_wf g"
  using compile_snapshot_Ok [of C s g] collected_entries [of _ _ "[]" be_ref entity_from_dto "sn_entities s"]
  by (fastforce simp: graph_wf_def entity_from_dto_def)

lemma hole_fact_evidence: "hole_fact C g e = Some f \<Longrightarrow> fa_evidence f = [en_ref e]"
  by (cases "hole_radius e") (auto simp: hole_fact_def Let_def if_None_Some_iff split del: if_split)

lemma compiled_graph_parts:
  assumes "compile_snapshot C s = Ok g"
  shows "graph_wf g"
    and "graph_entity g k = map_option entity_from_dto (find (\<lambda>dto. be_ref dto = k) (rev (sn_entities s)))"
    and "\<forall>e l. e \<in> set (bm_values (g_entities g)) \<and> l \<in> set (en_links e) \<and> \<not> link_resolves g (lk_target l)
           \<longrightarrow> missing_link_target e l \<in> set (g_diagnostics g)"
    and "\<forall>e d. e \<in> set (bm_values (g_entities g)) \<and> shape_diagnostic e = Some d
           \<longrightarrow> d \<in> set (g_diagnostics g)"
    and "\<forall>f r. f \<in> set (g_facts g) \<and> r \<in> set (fa_evidence f) \<longrightarrow> graph_entity g r \<noteq> None"
proof -
  note ok = compile_snapshot_Ok [OF assms]
  show wf: "graph_wf g" using compile_snapshot_wf [OF assms] .
  have "map_of (rev (map (\<lambda>dto. (be_ref dto, entity_from_dto dto)) xs)) k
      = map_option entity_from_dto (find (\<lambda>dto. be_ref dto = k) (rev xs))" for xs
  proof -
    have "map_of (map (\<lambda>dto. (be_ref dto, entity_from_dto dto)) ys) k
        = map_option entity_from_dto (find (\<lambda>dto. be_ref dto = k) ys)" for ys
      by (induction ys) auto
    then show ?thesis by (simp add: rev_map)
  qed
  then show "graph_entity g k = map_option entity_from_dto (find (\<lambda>dto. be_ref dto = k) (rev (sn_entities s)))"
    by (simp add: graph_entity_def ok(1) bm_get_extend)
  show "\<forall>e l. e \<in> set (bm_values (g_entities g)) \<and> l \<in> set (en_links e) \<and> \<not> link_resolves g (lk_target l)
      \<longrightarrow> missing_link_target e l \<in> set (g_diagnostics g)"
    by (auto simp: ok(5) validate_invariants_set link_resolves_def)
  show "\<forall>e d. e \<in> set (bm_values (g_entities g)) \<and> shape_diagnostic e = Some d
      \<longrightarrow> d \<in> set (g_diagnostics g)"
    by (force simp: ok(5) validate_shapes_def List.map_filter_def)
  show "\<forall>f r. f \<in> set (g_facts g) \<and> r \<in> set (fa_evidence f) \<longrightarrow> graph_entity g r \<noteq> None"
    using graph_entity_iff [OF wf]
    by (fastforce simp: ok(6) recognize_holes_def List.map_filter_def dest: hole_fact_evidence)
qed


text \<open>C14: A compiled graph is well-formed, holds the last entity the snapshot has for each reference, reports
  every link without target and every invalid shape, and its facts rest on entities of the graph.\<close>

theorem compiled_graph_is_faithful:
  assumes "compile_snapshot C s = Ok g"
  shows "graph_wf g
    \<and> (\<forall>k. graph_entity g k = map_option entity_from_dto (find (\<lambda>dto. be_ref dto = k) (rev (sn_entities s))))
    \<and> (\<forall>e l. e \<in> set (bm_values (g_entities g)) \<and> l \<in> set (en_links e) \<and> \<not> link_resolves g (lk_target l)
         \<longrightarrow> missing_link_target e l \<in> set (g_diagnostics g))
    \<and> (\<forall>e d. e \<in> set (bm_values (g_entities g)) \<and> shape_diagnostic e = Some d \<longrightarrow> d \<in> set (g_diagnostics g))
    \<and> (\<forall>f r. f \<in> set (g_facts g) \<and> r \<in> set (fa_evidence f) \<longrightarrow> graph_entity g r \<noteq> None)"
  by (intro conjI allI compiled_graph_parts(1) [OF assms] compiled_graph_parts(2) [OF assms]
      compiled_graph_parts(3-5) [OF assms, THEN spec, THEN spec])

section \<open>Ranking\<close>

lemma insert_by_desc:
  "sorted_wrt (\<lambda>a b. f b \<le> f a) ys \<Longrightarrow>
     sorted_wrt (\<lambda>a b. f b \<le> f a) (insert_by (\<lambda>a b. cmp (f b) (f a)) x ys)"
  for f :: "'a \<Rightarrow> 'b::linorder"
proof (induction ys)
  case (Cons y ys)
  have "set (insert_by (\<lambda>a b. cmp (f b) (f a)) x ys) = insert x (set ys)"
    using mset_insert_by [of "\<lambda>a b. cmp (f b) (f a)" x ys] by (metis set_mset_add_mset_insert set_mset_mset)
  then show ?case using Cons by (auto simp: not_less cmp_def split: if_splits intro: order_trans)
qed simp

lemma sort_by_desc: "sorted_wrt (\<lambda>a b. f b \<le> f a) (sort_by (\<lambda>a b. cmp (f b) (f a)) xs)"
  for f :: "'a \<Rightarrow> 'b::linorder"
  by (induction xs) (simp_all add: sort_by_def insert_by_desc)

text \<open>A list sorted by a key that starts with a flag has the flagged elements in front.\<close>

lemma flagged_first:
  assumes "sorted_wrt (\<lambda>a b. P b \<longrightarrow> P a) xs"
  shows "\<exists>ys zs. xs = ys @ zs \<and> (\<forall>y \<in> set ys. P y) \<and> (\<forall>z \<in> set zs. \<not> P z)"
  using assms
proof (induction xs)
  case (Cons x xs)
  show ?case
  proof (cases "P x")
    case True
    obtain ys zs where "xs = ys @ zs" "\<forall>y \<in> set ys. P y" "\<forall>z \<in> set zs. \<not> P z"
      using Cons by auto
    then show ?thesis using True by (intro exI [of _ "x # ys"] exI [of _ zs]) simp
  next
    case False
    then show ?thesis using Cons.prems by (intro exI [of _ "[]"] exI [of _ "x # xs"]) auto
  qed
qed simp

lemma set_focus_refs:
  "reference \<in> set (focus_refs g r selection) \<longleftrightarrow>
     graph_entity g reference \<noteq> None
     \<and> (reference \<in> set (fs_explicit_refs (cq_focus r)) \<or> fs_use_selection (cq_focus r) \<and> reference \<in> set selection)"
  by (auto simp: focus_refs_def)

lemma ranked_entities_set:
  "graph_wf g \<Longrightarrow> set (ranked_entities g focus r) = set (bm_keys (g_entities g))"
  by (force simp: ranked_entities_def graph_wf_def)

lemma ranked_entities_distinct: "graph_wf g \<Longrightarrow> distinct (ranked_entities g focus r)"
proof -
  assume wf: "graph_wf g"
  have keys: "map en_ref (bm_values (g_entities g)) = bm_keys (g_entities g)"
    using wf by (auto simp: graph_wf_def)
  have "mset (ranked_entities g focus r) = mset (map en_ref (bm_values (g_entities g)))"
    by (simp add: ranked_entities_def mset_sort_by multiset.map_comp o_def)
  then show ?thesis
    using wf keys bm_wf_distinct by (metis graph_wf_def mset_eq_imp_distinct_iff)
qed

lemma ranked_entities_focus:
  assumes "graph_wf g"
  shows "\<exists>xs ys. ranked_entities g focus r = xs @ ys \<and> set xs \<subseteq> set focus \<and> set ys \<inter> set focus = {}"
proof -
  let ?s = "sort_by (\<lambda>a b. cmp (rank g focus r b) (rank g focus r a)) (bm_values (g_entities g))"
  have "sorted_wrt (\<lambda>a b. rank g focus r b \<le> rank g focus r a) ?s" by (rule sort_by_desc)
  then have "sorted_wrt (\<lambda>a b. en_ref b \<in> set focus \<longrightarrow> en_ref a \<in> set focus) ?s"
    by (rule sorted_wrt_mono_rel [rotated]) (auto simp: rank_def less_eq_prod_def split: if_splits)
  then obtain ys zs where "?s = ys @ zs" "\<forall>y \<in> set ys. en_ref y \<in> set focus" "\<forall>z \<in> set zs. en_ref z \<notin> set focus"
    using flagged_first [of "\<lambda>e. en_ref e \<in> set focus" ?s] by auto
  then show ?thesis
    by (intro exI [of _ "map en_ref ys"] exI [of _ "map en_ref zs"]) (auto simp: ranked_entities_def)
qed

section \<open>Selection and trimming\<close>

lemma select_entities:
  assumes "\<forall>reference \<in> set refs. graph_entity g reference \<noteq> None"
  shows "length sel \<le> n \<Longrightarrow> foldl (select_entity g n) (sel, full) refs =
     (sel @ map (\<lambda>reference. entity_summary (the (graph_entity g reference))) (take (n - length sel) refs),
      full \<and> length sel + length refs \<le> n)"
  using assms
proof (induction refs arbitrary: sel full)
  case (Cons reference refs)
  then obtain e where e: "graph_entity g reference = Some e" by auto
  show ?case
  proof (cases "n \<le> length sel")
    case True
    then show ?thesis using Cons by (simp add: select_entity_def)
  next
    case False
    then have "n - length sel = Suc (n - Suc (length sel))" by simp
    then show ?thesis using Cons.IH [of "sel @ [entity_summary e]" full] Cons.prems False e
      by (simp add: select_entity_def)
  qed
qed simp

lemma trim_entities_result:
  "entities_array c = Some xs \<Longrightarrow>
     \<exists>n \<le> length xs. entities_array (trim_entities C max_bytes c) = Some (take n xs)
       \<and> (length (json_text C (trim_entities C max_bytes c)) \<le> max_bytes \<or> n = 0)"
proof (induction C max_bytes c arbitrary: xs rule: trim_entities.induct)
  case (1 C max_bytes c)
  consider (fits) "length (json_text C c) \<le> max_bytes" | (none) "\<not> length (json_text C c) \<le> max_bytes" "xs = []"
    | (pop) "\<not> length (json_text C c) \<le> max_bytes" "xs \<noteq> []" by blast
  then show ?case
  proof cases
    case fits
    then show ?thesis using 1(2) by (intro exI [of _ "length xs"]) (simp add: trim_entities.simps [of C max_bytes c])
  next
    case none
    then show ?thesis using 1(2) by (intro exI [of _ 0]) (simp add: trim_entities.simps [of C max_bytes c])
  next
    case pop
    let ?c = "set_entities (butlast xs) c"
    have step: "trim_entities C max_bytes c = trim_entities C max_bytes ?c"
      using pop 1(2) by (simp add: trim_entities.simps [of C max_bytes c])
    have "entities_array ?c = Some (butlast xs)" using 1(2) by (simp add: entities_array_set)
    then obtain n where "n \<le> length (butlast xs)"
      "entities_array (trim_entities C max_bytes ?c) = Some (take n (butlast xs))"
      "length (json_text C (trim_entities C max_bytes ?c)) \<le> max_bytes \<or> n = 0"
      using 1(1) [OF pop(1) 1(2) pop(2)] by blast
    moreover from this have "take n (butlast xs) = take n xs" by (simp add: butlast_conv_take)
    ultimately show ?thesis unfolding step by (intro exI [of _ n]) auto
  qed
qed


lemma assemble_shown:
  assumes "graph_wf g" and "assemble C g r selection view recent_diff = Ok c"
  obtains n where "n \<le> bd_max_entities (cq_budget r)"
    and "entities_array (cr_context c) = Some (map (\<lambda>reference. entity_summary (the (graph_entity g reference)))
           (take n (ranked_entities g (focus_refs g r selection) r)))"
    and "length (json_text C (cr_context c)) \<le> bd_max_inline_bytes (cq_budget r) \<or> n = 0"
    and "cr_complete c \<Longrightarrow> length (json_text C (cr_context c)) \<le> bd_max_inline_bytes (cq_budget r)
           \<and> length (g_entities g) \<le> n"
proof -
  define b where "b = cq_budget r"
  define refs where "refs = ranked_entities g (focus_refs g r selection) r"
  define sel where "sel = map (\<lambda>reference. entity_summary (the (graph_entity g reference)))
    (take (bd_max_entities b) refs)"
  have "\<forall>reference \<in> set refs. graph_entity g reference \<noteq> None"
    using ranked_entities_set [OF assms(1)] by (auto simp: refs_def graph_entity_def bm_get_None_iff)
  then have fold: "foldl (select_entity g (bd_max_entities b)) ([], True) refs
      = (sel, length refs \<le> bd_max_entities b)"
    using select_entities [of refs g "[]"] by (simp add: sel_def)
  have len: "length refs = length (g_entities g)"
    by (simp add: refs_def ranked_entities_def size_mset [symmetric] mset_sort_by del: size_mset)
  obtain omissions full' c' om' full'' where
    trim: "trim_to_budget C b (context_json g (focus_refs g r selection) selection sel view recent_diff omissions,
      omissions, full') = (c', om', full'')"
    and full: "full' \<longrightarrow> length refs \<le> bd_max_entities b"
    and c: "cr_context c = c'" "cr_complete c = full''"
    using assms(2) fold by (auto simp: assemble_def Let_def refs_def b_def split: if_split_asm prod.splits)
  let ?c = "context_json g (focus_refs g r selection) selection sel view recent_diff omissions"
  have arr: "entities_array ?c = Some sel" by (simp add: entities_array_def context_json_def)
  show thesis
  proof (cases "length (json_text C ?c) \<le> bd_max_inline_bytes b")
    case True
    then have "c' = ?c" "full'' = full'" using trim by (auto simp: trim_to_budget_def)
    then show thesis using True arr full len
      by (intro that [of "bd_max_entities b"]) (auto simp: c sel_def refs_def b_def)
  next
    case False
    then have "c' = trim_entities C (bd_max_inline_bytes b) ?c" "\<not> full''"
      using trim by (auto simp: trim_to_budget_def)
    moreover obtain n where "n \<le> length sel"
      "entities_array (trim_entities C (bd_max_inline_bytes b) ?c) = Some (take n sel)"
      "length (json_text C (trim_entities C (bd_max_inline_bytes b) ?c)) \<le> bd_max_inline_bytes b \<or> n = 0"
      using trim_entities_result [OF arr] by blast
    ultimately show thesis
      by (intro that [of n]) (auto simp: c sel_def refs_def b_def take_map min_def split: if_splits)
  qed
qed

text \<open>C15: A context shows at most the budgeted number of entities, the best ranked ones in order; its text fits
  the byte budget unless no entity is left to drop, and a context called complete shows every entity.\<close>

theorem context_stays_within_budget:
  assumes "graph_wf g" and "assemble C g r selection view recent_diff = Ok c"
  shows "\<exists>n. n \<le> bd_max_entities (cq_budget r)
    \<and> entities_array (cr_context c) = Some (map (\<lambda>reference. entity_summary (the (graph_entity g reference)))
        (take n (ranked_entities g (focus_refs g r selection) r)))
    \<and> (length (json_text C (cr_context c)) \<le> bd_max_inline_bytes (cq_budget r) \<or> n = 0)
    \<and> (cr_complete c \<longrightarrow> length (json_text C (cr_context c)) \<le> bd_max_inline_bytes (cq_budget r)
         \<and> length (g_entities g) \<le> n)"
  using assms by (rule assemble_shown) blast

text \<open>A context shows an entity outside the focus only when it shows every entity of the focus: the selection
  and the explicit references that exist.\<close>

theorem focus_is_shown_first:
  assumes "graph_wf g" and "assemble C g r selection view recent_diff = Ok c"
  shows "\<exists>shown. entities_array (cr_context c)
        = Some (map (\<lambda>reference. entity_summary (the (graph_entity g reference))) shown)
    \<and> distinct shown
    \<and> ((\<exists>reference \<in> set shown. reference \<notin> set (focus_refs g r selection))
         \<longrightarrow> set (focus_refs g r selection) \<subseteq> set shown)"
proof -
  let ?focus = "focus_refs g r selection" and ?ranked = "ranked_entities g (focus_refs g r selection) r"
  obtain n where n: "entities_array (cr_context c) = Some (map (\<lambda>reference. entity_summary (the (graph_entity g reference)))
      (take n ?ranked))"
    using assms by (rule assemble_shown) blast
  obtain xs ys where split: "?ranked = xs @ ys" "set xs \<subseteq> set ?focus" "set ys \<inter> set ?focus = {}"
    using ranked_entities_focus [OF assms(1)] by blast
  have "set ?focus \<subseteq> set ?ranked"
    by (auto simp: ranked_entities_set [OF assms(1)] set_focus_refs graph_entity_def bm_get_None_iff)
  then have xs: "set xs = set ?focus" using split by auto
  have "length xs \<le> n" if "\<exists>reference \<in> set (take n ?ranked). reference \<notin> set ?focus"
  proof (rule ccontr)
    assume "\<not> length xs \<le> n"
    then have "set (take n ?ranked) \<subseteq> set xs" using split(1) set_take_subset by fastforce
    then show False using that xs by blast
  qed
  moreover have "set ?focus \<subseteq> set (take n ?ranked)" if "length xs \<le> n"
    using that by (simp add: split(1) xs)
  ultimately have "(\<exists>reference \<in> set (take n ?ranked). reference \<notin> set ?focus) \<longrightarrow> set ?focus \<subseteq> set (take n ?ranked)"
    by blast
  then show ?thesis using n ranked_entities_distinct [OF assms(1)] by (metis distinct_take)
qed

text \<open>When entities were left out because the budget allows fewer and nothing else was cut, the context does not
  suggest the query that would retrieve them.\<close>

theorem omitted_entities_suggest_no_query:
  assumes "assemble C g r selection view recent_diff = Ok c"
    and "\<forall>om \<in> set (cr_omissions c). om_kind om = ''entities''"
  shows "\<forall>call \<in> set (cr_suggested_calls c). sc_tool call \<noteq> ''cad.query_entities''"
proof -
  have no: "\<not> str_contains ''entity'' ''entities''" by code_simp
  have "cr_suggested_calls c = suggestions g (cr_omissions c) r"
    using assms(1) by (auto simp: assemble_def Let_def split: if_split_asm prod.splits)
  moreover have "\<not> list_ex (\<lambda>om. str_contains ''entity'' (om_kind om)) (cr_omissions c)"
    using assms(2) no by (auto simp: list_ex_iff)
  ultimately show ?thesis by (auto simp: suggestions_def)
qed


section \<open>Witnesses\<close>

definition sample_snapshot :: bridge_snapshot where
  "sample_snapshot =
     \<lparr>sn_schema_version = DTO_VERSION, sn_session = ''s'', sn_session_epoch = ''e'', sn_document = ''d'',
      sn_document_label = None, sn_revision = sample_revision, sn_active_workbench = None,
      sn_gui_mode = False, sn_active_object = None, sn_active_edit = None, sn_selection = [],
      sn_view = None,
      sn_entities = [\<lparr>be_ref = box_a, be_kind = ''cad.object'', be_name = Some ''A'', be_label = None,
        be_frame = None, be_units = [], be_source = None, be_identity = identity_default,
        be_properties = JObj [(''valid'', JBool False)],
        be_links = [\<lparr>lk_relation = ''depends_on'', lk_target = ''gone''\<rparr>], be_bounds = None, be_shape = None\<rparr>],
      sn_diagnostics = [], sn_metadata = []\<rparr>"

definition sample_context_request :: context_request where
  "sample_context_request =
     \<lparr>cq_detail = Compact,
      cq_focus = \<lparr>fs_explicit_refs = [box_a], fs_use_selection = False, fs_dependency_depth = 0,
        fs_topology_depth = 0, fs_view_relevance_threshold = None, fs_semantic_kinds = []\<rparr>,
      cq_budget = \<lparr>bd_max_inline_bytes = 10, bd_max_entities = 1\<rparr>, cq_freshness = ''synchronized'',
      cq_include_recent_diff = False, cq_task_profile = None\<rparr>"

lemma sample_graph_wf: "graph_wf sample_graph"
  by (simp add: graph_wf_def bm_wf_def sample_defs)

lemma sample_context:
  obtains c where "assemble sample_codec sample_graph sample_context_request [] None None = Ok c"
    and "\<forall>om \<in> set (cr_omissions c). om_kind om = ''entities''"
proof -
  have "case assemble sample_codec sample_graph sample_context_request [] None None of
      Err e \<Rightarrow> False | Ok c \<Rightarrow> list_all (\<lambda>om. om_kind om = ''entities'') (cr_omissions c)"
    by code_simp
  then show thesis using that by (auto simp: list_all_iff split: sum.splits)
qed

theorem compiled_graph_is_faithful_witness:
  "\<exists>g. compile_snapshot sample_codec sample_snapshot = Ok g \<and> graph_wf g"
proof -
  obtain g where "compile_snapshot sample_codec sample_snapshot = Ok g"
    by (simp add: compile_snapshot_def Let_def sample_snapshot_def)
  then show ?thesis using compiled_graph_is_faithful by blast
qed

theorem context_stays_within_budget_witness:
  "\<exists>c n. assemble sample_codec sample_graph sample_context_request [] None None = Ok c \<and> n \<le> 1
     \<and> entities_array (cr_context c) = Some (map (\<lambda>reference. entity_summary (the (graph_entity sample_graph reference)))
        (take n (ranked_entities sample_graph (focus_refs sample_graph sample_context_request []) sample_context_request)))"
proof -
  obtain c where ok: "assemble sample_codec sample_graph sample_context_request [] None None = Ok c"
    by (rule sample_context)
  have "bd_max_entities (cq_budget sample_context_request) = 1" by (simp add: sample_context_request_def)
  then show ?thesis using context_stays_within_budget [OF sample_graph_wf ok] ok by metis
qed

theorem focus_is_shown_first_witness:
  "\<exists>c shown. assemble sample_codec sample_graph sample_context_request [] None None = Ok c
     \<and> entities_array (cr_context c)
        = Some (map (\<lambda>reference. entity_summary (the (graph_entity sample_graph reference))) shown) \<and> distinct shown"
proof -
  obtain c where "assemble sample_codec sample_graph sample_context_request [] None None = Ok c"
    by (rule sample_context)
  then show ?thesis using focus_is_shown_first [OF sample_graph_wf] by blast
qed

theorem omitted_entities_suggest_no_query_witness:
  "\<exists>c. assemble sample_codec sample_graph sample_context_request [] None None = Ok c
     \<and> (\<forall>call \<in> set (cr_suggested_calls c). sc_tool call \<noteq> ''cad.query_entities'')"
proof -
  obtain c where "assemble sample_codec sample_graph sample_context_request [] None None = Ok c"
    "\<forall>om \<in> set (cr_omissions c). om_kind om = ''entities''" by (rule sample_context)
  then show ?thesis using omitted_entities_suggest_no_query by blast
qed

end
