(* ===== verification/SessionManager.thy ===== *)
theory SessionManager
  imports StoreRuns ContextCompiler
begin

text \<open>
  The crate \<^verbatim>\<open>session-manager\<close>: sessions over a fixture, whose revision store is the sidecar's own, or
  over a bridge reached through the IPC client, whose document is mirrored into a store.

  What the derived serializers print and parse is a parameter; UUIDs are arguments.  A method that
  takes \<^verbatim>\<open>&mut self\<close> returns its result together with the manager it leaves behind.
\<close>

datatype session_error =
    NotFound string
  | DocumentNotFound string
  | Disconnected
  | FixtureError revision_error
  | ContextError context_error
  | IpcError ipc_error
  | SessionSerialization string
  | SessionCore ccir_error
  | SessionIo string

record session_summary =
  ss_id :: string
  ss_epoch :: string
  ss_state :: string
  ss_freecad_version :: string
  ss_python :: string
  ss_occt :: string
  ss_mode :: string
  ss_active_workbench :: "string option"
  ss_documents :: "string list"
  ss_capabilities :: "string list"
  ss_source :: string

record preview_envelope =
  pe_base_revision :: string
  pe_preview_revision :: string
  pe_changeset_hash :: string
  pe_preview_hash :: string
  pe_diff :: json
  pe_validation :: json
  pe_rolled_back :: bool
  pe_rollback_fingerprint_verified :: bool

record commit_envelope =
  ce_resulting_revision :: "string option"
  ce_changeset_hash :: string
  ce_audit_id :: string
  ce_diff :: "json option"
  ce_validation :: json
  ce_undo_available :: bool

datatype session_backend = Fixture store | Ipc ipc_client "store option"

record session_entry =
  se_summary :: session_summary
  se_backend :: session_backend

type_synonym session_manager = "(string, session_entry) bmap"

text \<open>The serializers and parsers the crate derives or calls.\<close>

record session_codec =
  sk_codec :: codec
  sk_wire :: wire_codec
  sk_snapshot_parse :: "string \<Rightarrow> (bridge_snapshot, string) result"
  sk_snapshot_of_json :: "json \<Rightarrow> (bridge_snapshot, string) result"
  sk_change_response_of_json :: "json \<Rightarrow> (change_response, string) result"
  sk_view_of_json :: "json \<Rightarrow> (view_state, string) result"
  sk_json_of_changeset :: "changeset \<Rightarrow> json"
  sk_json_of_diff :: "diff \<Rightarrow> json"

definition json_of_snapshot_request :: "snapshot_request \<Rightarrow> json" where
  "json_of_snapshot_request r = jobj
     [(''session'', json_of_option JStr (sq_session r)), (''document'', json_of_option JStr (sq_document r)),
      (''freshness'', JStr (sq_freshness r)), (''entity_refs'', json_of_list JStr (sq_entity_refs r))]"

definition json_of_change_request :: "session_codec \<Rightarrow> change_request \<Rightarrow> json" where
  "json_of_change_request K r = jobj
     [(''changeset'', sk_json_of_changeset K (cq_changeset r)),
      (''preview_hash'', json_of_option JStr (cq_preview_hash r))]"

definition json_of_validation :: "validation_result \<Rightarrow> json" where
  "json_of_validation v = jobj
     [(''status'', JStr (vr_status v)),
      (''checks'', json_of_list (\<lambda>c. jobj
        [(''id'', JStr (vc_id c)), (''status'', JStr (vc_status c)), (''message'', JStr (vc_message c)),
         (''evidence'', json_of_list JStr (vc_evidence c))]) (vr_checks v))]"

section \<open>Registration\<close>

definition register_fixture ::
  "session_codec \<Rightarrow> bridge_snapshot \<Rightarrow> session_manager \<Rightarrow> (string, session_error) result \<times> session_manager" where
  "register_fixture K snapshot m =
     (case compile_snapshot (sk_codec K) snapshot of
        Err e \<Rightarrow> (Err (ContextError e), m)
      | Ok g \<Rightarrow>
          let summary = \<lparr>ss_id = sn_session snapshot, ss_epoch = sn_session_epoch snapshot,
                ss_state = ''ready_read_only'', ss_freecad_version = ''fixture'', ss_python = ''fixture'',
                ss_occt = ''fixture'', ss_mode = (if sn_gui_mode snapshot then ''gui'' else ''headless''),
                ss_active_workbench = sn_active_workbench snapshot, ss_documents = [sn_document snapshot],
                ss_capabilities = [''read_document_structure'', ''read_exact_geometry''],
                ss_source = ''fixture''\<rparr>
          in (Ok (sn_session snapshot),
              bm_insert (sn_session snapshot)
                \<lparr>se_summary = summary, se_backend = Fixture (store_new (sk_codec K) g)\<rparr> m))"

definition register_ipc ::
  "session_advertisement \<Rightarrow> ipc_client \<Rightarrow> session_manager \<Rightarrow> session_manager" where
  "register_ipc ad client m =
     (let hello = sa_hello ad; info = bh_freecad hello;
          summary = \<lparr>ss_id = sa_session ad, ss_epoch = sa_session_epoch ad, ss_state = ''ready_read_only'',
            ss_freecad_version = fi_version info, ss_python = fi_python info, ss_occt = fi_occt info,
            ss_mode = fi_mode info, ss_active_workbench = fi_active_workbench info,
            ss_documents = sa_documents ad, ss_capabilities = bh_capabilities hello, ss_source = ''ipc''\<rparr>
      in bm_insert (sa_session ad) \<lparr>se_summary = summary, se_backend = Ipc client None\<rparr> m)"

definition load_fixture_file ::
  "session_codec \<Rightarrow> (string, string) result \<Rightarrow> session_manager \<Rightarrow> (string, session_error) result \<times> session_manager" where
  "load_fixture_file K file m =
     (case file of
        Err e \<Rightarrow> (Err (SessionIo e), m)
      | Ok contents \<Rightarrow>
          (case sk_snapshot_parse K contents of
             Err e \<Rightarrow> (Err (SessionSerialization e), m)
           | Ok snapshot \<Rightarrow> register_fixture K snapshot m))"

definition session_list :: "session_manager \<Rightarrow> session_summary list" where
  "session_list m = map se_summary (bm_values m)"

definition find_session :: "session_manager \<Rightarrow> string \<Rightarrow> (session_entry, session_error) result" where
  "find_session m session = ok_or (bm_get m session) (NotFound session)"

definition session_summary_of :: "session_manager \<Rightarrow> string \<Rightarrow> (session_summary, session_error) result" where
  "session_summary_of m session = res_bind (find_session m session) (\<lambda>e. Ok (se_summary e))"

section \<open>Synchronization\<close>

text \<open>\<^verbatim>\<open>store.current().document != document\<close>.\<close>

definition check_document :: "store \<Rightarrow> string \<Rightarrow> (unit, session_error) result" where
  "check_document s document = ensure (g_document (st_current s) = document) (DocumentNotFound document)"

definition ready :: "string \<Rightarrow> session_entry \<Rightarrow> session_entry" where
  "ready epoch e = e\<lparr>se_summary := (se_summary e)\<lparr>ss_epoch := epoch, ss_state := ''ready''\<rparr>\<rparr>"

text \<open>What happens to the entry of a bridge session after the call, with the snapshot it returned.\<close>

definition mirror_snapshot ::
  "session_codec \<Rightarrow> string \<Rightarrow> string \<Rightarrow> bridge_snapshot \<Rightarrow> store option \<Rightarrow> session_entry
     \<Rightarrow> (string, session_error) result \<times> session_entry" where
  "mirror_snapshot K session document snapshot mirror e =
     (let with_store = (\<lambda>s e. case se_backend e of
            Ipc client _ \<Rightarrow> e\<lparr>se_backend := Ipc client (Some s)\<rparr> | _ \<Rightarrow> e) in
      if sn_session snapshot \<noteq> session \<or> sn_document snapshot \<noteq> document
      then (Err (DocumentNotFound (''bridge returned '' @ sn_session snapshot @ ''/'' @ sn_document snapshot)), e)
      else case compile_snapshot (sk_codec K) snapshot of
        Err er \<Rightarrow> (Err (ContextError er), e)
      | Ok g \<Rightarrow>
          (case mirror of
             Some existing \<Rightarrow>
               (case (if current_fingerprint (sk_codec K) existing \<noteq> fingerprint (sk_codec K) g
                      then (case store_observe (sk_codec K) existing g ''bridge_observe'' of
                              (Err er, s) \<Rightarrow> (Err (FixtureError er), s) | (Ok _, s) \<Rightarrow> (Ok (), s))
                      else (Ok (), existing)) of
                  (Err er, s) \<Rightarrow> (Err er, with_store s e)
                | (Ok _, s) \<Rightarrow> (Ok (revision_id (g_revision (st_current s))),
                                ready (sn_session_epoch snapshot) (with_store s e)))
           | None \<Rightarrow> (Ok (revision_id (g_revision g)),
                      ready (sn_session_epoch snapshot) (with_store (store_new (sk_codec K) g) e))))"

definition session_refresh ::
  "session_codec \<Rightarrow> string \<Rightarrow> string \<Rightarrow> string \<Rightarrow> session_manager
     \<Rightarrow> (string, session_error) result \<times> session_manager" where
  "session_refresh K uuid session document m =
     (case find_session m session of
        Err e \<Rightarrow> (Err e, m)
      | Ok e \<Rightarrow>
          (case se_backend e of
             Fixture s \<Rightarrow>
               (res_bind (check_document s document) (\<lambda>_. Ok (revision_id (g_revision (st_current s)))), m)
           | Ipc client mirror \<Rightarrow>
               (case client_call (sk_wire K) uuid (sk_snapshot_of_json K) client ''bridge.snapshot''
                       (json_of_snapshot_request \<lparr>sq_session = Some session, sq_document = Some document,
                          sq_freshness = ''synchronized'', sq_entity_refs = []\<rparr>) of
                  (r, client) \<Rightarrow>
                    let e = e\<lparr>se_backend := Ipc client mirror\<rparr> in
                    case r of
                      Err er \<Rightarrow> (Err (IpcError er), bm_insert session e m)
                    | Ok snapshot \<Rightarrow>
                        (case mirror_snapshot K session document snapshot mirror e of
                           (r, e) \<Rightarrow> (r, bm_insert session e m)))))"

section \<open>Reading\<close>

definition session_store :: "session_manager \<Rightarrow> string \<Rightarrow> string \<Rightarrow> (store, session_error) result" where
  "session_store m session document =
     res_bind (find_session m session) (\<lambda>e.
     case se_backend e of
       Fixture s \<Rightarrow> res_bind (check_document s document) (\<lambda>_. Ok s)
     | Ipc client (Some s) \<Rightarrow> res_bind (check_document s document) (\<lambda>_. Ok s)
     | Ipc client None \<Rightarrow> Err Disconnected)"

definition session_graph :: "session_manager \<Rightarrow> string \<Rightarrow> string \<Rightarrow> (graph, session_error) result" where
  "session_graph m session document =
     res_bind (session_store m session document) (\<lambda>s. Ok (st_current s))"

definition session_revision_record ::
  "session_manager \<Rightarrow> string \<Rightarrow> string \<Rightarrow> string \<Rightarrow> (revision_record, session_error) result" where
  "session_revision_record m session document revision =
     res_bind (session_store m session document) (\<lambda>s.
     ok_or (store_get s revision) (DocumentNotFound (''revision '' @ revision)))"

definition current_selection :: "graph \<Rightarrow> entity_ref list" where
  "current_selection g =
     (case Option.bind (bm_get (g_metadata g) ''selection'') as_array of
        None \<Rightarrow> []
      | Some items \<Rightarrow> List.map_filter as_str
          (List.map_filter (\<lambda>item. or_else (jget ''ref'' item) (jget ''ref_'' item)) items))"

definition current_view :: "session_codec \<Rightarrow> graph \<Rightarrow> view_state option" where
  "current_view K g =
     (case bm_get (g_metadata g) ''view'' of
        None \<Rightarrow> None
      | Some v \<Rightarrow> (case sk_view_of_json K v of Err e \<Rightarrow> None | Ok view \<Rightarrow> Some view))"

definition session_context ::
  "session_codec \<Rightarrow> session_manager \<Rightarrow> string \<Rightarrow> string \<Rightarrow> context_request
     \<Rightarrow> (context_result, session_error) result" where
  "session_context K m session document r =
     res_bind (session_graph m session document) (\<lambda>g.
     map_err ContextError (assemble (sk_codec K) g r (current_selection g) (current_view K g) None))"

definition session_inspect ::
  "session_manager \<Rightarrow> string \<Rightarrow> string \<Rightarrow> inspect_request \<Rightarrow> (entity_result, session_error) result" where
  "session_inspect m session document r =
     res_bind (session_graph m session document) (\<lambda>g. map_err ContextError (inspect_entity g r))"

section \<open>Changes\<close>

definition preview_envelope_of :: "session_codec \<Rightarrow> preview \<Rightarrow> string \<Rightarrow> preview_envelope" where
  "preview_envelope_of K p hash =
     \<lparr>pe_base_revision = pv_base_revision p, pe_preview_revision = pv_preview_revision p,
      pe_changeset_hash = pv_changeset_hash p, pe_preview_hash = hash,
      pe_diff = sk_json_of_diff K (pv_diff p),
      pe_validation = jobj [(''status'', JStr ''pass''), (''checks'', JArr [])],
      pe_rolled_back = pv_rolled_back p, pe_rollback_fingerprint_verified = pv_rollback_verified p\<rparr>"

text \<open>A call to the bridge of a session, whose entry keeps the client it leaves behind.\<close>

definition bridge_call ::
  "session_codec \<Rightarrow> string \<Rightarrow> (json \<Rightarrow> ('a, string) result) \<Rightarrow> string \<Rightarrow> session_entry \<Rightarrow> ipc_client
     \<Rightarrow> store option \<Rightarrow> string \<Rightarrow> json \<Rightarrow> session_manager \<Rightarrow> ('a, session_error) result \<times> session_manager" where
  "bridge_call K uuid from_json session e client mirror message payload m =
     (case client_call (sk_wire K) uuid from_json client message payload of
        (r, client) \<Rightarrow> (map_err IpcError r, bm_insert session (e\<lparr>se_backend := Ipc client mirror\<rparr>) m))"

definition session_preview ::
  "session_codec \<Rightarrow> string \<Rightarrow> changeset \<Rightarrow> session_manager
     \<Rightarrow> (preview_envelope, session_error) result \<times> session_manager" where
  "session_preview K uuid cs m =
     (case find_session m (cs_session cs) of
        Err e \<Rightarrow> (Err e, m)
      | Ok e \<Rightarrow>
          (case se_backend e of
             Fixture s \<Rightarrow>
               (res_bind (check_document s (cs_document cs)) (\<lambda>_.
                res_bind (map_err FixtureError (store_preview (sk_codec K) s cs)) (\<lambda>p.
                Ok (preview_envelope_of K p (preview_hash (sk_codec K) p)))), m)
           | Ipc client mirror \<Rightarrow>
               (case bridge_call K uuid (sk_change_response_of_json K) (cs_session cs) e client mirror
                       ''bridge.preview''
                       (json_of_change_request K \<lparr>cq_changeset = cs, cq_preview_hash = None\<rparr>) m of
                  (r, m) \<Rightarrow>
                    (res_bind r (\<lambda>response.
                     Ok \<lparr>pe_base_revision = cr_base_revision response,
                         pe_preview_revision = (case cr_resulting_revision response of None \<Rightarrow> [] | Some v \<Rightarrow> v),
                         pe_changeset_hash = changeset_hash (sk_codec K) cs,
                         pe_preview_hash = (case cr_preview_hash response of
                             None \<Rightarrow> ''unavailable'' | Some h \<Rightarrow> h),
                         pe_diff = (case cr_diff response of None \<Rightarrow> JNull | Some d \<Rightarrow> d),
                         pe_validation = json_of_validation (cr_validation response),
                         pe_rolled_back = cr_rolled_back response,
                         pe_rollback_fingerprint_verified = cr_rollback_fingerprint_verified response\<rparr>), m))))"

text \<open>The envelope of a change the bridge made, and the refresh that follows it.\<close>

definition finish_live ::
  "session_codec \<Rightarrow> string \<Rightarrow> string \<Rightarrow> string \<Rightarrow> string \<Rightarrow> string
     \<Rightarrow> (change_response, session_error) result \<times> session_manager
     \<Rightarrow> (commit_envelope, session_error) result \<times> session_manager" where
  "finish_live K audit_uuid refresh_uuid session document hash = (\<lambda>(r, m).
     case r of
       Err e \<Rightarrow> (Err e, m)
     | Ok response \<Rightarrow>
         (case session_refresh K refresh_uuid session document m of
            (Err e, m) \<Rightarrow> (Err e, m)
          | (Ok _, m) \<Rightarrow>
              (Ok \<lparr>ce_resulting_revision = cr_resulting_revision response, ce_changeset_hash = hash,
                   ce_audit_id = ''audit-'' @ audit_uuid, ce_diff = cr_diff response,
                   ce_validation = json_of_validation (cr_validation response),
                   ce_undo_available = True\<rparr>, m)))"

definition session_commit ::
  "session_codec \<Rightarrow> (nat \<Rightarrow> string) \<Rightarrow> changeset \<Rightarrow> string \<Rightarrow> session_manager
     \<Rightarrow> (commit_envelope, session_error) result \<times> session_manager" where
  "session_commit K uuid cs hash m =
     (case find_session m (cs_session cs) of
        Err e \<Rightarrow> (Err e, m)
      | Ok e \<Rightarrow>
          (case se_backend e of
             Fixture s \<Rightarrow>
               (case store_commit (sk_codec K) s cs hash of
                  (Err er, s) \<Rightarrow> (Err (FixtureError er), bm_insert (cs_session cs) (e\<lparr>se_backend := Fixture s\<rparr>) m)
                | (Ok r, s) \<Rightarrow>
                    (Ok \<lparr>ce_resulting_revision = Some (revision_id (rr_revision r)),
                         ce_changeset_hash = changeset_hash (sk_codec K) cs,
                         ce_audit_id = ''audit-'' @ uuid 0, ce_diff = None,
                         ce_validation = jobj [(''status'', JStr ''pass''),
                                             (''checks'', json_of_list JStr (cs_validate cs))],
                         ce_undo_available = True\<rparr>,
                     bm_insert (cs_session cs) (e\<lparr>se_backend := Fixture s\<rparr>) m))
           | Ipc client mirror \<Rightarrow>
               finish_live K (uuid 1) (uuid 2) (cs_session cs) (cs_document cs) (changeset_hash (sk_codec K) cs)
                 (bridge_call K (uuid 0) (sk_change_response_of_json K) (cs_session cs) e client mirror
                   ''bridge.commit''
                   (json_of_change_request K \<lparr>cq_changeset = cs, cq_preview_hash = Some hash\<rparr>) m)))"

definition session_undo_redo ::
  "session_codec \<Rightarrow> (nat \<Rightarrow> string) \<Rightarrow> string \<Rightarrow> string \<Rightarrow> bool \<Rightarrow> session_manager
     \<Rightarrow> (commit_envelope, session_error) result \<times> session_manager" where
  "session_undo_redo K uuid session document redo m =
     (case find_session m session of
        Err e \<Rightarrow> (Err e, m)
      | Ok e \<Rightarrow>
          (case se_backend e of
             Fixture s \<Rightarrow>
               (case check_document s document of
                  Err er \<Rightarrow> (Err er, m)
                | Ok _ \<Rightarrow>
                    (case (if redo then store_redo (sk_codec K) s else store_undo (sk_codec K) s) of
                       (Err er, s) \<Rightarrow>
                         (Err (FixtureError er), bm_insert session (e\<lparr>se_backend := Fixture s\<rparr>) m)
                     | (Ok r, s) \<Rightarrow>
                         (Ok \<lparr>ce_resulting_revision = Some (revision_id (rr_revision r)),
                              ce_changeset_hash = ''navigation-'' @ uuid 0,
                              ce_audit_id = ''audit-'' @ uuid 1, ce_diff = None,
                              ce_validation = jobj [(''status'', JStr ''pass''),
                                (''checks'', JArr [JStr (if redo then ''redo'' else ''undo'')])],
                              ce_undo_available = True\<rparr>,
                          bm_insert session (e\<lparr>se_backend := Fixture s\<rparr>) m)))
           | Ipc client mirror \<Rightarrow>
               finish_live K (uuid 2) (uuid 3) session document (''navigation-'' @ uuid 1)
                 (bridge_call K (uuid 0) (sk_change_response_of_json K) session e client mirror
                   (if redo then ''bridge.redo'' else ''bridge.undo'')
                   (jobj [(''document'', JStr document)]) m)))"

definition raw_bridge_call ::
  "session_codec \<Rightarrow> string \<Rightarrow> (json \<Rightarrow> ('a, string) result) \<Rightarrow> string \<Rightarrow> string \<Rightarrow> json \<Rightarrow> session_manager
     \<Rightarrow> ('a, session_error) result \<times> session_manager" where
  "raw_bridge_call K uuid from_json session message payload m =
     (case find_session m session of
        Err e \<Rightarrow> (Err e, m)
      | Ok e \<Rightarrow>
          (case se_backend e of
             Fixture s \<Rightarrow> (Err Disconnected, m)
           | Ipc client mirror \<Rightarrow> bridge_call K uuid from_json session e client mirror message payload m))"

end
