(* ===== verification/SessionLaws.thy ===== *)
theory SessionLaws
  imports SessionManager ContextLaws
begin

text \<open>
  Laws of the session manager: every call changes the store of a session by at most one step of the
  revision store, which carries the invariant of the stores over to the manager; calls on one
  session leave the others alone; a refreshed session shows the document that was asked for.
\<close>

definition entry_store :: "session_entry \<Rightarrow> store option" where
  "entry_store e = (case se_backend e of Fixture s \<Rightarrow> Some s | Ipc client mirror \<Rightarrow> mirror)"

definition store_at :: "session_manager \<Rightarrow> string \<Rightarrow> store option" where
  "store_at m session = Option.bind (bm_get m session) entry_store"

lemma entry_store_simps [simp]:
  "entry_store (e\<lparr>se_backend := Fixture s\<rparr>) = Some s"
  "entry_store (e\<lparr>se_backend := Ipc client mirror\<rparr>) = mirror"
  "entry_store (ready epoch e) = entry_store e"
  by (simp_all add: entry_store_def ready_def)

lemma store_at_insert [simp]:
  "store_at (bm_insert k e m) session = (if session = k then entry_store e else store_at m session)"
  by (simp add: store_at_def)

section \<open>How a call moves a store\<close>

text \<open>A store stays, makes a step of the revision store, or is created from a compiled snapshot.\<close>

inductive store_moves :: "codec \<Rightarrow> store option \<Rightarrow> store option \<Rightarrow> bool" for C where
  stay: "store_moves C s s"
| step: "store_step C s s' \<Longrightarrow> store_moves C (Some s) (Some s')"
| create: "graph_wf g \<Longrightarrow> store_moves C s (Some (store_new C g))"

inductive_cases store_movesE: "store_moves C s s'"

declare store_moves.stay [simp, intro]

lemma store_new_wf: "graph_wf g \<Longrightarrow> store_wf C (store_new C g)"
  by (simp add: store_wf_def store_new_def record_ok_def bm_wf_def)

lemma store_moves_wf: "store_moves C s s' \<Longrightarrow> pred_option (store_wf C) s \<Longrightarrow> pred_option (store_wf C) s'"
  by (auto elim!: store_movesE intro: store_step_wf store_new_wf)

lemma mirror_snapshot_moves:
  assumes "mirror_snapshot K session document snapshot mirror e = (r, e')"
    and "se_backend e = Ipc client mirror"
  shows "store_moves (sk_codec K) mirror (entry_store e') \<and> (\<exists>mirror'. se_backend e' = Ipc client mirror')"
proof (cases "sn_session snapshot \<noteq> session \<or> sn_document snapshot \<noteq> document")
  case True
  then show ?thesis using assms by (auto simp: mirror_snapshot_def Let_def entry_store_def)
next
  case here: False
  show ?thesis
  proof (cases "compile_snapshot (sk_codec K) snapshot")
    case (Inl er)
    then show ?thesis using here assms by (auto simp: mirror_snapshot_def Let_def entry_store_def)
  next
    case (Inr g)
    have wf: "graph_wf g" using compile_snapshot_wf [OF Inr] .
    show ?thesis
    proof (cases mirror)
      case None
      then show ?thesis using here Inr assms wf
        by (auto simp: mirror_snapshot_def Let_def entry_store_def ready_def intro: store_moves.create)
    next
      case (Some existing)
      obtain d s' where o: "store_observe (sk_codec K) existing g ''bridge_observe'' = (d, s')" by force
      have "store_moves (sk_codec K) (Some existing) (Some s')"
        using store_step.observe [OF wf o] by (rule store_moves.step)
      then show ?thesis using here Inr assms Some o
        by (cases "current_fingerprint (sk_codec K) existing = fingerprint (sk_codec K) g"; cases d)
          (auto simp: mirror_snapshot_def Let_def entry_store_def ready_def)
    qed
  qed
qed

lemma session_refresh_moves:
  "session_refresh K uuid session document m = (r, m') \<Longrightarrow>
     store_moves (sk_codec K) (store_at m k) (store_at m' k) \<and> (k \<noteq> session \<longrightarrow> bm_get m' k = bm_get m k)"
proof -
  assume call: "session_refresh K uuid session document m = (r, m')"
  show ?thesis
  proof (cases "bm_get m session")
    case None
    then show ?thesis using call by (simp add: session_refresh_def find_session_def)
  next
    case (Some e)
    show ?thesis
    proof (cases "se_backend e")
      case (Fixture s)
      then show ?thesis using call Some by (simp add: session_refresh_def find_session_def)
    next
      case (Ipc client mirror)
      obtain rc client' where c: "client_call (sk_wire K) uuid (sk_snapshot_of_json K) client ''bridge.snapshot''
          (json_of_snapshot_request \<lparr>sq_session = Some session, sq_document = Some document,
             sq_freshness = ''synchronized'', sq_entity_refs = []\<rparr>) = (rc, client')" by force
      have at: "store_at m session = mirror" using Some Ipc by (simp add: store_at_def entry_store_def)
      show ?thesis
      proof (cases rc)
        case (Inl er)
        then show ?thesis using call Some Ipc c at by (auto simp: session_refresh_def find_session_def Let_def)
      next
        case (Inr snapshot)
        obtain r' e' where mir: "mirror_snapshot K session document snapshot mirror
            (e\<lparr>se_backend := Ipc client' mirror\<rparr>) = (r', e')" by force
        then have "m' = bm_insert session e' m"
          using call Some Ipc c Inr by (auto simp: session_refresh_def find_session_def Let_def)
        then show ?thesis using mirror_snapshot_moves [OF mir] at by simp
      qed
    qed
  qed
qed

lemma bridge_call_store:
  "bridge_call K uuid from_json session e client mirror message payload m = (r, m') \<Longrightarrow>
     bm_get m session = Some e \<Longrightarrow> se_backend e = Ipc client mirror \<Longrightarrow>
     store_at m' k = store_at m k \<and> (k \<noteq> session \<longrightarrow> bm_get m' k = bm_get m k)"
  by (auto simp: bridge_call_def store_at_def entry_store_def split: prod.splits)

lemma finish_live_moves:
  "finish_live K u v session document h (rc, m) = (r, m') \<Longrightarrow>
     store_moves (sk_codec K) (store_at m k) (store_at m' k) \<and> (k \<noteq> session \<longrightarrow> bm_get m' k = bm_get m k)"
proof (cases rc)
  case (Inr response)
  assume call: "finish_live K u v session document h (rc, m) = (r, m')"
  obtain r1 m1 where ref: "session_refresh K v session document m = (r1, m1)" by force
  then have "m' = m1" using call Inr by (cases r1) (simp_all add: finish_live_def)
  then show ?thesis using session_refresh_moves [OF ref] by simp
qed (simp add: finish_live_def)

lemma session_preview_keeps:
  "session_preview K uuid cs m = (r, m') \<Longrightarrow>
     store_at m' k = store_at m k \<and> (k \<noteq> cs_session cs \<longrightarrow> bm_get m' k = bm_get m k)"
proof -
  assume call: "session_preview K uuid cs m = (r, m')"
  show ?thesis
  proof (cases "bm_get m (cs_session cs)")
    case None
    then show ?thesis using call by (simp add: session_preview_def find_session_def)
  next
    case (Some e)
    show ?thesis
    proof (cases "se_backend e")
      case (Fixture s)
      then show ?thesis using call Some by (simp add: session_preview_def find_session_def)
    next
      case (Ipc client mirror)
      obtain rb mb where b: "bridge_call K uuid (sk_change_response_of_json K) (cs_session cs) e client mirror
          ''bridge.preview'' (json_of_change_request K \<lparr>cq_changeset = cs, cq_preview_hash = None\<rparr>) m = (rb, mb)"
        by force
      then have "m' = mb" using call Some Ipc by (simp add: session_preview_def find_session_def)
      then show ?thesis using bridge_call_store [OF b Some Ipc] by simp
    qed
  qed
qed

lemma session_commit_moves:
  "session_commit K uuid cs h m = (r, m') \<Longrightarrow>
     store_moves (sk_codec K) (store_at m k) (store_at m' k) \<and> (k \<noteq> cs_session cs \<longrightarrow> bm_get m' k = bm_get m k)"
proof -
  assume call: "session_commit K uuid cs h m = (r, m')"
  show ?thesis
  proof (cases "bm_get m (cs_session cs)")
    case None
    then show ?thesis using call by (simp add: session_commit_def find_session_def)
  next
    case (Some e)
    show ?thesis
    proof (cases "se_backend e")
      case (Fixture s)
      obtain rc s' where c: "store_commit (sk_codec K) s cs h = (rc, s')" by force
      then have "m' = bm_insert (cs_session cs) (e\<lparr>se_backend := Fixture s'\<rparr>) m"
        using call Some Fixture by (cases rc) (simp_all add: session_commit_def find_session_def)
      moreover have "store_at m (cs_session cs) = Some s" using Some Fixture by (simp add: store_at_def entry_store_def)
      ultimately show ?thesis using store_step.commit [OF c] by (simp add: store_moves.step)
    next
      case (Ipc client mirror)
      obtain rb mb where b: "bridge_call K (uuid 0) (sk_change_response_of_json K) (cs_session cs) e client mirror
          ''bridge.commit'' (json_of_change_request K \<lparr>cq_changeset = cs, cq_preview_hash = Some h\<rparr>) m = (rb, mb)"
        by force
      then have "finish_live K (uuid 1) (uuid 2) (cs_session cs) (cs_document cs) (changeset_hash (sk_codec K) cs)
          (rb, mb) = (r, m')" using call Some Ipc by (simp add: session_commit_def find_session_def)
      then show ?thesis using finish_live_moves bridge_call_store [OF b Some Ipc] by metis
    qed
  qed
qed

lemma session_undo_redo_moves:
  "session_undo_redo K uuid session document redo m = (r, m') \<Longrightarrow>
     store_moves (sk_codec K) (store_at m k) (store_at m' k) \<and> (k \<noteq> session \<longrightarrow> bm_get m' k = bm_get m k)"
proof -
  assume call: "session_undo_redo K uuid session document redo m = (r, m')"
  show ?thesis
  proof (cases "bm_get m session")
    case None
    then show ?thesis using call by (simp add: session_undo_redo_def find_session_def)
  next
    case (Some e)
    show ?thesis
    proof (cases "se_backend e")
      case (Fixture s)
      obtain rc s' where c: "(if redo then store_redo (sk_codec K) s else store_undo (sk_codec K) s) = (rc, s')"
        by force
      then have step: "store_step (sk_codec K) s s'"
        by (auto intro: store_step.undo store_step.redo split: if_split_asm)
      have at: "store_at m session = Some s" using Some Fixture by (simp add: store_at_def entry_store_def)
      have "m' = m \<or> m' = bm_insert session (e\<lparr>se_backend := Fixture s'\<rparr>) m"
        using call Some Fixture c
        by (cases rc) (auto simp: session_undo_redo_def find_session_def check_document_def ensure_def split: if_split_asm)
      then show ?thesis using step at by (auto simp: store_moves.step)
    next
      case (Ipc client mirror)
      obtain rb mb where b: "bridge_call K (uuid 0) (sk_change_response_of_json K) session e client mirror
          (if redo then ''bridge.redo'' else ''bridge.undo'') (jobj [(''document'', JStr document)]) m = (rb, mb)"
        by force
      then have "finish_live K (uuid 2) (uuid 3) session document (''navigation-'' @ uuid 1) (rb, mb) = (r, m')"
        using call Some Ipc by (simp add: session_undo_redo_def find_session_def)
      then show ?thesis using finish_live_moves bridge_call_store [OF b Some Ipc] by metis
    qed
  qed
qed

lemma register_fixture_moves:
  "register_fixture K snapshot m = (r, m') \<Longrightarrow>
     store_moves (sk_codec K) (store_at m k) (store_at m' k)
     \<and> (k \<noteq> sn_session snapshot \<longrightarrow> bm_get m' k = bm_get m k)"
  by (auto simp: register_fixture_def Let_def store_at_def entry_store_def
      intro: store_moves.create [OF compile_snapshot_wf] split: sum.splits)

section \<open>Runs of the manager\<close>

text \<open>The calls that change a manager; a bridge can be registered for a session that has none.\<close>

inductive manager_step :: "session_codec \<Rightarrow> session_manager \<Rightarrow> session_manager \<Rightarrow> bool" for K where
  register_fixture: "register_fixture K snapshot m = (r, m') \<Longrightarrow> manager_step K m m'"
| register_ipc: "manager_step K m (register_ipc ad client m)"
| refresh: "session_refresh K uuid session document m = (r, m') \<Longrightarrow> manager_step K m m'"
| preview: "session_preview K uuid cs m = (rp, m') \<Longrightarrow> manager_step K m m'"
| commit: "session_commit K uuids cs h m = (rc, m') \<Longrightarrow> manager_step K m m'"
| undo_redo: "session_undo_redo K uuids session document redo m = (rc, m') \<Longrightarrow> manager_step K m m'"

inductive_cases manager_stepE: "manager_step K m m'"

definition manager_wf :: "session_codec \<Rightarrow> session_manager \<Rightarrow> bool" where
  "manager_wf K m \<longleftrightarrow> (\<forall>session s. store_at m session = Some s \<longrightarrow> store_wf (sk_codec K) s)"

text \<open>Registering a bridge forgets the store of the session; every other call moves it.\<close>

lemma manager_step_moves:
  "manager_step K m m' \<Longrightarrow> store_moves (sk_codec K) (store_at m k) (store_at m' k) \<or> store_at m' k = None"
proof (erule manager_stepE)
  fix ad client
  assume "m' = register_ipc ad client m"
  then show ?thesis by (auto simp: register_ipc_def Let_def store_at_def entry_store_def)
qed (auto dest: register_fixture_moves [of _ _ _ _ _ k] session_refresh_moves [of _ _ _ _ _ _ _ k]
      session_preview_keeps [of _ _ _ _ _ _ k] session_commit_moves [of _ _ _ _ _ _ _ k]
      session_undo_redo_moves [of _ _ _ _ _ _ _ _ k])

lemma manager_step_wf: "manager_step K m m' \<Longrightarrow> manager_wf K m \<Longrightarrow> manager_wf K m'"
proof -
  assume step: "manager_step K m m'" and wf: "manager_wf K m"
  have "store_wf (sk_codec K) s" if s: "store_at m' k = Some s" for k s
  proof -
    have "store_moves (sk_codec K) (store_at m k) (store_at m' k)" using manager_step_moves [OF step, of k] s by simp
    moreover have "pred_option (store_wf (sk_codec K)) (store_at m k)"
      using wf by (cases "store_at m k") (auto simp: manager_wf_def)
    ultimately show ?thesis using store_moves_wf s by fastforce
  qed
  then show ?thesis by (simp add: manager_wf_def)
qed

interpretation manager_runs: step_invariant "manager_step K" "manager_wf K" for K
  by unfold_locales (rule manager_step_wf)

text \<open>C23: In any run of calls on a manager that starts empty, every store keeps its invariant; what is read of a
  session is a well-formed graph of the document asked for, and a revision record is the one of its
  identifier with the fingerprint of its graph.\<close>

theorem sessions_keep_store_invariant:
  assumes "rtranclp (manager_step K) [] m"
  shows "manager_wf K m
    \<and> (\<forall>session document g. session_graph m session document = Ok g \<longrightarrow> graph_wf g \<and> g_document g = document)
    \<and> (\<forall>session document revision r. session_revision_record m session document revision = Ok r \<longrightarrow>
         revision_id (rr_revision r) = revision \<and> rr_fingerprint r = fingerprint (sk_codec K) (rr_graph r))"
proof -
  have wf: "manager_wf K m"
    using assms by (rule manager_runs.runs_inv) (simp add: manager_wf_def store_at_def)
  have store: "store_wf (sk_codec K) s \<and> g_document (st_current s) = document"
    if read: "session_store m session document = Ok s" for session document s
  proof -
    obtain e where e: "bm_get m session = Some e" using read by (auto simp: session_store_def find_session_def)
    then have "entry_store e = Some s \<and> g_document (st_current s) = document"
      using read by (cases "se_backend e"; cases "entry_store e")
        (auto simp: session_store_def find_session_def check_document_def entry_store_def)
    moreover from this have "store_at m session = Some s" using e by (simp add: store_at_def)
    ultimately show ?thesis using wf by (simp add: manager_wf_def)
  qed
  have "graph_wf g \<and> g_document g = document" if "session_graph m session document = Ok g" for session document g
    using that store by (auto simp: session_graph_def store_wf_def)
  moreover have "revision_id (rr_revision r) = revision \<and> rr_fingerprint r = fingerprint (sk_codec K) (rr_graph r)"
    if read: "session_revision_record m session document revision = Ok r" for session document revision r
  proof -
    obtain s where s: "session_store m session document = Ok s" "bm_get (st_history s) revision = Some r"
      using read by (auto simp: session_revision_record_def store_get_def)
    then have "store_wf (sk_codec K) s" using store by blast
    then have "record_ok (sk_codec K) revision r" using s(2) by (auto simp: store_wf_def dest: map_of_SomeD)
    then show ?thesis by (simp add: record_ok_def)
  qed
  ultimately show ?thesis using wf by blast
qed

section \<open>Preview and commit\<close>

text \<open>C24: A change set previewed on a fixture commits under the hash of that preview, with the revision the preview
  announced, and the session then shows the graph of the preview; no other session is touched.\<close>

theorem previewed_change_commits:
  assumes "bm_get m (cs_session cs) = Some e" and "se_backend e = Fixture s"
    and "session_preview K uuid cs m = (Ok p, m1)"
  shows "\<exists>c g m2. session_commit K uuids cs (pe_preview_hash p) m1 = (Ok c, m2)
    \<and> ce_resulting_revision c = Some (pe_preview_revision p)
    \<and> apply_changeset (sk_codec K) (st_current s) cs = Ok g
    \<and> map_option st_current (store_at m2 (cs_session cs)) = Some g
    \<and> (\<forall>k. k \<noteq> cs_session cs \<longrightarrow> bm_get m2 k = bm_get m k)"
proof -
  let ?C = "sk_codec K"
  obtain pv where pv: "store_preview ?C s cs = Ok pv" "p = preview_envelope_of K pv (preview_hash ?C pv)" and m1: "m1 = m"
    using assms by (auto simp: session_preview_def find_session_def check_document_def)
  define r where "r = make_record ?C (pv_graph pv) (Some (revision_id (g_revision (st_current s)))) ''agent_commit''"
  define s' where "s' = retain (s\<lparr>st_undo := st_undo s @ [st_current s], st_redo := [], st_current := pv_graph pv\<rparr>) r"
  have "store_commit ?C s cs (preview_hash ?C pv) = (Ok r, s')"
    using pv(1) by (simp add: store_commit_Ok r_def s'_def)
  moreover have "apply_changeset ?C (st_current s) cs = Ok (pv_graph pv)"
    "pv_preview_revision pv = revision_id (g_revision (pv_graph pv))"
    using pv(1) by (auto simp: store_preview_Ok_iff)
  ultimately show ?thesis using assms(1, 2)
    by (simp add: session_commit_def find_session_def m1 pv(2) preview_envelope_of_def r_def s'_def)
qed

section \<open>Refreshing\<close>

lemma mirror_snapshot_shows:
  assumes "\<forall>g h. fingerprint (sk_codec K) g = fingerprint (sk_codec K) h \<longrightarrow> g_document g = g_document h"
    and "mirror_snapshot K session document snapshot mirror e = (Ok revision, e')"
    and "se_backend e = Ipc client mirror"
  shows "\<exists>s. se_backend e' = Ipc client (Some s) \<and> g_document (st_current s) = document
    \<and> revision_id (g_revision (st_current s)) = revision"
proof -
  have doc: "sn_session snapshot = session" "sn_document snapshot = document"
    using assms(2) by (auto simp: mirror_snapshot_def Let_def split: if_split_asm)
  obtain g where g: "compile_snapshot (sk_codec K) snapshot = Ok g"
    using assms(2) by (auto simp: mirror_snapshot_def Let_def split: if_split_asm sum.splits)
  have gd: "g_document g = document" using compile_snapshot_Ok(3) [OF g] doc by simp
  show ?thesis
  proof (cases mirror)
    case None
    then show ?thesis using assms(2, 3) doc g gd
      by (auto simp: mirror_snapshot_def Let_def ready_def store_new_def)
  next
    case (Some existing)
    show ?thesis
    proof (cases "current_fingerprint (sk_codec K) existing = fingerprint (sk_codec K) g")
      case True
      then have "g_document (st_current existing) = document"
        using assms(1) gd unfolding current_fingerprint_def by metis
      then show ?thesis using True assms(2, 3) doc g Some
        by (auto simp: mirror_snapshot_def Let_def ready_def)
    next
      case False
      then obtain d s' where o: "store_observe (sk_codec K) existing g ''bridge_observe'' = (Ok d, s')"
        using assms(2, 3) doc g Some
        by (cases "store_observe (sk_codec K) existing g ''bridge_observe''";
            cases "fst (store_observe (sk_codec K) existing g ''bridge_observe'')")
          (auto simp: mirror_snapshot_def Let_def)
      then have "g_document (st_current s') = document"
        by (cases rule: store_observe_cases [of "sk_codec K" existing g "''bridge_observe''"]) (auto simp: gd)
      then show ?thesis using False assms(2, 3) doc g Some o
        by (auto simp: mirror_snapshot_def Let_def ready_def)
    qed
  qed
qed

text \<open>A refresh that succeeds leaves a session that shows the document asked for at the revision returned,
  when equal fingerprints mean the same document.\<close>

theorem refresh_shows_requested_document:
  assumes "\<forall>g h. fingerprint (sk_codec K) g = fingerprint (sk_codec K) h \<longrightarrow> g_document g = g_document h"
    and "session_refresh K uuid session document m = (Ok revision, m')"
  shows "\<exists>g. session_graph m' session document = Ok g \<and> revision_id (g_revision g) = revision"
proof -
  obtain e where e: "bm_get m session = Some e"
    using assms(2) by (cases "bm_get m session") (simp_all add: session_refresh_def find_session_def)
  show ?thesis
  proof (cases "se_backend e")
    case (Fixture s)
    then show ?thesis using assms(2) e
      by (auto simp: session_refresh_def find_session_def session_graph_def session_store_def check_document_def)
  next
    case (Ipc client mirror)
    obtain rc client' where c: "client_call (sk_wire K) uuid (sk_snapshot_of_json K) client ''bridge.snapshot''
        (json_of_snapshot_request \<lparr>sq_session = Some session, sq_document = Some document,
           sq_freshness = ''synchronized'', sq_entity_refs = []\<rparr>) = (rc, client')" by force
    then obtain snapshot where rc: "rc = Ok snapshot"
      using assms(2) e Ipc by (cases rc) (auto simp: session_refresh_def find_session_def Let_def)
    obtain e' where mir: "mirror_snapshot K session document snapshot mirror (e\<lparr>se_backend := Ipc client' mirror\<rparr>)
        = (Ok revision, e')" and m': "m' = bm_insert session e' m"
      using assms(2) e Ipc c rc
      by (cases "mirror_snapshot K session document snapshot mirror (e\<lparr>se_backend := Ipc client' mirror\<rparr>)")
        (auto simp: session_refresh_def find_session_def Let_def)
    have "\<exists>s. se_backend e' = Ipc client' (Some s) \<and> g_document (st_current s) = document
        \<and> revision_id (g_revision (st_current s)) = revision"
      using mirror_snapshot_shows [OF assms(1) mir] by simp
    then show ?thesis
      by (auto simp: m' session_graph_def session_store_def find_session_def check_document_def)
  qed
qed


text \<open>A refresh installs whatever revision the bridge reports for the epoch, also one older than the current
  revision: it then becomes the current one.\<close>

theorem refresh_can_go_back:
  assumes "bm_get m session = Some e" and "se_backend e = Ipc client (Some s)"
    and "client_call (sk_wire K) uuid (sk_snapshot_of_json K) client ''bridge.snapshot''
           (json_of_snapshot_request \<lparr>sq_session = Some session, sq_document = Some document,
              sq_freshness = ''synchronized'', sq_entity_refs = []\<rparr>) = (Ok snapshot, client')"
    and "sn_session snapshot = session" and "sn_document snapshot = document"
    and "compile_snapshot (sk_codec K) snapshot = Ok g"
    and "fingerprint (sk_codec K) g \<noteq> current_fingerprint (sk_codec K) s"
    and "advances_from (g_revision (st_current s)) (sn_revision snapshot)"
  shows "\<exists>m' g'. session_refresh K uuid session document m = (Ok (revision_id (sn_revision snapshot)), m')
    \<and> session_graph m' session document = Ok g'
    \<and> g_revision g' = sn_revision snapshot \<and> advances_from (g_revision (st_current s)) (g_revision g')"
proof -
  have rev: "g_revision g = sn_revision snapshot" "g_document g = document"
    using compile_snapshot_Ok [OF assms(6)] assms(5) by simp_all
  have old: "rev_epoch (g_revision g) = rev_epoch (g_revision (st_current s))"
    "g_revision g \<noteq> g_revision (st_current s)"
    using assms(8) rev by (auto simp: advances_from_def)
  define s' where "s' = retain (s\<lparr>st_undo := st_undo s @ [st_current s], st_redo := [], st_current := g\<rparr>)
    (make_record (sk_codec K) g (Some (revision_id (g_revision (st_current s)))) ''bridge_observe'')"
  obtain d where d: "store_observe (sk_codec K) s g ''bridge_observe'' = (Ok d, s')"
    using old by (cases rule: store_observe_cases [of "sk_codec K" s g "''bridge_observe''"]) (auto simp: s'_def)
  have cur: "st_current s' = g" by (simp add: s'_def)
  define e' where "e' = ready (sn_session_epoch snapshot) (e\<lparr>se_backend := Ipc client' (Some s')\<rparr>)"
  have "mirror_snapshot K session document snapshot (Some s) (e\<lparr>se_backend := Ipc client' (Some s)\<rparr>)
      = (Ok (revision_id (sn_revision snapshot)), e')"
    using assms(4-7) d cur rev(1) by (simp add: mirror_snapshot_def Let_def e'_def not_sym)
  then have "session_refresh K uuid session document m
      = (Ok (revision_id (sn_revision snapshot)), bm_insert session e' m)"
    using assms(1-3) by (simp add: session_refresh_def find_session_def Let_def)
  moreover have "session_graph (bm_insert session e' m) session document = Ok g"
    using rev(2) cur
    by (simp add: session_graph_def session_store_def find_session_def check_document_def e'_def ready_def)
  ultimately show ?thesis using rev(1) assms(8) by auto
qed

section \<open>Witnesses\<close>

text \<open>A bridge whose answer, whatever it is asked, is one empty frame that stands for the sample snapshot.\<close>

definition sample_response :: ipc_response where
  "sample_response = \<lparr>ir_protocol_version = IPC_VERSION, ir_message = ''bridge.snapshot'', ir_request_id = ''u'',
     ir_status = RespOk, ir_session_epoch = ''e'', ir_payload = None, ir_diagnostics = []\<rparr>"

definition document_codec :: codec where
  "document_codec = sample_codec\<lparr>text_of_graph := (\<lambda>g. g_document g)\<rparr>"

definition sample_session_codec :: "codec \<Rightarrow> session_codec" where
  "sample_session_codec C =
     \<lparr>sk_codec = C,
      sk_wire = \<lparr>wk_request_text = (\<lambda>r. ''r''), wk_response_parse = (\<lambda>t. Ok sample_response)\<rparr>,
      sk_snapshot_parse = (\<lambda>t. Ok sample_snapshot), sk_snapshot_of_json = (\<lambda>v. Ok sample_snapshot),
      sk_change_response_of_json = (\<lambda>v. Err []), sk_view_of_json = (\<lambda>v. Err []),
      sk_json_of_changeset = (\<lambda>cs. JNull), sk_json_of_diff = (\<lambda>d. JNull)\<rparr>"

definition sample_summary :: session_summary where
  "sample_summary = \<lparr>ss_id = ''s'', ss_epoch = ''e'', ss_state = ''ready'', ss_freecad_version = [],
     ss_python = [], ss_occt = [], ss_mode = [], ss_active_workbench = None, ss_documents = [''d''],
     ss_capabilities = [], ss_source = []\<rparr>"

definition fixture_manager :: session_manager where
  "fixture_manager = [(''s'', \<lparr>se_summary = sample_summary, se_backend = Fixture sample_store\<rparr>)]"

text \<open>A mirror that is one revision ahead of what the bridge reports.\<close>

definition ahead_graph :: graph where
  "ahead_graph = sample_graph\<lparr>g_revision := next_geometry sample_revision\<rparr>"

definition frame_client :: ipc_client where
  "frame_client = client_new (be_bytes 0) ''secret''"

definition ahead_manager :: session_manager where
  "ahead_manager = [(''s'', \<lparr>se_summary = sample_summary,
     se_backend = Ipc frame_client (Some (store_new sample_codec ahead_graph))\<rparr>)]"

lemma bm_insert_same: "bm_insert k v [(k, w)] = [(k, v)]"
  by simp

theorem sessions_keep_store_invariant_witness:
  "manager_wf (sample_session_codec sample_codec)
     (snd (register_fixture (sample_session_codec sample_codec) sample_snapshot []))"
proof -
  have "manager_step (sample_session_codec sample_codec) []
      (snd (register_fixture (sample_session_codec sample_codec) sample_snapshot []))"
    by (rule manager_step.register_fixture [OF prod.collapse [symmetric]])
  then show ?thesis using sessions_keep_store_invariant [OF r_into_rtranclp] by blast
qed

theorem previewed_change_commits_witness:
  "\<exists>c g m. session_commit (sample_session_codec sample_codec) (\<lambda>n. ''u'') sample_change
      (preview_hash sample_codec sample_preview) fixture_manager = (Ok c, m)
    \<and> ce_resulting_revision c = Some (pv_preview_revision sample_preview)
    \<and> apply_changeset sample_codec sample_graph sample_change = Ok g
    \<and> map_option st_current (store_at m ''s'') = Some g"
proof -
  let ?K = "sample_session_codec sample_codec"
  have ids: "cs_session sample_change = ''s''" "cs_document sample_change = ''d''"
    "g_document sample_graph = ''d''"
    by (simp_all add: sample_change_def changeset_new_def sample_graph_def graph_new_def)
  have get: "bm_get fixture_manager (cs_session sample_change) =
      Some \<lparr>se_summary = sample_summary, se_backend = Fixture sample_store\<rparr>"
    by (simp add: fixture_manager_def ids)
  have K: "sk_codec ?K = sample_codec" by (simp add: sample_session_codec_def)
  have "session_preview ?K u sample_change fixture_manager
      = (Ok (preview_envelope_of ?K sample_preview (preview_hash sample_codec sample_preview)), fixture_manager)" for u
    using get by (simp add: session_preview_def find_session_def check_document_def sample_store_current
        sample_previews K ids)
  from previewed_change_commits [OF get _ this, of sample_store "\<lambda>n. ''u''"] show ?thesis
    by (auto simp: preview_envelope_of_def K ids sample_store_current)
qed

lemma sample_snapshot_compiles:
  obtains g where "compile_snapshot C sample_snapshot = Ok g"
  by (simp add: compile_snapshot_def Let_def sample_snapshot_def)

lemma frame_client_answers:
  "\<exists>c. client_call (sk_wire (sample_session_codec C)) uuid (\<lambda>v. Ok sample_snapshot) frame_client message payload
     = (Ok sample_snapshot, c)"
proof -
  have "wk_request_text (sk_wire (sample_session_codec C)) r = ''r''"
    "wk_response_parse (sk_wire (sample_session_codec C)) t = Ok sample_response" for r t
    by (simp_all add: sample_session_codec_def)
  moreover have "\<exists>out. write_frame ''r'' [] = Ok out" by (simp add: write_frame_def MAX_FRAME_def)
  moreover have "read_frame (\<lambda>t. Ok sample_response) (be_bytes 0) = Ok (sample_response, [])"
    using read_exact_append [of "be_bytes 0" 4 "[]"] read_exact_append [of "[]" 0 "[]"]
    by (simp add: read_frame_def)
  ultimately show ?thesis
    by (auto simp: client_call_def client_request_def frame_client_def client_new_def decode_payload_def
        sample_response_def sample_session_codec_def)
qed

theorem refresh_shows_requested_document_witness:
  "\<exists>g. session_graph fixture_manager ''s'' ''d'' = Ok g \<and> revision_id (g_revision g) = revision_id sample_revision"
proof (rule refresh_shows_requested_document [of "sample_session_codec document_codec" u "''s''" "''d''" fixture_manager])
  show "\<forall>g h. fingerprint (sk_codec (sample_session_codec document_codec)) g
      = fingerprint (sk_codec (sample_session_codec document_codec)) h \<longrightarrow> g_document g = g_document h"
    by (simp add: sample_session_codec_def fingerprint_def sha256_json_def sha256_bytes_def document_codec_def
        sample_codec_def)
  show "session_refresh (sample_session_codec document_codec) u ''s'' ''d'' fixture_manager
      = (Ok (revision_id sample_revision), fixture_manager)"
    by (simp add: session_refresh_def find_session_def fixture_manager_def check_document_def sample_store_current
        sample_graph_def graph_new_def)
qed

lemma sample_fingerprint: "fingerprint sample_codec g = ''sha256:'' @ revision_id (g_revision g)"
  by (simp add: fingerprint_def sha256_json_def sha256_bytes_def sample_codec_def)

theorem refresh_can_go_back_witness:
  "\<exists>m g. session_refresh (sample_session_codec sample_codec) ''u'' ''s'' ''d'' ahead_manager
      = (Ok (revision_id sample_revision), m)
    \<and> session_graph m ''s'' ''d'' = Ok g \<and> advances_from (next_geometry sample_revision) (g_revision g)"
proof -
  let ?K = "sample_session_codec sample_codec"
  obtain c where c: "client_call (sk_wire ?K) ''u'' (sk_snapshot_of_json ?K) frame_client ''bridge.snapshot''
      (json_of_snapshot_request \<lparr>sq_session = Some ''s'', sq_document = Some ''d'',
         sq_freshness = ''synchronized'', sq_entity_refs = []\<rparr>) = (Ok sample_snapshot, c)"
    using frame_client_answers [of sample_codec "''u''"] by (auto simp: sample_session_codec_def)
  obtain g where g: "compile_snapshot (sk_codec ?K) sample_snapshot = Ok g" by (rule sample_snapshot_compiles)
  have sn: "sn_session sample_snapshot = ''s''" "sn_document sample_snapshot = ''d''"
    "sn_revision sample_snapshot = sample_revision" by (simp_all add: sample_snapshot_def)
  have adv: "advances_from (next_geometry sample_revision) sample_revision"
    by (simp add: advances_from_def next_geometry_def sample_revision_def)
  have cur: "st_current (store_new sample_codec ahead_graph) = ahead_graph" "g_revision ahead_graph = next_geometry sample_revision"
    by (simp_all add: store_new_def ahead_graph_def)
  have "g_revision g = sample_revision" using compile_snapshot_Ok(4) [OF g] sn by simp
  then have "fingerprint (sk_codec ?K) g \<noteq> current_fingerprint (sk_codec ?K) (store_new sample_codec ahead_graph)"
    using advances_from_id_changes [OF adv]
    by (simp add: sample_session_codec_def current_fingerprint_def sample_fingerprint cur)
  then show ?thesis
    using refresh_can_go_back [of ahead_manager "''s''" "\<lparr>se_summary = sample_summary,
        se_backend = Ipc frame_client (Some (store_new sample_codec ahead_graph))\<rparr>" frame_client
        "store_new sample_codec ahead_graph" ?K "''u''" "''d''" sample_snapshot c g] c g sn adv cur
    by (simp add: ahead_manager_def) blast
qed

end
