(* ===== verification/Effects.thy ===== *)
theory Effects
  imports Prelude
begin

text \<open>
  Operations that may fail and change a state: a function from the state to a result and the state
  left behind, also when it fails.  A relation between the state before and after that is reflexive
  and transitive holds of a composed operation when it holds of its parts.
\<close>

type_synonym ('a, 'e, 's) effect = "'s \<Rightarrow> ('a, 'e) result \<times> 's"

definition eff_bind :: "('a, 'e, 's) effect \<Rightarrow> ('a \<Rightarrow> ('b, 'e, 's) effect) \<Rightarrow> ('b, 'e, 's) effect" where
  "eff_bind m f = (\<lambda>s. case m s of (Err e, s') \<Rightarrow> (Err e, s') | (Ok x, s') \<Rightarrow> f x s')"

definition eff_lift :: "('a, 'e) result \<Rightarrow> ('a, 'e, 's) effect" where
  "eff_lift r = (\<lambda>s. (r, s))"

definition eff_read :: "('s \<Rightarrow> ('a, 'e) result) \<Rightarrow> ('a, 'e, 's) effect" where
  "eff_read f = (\<lambda>s. (f s, s))"

definition eff_modify :: "('s \<Rightarrow> 's) \<Rightarrow> (unit, 'e, 's) effect" where
  "eff_modify f = (\<lambda>s. (Ok (), f s))"

lemma eff_lift_apply [simp]: "eff_lift r s = (r, s)"
  by (simp add: eff_lift_def)

lemma eff_read_apply [simp]: "eff_read f s = (f s, s)"
  by (simp add: eff_read_def)

lemma eff_modify_apply [simp]: "eff_modify f s = (Ok (), f s)"
  by (simp add: eff_modify_def)

lemma eff_bind_Ok [simp]: "m s = (Ok x, s') \<Longrightarrow> eff_bind m f s = f x s'"
  by (simp add: eff_bind_def)

lemma eff_bind_Err [simp]: "m s = (Err e, s') \<Longrightarrow> eff_bind m f s = (Err e, s')"
  by (simp add: eff_bind_def)

lemma eff_bind_lift: "eff_bind (eff_lift r) f s = (case r of Err e \<Rightarrow> (Err e, s) | Ok x \<Rightarrow> f x s)"
  by (simp add: eff_bind_def)

lemma eff_bind_read: "eff_bind (eff_read g) f s = (case g s of Err e \<Rightarrow> (Err e, s) | Ok x \<Rightarrow> f x s)"
  by (simp add: eff_bind_def)

lemma eff_bind_modify [simp]: "eff_bind (eff_modify g) f s = f () (g s)"
  by (simp add: eff_bind_def)

lemma eff_bind_Ok_iff:
  "eff_bind m f s = (Ok y, t) \<longleftrightarrow> (\<exists>x s'. m s = (Ok x, s') \<and> f x s' = (Ok y, t))"
  by (auto simp: eff_bind_def split: prod.splits sum.splits)

lemma eff_bind_Err_iff:
  "eff_bind m f s = (Err e, t) \<longleftrightarrow> m s = (Err e, t) \<or> (\<exists>x s'. m s = (Ok x, s') \<and> f x s' = (Err e, t))"
  by (auto simp: eff_bind_def split: prod.splits sum.splits)

definition related_by :: "('s \<Rightarrow> 's \<Rightarrow> bool) \<Rightarrow> ('a, 'e, 's) effect \<Rightarrow> bool" where
  "related_by R m \<longleftrightarrow> (\<forall>s r t. m s = (r, t) \<longrightarrow> R s t)"

lemma related_byI: "(\<And>s r t. m s = (r, t) \<Longrightarrow> R s t) \<Longrightarrow> related_by R m"
  by (auto simp: related_by_def)

lemma related_byD: "related_by R m \<Longrightarrow> m s = (r, t) \<Longrightarrow> R s t"
  by (auto simp: related_by_def)

locale state_preorder =
  fixes R :: "'s \<Rightarrow> 's \<Rightarrow> bool"
  assumes same [simp, intro]: "R s s"
    and chain: "R s t \<Longrightarrow> R t u \<Longrightarrow> R s u"
begin

lemma lift [intro]: "related_by R (eff_lift r)"
  by (auto intro: related_byI)

lemma read [intro]: "related_by R (eff_read f)"
  by (auto intro: related_byI)

lemma modify: "(\<And>s. R s (f s)) \<Longrightarrow> related_by R (eff_modify f)"
  by (auto intro: related_byI)

lemma bind [intro]:
  assumes "related_by R m" and "\<And>x. related_by R (f x)"
  shows "related_by R (eff_bind m f)"
proof (rule related_byI)
  fix s r t
  assume run: "eff_bind m f s = (r, t)"
  obtain rm s' where m: "m s = (rm, s')" by force
  then have "R s s'" using assms(1) by (rule related_byD [rotated])
  moreover have "R s' t"
    using run m assms(2) by (cases rm) (auto simp: related_by_def)
  ultimately show "R s t" by (rule chain)
qed

lemma cond: "related_by R m \<Longrightarrow> related_by R n \<Longrightarrow> related_by R (if b then m else n)"
  by simp

end

end
