(* ===== verification/McpTools.thy ===== *)
theory McpTools
  imports Json
begin

text \<open>
  What the crate \<^verbatim>\<open>mcp-adapter\<close> announces: its resources and tools with their schemas; and the base64 text
  of a binary resource.
\<close>

section \<open>Schemas\<close>

definition schema :: "string list \<Rightarrow> json \<Rightarrow> json" where
  "schema required properties =
     jobj ([(''type'', JStr ''object''), (''properties'', properties), (''additionalProperties'', JBool False)]
       @ (if required = [] then [] else [(''required'', json_of_list JStr required)]))"

text \<open>Fragments that occur in many schemas.\<close>

definition string_type :: json where
  "string_type = jobj [(''type'', JStr ''string'')]"

definition object_type :: json where
  "object_type = jobj [(''type'', JStr ''object'')]"

definition integer_in :: "nat \<Rightarrow> nat \<Rightarrow> json" where
  "integer_in low high = jobj [(''type'', JStr ''integer''), (''minimum'', json_of_nat low), (''maximum'', json_of_nat high)]"

definition enum_of :: "string list \<Rightarrow> json" where
  "enum_of names = jobj [(''enum'', json_of_list JStr names)]"

definition requiring :: "string list \<Rightarrow> json" where
  "requiring names = jobj [(''type'', JStr ''object''), (''required'', json_of_list JStr names)]"

section \<open>Resources\<close>

definition resource_definitions :: "json list" where
  "resource_definitions =
     [jobj [(''uri'', JStr ''freecad://sessions''), (''name'', JStr ''sessions''),
       (''mimeType'', JStr ''application/json''), (''description'', JStr ''Paired FreeCAD sessions'')]]"

definition resource_templates :: "json list" where
  "resource_templates =
     [jobj [(''uriTemplate'', JStr ''freecad://session/{session}/current''),
       (''name'', JStr ''session-current''), (''mimeType'', JStr ''application/json'')],
      jobj [(''uriTemplate'', JStr ''freecad://session/{session}/document/{document}/current''),
       (''name'', JStr ''document-current''), (''mimeType'', JStr ''application/json'')],
      jobj [(''uriTemplate'', JStr ''freecad://session/{session}/document/{document}/revision/{revision}''),
       (''name'', JStr ''revision''), (''mimeType'', JStr ''application/json'')],
      jobj [(''uriTemplate'', JStr ''freecad://session/{session}/document/{document}/diff/{from}/{to}''),
       (''name'', JStr ''diff''), (''mimeType'', JStr ''application/json'')],
      jobj [(''uriTemplate'', JStr ''freecad://session/{session}/document/{document}/entity/{ref}''),
       (''name'', JStr ''entity''), (''mimeType'', JStr ''application/json'')],
      jobj [(''uriTemplate'', JStr ''freecad://session/{session}/document/{document}/selection/current''),
       (''name'', JStr ''selection-current''), (''mimeType'', JStr ''application/json'')],
      jobj [(''uriTemplate'', JStr ''freecad://session/{session}/document/{document}/view/current''),
       (''name'', JStr ''view-current''), (''mimeType'', JStr ''application/json'')],
      jobj [(''uriTemplate'', JStr ''freecad://artifact/{sha256}''), (''name'',
       JStr ''artifact''), (''mimeType'', JStr ''application/octet-stream'')],
      jobj [(''uriTemplate'', JStr ''freecad://audit/{event}''), (''name'',
       JStr ''audit-event''), (''mimeType'', JStr ''application/json'')]]"


section \<open>Tools\<close>

definition tool_entry :: "bool \<Rightarrow> string \<Rightarrow> string \<Rightarrow> json \<Rightarrow> json \<Rightarrow> json" where
  "tool_entry read_only name description input_schema output_schema = jobj
     [(''name'', JStr name), (''description'', JStr description),
      (''annotations'', jobj [(''readOnlyHint'', JBool read_only), (''destructiveHint'', JBool (\<not> read_only)),
         (''idempotentHint'', JBool read_only)]),
      (''inputSchema'', input_schema), (''outputSchema'', output_schema)]"

definition read_tool :: "string \<Rightarrow> string \<Rightarrow> json \<Rightarrow> json \<Rightarrow> json" where
  "read_tool = tool_entry True"

definition write_tool :: "string \<Rightarrow> string \<Rightarrow> json \<Rightarrow> json \<Rightarrow> json" where
  "write_tool = tool_entry False"

definition empty_input :: json where
  "empty_input = schema [] (jobj [])"

definition context_input :: json where
  "context_input = schema [''session'', ''document''] (jobj [(''session'', string_type), (''document'',
     string_type), (''freshness'', enum_of [''synchronized'', ''eventual'', ''historical'']),
     (''detail'', enum_of [''compact'', ''focused'', ''analytical'']), (''focus'',
     object_type), (''budget'', jobj [(''type'', JStr ''object''), (''properties'',
     jobj [(''max_inline_bytes'', integer_in 1 524288), (''max_entities'', integer_in 1 1000)])])])"

definition inspect_input :: json where
  "inspect_input = schema [''session'', ''document'', ''ref''] (jobj [(''session'', string_type),
     (''document'', string_type), (''ref'', string_type), (''profile'', enum_of [''summary'',
     ''parametric'', ''topology'', ''sketch_diagnostic'', ''view'', ''analytical'']),
     (''neighborhood_depth'', integer_in 0 8), (''topology_depth'', integer_in 0 8)])"

definition query_input :: json where
  "query_input = schema [''session'', ''document''] (jobj [(''session'', string_type), (''document'',
     string_type), (''revision'', string_type), (''from'', jobj []), (''kind'',
     jobj [(''type'', JStr ''array''), (''items'', string_type)]), (''where'',
     object_type), (''traverse'', jobj [(''type'', JStr ''array'')]), (''select'',
     jobj [(''type'', JStr ''array''), (''items'', string_type)]), (''order_by'',
     jobj [(''type'', JStr ''array'')]), (''limit'', integer_in 1 1000), (''continuation'',
     jobj [(''type'', JArr [JStr ''string'', JStr ''null''])]), (''cost_budget'',
     jobj [(''type'', JStr ''integer''), (''minimum'', json_of_nat 1)]), (''tolerance'',
     object_type)])"

definition measure_input :: json where
  "measure_input = schema [''session'', ''document'', ''kind'', ''entities''] (jobj [(''session'',
     string_type), (''document'', string_type), (''kind'', enum_of [''distance'',
     ''angle'', ''radius'', ''diameter'', ''length'', ''area'', ''volume'', ''center_of_mass'',
     ''bounds'', ''wall_thickness'', ''clearance'', ''transform'']), (''entities'',
     jobj [(''type'', JStr ''array''), (''minItems'', json_of_nat 1), (''items'',
     string_type)]), (''frame'', string_type), (''tolerance'', object_type)])"

definition change_input :: json where
  "change_input = schema [''changeset''] (jobj [(''changeset'', jobj [(''$ref'', JStr ''https://github.com/caniko/topomind/schemas/changeset/changeset.schema.json'')])])"

definition artifact_input :: json where
  "artifact_input = schema [''session'', ''document''] (jobj [(''session'', string_type), (''document'',
     string_type), (''format'', enum_of [''ccir-json''])])"

definition session_document :: json where
  "session_document = schema [''session'', ''document''] (jobj [(''session'', jobj [(''type'',
     JStr ''string''), (''minLength'', json_of_nat 1)]), (''document'', jobj [(''type'',
     JStr ''string''), (''minLength'', json_of_nat 1)])])"

definition tool_definitions :: "json list" where
  "tool_definitions =
     [read_tool ''cad.list_sessions'' ''List paired FreeCAD processes, documents, versions, and granted capabilities.''
        (empty_input)
        (requiring [''sessions'']),
      read_tool ''cad.get_context'' ''Return bounded revisioned compact, focused, or analytical context.''
        (context_input)
        (requiring [''schema_version'', ''observed_revision'', ''context'', ''omissions'']),
      read_tool ''cad.inspect_entity'' ''Expand one opaque entity reference with evidence and neighborhood.''
        (inspect_input)
        (requiring [''ref'', ''observed_revision'', ''entity'']),
      read_tool ''cad.query_entities'' ''Run a bounded typed query AST against an immutable revision.''
        (query_input)
        (requiring [''query_hash'', ''matches'', ''cost'']),
      read_tool ''cad.measure'' ''Measure exact or explicitly approximate geometry.''
        (measure_input)
        (requiring [''kind'', ''value'', ''exactness'', ''evidence'']),
      read_tool ''cad.explain_dependencies'' ''Trace causal dependency paths and controlling properties.''
        (schema [''session'', ''document'', ''ref''] (jobj [(''session'', string_type),
         (''document'', string_type), (''ref'', string_type), (''direction'',
         enum_of [''upstream'', ''downstream'']), (''depth'', integer_in 0 8)]))
        (object_type),
      read_tool ''cad.compare_revisions'' ''Compare two immutable revisions with mappings and facts.''
        (schema [''session'', ''document'', ''from'', ''to''] (jobj [(''session'',
         string_type), (''document'', string_type), (''from'', string_type),
         (''to'', string_type)]))
        (object_type),
      read_tool ''cad.validate'' ''Run deterministic health and validation checks.''
        (session_document)
        (requiring [''revision'', ''status'', ''checks'']),
      read_tool ''cad.describe_view'' ''Describe mathematical camera state and view-relative relevance.''
        (session_document)
        (object_type),
      read_tool ''cad.resolve_reference'' ''Resolve a historical entity reference without silent retargeting.''
        (schema [''session'', ''document'', ''ref'', ''target_revision''] (jobj [(''session'',
         string_type), (''document'', string_type), (''ref'', string_type), (''target_revision'',
         string_type)]))
        (requiring [''state'', ''candidates'', ''write_eligible'']),
      read_tool ''cad.export_graph'' ''Export an immutable CCIR graph to a private content-addressed artifact.''
        (artifact_input)
        (requiring [''artifact'', ''revision'']),
      write_tool ''cad.set_selection'' ''Change selection under the separate UI capability.''
        (schema [''session'', ''document'', ''targets''] (jobj [(''session'',
         string_type), (''document'', string_type), (''targets'', jobj [(''type'',
         JStr ''array''), (''items'', string_type)]), (''mode'', enum_of [''replace'',
         ''add'', ''remove''])]))
        (object_type),
      write_tool ''cad.set_view'' ''Change camera/view state under the separate UI capability.''
        (schema [''session'', ''document'', ''operation''] (jobj [(''session'',
         string_type), (''document'', string_type), (''operation'', string_type),
         (''parameters'', jobj [])]))
        (object_type),
      write_tool ''cad.preview_change'' ''Preview a typed ChangeSet and prove rollback.''
        (change_input)
        (requiring [''base_revision'', ''preview_hash'', ''rolled_back'', ''rollback_fingerprint_verified'']),
      write_tool ''cad.apply_change_set'' ''Commit the exact reviewed ChangeSet against its preview hash.''
        (schema [''changeset'', ''preview_hash''] (jobj [(''changeset'', jobj [(''$ref'',
         JStr ''https://github.com/caniko/topomind/schemas/changeset/changeset.schema.json'')]),
         (''preview_hash'', string_type)]))
        (requiring [''audit_id'', ''validation'']),
      write_tool ''cad.undo'' ''Undo a named bridge transaction after policy authorization.''
        (session_document)
        (jobj [(''type'', JStr ''object''), (''properties'', jobj [(''approval_token'',
         string_type)]), (''additionalProperties'', JBool False)]),
      write_tool ''cad.redo'' ''Redo a named bridge transaction after policy authorization.''
        (session_document)
        (jobj [(''type'', JStr ''object''), (''properties'', jobj [(''approval_token'',
         string_type)]), (''additionalProperties'', JBool False)])]"

section \<open>Base64\<close>

definition base64_table :: string where
  "base64_table = ''ABCDEFGHIJKLMNOPQRSTUVWXYZabcdefghijklmnopqrstuvwxyz0123456789+/''"

definition base64_char :: "32 word \<Rightarrow> char" where
  "base64_char w = base64_table ! unat (and w 63)"

definition base64_value :: "char \<Rightarrow> char \<Rightarrow> char \<Rightarrow> 32 word" where
  "base64_value first second third =
     (let u32 = (\<lambda>c. word_of_nat (of_char c)) in
      or (or (push_bit 16 (u32 first)) (push_bit 8 (u32 second))) (u32 third))"

text \<open>One chunk of up to three bytes; missing bytes count as zero and their digits are padding.\<close>

definition base64_chunk :: "string \<Rightarrow> string" where
  "base64_chunk chunk =
     (let byte = (\<lambda>i. if i < length chunk then chunk ! i else CHR 0x00);
          v = base64_value (byte 0) (byte 1) (byte 2)
      in [base64_char (drop_bit 18 v), base64_char (drop_bit 12 v),
          (if 1 < length chunk then base64_char (drop_bit 6 v) else CHR ''=''),
          (if 2 < length chunk then base64_char v else CHR ''='')])"

fun chunks3 :: "string \<Rightarrow> string list" where
  "chunks3 (a # b # c # rest) = [a, b, c] # chunks3 rest"
| "chunks3 [] = []"
| "chunks3 rest = [rest]"

definition base64_encode :: "string \<Rightarrow> string" where
  "base64_encode bytes = concat (map base64_chunk (chunks3 bytes))"

end
