(* ===== verification/Base64Laws.thy ===== *)
theory Base64Laws
  imports McpTools
begin

text \<open>
  The base64 text of a binary resource against a decoder written here from the alphabet alone: four
  digits are a number of twenty-four bits, whose bytes are taken from the top, one less for each padding.
\<close>

definition base64_digit :: "char \<Rightarrow> nat" where
  "base64_digit c = length (takeWhile (\<lambda>x. x \<noteq> c) base64_table)"

fun base64_decode :: "string \<Rightarrow> string" where
  "base64_decode (a # b # c # d # rest) =
     (let digit = (\<lambda>x. if x = CHR ''='' then 0 else base64_digit x);
          n = ((digit a * 64 + digit b) * 64 + digit c) * 64 + digit d
      in take (1 + (if c = CHR ''='' then 0 else 1) + (if d = CHR ''='' then 0 else 1))
           [char_of (n div 65536), char_of (n div 256 mod 256), char_of (n mod 256)] @ base64_decode rest)"
| "base64_decode _ = []"

lemma table: "distinct base64_table \<and> length base64_table = 64 \<and> CHR ''='' \<notin> set base64_table"
  by (simp add: base64_table_def)

lemma digit_nth: "i < 64 \<Longrightarrow> base64_digit (base64_table ! i) = i"
proof -
  assume i: "i < 64"
  have "takeWhile (\<lambda>x. x \<noteq> base64_table ! i) base64_table = take i base64_table"
    using i table by (intro takeWhile_eq_take_P_nth) (auto simp: nth_eq_iff_index_eq)
  then show ?thesis using i table by (simp add: base64_digit_def)
qed

lemma nth_not_pad: "i < 64 \<Longrightarrow> base64_table ! i \<noteq> CHR ''=''"
  using table nth_mem by metis

lemma base64_char_nth: "base64_char w = base64_table ! (unat w mod 64)"
proof -
  have "and w 63 = take_bit 6 w" by (simp add: take_bit_eq_mask mask_eq_exp_minus_1)
  then have "unat (and w 63) = take_bit 6 (unat w)" by (simp only: unsigned_take_bit_eq)
  then have "unat (and w 63) = unat w mod 64" by (simp add: take_bit_eq_mod)
  then show ?thesis by (simp add: base64_char_def)
qed

lemma or_push_bit: "m < 2 ^ k \<Longrightarrow> or (push_bit k n) m = n * 2 ^ k + m" for m n :: nat
proof -
  assume "m < 2 ^ k"
  then have "take_bit k m = m" by (rule take_bit_nat_eq_self)
  then have "\<not> bit m i" if "k \<le> i" for i using that by (metis bit_take_bit_iff linorder_not_less)
  then have "and (push_bit k n) m = 0" by (auto simp: bit_eq_iff bit_simps)
  then show ?thesis by (simp add: disjunctive_add_eq_or [symmetric] push_bit_eq_mult)
qed

lemma of_char_less: "(of_char c :: nat) < 256"
  by (cases c) (simp add: of_char_def)

lemma three_bytes: "x < 256 \<Longrightarrow> y < 256 \<Longrightarrow> z < 256 \<Longrightarrow> (x * 256 + y) * 256 + z < 2 ^ 24" for x y z :: nat
  by simp

lemma three_bytes_split:
  assumes "x < 256" and "y < 256" and "z < (256 :: nat)"
  shows "((x * 256 + y) * 256 + z) div 65536 = x" and "((x * 256 + y) * 256 + z) div 256 mod 256 = y"
    and "((x * 256 + y) * 256 + z) mod 256 = z"
proof -
  show "((x * 256 + y) * 256 + z) div 65536 = x" using assms by (intro div_nat_eqI) simp_all
  have "((x * 256 + y) * 256 + z) div 256 = x * 256 + y" using assms by (intro div_nat_eqI) simp_all
  then show "((x * 256 + y) * 256 + z) div 256 mod 256 = y" using assms by simp
  show "((x * 256 + y) * 256 + z) mod 256 = z" using assms(3) by (simp only: mod_mult_self3 mod_less)
qed

lemma base64_value_nat:
  "unat (base64_value a b c) = (of_char a * 256 + of_char b) * 256 + of_char c"
proof -
  let ?A = "of_char a :: nat" and ?B = "of_char b :: nat" and ?C = "of_char c :: nat"
  have lt: "?A < 256" "?B < 256" "?C < 256" by (simp_all add: of_char_less)
  have "or (push_bit 16 ?A) (push_bit 8 ?B) = push_bit 8 (or (push_bit 8 ?A) ?B)"
    by (simp add: push_bit_or)
  then have "or (or (push_bit 16 ?A) (push_bit 8 ?B)) ?C = (?A * 256 + ?B) * 256 + ?C"
    using lt or_push_bit [of ?B 8 ?A] or_push_bit [of ?C 8 "?A * 256 + ?B"] by simp
  moreover have "base64_value a b c = word_of_nat (or (or (push_bit 16 ?A) (push_bit 8 ?B)) ?C)"
    by (simp add: base64_value_def of_nat_or_eq of_nat_push_bit)
  moreover have "unat (word_of_nat n :: 32 word) = n" if "n < 2 ^ 32" for n using that by (simp add: unat_of_nat)
  moreover have "(?A * 256 + ?B) * 256 + ?C < 2 ^ 32" using three_bytes [OF lt] by simp
  ultimately show ?thesis by (simp only:)
qed

lemma unat_drop: "unat (drop_bit n w) = unat w div 2 ^ n" for w :: "32 word"
  by (simp only: unat_drop_bit_eq) (simp add: drop_bit_eq_div)

lemma four_digits: "n < 2 ^ 24 \<Longrightarrow> ((n div 262144 mod 64 * 64 + n div 4096 mod 64) * 64 + n div 64 mod 64) * 64 + n mod 64 = n" for n :: nat
proof -
  assume "n < 2 ^ 24"
  then have "n div 262144 mod 64 = n div 262144" by simp
  moreover have "n div 262144 * 64 + n div 4096 mod 64 = n div 4096"
    using div_mult2_eq [of n 4096 64] div_mult_mod_eq [of "n div 4096" 64] by simp
  moreover have "n div 4096 * 64 + n div 64 mod 64 = n div 64"
    using div_mult2_eq [of n 64 64] div_mult_mod_eq [of "n div 64" 64] by simp
  moreover have "n div 64 * 64 + n mod 64 = n" by simp
  ultimately show ?thesis by simp
qed

text \<open>A chunk is decoded to its bytes: the three-byte value is recovered from its digits and split again.\<close>

lemma base64_value_bytes:
  "unat (base64_value a b c) < 2 ^ 24"
  "char_of (unat (base64_value a b c) div 65536) = a"
  "char_of (unat (base64_value a b c) div 256 mod 256) = b"
  "char_of (unat (base64_value a b c) mod 256) = c"
proof -
  have lt: "(of_char a :: nat) < 256" "(of_char b :: nat) < 256" "(of_char c :: nat) < 256" by (simp_all add: of_char_less)
  show "unat (base64_value a b c) < 2 ^ 24" unfolding base64_value_nat by (rule three_bytes [OF lt])
  have "unat (base64_value a b c) div 65536 = of_char a" "unat (base64_value a b c) div 256 mod 256 = of_char b"
    "unat (base64_value a b c) mod 256 = of_char c"
    unfolding base64_value_nat by (rule three_bytes_split [OF lt])+
  then show "char_of (unat (base64_value a b c) div 65536) = a" "char_of (unat (base64_value a b c) div 256 mod 256) = b"
    "char_of (unat (base64_value a b c) mod 256) = c" by simp_all
qed

lemma base64_padding:
  "unat (base64_value a b CHR 0x00) mod 64 = 0"
  "unat (base64_value a CHR 0x00 CHR 0x00) div 64 mod 64 = 0"
proof -
  have "(of_char CHR 0x00 :: nat) = 0" by simp
  then have n: "unat (base64_value a b CHR 0x00) = (of_char a * 256 + of_char b) * 4 * 64"
    "unat (base64_value a CHR 0x00 CHR 0x00) = of_char a * 16 * 64 * 64"
    unfolding base64_value_nat by simp_all
  show "unat (base64_value a b CHR 0x00) mod 64 = 0" unfolding n(1) by (rule mod_mult_self2_is_0)
  show "unat (base64_value a CHR 0x00 CHR 0x00) div 64 mod 64 = 0" unfolding n(2) by simp
qed

text \<open>Four digits are decoded to the bytes of their number, as many as the padding leaves.\<close>

lemma base64_decode_digits:
  assumes "i < 64" and "j < 64" and "k < 64" and "l < 64"
  defines "n \<equiv> ((i * 64 + j) * 64 + k) * 64 + l"
  shows "base64_decode (base64_table ! i # base64_table ! j # base64_table ! k # base64_table ! l # rest)
      = [char_of (n div 65536), char_of (n div 256 mod 256), char_of (n mod 256)] @ base64_decode rest"
    and "l = 0 \<Longrightarrow> base64_decode [base64_table ! i, base64_table ! j, base64_table ! k, CHR ''='']
      = [char_of (n div 65536), char_of (n div 256 mod 256)]"
    and "k = 0 \<Longrightarrow> l = 0 \<Longrightarrow> base64_decode [base64_table ! i, base64_table ! j, CHR ''='', CHR ''='']
      = [char_of (n div 65536)]"
  using assms(1-4) unfolding n_def
  by (simp_all only: base64_decode.simps Let_def nth_not_pad digit_nth if_False if_True refl) simp_all

lemma base64_chunk_digits:
  defines "digit \<equiv> (\<lambda>n k. base64_table ! (n div k mod 64))"
  shows "base64_chunk [a, b, c] = (let n = unat (base64_value a b c) in [digit n 262144, digit n 4096, digit n 64, digit n 1])"
    and "base64_chunk [a, b] = (let n = unat (base64_value a b CHR 0x00) in [digit n 262144, digit n 4096, digit n 64, CHR ''=''])"
    and "base64_chunk [a] = (let n = unat (base64_value a CHR 0x00 CHR 0x00) in [digit n 262144, digit n 4096, CHR ''='', CHR ''=''])"
  unfolding digit_def by (simp_all add: base64_chunk_def Let_def base64_char_nth unat_drop)

lemma base64_decode_chunk:
  "base64_decode (base64_chunk [a, b, c] @ rest) = [a, b, c] @ base64_decode rest"
  "base64_decode (base64_chunk [a, b]) = [a, b]"
  "base64_decode (base64_chunk [a]) = [a]"
proof -
  have less: "n mod 64 < 64" for n :: nat by simp
  note decode = base64_decode_digits [OF less less less less]
  note four = four_digits [OF base64_value_bytes(1)]
  show "base64_decode (base64_chunk [a, b, c] @ rest) = [a, b, c] @ base64_decode rest"
    unfolding base64_chunk_digits Let_def append.simps decode(1)
    by (simp only: div_by_1 four base64_value_bytes(2-4))
  show "base64_decode (base64_chunk [a, b]) = [a, b]"
    unfolding base64_chunk_digits Let_def
    by (simp only: decode(2) [OF base64_padding(1) [of a b]] four base64_value_bytes(2-4))
  show "base64_decode (base64_chunk [a]) = [a]"
    unfolding base64_chunk_digits Let_def
    by (simp only: decode(3) [OF base64_padding(2) [of a] base64_padding(1) [of a "CHR 0x00"]] four base64_value_bytes(2-4))
qed

lemma base64_chunk_shape:
  "length (base64_chunk chunk) = 4 \<and> set (base64_chunk chunk) \<subseteq> insert CHR ''='' (set base64_table)"
proof -
  have "base64_char w \<in> set base64_table" for w
    unfolding base64_char_nth by (rule nth_mem) (simp add: table)
  then show ?thesis by (simp add: base64_chunk_def Let_def)
qed

lemma length_chunks3: "length (chunks3 bytes) = (length bytes + 2) div 3"
  by (induction bytes rule: chunks3.induct) simp_all

text \<open>Decoding the base64 text of a resource gives its bytes back; the text has four characters of the alphabet or
  padding for every three bytes or part of them.\<close>

theorem base64_round_trip:
  "base64_decode (base64_encode bytes) = bytes
    \<and> length (base64_encode bytes) = 4 * ((length bytes + 2) div 3)
    \<and> set (base64_encode bytes) \<subseteq> insert CHR ''='' (set base64_table)"
proof (intro conjI)
  show "base64_decode (base64_encode bytes) = bytes"
  proof (induction bytes rule: chunks3.induct)
    case (1 a b c rest)
    then show ?case by (simp add: base64_encode_def base64_decode_chunk)
  qed (simp_all add: base64_encode_def base64_decode_chunk)
  have "length (concat (map base64_chunk cs)) = 4 * length cs" for cs
    by (induction cs) (simp_all add: base64_chunk_shape)
  then show "length (base64_encode bytes) = 4 * ((length bytes + 2) div 3)"
    by (simp add: base64_encode_def length_chunks3)
  show "set (base64_encode bytes) \<subseteq> insert CHR ''='' (set base64_table)"
    using base64_chunk_shape by (auto simp: base64_encode_def)
qed

end
