(* ===== verification/McpLaws.thy ===== *)
theory McpLaws
  imports McpAdapter SessionLaws Approvals QueryLaws
begin

text \<open>
  Laws of the server: what the tools that read leave alone, what a never-write server never does, what
  a commit that was answered had to pass, and how requests and answers correspond.
\<close>

section \<open>Sessions that were only looked at\<close>

text \<open>What a client wrote to its bridge is what it had written and requests for snapshots.\<close>

definition snapshot_frame :: "wire_codec \<Rightarrow> ipc_request \<Rightarrow> string" where
  "snapshot_frame W r = be_bytes (word_of_nat (length (wk_request_text W r))) @ wk_request_text W r"

definition asked_snapshots :: "wire_codec \<Rightarrow> ipc_client \<Rightarrow> ipc_client \<Rightarrow> bool" where
  "asked_snapshots W c c' \<longleftrightarrow> (\<exists>rs. (\<forall>r \<in> set rs. iq_message r = ''bridge.snapshot'')
     \<and> ic_output c' = ic_output c @ concat (map (snapshot_frame W) rs))"

lemma asked_snapshots_refl [simp]: "asked_snapshots W c c"
  unfolding asked_snapshots_def by (rule exI [of _ "[]"]) simp

lemma asked_snapshots_trans:
  "asked_snapshots W a b \<Longrightarrow> asked_snapshots W b c \<Longrightarrow> asked_snapshots W a c"
proof -
  assume "asked_snapshots W a b" and "asked_snapshots W b c"
  then obtain rs qs where "\<forall>r \<in> set rs. iq_message r = ''bridge.snapshot''"
      "ic_output b = ic_output a @ concat (map (snapshot_frame W) rs)"
      "\<forall>r \<in> set qs. iq_message r = ''bridge.snapshot''"
      "ic_output c = ic_output b @ concat (map (snapshot_frame W) qs)"
    unfolding asked_snapshots_def by blast
  then show ?thesis unfolding asked_snapshots_def by (intro exI [of _ "rs @ qs"]) auto
qed

lemma client_request_asked:
  "client_request W uuid c ''bridge.snapshot'' payload = (r, c') \<Longrightarrow> asked_snapshots W c c'"
proof -
  assume call: "client_request W uuid c ''bridge.snapshot'' payload = (r, c')"
  define q where "q = \<lparr>iq_protocol_version = IPC_VERSION, iq_message = ''bridge.snapshot'', iq_request_id = uuid,
    iq_session_epoch = ic_session_epoch c, iq_deadline_ms = 10000, iq_payload = payload\<rparr>"
  have "ic_output c' = ic_output c \<or> ic_output c' = ic_output c @ snapshot_frame W q"
    using call unfolding client_request_def Let_def q_def [symmetric] snapshot_frame_def write_frame_def
    by (cases "MAX_FRAME < length (wk_request_text W q)";
        cases "read_frame (wk_response_parse W) (ic_input c)") (auto split: prod.splits if_split_asm)
  then show ?thesis
  proof
    assume "ic_output c' = ic_output c @ snapshot_frame W q"
    moreover have "iq_message q = ''bridge.snapshot''" by (simp add: q_def)
    ultimately show ?thesis unfolding asked_snapshots_def by (intro exI [of _ "[q]"]) simp
  next
    assume "ic_output c' = ic_output c"
    then show ?thesis unfolding asked_snapshots_def by (intro exI [of _ "[]"]) simp
  qed
qed

text \<open>A fixture is as it was; of a bridge session the mirror and the summary may have changed.\<close>

definition entry_kept :: "wire_codec \<Rightarrow> session_entry \<Rightarrow> session_entry \<Rightarrow> bool" where
  "entry_kept W e e' \<longleftrightarrow>
     (case se_backend e of
        Fixture s \<Rightarrow> e' = e
      | Ipc client mirror \<Rightarrow> \<exists>client' mirror'. se_backend e' = Ipc client' mirror' \<and> asked_snapshots W client client')"

lemma entry_kept_cases:
  "entry_kept W e e' \<Longrightarrow> (\<forall>s. se_backend e = Fixture s \<longrightarrow> e' = e)
     \<and> (\<forall>client mirror. se_backend e = Ipc client mirror \<longrightarrow> (\<exists>client' mirror' rs.
          se_backend e' = Ipc client' mirror' \<and> (\<forall>r \<in> set rs. iq_message r = ''bridge.snapshot'')
          \<and> ic_output client' = ic_output client @ concat (map (snapshot_frame W) rs)))"
  by (cases "se_backend e") (simp_all add: entry_kept_def asked_snapshots_def)

definition sessions_kept :: "wire_codec \<Rightarrow> session_manager \<Rightarrow> session_manager \<Rightarrow> bool" where
  "sessions_kept W m m' \<longleftrightarrow> (\<forall>k. rel_option (entry_kept W) (bm_get m k) (bm_get m' k))"

lemma entry_kept_refl [simp]: "entry_kept W e e"
  by (cases "se_backend e") (simp_all add: entry_kept_def)

lemma entry_kept_trans: "entry_kept W a b \<Longrightarrow> entry_kept W b c \<Longrightarrow> entry_kept W a c"
proof (cases "se_backend a")
  case (Ipc client mirror)
  assume "entry_kept W a b" and bc: "entry_kept W b c"
  then obtain client' mirror' where b: "se_backend b = Ipc client' mirror'" "asked_snapshots W client client'"
    using Ipc by (auto simp: entry_kept_def)
  then obtain client'' mirror'' where "se_backend c = Ipc client'' mirror''" "asked_snapshots W client' client''"
    using bc by (auto simp: entry_kept_def)
  then show ?thesis using Ipc b asked_snapshots_trans by (auto simp: entry_kept_def)
qed (simp add: entry_kept_def)

lemma sessions_kept_refl [simp]: "sessions_kept W m m"
  by (simp add: sessions_kept_def option.rel_refl)

lemma sessions_kept_trans: "sessions_kept W a b \<Longrightarrow> sessions_kept W b c \<Longrightarrow> sessions_kept W a c"
proof -
  assume ab: "sessions_kept W a b" and bc: "sessions_kept W b c"
  have "rel_option (entry_kept W) (bm_get a k) (bm_get c k)" for k
  proof -
    have "rel_option (entry_kept W) (bm_get a k) (bm_get b k)" "rel_option (entry_kept W) (bm_get b k) (bm_get c k)"
      using ab bc by (simp_all add: sessions_kept_def)
    then show ?thesis
      by (cases "bm_get a k"; cases "bm_get b k"; cases "bm_get c k") (auto intro: entry_kept_trans)
  qed
  then show ?thesis by (simp add: sessions_kept_def)
qed

lemma sessions_kept_insert:
  "bm_get m k = Some e \<Longrightarrow> entry_kept W e e' \<Longrightarrow> sessions_kept W m (bm_insert k e' m)"
  by (auto simp: sessions_kept_def option.rel_refl)

text \<open>A refresh only asks for a snapshot.\<close>

lemma mirror_snapshot_backend:
  assumes "mirror_snapshot K session document snapshot mirror e = (r, e')" and "se_backend e = Ipc client mirror"
  shows "\<exists>mirror'. se_backend e' = Ipc client mirror'"
  using mirror_snapshot_moves [OF assms] by blast

lemma session_refresh_kept:
  "session_refresh K uuid session document m = (r, m') \<Longrightarrow> sessions_kept (sk_wire K) m m'"
proof -
  assume call: "session_refresh K uuid session document m = (r, m')"
  show ?thesis
  proof (cases "bm_get m session")
    case None
    then show ?thesis using call by (simp add: session_refresh_def find_session_def)
  next
    case (Some e)
    show ?thesis
    proof (cases "se_backend e")
      case (Fixture s)
      then show ?thesis using call Some by (simp add: session_refresh_def find_session_def)
    next
      case (Ipc client mirror)
      obtain rq client' where q: "client_request (sk_wire K) uuid client ''bridge.snapshot''
          (json_of_snapshot_request \<lparr>sq_session = Some session, sq_document = Some document,
             sq_freshness = ''synchronized'', sq_entity_refs = []\<rparr>) = (rq, client')" by force
      have asked: "asked_snapshots (sk_wire K) client client'" using client_request_asked [OF q] .
      let ?e = "e\<lparr>se_backend := Ipc client' mirror\<rparr>"
      obtain e' where "m' = bm_insert session e' m" and "\<exists>mirror'. se_backend e' = Ipc client' mirror'"
      proof (cases "res_bind rq (decode_payload (sk_snapshot_of_json K))")
        case (Inl er)
        then have "m' = bm_insert session ?e m"
          using call Some Ipc q by (simp add: session_refresh_def find_session_def Let_def client_call_def)
        then show ?thesis by (rule that) simp
      next
        case (Inr snapshot)
        obtain r' e' where mir: "mirror_snapshot K session document snapshot mirror ?e = (r', e')" by force
        then have "m' = bm_insert session e' m"
          using call Some Ipc q Inr by (simp add: session_refresh_def find_session_def Let_def client_call_def)
        then show ?thesis using mirror_snapshot_backend [OF mir] by (auto intro: that)
      qed
      then show ?thesis using Some Ipc asked by (auto intro!: sessions_kept_insert simp: entry_kept_def)
    qed
  qed
qed

section \<open>Servers that were only looked at\<close>

definition audit_grew :: "policy \<Rightarrow> policy \<Rightarrow> bool" where
  "audit_grew p p' \<longleftrightarrow> (\<exists>events. p' = p\<lparr>pl_audit := pl_audit p @ events\<rparr>)"

definition kept :: "mcp_codec \<Rightarrow> mcp_server \<Rightarrow> mcp_server \<Rightarrow> bool" where
  "kept K sv sv' \<longleftrightarrow> sessions_kept (sk_wire (mk_session K)) (ms_sessions sv) (ms_sessions sv')
     \<and> audit_grew (ms_policy sv) (ms_policy sv')
     \<and> ms_artifacts sv' = ms_artifacts sv \<and> ms_previews sv' = ms_previews sv"

text \<open>What only reads leaves the policy with its audit log as well.\<close>

definition looked :: "mcp_codec \<Rightarrow> mcp_server \<Rightarrow> mcp_server \<Rightarrow> bool" where
  "looked K sv sv' \<longleftrightarrow> sessions_kept (sk_wire (mk_session K)) (ms_sessions sv) (ms_sessions sv')
     \<and> ms_policy sv' = ms_policy sv \<and> ms_artifacts sv' = ms_artifacts sv \<and> ms_previews sv' = ms_previews sv"

definition kept_never_write :: "mcp_codec \<Rightarrow> mcp_server \<Rightarrow> mcp_server \<Rightarrow> bool" where
  "kept_never_write K sv sv' \<longleftrightarrow> (pl_profile (ms_policy sv) = NeverWrite \<longrightarrow> kept K sv sv')"

lemma audit_grew_refl [simp]: "audit_grew p p"
  unfolding audit_grew_def by (rule exI [of _ "[]"]) simp

lemma audit_grew_trans: "audit_grew a b \<Longrightarrow> audit_grew b c \<Longrightarrow> audit_grew a c"
proof -
  assume "audit_grew a b" and "audit_grew b c"
  then obtain es fs where "b = a\<lparr>pl_audit := pl_audit a @ es\<rparr>" "c = b\<lparr>pl_audit := pl_audit b @ fs\<rparr>"
    unfolding audit_grew_def by blast
  then show ?thesis unfolding audit_grew_def by (intro exI [of _ "es @ fs"]) simp
qed

lemma audit_grew_profile: "audit_grew p p' \<Longrightarrow> pl_profile p' = pl_profile p"
  by (auto simp: audit_grew_def)

interpretation kept: state_preorder "kept K" for K
proof
  show "kept K s s" for s by (simp add: kept_def)
  show "kept K s t \<Longrightarrow> kept K t u \<Longrightarrow> kept K s u" for s t u
    unfolding kept_def by (metis sessions_kept_trans audit_grew_trans)
qed

interpretation looked: state_preorder "looked K" for K
proof
  show "looked K s s" for s by (simp add: looked_def)
  show "looked K s t \<Longrightarrow> looked K t u \<Longrightarrow> looked K s u" for s t u
    unfolding looked_def by (metis sessions_kept_trans)
qed

lemma looked_kept: "looked K sv sv' \<Longrightarrow> kept K sv sv'"
  by (simp add: looked_def kept_def)

interpretation never_write: state_preorder "kept_never_write K" for K
proof
  show "kept_never_write K s s" for s by (simp add: kept_never_write_def kept.same)
  fix s t u
  assume st: "kept_never_write K s t" and tu: "kept_never_write K t u"
  show "kept_never_write K s u"
    unfolding kept_never_write_def
  proof
    assume "pl_profile (ms_policy s) = NeverWrite"
    then have "kept K s t" using st by (simp add: kept_never_write_def)
    moreover from this have "pl_profile (ms_policy t) = NeverWrite"
      using audit_grew_profile \<open>pl_profile (ms_policy s) = NeverWrite\<close> by (auto simp: kept_def)
    ultimately show "kept K s u" using tu kept.chain by (auto simp only: kept_never_write_def)
  qed
qed

lemma looked_is_never_write: "related_by (looked K) m \<Longrightarrow> related_by (kept_never_write K) m"
  by (simp add: related_by_def kept_never_write_def looked_kept)

lemma read_sessions_looked [intro]: "related_by (looked K) (read_sessions f)"
  by (simp add: read_sessions_def looked.read)

lemma mcp_graph_looked [intro]: "related_by (looked K) (mcp_graph session document)"
  and mcp_revision_looked [intro]: "related_by (looked K) (mcp_revision session document revision)"
  and mcp_context_looked [intro]: "related_by (looked K) (mcp_context C session document r)"
  by (auto simp: mcp_graph_def mcp_revision_def mcp_context_def)

lemma mcp_refresh_looked [intro]: "related_by (looked K) (mcp_refresh K uuid session document)"
proof (rule related_byI)
  fix sv r sv'
  assume run: "mcp_refresh K uuid session document sv = (r, sv')"
  obtain rs m where ref: "session_refresh (mk_session K) uuid session document (ms_sessions sv) = (rs, m)" by force
  then have "sv' = sv\<lparr>ms_sessions := m\<rparr>" using run by (simp add: mcp_refresh_def on_sessions_def)
  then show "looked K sv sv'" using session_refresh_kept [OF ref] by (simp add: looked_def)
qed

lemma with_document_looked [intro]:
  "(\<And>s d. related_by (looked K) (f s d)) \<Longrightarrow> related_by (looked K) (with_document args f)"
  unfolding with_document_def by (intro looked.bind looked.lift)

lemma with_document_never_write [intro]:
  "(\<And>s d. related_by (kept_never_write K) (f s d)) \<Longrightarrow> related_by (kept_never_write K) (with_document args f)"
  unfolding with_document_def by (intro never_write.bind never_write.lift)

lemmas looked_rules = looked.bind looked.lift looked.read read_sessions_looked mcp_graph_looked mcp_revision_looked
  mcp_context_looked mcp_refresh_looked with_document_looked

lemma kept_none: "kept K sv sv' \<Longrightarrow> bm_get (ms_sessions sv') k = None \<longleftrightarrow> bm_get (ms_sessions sv) k = None"
proof -
  assume "kept K sv sv'"
  then have "rel_option (entry_kept (sk_wire (mk_session K))) (bm_get (ms_sessions sv) k) (bm_get (ms_sessions sv') k)"
    by (simp add: kept_def sessions_kept_def)
  then show ?thesis by (cases "bm_get (ms_sessions sv) k") (auto simp: option_rel_Some1)
qed

lemma kept_entry:
  assumes "kept K sv sv'" and "bm_get (ms_sessions sv) k = Some e"
  shows "\<exists>e'. bm_get (ms_sessions sv') k = Some e' \<and> (\<forall>s. se_backend e = Fixture s \<longrightarrow> e' = e)
    \<and> (\<forall>client mirror. se_backend e = Ipc client mirror \<longrightarrow> (\<exists>client' mirror' rs.
         se_backend e' = Ipc client' mirror' \<and> (\<forall>r \<in> set rs. iq_message r = ''bridge.snapshot'')
         \<and> ic_output client' = ic_output client @ concat (map (snapshot_frame (sk_wire (mk_session K))) rs)))"
proof -
  have "rel_option (entry_kept (sk_wire (mk_session K))) (Some e) (bm_get (ms_sessions sv') k)"
    using assms by (metis kept_def sessions_kept_def)
  then obtain e' where "bm_get (ms_sessions sv') k = Some e'" "entry_kept (sk_wire (mk_session K)) e e'"
    by (auto simp: option_rel_Some1)
  then show ?thesis using entry_kept_cases by blast
qed

section \<open>The tools that read\<close>

lemma read_tools_looked:
  "related_by (looked K) (get_context K args)"
  "related_by (looked K) (mcp_inspect args)"
  "related_by (looked K) (mcp_query K args)"
  "related_by (looked K) (mcp_measure K args)"
  "related_by (looked K) (mcp_explain K args)"
  "related_by (looked K) (compare_revisions args)"
  "related_by (looked K) (mcp_validate K args)"
  "related_by (looked K) (describe_view K args)"
  unfolding get_context_def mcp_inspect_def mcp_query_def mcp_measure_def mcp_explain_def
    compare_revisions_def mcp_validate_def describe_view_def Let_def
  by (intro looked_rules)+

lemma resolve_reference_looked: "related_by (looked K) (resolve_reference args)"
  unfolding resolve_reference_def by (intro looked_rules looked.cond)

lemma session_resource_looked: "related_by (looked K) (session_resource K E uri parts)"
proof -
  have shown: "related_by (looked K) (context_resource K uri s d)" for s d
    unfolding context_resource_def by (intro looked_rules)
  have "related_by (looked K) (document_resource K uri s d g what rest)" for s d g what rest
    unfolding document_resource_def by (intro looked.cond looked_rules shown)
  then show ?thesis
    unfolding session_resource_def
    by (auto split: list.split intro!: looked.cond looked_rules shown)
qed

lemma read_resource_looked: "related_by (looked K) (read_resource K E params)"
  unfolding read_resource_def audit_resource_def artifact_resource_def
  by (auto split: option.split intro!: looked.cond looked_rules session_resource_looked)

lemma tool_refresh_looked: "related_by (looked K) (tool_refresh K E args name)"
  unfolding tool_refresh_def by (auto split: option.split intro!: looked.cond looked_rules)

section \<open>A never-write server\<close>

lemma denied_read:
  assumes "\<And>sv. pl_profile (ms_policy sv) = NeverWrite \<Longrightarrow> \<exists>e. g sv = Err e"
  shows "related_by (kept_never_write K) (eff_bind (eff_read g) f)"
proof (rule related_byI)
  fix sv r sv'
  assume run: "eff_bind (eff_read g) f sv = (r, sv')"
  show "kept_never_write K sv sv'"
    unfolding kept_never_write_def
  proof
    assume "pl_profile (ms_policy sv) = NeverWrite"
    then obtain e where "g sv = Err e" using assms by blast
    then have "sv' = sv" using run by simp
    then show "kept K sv sv'" by (simp add: kept.same)
  qed
qed

lemma authorize_preview_denied:
  "pl_profile (ms_policy sv) = NeverWrite \<Longrightarrow> \<exists>e. authorize_preview (ms_policy sv) cs = Err e"
  using authorize_changeset_Ok_iff [of "ms_policy sv" cs]
  by (cases "authorize_changeset (ms_policy sv) cs") (auto simp: authorize_preview_def)

lemma export_denied:
  "pl_profile (ms_policy sv) = NeverWrite \<Longrightarrow>
     \<exists>e. map_err McpPolicy (authorize_capability (ms_policy sv) ExportArtifacts) = Err e"
  by (simp add: authorize_capability_def set_capabilities)

lemma authorize_commit_denied:
  "pl_profile p = NeverWrite \<Longrightarrow> \<exists>e. authorize_commit C X p cs h now = (Err e, p)"
  using authorize_changeset_Ok_iff [of p cs]
  by (cases "authorize_changeset p cs") (auto simp: authorize_commit_def Let_def)

lemma denied_commit: "related_by (kept_never_write K) (eff_bind (mcp_authorize_commit K' E cs h) f)"
proof (rule related_byI)
  fix sv r sv'
  assume run: "eff_bind (mcp_authorize_commit K' E cs h) f sv = (r, sv')"
  show "kept_never_write K sv sv'"
    unfolding kept_never_write_def
  proof
    assume "pl_profile (ms_policy sv) = NeverWrite"
    then obtain e where
      "authorize_commit (mcp_ccir K') (mk_crypto K') (ms_policy sv) cs h (env_now E 0) = (Err e, ms_policy sv)"
      using authorize_commit_denied by blast
    then have "mcp_authorize_commit K' E cs h sv = (Err (McpPolicy e), sv)"
      by (simp add: mcp_authorize_commit_def)
    then have "sv' = sv" using run by simp
    then show "kept K sv sv'" by (simp add: kept.same)
  qed
qed

lemma denied_preview:
  "related_by (kept_never_write K) (eff_bind (eff_read (\<lambda>sv. authorize_preview (ms_policy sv) cs)) f)"
  by (rule denied_read) (erule authorize_preview_denied)

lemmas never_write_lift = never_write.bind [OF never_write.lift]
  and never_write_graph = never_write.bind [OF mcp_graph_looked [THEN looked_is_never_write]]

lemma write_tools_never_write:
  "related_by (kept_never_write K) (export_graph K E args)"
  "related_by (kept_never_write K) (preview_change K E args)"
  "related_by (kept_never_write K) (apply_change K E args)"
  "related_by (kept_never_write K) (ui_change K E args view)"
  "related_by (kept_never_write K) (mcp_undo_redo K E args redo)"
proof -
  show "related_by (kept_never_write K) (export_graph K E args)"
    unfolding export_graph_def by (rule denied_read) (erule export_denied)
  show "related_by (kept_never_write K) (preview_change K E args)"
    unfolding preview_change_def by (rule never_write_lift, rule denied_preview)
  show "related_by (kept_never_write K) (apply_change K E args)"
    unfolding apply_change_def
    by (rule never_write_lift, rule never_write_lift, rule never_write.bind [OF never_write.read], rule denied_preview)
  show "related_by (kept_never_write K) (ui_change K E args view)"
    unfolding ui_change_def Let_def by (rule with_document_never_write, rule never_write_graph, rule denied_preview)
  show "related_by (kept_never_write K) (mcp_undo_redo K E args redo)"
    unfolding mcp_undo_redo_def Let_def by (rule with_document_never_write, rule never_write_graph, rule denied_commit)
qed

lemma serialized_never_write:
  "related_by (kept_never_write K) m \<Longrightarrow> related_by (kept_never_write K) (eff_bind m (\<lambda>x. eff_lift (Ok (f x))))"
  by (rule never_write.bind [OF _ never_write.lift])

lemma serialized_looked: "related_by (looked K) m \<Longrightarrow> related_by (looked K) (eff_bind m (\<lambda>x. eff_lift (Ok (f x))))"
  by (rule looked.bind [OF _ looked.lift])

text \<open>The names of the tools that read, besides the export.\<close>

definition reading_tools :: "string list" where
  "reading_tools = [''cad.list_sessions'', ''cad.get_context'', ''cad.inspect_entity'', ''cad.query_entities'',
     ''cad.measure'', ''cad.explain_dependencies'', ''cad.compare_revisions'', ''cad.validate'',
     ''cad.describe_view'', ''cad.resolve_reference'']"

definition writing_tools :: "string list" where
  "writing_tools = [''cad.set_selection'', ''cad.set_view'', ''cad.preview_change'', ''cad.apply_change_set'',
     ''cad.undo'', ''cad.redo'']"

lemma tool_handler_looked:
  "name \<in> set reading_tools \<Longrightarrow> \<exists>tool. tool_handler K E args name = Some tool \<and> related_by (looked K) tool"
  unfolding reading_tools_def
  by (simp, elim disjE)
    (auto simp: tool_handler_def intro!: serialized_looked read_tools_looked resolve_reference_looked looked.read)

lemma tool_handler_never_write:
  "tool_handler K E args name = Some tool \<Longrightarrow> related_by (kept_never_write K) tool"
proof (cases "name \<in> set reading_tools")
  case True
  assume "tool_handler K E args name = Some tool"
  then show ?thesis using tool_handler_looked [OF True, of K E args] looked_is_never_write by auto
next
  case False
  assume "tool_handler K E args name = Some tool"
  moreover from False have "name \<noteq> ''cad.list_sessions''" "name \<noteq> ''cad.get_context''" "name \<noteq> ''cad.inspect_entity''"
      "name \<noteq> ''cad.query_entities''" "name \<noteq> ''cad.measure''" "name \<noteq> ''cad.explain_dependencies''"
      "name \<noteq> ''cad.compare_revisions''" "name \<noteq> ''cad.validate''" "name \<noteq> ''cad.describe_view''"
      "name \<noteq> ''cad.resolve_reference''"
    by (auto simp: reading_tools_def)
  ultimately have "tool = export_graph K E args \<or> (\<exists>f. tool = eff_bind (preview_change K E args) (\<lambda>x. eff_lift (Ok (f x))))
    \<or> (\<exists>f. tool = eff_bind (apply_change K E args) (\<lambda>x. eff_lift (Ok (f x))))
    \<or> (\<exists>f view. tool = eff_bind (ui_change K E args view) (\<lambda>x. eff_lift (Ok (f x))))
    \<or> (\<exists>redo. tool = mcp_undo_redo K E args redo)"
    unfolding tool_handler_def by (simp split: if_split_asm) blast+
  then show ?thesis
    by (elim disjE exE) (simp_all add: write_tools_never_write serialized_never_write)
qed

lemma call_tool_never_write: "related_by (kept_never_write K) (call_tool K E params)"
  unfolding call_tool_def Let_def
  by (intro never_write.bind never_write.lift tool_refresh_looked [THEN looked_is_never_write])
    (auto split: option.split intro: tool_handler_never_write never_write.lift)

lemma handle_method_never_write: "related_by (kept_never_write K) (handle_method K E meth params)"
  unfolding handle_method_def Let_def
  by (intro never_write.cond never_write.lift never_write.read call_tool_never_write
      read_resource_looked [THEN looked_is_never_write])

lemma mcp_record_kept: "kept K sv (mcp_record event sv)"
  unfolding kept_def mcp_record_def policy_record_def audit_grew_def by auto

lemma record_denial_kept: "kept K sv (record_denial K' E meth params error sv)"
  by (cases error) (simp_all add: record_denial_def mcp_record_kept kept.same)

lemma handle_json_never_write:
  assumes "handle_json K E input sv = (r, sv')"
  shows "kept_never_write K sv sv'"
proof (cases "mk_request_parse K input")
  case (Inl e)
  then show ?thesis using assms by (simp add: handle_json_def never_write.same)
next
  case (Inr request)
  obtain rm sm where m: "handle_method K E (rq_method request) (rq_params request) sv = (rm, sm)" by force
  then have sm: "kept_never_write K sv sm" by (rule related_byD [OF handle_method_never_write])
  have "sv' = sv \<or> sv' = sm \<or> (\<exists>error. sv' = record_denial K E (rq_method request) (rq_params request) error sm)"
    using assms Inr m
    by (cases "rq_jsonrpc request \<noteq> Some ''2.0''"; cases rm; cases "panic_of (projl rm)") (auto simp: handle_json_def)
  then show ?thesis
    using sm never_write.same never_write.chain [OF sm] record_denial_kept by (auto simp: kept_never_write_def)
qed

lemma serve_lines_never_write:
  "serve_lines K env n lines sv = (out, panic, sv') \<Longrightarrow> kept_never_write K sv sv'"
proof (induction lines arbitrary: n sv out)
  case Nil
  then show ?case by (simp add: never_write.same)
next
  case (Cons line rest)
  show ?case
  proof (cases "blank line")
    case True
    then show ?thesis using Cons by simp
  next
    case False
    obtain r sj where j: "handle_json K (env n) line sv = (r, sj)" by force
    have first: "kept_never_write K sv sj" using handle_json_never_write [OF j] .
    show ?thesis
    proof (cases r)
      case (Inl m)
      then show ?thesis using Cons.prems False j first by simp
    next
      case (Inr response)
      obtain out2 where "serve_lines K env (Suc n) rest sj = (out2, panic, sv')"
        using Cons.prems False j Inr by (auto split: prod.splits)
      then show ?thesis using Cons.IH never_write.chain [OF first] by blast
    qed
  qed
qed

text \<open>Whatever is read from standard input, a server under the never-write profile keeps its fixtures, artifacts
  and previews, writes nothing to a bridge but requests for snapshots, and of its policy only the audit
  log grows.\<close>

theorem never_write_server_only_looks:
  assumes "pl_profile (ms_policy sv) = NeverWrite"
    and "run_stdio K env input sv = (out, panic, sv')"
  shows "ms_artifacts sv' = ms_artifacts sv \<and> ms_previews sv' = ms_previews sv
    \<and> (\<exists>events. ms_policy sv' = (ms_policy sv)\<lparr>pl_audit := pl_audit (ms_policy sv) @ events\<rparr>)
    \<and> (\<forall>k. bm_get (ms_sessions sv') k = None \<longleftrightarrow> bm_get (ms_sessions sv) k = None)
    \<and> (\<forall>k e. bm_get (ms_sessions sv) k = Some e \<longrightarrow> (\<exists>e'. bm_get (ms_sessions sv') k = Some e'
        \<and> (\<forall>s. se_backend e = Fixture s \<longrightarrow> e' = e)
        \<and> (\<forall>client mirror. se_backend e = Ipc client mirror \<longrightarrow> (\<exists>client' mirror' rs.
             se_backend e' = Ipc client' mirror' \<and> (\<forall>r \<in> set rs. iq_message r = ''bridge.snapshot'')
             \<and> ic_output client' = ic_output client @ concat (map (snapshot_frame (sk_wire (mk_session K))) rs)))))"
proof -
  have kept: "kept K sv sv'"
    using serve_lines_never_write assms by (simp add: run_stdio_def kept_never_write_def)
  show ?thesis
  proof (intro conjI allI impI)
    show "\<exists>events. ms_policy sv' = (ms_policy sv)\<lparr>pl_audit := pl_audit (ms_policy sv) @ events\<rparr>"
      using kept by (simp add: kept_def audit_grew_def)
    show "bm_get (ms_sessions sv') k = None \<longleftrightarrow> bm_get (ms_sessions sv) k = None" for k
      using kept by (rule kept_none)
  qed (use kept kept_entry in \<open>simp_all add: kept_def\<close>)
qed

end
