(* ===== verification/McpTheorems.thy ===== *)
theory McpTheorems
  imports McpLaws
begin

text \<open>
  The properties of the server beyond the never-write profile: tools and their announcements, reviewed
  commits, answers, resources.
\<close>

section \<open>Announced tools\<close>

lemma tool_entry_fields [simp]:
  "jget ''name'' (tool_entry read_only name d i u) = Some (JStr name)"
  "jpath [''annotations'', ''readOnlyHint''] (tool_entry read_only name d i u) = Some (JBool read_only)"
  by (simp_all add: tool_entry_def)

lemma announced_names:
  "map (jget ''name'') tool_definitions = map (\<lambda>name. Some (JStr name))
     [''cad.list_sessions'', ''cad.get_context'', ''cad.inspect_entity'', ''cad.query_entities'', ''cad.measure'',
      ''cad.explain_dependencies'', ''cad.compare_revisions'', ''cad.validate'', ''cad.describe_view'',
      ''cad.resolve_reference'', ''cad.export_graph'', ''cad.set_selection'', ''cad.set_view'', ''cad.preview_change'',
      ''cad.apply_change_set'', ''cad.undo'', ''cad.redo'']"
  by (simp only: tool_definitions_def read_tool_def write_tool_def list.map tool_entry_fields)

lemma announced_reading:
  "d \<in> set tool_definitions \<Longrightarrow> jget ''name'' d = Some (JStr name) \<Longrightarrow>
     jpath [''annotations'', ''readOnlyHint''] d = Some (JBool read_only) \<Longrightarrow>
     read_only \<longleftrightarrow> name \<in> set (''cad.export_graph'' # reading_tools)"
  unfolding tool_definitions_def read_tool_def write_tool_def reading_tools_def
  by (simp only: list.set insert_iff empty_iff)
    (elim disjE FalseE; simp only: tool_entry_fields option.inject json.inject; hypsubst; simp)

text \<open>A name is served by a handler exactly when the server announces it, and no name is announced twice.\<close>

theorem announced_tools_are_served:
  "(\<forall>name. (\<exists>d \<in> set tool_definitions. jget ''name'' d = Some (JStr name)) \<longleftrightarrow> tool_handler K E args name \<noteq> None)
    \<and> distinct (map (jget ''name'') tool_definitions)"
proof -
  have "(\<exists>d \<in> set tool_definitions. jget ''name'' d = Some (JStr name))
      \<longleftrightarrow> Some (JStr name) \<in> set (map (jget ''name'') tool_definitions)" for name
    by (auto simp del: set_map simp add: image_iff set_map [of "jget ''name''"]) (metis)+
  moreover have "Some (JStr name) \<in> set (map (jget ''name'') tool_definitions) \<longleftrightarrow> tool_handler K E args name \<noteq> None" for name
    unfolding announced_names by (auto simp: tool_handler_def)
  moreover have "distinct (map (jget ''name'') tool_definitions)"
    unfolding announced_names by simp
  ultimately show ?thesis by blast
qed

text \<open>C19: A tool announced as read-only, the export of a graph apart, keeps the policy with its audit
  log, the artifacts and the previews; of the sessions it keeps the fixtures, and of a bridge it may
  change the mirror, the summary and the connection, over which it sends requests for snapshots and
  nothing else.\<close>

theorem read_only_tools_keep_the_model:
  assumes "d \<in> set tool_definitions" and "jget ''name'' d = Some (JStr name)"
    and "jpath [''annotations'', ''readOnlyHint''] d = Some (JBool True)" and "name \<noteq> ''cad.export_graph''"
    and "required_string params ''name'' = Ok name" and "call_tool K E params sv = (r, sv')"
  shows "ms_artifacts sv' = ms_artifacts sv \<and> ms_previews sv' = ms_previews sv
    \<and> ms_policy sv' = ms_policy sv
    \<and> sessions_kept (sk_wire (mk_session K)) (ms_sessions sv) (ms_sessions sv')"
proof -
  have "name \<in> set reading_tools"
    using announced_reading [OF assms(1-3)] assms(4) by simp
  then have "\<exists>tool. tool_handler K E args name = Some tool \<and> related_by (looked K) tool" for args
    by (rule tool_handler_looked)
  then have "related_by (looked K) (case tool_handler K E args name of Some tool \<Rightarrow> tool
      | None \<Rightarrow> eff_lift (Err (InvalidRequest (''unknown tool: '' @ name))))" for args
    by (metis option.case(2))
  then have "related_by (looked K) (eff_bind (tool_refresh K E args name) (\<lambda>_.
      eff_bind (case tool_handler K E args name of Some tool \<Rightarrow> tool
        | None \<Rightarrow> eff_lift (Err (InvalidRequest (''unknown tool: '' @ name)))) (\<lambda>v. eff_lift (Ok (tool_result K v)))))" for args
    by (intro looked.bind tool_refresh_looked looked.lift)
  moreover have "eff_bind (tool_refresh K E (arg_or Some ''arguments'' (jobj []) params) name) (\<lambda>_.
      eff_bind (case tool_handler K E (arg_or Some ''arguments'' (jobj []) params) name of Some tool \<Rightarrow> tool
        | None \<Rightarrow> eff_lift (Err (InvalidRequest (''unknown tool: '' @ name)))) (\<lambda>v. eff_lift (Ok (tool_result K v)))) sv
      = (r, sv')"
    using assms(6) unfolding call_tool_def Let_def eff_bind_lift assms(5) sum.case .
  ultimately have "looked K sv sv'" by (rule related_byD)
  then show ?thesis by (simp add: looked_def)
qed

lemma artifact_put_stored:
  "artifact_put A pid now input s = (Ok m, s') \<Longrightarrow>
     bm_contains (as_root s') (artifact_digest A (ai_bytes input))
     \<and> bm_contains (as_root s') (artifact_digest A (ai_bytes input) @ ''.json'')"
  by (auto simp: artifact_put_def store_content_def create_renamed_def Let_def bm_contains_def
      split: prod.splits sum.splits if_split_asm)

lemma with_document_Ok_iff:
  "with_document args f sv = (Ok y, sv') \<longleftrightarrow> (\<exists>session document. required_string args ''session'' = Ok session
     \<and> required_string args ''document'' = Ok document \<and> f session document sv = (Ok y, sv'))"
  by (auto simp: with_document_def eff_bind_lift split: sum.splits)

lemma mcp_graph_Ok_iff:
  "mcp_graph session document sv = (Ok g, sv') \<longleftrightarrow> session_graph (ms_sessions sv) session document = Ok g \<and> sv' = sv"
  by (auto simp: mcp_graph_def read_sessions_def)

text \<open>The export of a graph is announced as read-only, and yet when it succeeds the store holds the artifact.\<close>

theorem export_writes_though_announced_read_only:
  assumes "export_graph K E args sv = (Ok v, sv')"
  shows "(\<exists>d \<in> set tool_definitions. jget ''name'' d = Some (JStr ''cad.export_graph'')
      \<and> jpath [''annotations'', ''readOnlyHint''] d = Some (JBool True))
    \<and> (\<exists>session document g. session_graph (ms_sessions sv) session document = Ok g
        \<and> bm_contains (as_root (ms_artifacts sv')) (artifact_digest (mk_artifact K) (mk_pretty_graph K g))
        \<and> bm_contains (as_root (ms_artifacts sv')) (artifact_digest (mk_artifact K) (mk_pretty_graph K g) @ ''.json''))"
proof
  show "\<exists>d \<in> set tool_definitions. jget ''name'' d = Some (JStr ''cad.export_graph'')
      \<and> jpath [''annotations'', ''readOnlyHint''] d = Some (JBool True)"
    unfolding tool_definitions_def read_tool_def write_tool_def
    by (simp only: list.set bex_simps tool_entry_fields) simp
  obtain session document g manifest sv2 where "session_graph (ms_sessions sv) session document = Ok g"
    and put: "mcp_put K E \<lparr>ai_bytes = mk_pretty_graph K g, ai_media_type = ''application/json'',
        ai_source_revision = revision_id (g_revision g), ai_source_entities = bm_keys (g_entities g),
        ai_generator = ''ccir.graph/1.0'', ai_parameters = jobj [(''schema_version'', JStr (g_schema_version g))],
        ai_expires_at_ms = Some (unat (env_now E 0) + 86400000)\<rparr> sv = (Ok manifest, sv2)" and "sv' = sv2"
    using assms by (auto simp: export_graph_def eff_bind_Ok_iff with_document_Ok_iff mcp_graph_Ok_iff)
  moreover from put obtain a where "artifact_put (mk_artifact K) (env_pid E) (unat (env_now E 1))
      \<lparr>ai_bytes = mk_pretty_graph K g, ai_media_type = ''application/json'',
        ai_source_revision = revision_id (g_revision g), ai_source_entities = bm_keys (g_entities g),
        ai_generator = ''ccir.graph/1.0'', ai_parameters = jobj [(''schema_version'', JStr (g_schema_version g))],
        ai_expires_at_ms = Some (unat (env_now E 0) + 86400000)\<rparr> (ms_artifacts sv) = (Ok manifest, a)"
      and "sv2 = sv\<lparr>ms_artifacts := a\<rparr>"
    by (auto simp: mcp_put_def split: prod.splits)
  ultimately show "\<exists>session document g. session_graph (ms_sessions sv) session document = Ok g
        \<and> bm_contains (as_root (ms_artifacts sv')) (artifact_digest (mk_artifact K) (mk_pretty_graph K g))
        \<and> bm_contains (as_root (ms_artifacts sv')) (artifact_digest (mk_artifact K) (mk_pretty_graph K g) @ ''.json'')"
    using artifact_put_stored by fastforce
qed

section \<open>Reviewed commits\<close>

lemma on_sessions_Ok_iff:
  "on_sessions f sv = (Ok x, sv') \<longleftrightarrow> (\<exists>m. f (ms_sessions sv) = (Ok x, m) \<and> sv' = sv\<lparr>ms_sessions := m\<rparr>)"
  by (auto simp: on_sessions_def split: prod.splits)

lemma mcp_authorize_commit_Ok_iff:
  "mcp_authorize_commit K E cs hash sv = (Ok u, sv') \<longleftrightarrow>
     (\<exists>p. authorize_commit (mcp_ccir K) (mk_crypto K) (ms_policy sv) cs hash (env_now E 0) = (Ok (), p)
        \<and> sv' = sv\<lparr>ms_policy := p\<rparr>)"
  by (auto simp: mcp_authorize_commit_def split: prod.splits)

lemma stored_preview_Ok_iff:
  "stored_preview cs hash sv = Ok u \<longleftrightarrow> (\<exists>p. bm_get (ms_previews sv) (preview_key cs) = Some p
     \<and> pe_preview_hash p = hash \<and> rollback_verified p)"
  by (auto simp: stored_preview_def)

lemma refresh_fixture:
  "session_refresh K uuid session document m = (Ok v, m') \<Longrightarrow> bm_get m session = Some e \<Longrightarrow> se_backend e = Fixture s \<Longrightarrow>
     m' = m \<and> g_document (st_current s) = document"
  by (auto simp: session_refresh_def find_session_def check_document_def)

lemma commit_fixture:
  "session_commit K uuid cs hash m = (Ok c, m') \<Longrightarrow> bm_get m (cs_session cs) = Some e \<Longrightarrow> se_backend e = Fixture s \<Longrightarrow>
     \<exists>r s'. store_commit (sk_codec K) s cs hash = (Ok r, s') \<and> m' = bm_insert (cs_session cs) (e\<lparr>se_backend := Fixture s'\<rparr>) m
       \<and> ce_resulting_revision c = Some (revision_id (rr_revision r))"
  by (auto simp: session_commit_def find_session_def split: prod.splits sum.splits)

text \<open>What a successful application went through, in order.\<close>

lemma apply_change_Ok:
  assumes "apply_change K E args sv = (Ok c, sv')"
  obtains cs hash m revision p m2 where "changeset_arg K args = Ok cs" and "required_string args ''preview_hash'' = Ok hash"
    and "stored_preview cs hash sv = Ok ()" and "authorize_preview (ms_policy sv) cs = Ok ()"
    and "session_refresh (mk_session K) (env_uuid E 1) (cs_session cs) (cs_document cs) (ms_sessions sv) = (Ok revision, m)"
    and "authorize_commit (mcp_ccir K) (mk_crypto K) (ms_policy sv) cs hash (env_now E 0) = (Ok (), p)"
    and "session_commit (mk_session K) (\<lambda>n. env_uuid E (n + 2)) cs hash m = (Ok c, m2)"
    and "sv' = sv\<lparr>ms_sessions := m2, ms_previews := bm_remove (preview_key cs) (ms_previews sv),
           ms_policy := policy_record p (commit_event K (env_now E 1) p cs c (ce_changeset_hash c) hash)\<rparr>"
  using assms
  by (auto simp: apply_change_def eff_bind_Ok_iff mcp_refresh_def mcp_commit_def on_sessions_Ok_iff
      mcp_authorize_commit_Ok_iff mcp_record_def)

text \<open>C18: A change that the server applied is the one whose stored preview was rolled back, verified and reviewed under the
  given hash; the policy authorized it and recorded it; the preview and the idempotency key are used up;
  a fixture moved by exactly the commit of its store.\<close>

theorem applied_change_was_reviewed:
  assumes "apply_change K E args sv = (Ok c, sv')"
  shows "\<exists>cs hash p pol. changeset_arg K args = Ok cs \<and> required_string args ''preview_hash'' = Ok hash
    \<and> bm_get (ms_previews sv) (preview_key cs) = Some p \<and> pe_preview_hash p = hash
    \<and> pe_rolled_back p \<and> pe_rollback_fingerprint_verified p
    \<and> authorize_commit (mcp_ccir K) (mk_crypto K) (ms_policy sv) cs hash (env_now E 0) = (Ok (), pol)
    \<and> ms_policy sv' = policy_record pol (commit_event K (env_now E 1) pol cs c (ce_changeset_hash c) hash)
    \<and> bm_get (ms_previews sv') (preview_key cs) = None
    \<and> (\<forall>h now p'. authorize_commit (mcp_ccir K) (mk_crypto K) (ms_policy sv') cs h now \<noteq> (Ok (), p'))
    \<and> (\<forall>e s. bm_get (ms_sessions sv) (cs_session cs) = Some e \<longrightarrow> se_backend e = Fixture s \<longrightarrow>
         (\<exists>r s'. store_commit (mcp_ccir K) s cs hash = (Ok r, s')
           \<and> bm_get (ms_sessions sv') (cs_session cs) = Some (e\<lparr>se_backend := Fixture s'\<rparr>)
           \<and> ce_resulting_revision c = Some (revision_id (rr_revision r))))"
proof -
  obtain cs hash m revision pol m2 where run: "changeset_arg K args = Ok cs" "required_string args ''preview_hash'' = Ok hash"
    and stored: "stored_preview cs hash sv = Ok ()"
    and refresh: "session_refresh (mk_session K) (env_uuid E 1) (cs_session cs) (cs_document cs) (ms_sessions sv)
      = (Ok revision, m)"
    and auth: "authorize_commit (mcp_ccir K) (mk_crypto K) (ms_policy sv) cs hash (env_now E 0) = (Ok (), pol)"
    and commit: "session_commit (mk_session K) (\<lambda>n. env_uuid E (n + 2)) cs hash m = (Ok c, m2)"
    and sv': "sv' = sv\<lparr>ms_sessions := m2, ms_previews := bm_remove (preview_key cs) (ms_previews sv),
           ms_policy := policy_record pol (commit_event K (env_now E 1) pol cs c (ce_changeset_hash c) hash)\<rparr>"
    using assms by (rule apply_change_Ok)
  obtain p where p: "bm_get (ms_previews sv) (preview_key cs) = Some p" "pe_preview_hash p = hash"
      "pe_rolled_back p" "pe_rollback_fingerprint_verified p"
    using stored by (auto simp: stored_preview_Ok_iff rollback_verified_def)
  have "cs_idempotency_key cs \<in> set (pl_used_idempotency (ms_policy sv'))"
    using auth by (simp add: sv' policy_record_def authorize_commit_Ok_iff)
  then have burned: "\<forall>h now p'. authorize_commit (mcp_ccir K) (mk_crypto K) (ms_policy sv') cs h now \<noteq> (Ok (), p')"
    by (simp add: authorize_commit_Ok_iff)
  have fixture: "\<exists>r s'. store_commit (mcp_ccir K) s cs hash = (Ok r, s')
      \<and> bm_get (ms_sessions sv') (cs_session cs) = Some (e\<lparr>se_backend := Fixture s'\<rparr>)
      \<and> ce_resulting_revision c = Some (revision_id (rr_revision r))"
    if "bm_get (ms_sessions sv) (cs_session cs) = Some e" "se_backend e = Fixture s" for e s
    using refresh_fixture [OF refresh that] commit_fixture [OF commit, of e s] that by (auto simp: sv')
  show ?thesis
    by (intro exI [of _ cs] exI [of _ hash] exI [of _ p] exI [of _ pol] conjI run p auth burned allI impI fixture)
      (simp_all add: sv')
qed

section \<open>Commits that failed\<close>

lemma eff_bind_keeps_error:
  "eff_bind (eff_lift r) f sv = (Err e, sv') \<Longrightarrow> sv' \<noteq> sv \<Longrightarrow> \<exists>x. r = Ok x \<and> f x sv = (Err e, sv')"
  "eff_bind (eff_read g) f sv = (Err e, sv') \<Longrightarrow> sv' \<noteq> sv \<Longrightarrow> \<exists>x. g sv = Ok x \<and> f x sv = (Err e, sv')"
  by (auto simp: eff_bind_lift eff_bind_read split: sum.splits)

lemma mcp_refresh_frame:
  "mcp_refresh K uuid session document sv = (r, sv') \<Longrightarrow> ms_policy sv' = ms_policy sv"
  "mcp_refresh K uuid session document sv = (r, sv') \<Longrightarrow> ms_previews sv' = ms_previews sv"
  by (auto simp: mcp_refresh_def on_sessions_def split: prod.splits)

text \<open>A failed application that changed the policy got as far as the commit.\<close>

lemma apply_change_Err:
  assumes "apply_change K E args sv = (Err e, sv')" and "changeset_arg K args = Ok cs"
    and "ms_policy sv' \<noteq> ms_policy sv" and "sorted_wrt (<) (pl_used_idempotency (ms_policy sv))"
  obtains hash p where "authorize_commit (mcp_ccir K) (mk_crypto K) (ms_policy sv) cs hash (env_now E 0) = (Ok (), p)"
    and "ms_policy sv' = p" and "ms_previews sv' = ms_previews sv"
proof -
  have "sv' \<noteq> sv" using assms(3) by auto
  obtain hash where "required_string args ''preview_hash'' = Ok hash" and run: "eff_bind (mcp_refresh K (env_uuid E 1) (cs_session cs) (cs_document cs)) (\<lambda>_.
     eff_bind (mcp_authorize_commit K E cs hash) (\<lambda>_.
     eff_bind (mcp_commit K (\<lambda>n. env_uuid E (n + 2)) cs hash) (\<lambda>c.
     eff_bind (eff_modify (\<lambda>sv. sv\<lparr>ms_previews := bm_remove (preview_key cs) (ms_previews sv)\<rparr>)) (\<lambda>_.
     eff_bind (eff_modify (\<lambda>sv. mcp_record
       (commit_event K (env_now E 1) (ms_policy sv) cs c (ce_changeset_hash c) hash) sv)) (\<lambda>_.
     eff_lift (Ok c)))))) sv = (Err e, sv')"
    using assms(1) \<open>sv' \<noteq> sv\<close> unfolding apply_change_def
    by (auto dest!: eff_bind_keeps_error simp: assms(2))
  obtain r1 sv1 where refresh: "mcp_refresh K (env_uuid E 1) (cs_session cs) (cs_document cs) sv = (r1, sv1)" by force
  then have sv1: "ms_policy sv1 = ms_policy sv" "ms_previews sv1 = ms_previews sv" by (rule mcp_refresh_frame)+
  have "r1 \<noteq> Err er" for er using run refresh sv1(1) assms(3) by auto
  then obtain revision where "r1 = Ok revision" by (cases r1) auto
  then have rest: "eff_bind (mcp_authorize_commit K E cs hash) (\<lambda>_. eff_bind (mcp_commit K (\<lambda>n. env_uuid E (n + 2)) cs hash) (\<lambda>c.
     eff_bind (eff_modify (\<lambda>sv. sv\<lparr>ms_previews := bm_remove (preview_key cs) (ms_previews sv)\<rparr>)) (\<lambda>_.
     eff_bind (eff_modify (\<lambda>sv. mcp_record
       (commit_event K (env_now E 1) (ms_policy sv) cs c (ce_changeset_hash c) hash) sv)) (\<lambda>_.
     eff_lift (Ok c))))) sv1 = (Err e, sv')"
    using run refresh by simp
  obtain r p where auth: "authorize_commit (mcp_ccir K) (mk_crypto K) (ms_policy sv) cs hash (env_now E 0) = (r, p)" by force
  then have step: "mcp_authorize_commit K E cs hash sv1 = (map_err McpPolicy r, sv1\<lparr>ms_policy := p\<rparr>)"
    by (simp add: mcp_authorize_commit_def sv1)
  have r: "r = Ok ()"
  proof (cases r)
    case (Inl er)
    then have "ms_policy sv' = p" using rest step by auto
    moreover have "p = ms_policy sv" using authorize_commit_Err [OF _ assms(4)] auth Inl by blast
    ultimately show ?thesis using assms(3) by simp
  qed simp
  have "\<exists>m. sv' = sv1\<lparr>ms_policy := p, ms_sessions := m\<rparr>"
    using rest step r by (auto simp: eff_bind_Err_iff mcp_commit_def on_sessions_def split: prod.splits)
  then show ?thesis using that auth r sv1 by auto
qed

text \<open>When a commit fails after the policy authorized it, its idempotency key is used up all the same: nothing was
  recorded, the preview is still stored, and yet no later attempt with this key is ever authorized.\<close>

theorem failed_commit_uses_up_its_key:
  assumes "apply_change K E args sv = (Err e, sv')" and "changeset_arg K args = Ok cs"
    and "ms_policy sv' \<noteq> ms_policy sv" and "sorted_wrt (<) (pl_used_idempotency (ms_policy sv))"
  shows "pl_audit (ms_policy sv') = pl_audit (ms_policy sv) \<and> ms_previews sv' = ms_previews sv
    \<and> (\<forall>h now p'. authorize_commit (mcp_ccir K) (mk_crypto K) (ms_policy sv') cs h now \<noteq> (Ok (), p'))
    \<and> (\<forall>E' c sv2. apply_change K E' args sv' \<noteq> (Ok c, sv2))"
proof -
  obtain hash p where "authorize_commit (mcp_ccir K) (mk_crypto K) (ms_policy sv) cs hash (env_now E 0) = (Ok (), p)"
    and p: "ms_policy sv' = p" and previews: "ms_previews sv' = ms_previews sv"
    using assms by (rule apply_change_Err)
  then have used: "cs_idempotency_key cs \<in> set (pl_used_idempotency p)" "pl_audit p = pl_audit (ms_policy sv)"
    by (auto simp: authorize_commit_Ok_iff)
  then have never: "\<forall>h now p'. authorize_commit (mcp_ccir K) (mk_crypto K) (ms_policy sv') cs h now \<noteq> (Ok (), p')"
    by (simp add: p authorize_commit_Ok_iff)
  moreover have "apply_change K E' args sv' \<noteq> (Ok c, sv2)" for E' c sv2
  proof
    assume "apply_change K E' args sv' = (Ok c, sv2)"
    then show False by (rule apply_change_Ok) (use assms(2) never in auto)
  qed
  ultimately show ?thesis using used previews p by simp
qed

section \<open>Approval of undo and redo\<close>

lemma verify_approval_other:
  assumes "token_parse X raw = Ok token" and "at_changeset_hash token \<noteq> changeset_hash C cs"
  shows "\<exists>e. verify_approval C X p raw cs h now = Err e"
  using assms verify_approval_Ok_iff [of C X p raw cs h now] by (cases "verify_approval C X p raw cs h now") auto

lemma navigation_risk [simp]: "risk (navigation_intent u s d b redo token) = High"
  by (simp add: risk_def navigation_intent_def changeset_new_def)

lemma navigation_fields [simp]:
  "cs_approval_token (navigation_intent u s d b redo token) = token"
  "cs_request_id (navigation_intent u s d b redo token) = u"
  by (simp_all add: navigation_intent_def changeset_new_def)

text \<open>C22: Where undo needs approval it cannot be approved: the hash a token would have to name is made from a UUID drawn
  while the call runs, so a token issued for any change set of another request is rejected and the server
  stays as it was.\<close>

theorem undo_cannot_be_approved:
  assumes "\<forall>a b. changeset_hash (mcp_ccir K) a = changeset_hash (mcp_ccir K) b \<longrightarrow> cs_request_id a = cs_request_id b"
    and "\<forall>t. token_parse (mk_crypto K) (token_text (mk_crypto K) t) = Ok t"
    and "pl_profile (ms_policy sv) \<in> {ApproveEach, ApproveHighRisk, WorkspacePolicy}"
    and "issue_approval (mcp_ccir K) (mk_crypto K) u p cs h now ttl = Ok raw"
    and "cs_request_id cs \<noteq> env_uuid E 1" and "jget ''approval_token'' args = Some (JStr raw)"
  shows "\<exists>e. mcp_undo_redo K E args redo sv = (Err e, sv)"
proof -
  obtain token where token: "raw = token_text (mk_crypto K) token" "at_changeset_hash token = changeset_hash (mcp_ccir K) cs"
    using assms(4) by (auto simp: issue_approval_def Let_def if_Err_Ok_iff split del: if_split)
  have denied: "\<exists>e. mcp_authorize_commit K E (navigation_intent (env_uuid E 1) s d b redo (Some raw)) i sv = (Err e, sv)" for s d b i
  proof -
    let ?cs = "navigation_intent (env_uuid E 1) s d b redo (Some raw)"
    have "at_changeset_hash token \<noteq> changeset_hash (mcp_ccir K) ?cs"
    proof
      assume "at_changeset_hash token = changeset_hash (mcp_ccir K) ?cs"
      then have "cs_request_id cs = cs_request_id ?cs" using assms(1) token(2) by metis
      then show False using assms(5) by simp
    qed
    then obtain e where "verify_approval (mcp_ccir K) (mk_crypto K) (ms_policy sv) raw ?cs i (env_now E 0) = Err e"
      using verify_approval_other assms(2) token(1) by metis
    moreover have "approval_required (ms_policy sv) High" using assms(3) by (auto simp: approval_required_def)
    ultimately have "\<exists>e. authorize_commit (mcp_ccir K) (mk_crypto K) (ms_policy sv) ?cs i (env_now E 0) = (Err e, ms_policy sv)"
      by (cases "authorize_changeset (ms_policy sv) ?cs") (auto simp: authorize_commit_def Let_def)
    then show ?thesis by (auto simp: mcp_authorize_commit_def)
  qed
  show ?thesis
  proof (cases "required_string args ''session''")
    case session: (Inr session)
    show ?thesis
    proof (cases "required_string args ''document''")
      case document: (Inr document)
      show ?thesis
      proof (cases "session_graph (ms_sessions sv) session document")
        case (Inr g)
        let ?cs = "navigation_intent (env_uuid E 1) session document (revision_id (g_revision g)) redo (Some raw)"
        obtain e where "mcp_authorize_commit K E ?cs (changeset_hash (mcp_ccir K) ?cs) sv = (Err e, sv)"
          using denied by blast
        then have "mcp_undo_redo K E args redo sv = (Err e, sv)"
          using Inr session document assms(6)
          by (simp add: mcp_undo_redo_def with_document_def eff_bind_lift mcp_graph_def read_sessions_def eff_bind_read Let_def)
        then show ?thesis by blast
      qed (simp add: mcp_undo_redo_def with_document_def eff_bind_lift session document mcp_graph_def read_sessions_def eff_bind_read)
    qed (simp add: mcp_undo_redo_def with_document_def eff_bind_lift session)
  qed (simp add: mcp_undo_redo_def with_document_def eff_bind_lift)
qed

end
