(* ===== verification/McpAnswers.thy ===== *)
theory McpAnswers
  imports McpLaws
begin

text \<open>
  Requests and their answers: which are answered and how, which are recorded, what a resource address
  leads to, what base64 text stands for, and what stops the server.
\<close>

section \<open>Answers\<close>

lemma handle_json_parsed:
  assumes "mk_request_parse K input = Ok request" and "rq_jsonrpc request = Some ''2.0''"
    and "handle_method K E (rq_method request) (rq_params request) sv = (r, sm)"
  shows "handle_json K E input sv =
    (case r of
       Ok v \<Rightarrow> (Ok (map_option (\<lambda>request_id. mk_text_of_response K
         \<lparr>rp_jsonrpc = ''2.0'', rp_id = request_id, rp_result = Some v, rp_error = None\<rparr>) (rq_id request)), sm)
     | Err error \<Rightarrow>
         (case panic_of error of
            Some m \<Rightarrow> (Err m, sm)
          | None \<Rightarrow> (Ok (map_option (\<lambda>request_id. mk_text_of_response K
              (error_response request_id (error_code error) (mk_error_text K error)
                (Some (jobj [(''type'', JStr (error_type error))])))) (rq_id request)),
              record_denial K E (rq_method request) (rq_params request) error sm)))"
  using assms by (cases r) (simp_all add: handle_json_def)

text \<open>C20: Unless the server panics, a request with an identifier is answered once under that identifier, with a result or an
  error but not both, and a notification is not answered; the audit log gains a denial exactly when the
  error is one of the policy, and then names its category.\<close>

theorem every_request_is_answered:
  assumes "mk_request_parse K input = Ok request" and "rq_jsonrpc request = Some ''2.0''"
    and "handle_method K E (rq_method request) (rq_params request) sv = (r, sm)"
    and "handle_json K E input sv = (Ok response, sv')"
  shows "(rq_id request = None \<longrightarrow> response = None)
    \<and> (\<forall>request_id. rq_id request = Some request_id \<longrightarrow> (\<exists>answer. response = Some (mk_text_of_response K answer)
         \<and> rp_id answer = request_id \<and> rp_jsonrpc answer = ''2.0''
         \<and> (\<forall>v. r = Ok v \<longrightarrow> rp_result answer = Some v \<and> rp_error answer = None)
         \<and> (\<forall>error. r = Err error \<longrightarrow> rp_result answer = None
              \<and> map_option rp_code (rp_error answer) = Some (error_code error))))
    \<and> (\<forall>p. r = Err (McpPolicy p) \<longrightarrow> (\<exists>event. ms_policy sv' = policy_record (ms_policy sm) event
         \<and> ae_decision event = ''denied'' \<and> ae_error_category event = Some (error_type (McpPolicy p))
         \<and> ae_policy event = pl_profile (ms_policy sm)))
    \<and> ((\<forall>p. r \<noteq> Err (McpPolicy p)) \<longrightarrow> sv' = sm)"
proof (cases r)
  case (Inr v)
  then show ?thesis using assms(4) unfolding handle_json_parsed [OF assms(1-3)]
    by (cases "rq_id request") (auto intro!: exI [of _ "\<lparr>rp_jsonrpc = ''2.0'', rp_id = the (rq_id request), rp_result = Some v, rp_error = None\<rparr>"])
next
  case (Inl error)
  have none: "panic_of error = None"
    using assms(4) Inl unfolding handle_json_parsed [OF assms(1-3)] by (cases "panic_of error") simp_all
  let ?answer = "\<lambda>request_id. error_response request_id (error_code error) (mk_error_text K error)
     (Some (jobj [(''type'', JStr (error_type error))]))"
  have out: "response = map_option (\<lambda>request_id. mk_text_of_response K (?answer request_id)) (rq_id request)"
    "sv' = record_denial K E (rq_method request) (rq_params request) error sm"
    using assms(4) Inl none unfolding handle_json_parsed [OF assms(1-3)] by simp_all
  have answer: "rp_id (?answer i) = i \<and> rp_jsonrpc (?answer i) = ''2.0'' \<and> rp_result (?answer i) = None
      \<and> map_option rp_code (rp_error (?answer i)) = Some (error_code error)" for i
    by (simp add: error_response_def)
  have "\<exists>event. ms_policy sv' = policy_record (ms_policy sm) event
      \<and> ae_decision event = ''denied'' \<and> ae_error_category event = Some (error_type (McpPolicy p))
      \<and> ae_policy event = pl_profile (ms_policy sm)" if "error = McpPolicy p" for p
    by (rule exI [of _ "denial_event K E (ms_policy sm) (rq_method request) (rq_params request) error"])
      (simp add: out(2) that record_denial_def mcp_record_def denial_event_def Let_def)
  moreover have "sv' = sm" if "\<forall>p. error \<noteq> McpPolicy p"
    using that by (cases error) (simp_all add: out(2) record_denial_def)
  ultimately show ?thesis using Inl answer by (auto simp: out(1))
qed

section \<open>Resources\<close>

lemma split_on_no_slash: "c \<notin> set p \<Longrightarrow> split_on c p = [p]"
  by (simp add: split_on_single_iff)

definition entity_uri :: "string \<Rightarrow> string \<Rightarrow> string \<Rightarrow> string" where
  "entity_uri session document reference =
     ''freecad://session/'' @ session @ ''/document/'' @ document @ ''/entity/'' @ reference"

text \<open>Every entity of a document is reached by its resource address, although a reference has slashes of its own, when
  the names of the session and the document have none.\<close>

theorem entity_address_leads_to_the_entity:
  assumes "CHR ''/'' \<notin> set session" and "CHR ''/'' \<notin> set document"
    and "mcp_refresh K (env_uuid E 1) session document sv = (Ok revision, sv')"
    and "session_graph (ms_sessions sv') session document = Ok g" and "graph_entity g reference = Some e"
  shows "read_resource K E (jobj [(''uri'', JStr (entity_uri session document reference))]) sv
    = (Ok (resource_text (entity_uri session document reference) (mk_text_of_entity K e)), sv')"
proof -
  let ?uri = "entity_uri session document reference"
  have req: "required_string (jobj [(''uri'', JStr ?uri)]) ''uri'' = Ok ?uri"
    by (simp add: required_string_def entity_uri_def)
  have no: "?uri \<noteq> ''freecad://sessions''" by (simp add: entity_uri_def)
  have pre: "strip_prefix ''freecad://session/'' ?uri = Some (session @ ''/document/'' @ document @ ''/entity/'' @ reference)"
    unfolding entity_uri_def by (rule strip_prefix_append)
  have "split_on CHR ''/'' (session @ ''/document/'' @ document @ ''/entity/'' @ reference)
      = session # ''document'' # document # ''entity'' # split_on CHR ''/'' reference"
    using split_on_append [OF assms(1), of "''document/'' @ document @ ''/entity/'' @ reference"]
      split_on_append [of "CHR ''/''" "''document''" "document @ ''/entity/'' @ reference"]
      split_on_append [OF assms(2), of "''entity/'' @ reference"]
      split_on_append [of "CHR ''/''" "''entity''" reference] by simp
  then have "session_resource K E ?uri (split_on CHR ''/'' (session @ ''/document/'' @ document @ ''/entity/'' @ reference)) sv
      = document_resource K ?uri session document g ''entity'' (split_on CHR ''/'' reference) sv'"
    using assms(3, 4) by (simp add: session_resource_def mcp_graph_def read_sessions_def eff_bind_read)
  also have "\<dots> = (Ok (Some (resource_text ?uri (mk_text_of_entity K e))), sv')"
    using assms(5) by (simp add: document_resource_def join_split_on)
  finally show ?thesis using no pre by (simp add: read_resource_def eff_bind_lift req)
qed

section \<open>What stops the server\<close>

lemma required_string_member: "jget key v = Some (JStr text) \<Longrightarrow> text \<noteq> [] \<Longrightarrow> required_string v key = Ok text"
  by (simp add: required_string_def)

lemma query_panics:
  assumes "jget ''session'' args = Some (JStr session)" and "session \<noteq> []"
    and "jget ''document'' args = Some (JStr document)" and "document \<noteq> []"
    and "mk_query_of_json K args = Ok r" and "qr_revision r \<noteq> []"
    and "session_graph (ms_sessions sv) session document = Ok g"
    and "execute (mk_query K) g r (current_selection g) = Err (QueryPanic m)"
  shows "mcp_query K args sv = (Err (McpQuery (QueryPanic m)), sv)"
  using assms(5-8) required_string_member [OF assms(1, 2)] required_string_member [OF assms(3, 4)]
  by (simp add: mcp_query_def with_document_def eff_bind_lift mcp_graph_def read_sessions_def eff_bind_read)

text \<open>C21: One query stops the server: its continuation token has the hash of the query and an offset past the results, which
  nothing compares; the slice panics, the line is not answered and no later line is read.\<close>

theorem forged_offset_stops_the_server:
  assumes "\<not> blank line" and "mk_request_parse K line = Ok request"
    and "rq_jsonrpc request = Some ''2.0''" and "rq_method request = ''tools/call''"
    and "rq_params request = Some (jobj [(''name'', JStr ''cad.query_entities''), (''arguments'', args)])"
    and "jget ''session'' args = Some (JStr session)" and "session \<noteq> []"
    and "jget ''document'' args = Some (JStr document)" and "document \<noteq> []"
    and "mcp_refresh K (env_uuid (env k) 0) session document sv = (Ok revision, sv')"
    and "session_graph (ms_sessions sv') session document = Ok g"
    and "mk_query_of_json K args = Ok r" and "qr_revision r \<noteq> []" and "admitted g r"
    and "length (result_refs (mk_query K) g r (current_selection g)) < n" and "n + 1000 < 2 ^ 64"
    and "qr_continuation r = Some (page_token (hash_request (mk_query K) r) n)"
  shows "serve_lines K env k (line # rest) sv = ([], Some ''range start is past the end'', sv')"
proof -
  let ?m = "''range start is past the end''" and ?params = "jobj [(''name'', JStr ''cad.query_entities''), (''arguments'', args)]"
  have "execute (mk_query K) g r (current_selection g) = Err (QueryPanic ?m)"
    by (rule past_end_panics [OF assms(14-17)])
  then have query: "mcp_query K args sv' = (Err (McpQuery (QueryPanic ?m)), sv')"
    by (rule query_panics [OF assms(6-9) assms(12, 13, 11)])
  have "required_string ?params ''name'' = Ok ''cad.query_entities''" by (simp add: required_string_def)
  moreover have "arg_or Some ''arguments'' (jobj []) ?params = args" by (simp add: arg_or_def)
  moreover have "tool_refresh K (env k) args ''cad.query_entities'' sv = (Ok (), sv')"
    using assms(6, 8, 10) by (simp add: tool_refresh_def)
  moreover have "tool_handler K (env k) args ''cad.query_entities''
      = Some (eff_bind (mcp_query K args) (\<lambda>x. eff_lift (Ok (mk_json_of_query_result K x))))"
    by (simp add: tool_handler_def)
  ultimately have "call_tool K (env k) ?params sv = (Err (McpQuery (QueryPanic ?m)), sv')"
    using query by (simp add: call_tool_def eff_bind_lift)
  then have "handle_method K (env k) (rq_method request) (rq_params request) sv = (Err (McpQuery (QueryPanic ?m)), sv')"
    by (simp add: handle_method_def assms(4, 5))
  then have "handle_json K (env k) line sv = (Err ?m, sv')"
    by (simp add: handle_json_parsed [OF assms(2, 3)])
  then show ?thesis using assms(1) by simp
qed

end
