(* ===== verification/McpSamples.thy ===== *)
theory McpSamples
  imports McpTheorems McpAnswers
begin

text \<open>
  A concrete server, with one fixture session and serializers that print the least, at which the
  properties of the server are evaluated.
\<close>

definition sample_mcp :: "codec \<Rightarrow> (rpc_request, string) result \<Rightarrow> query_request \<Rightarrow> mcp_codec" where
  "sample_mcp C parsed q =
     \<lparr>mk_session = sample_session_codec C, mk_crypto = sample_crypto, mk_query = sample_query_codec,
      mk_artifact = sample_artifacts, mk_acos_degrees = (\<lambda>x. x), mk_request_parse = (\<lambda>t. parsed),
      mk_changeset_of_json = (\<lambda>v. Ok sample_change), mk_query_of_json = (\<lambda>v. Ok q),
      mk_measurement_of_json = (\<lambda>v. Err []), mk_json_of_context = (\<lambda>x. JNull),
      mk_json_of_entity_result = (\<lambda>x. JNull), mk_json_of_query_result = (\<lambda>x. JNull),
      mk_json_of_measurement = (\<lambda>x. JNull), mk_json_of_explanation = (\<lambda>x. JNull),
      mk_json_of_diagnostic = (\<lambda>x. JNull), mk_json_of_manifest = (\<lambda>x. JNull),
      mk_text_of_sessions = (\<lambda>x. []), mk_text_of_context = (\<lambda>x. []), mk_text_of_record = (\<lambda>x. []),
      mk_text_of_diff = (\<lambda>x. []), mk_text_of_entity = en_ref, mk_text_of_event = ae_id,
      mk_text_of_response = (\<lambda>r. rp_jsonrpc r), mk_pretty = (\<lambda>v. []), mk_pretty_graph = (\<lambda>g. ''graph''),
      mk_operation_debug = (\<lambda>op. []), mk_error_text = error_type\<rparr>"

definition sample_env :: mcp_env where
  "sample_env = \<lparr>env_uuid = (\<lambda>n. ''uuid''), env_now = (\<lambda>n. 0), env_pid = 1\<rparr>"

definition sample_server :: "policy_profile \<Rightarrow> (string, preview_envelope) bmap \<Rightarrow> mcp_server" where
  "sample_server profile previews =
     \<lparr>ms_sessions = fixture_manager, ms_policy = policy_new profile ''client'' ''secret'',
      ms_artifacts = empty_artifacts, ms_previews = previews\<rparr>"

definition sample_args :: "string \<Rightarrow> string \<Rightarrow> json" where
  "sample_args key text = jobj [(''session'', JStr ''s''), (''document'', JStr ''d''), (key, JStr text)]"

definition sample_ping :: rpc_request where
  "sample_ping = \<lparr>rq_jsonrpc = Some ''2.0'', rq_id = Some (JBool True), rq_method = ''ping'', rq_params = None\<rparr>"

lemma sample_mcp_fields [simp]:
  "mk_session (sample_mcp C parsed q) = sample_session_codec C" "mk_crypto (sample_mcp C parsed q) = sample_crypto"
  "mk_query (sample_mcp C parsed q) = sample_query_codec" "mk_artifact (sample_mcp C parsed q) = sample_artifacts"
  "mk_request_parse (sample_mcp C parsed q) t = parsed" "mk_query_of_json (sample_mcp C parsed q) v = Ok q"
  "mk_changeset_of_json (sample_mcp C parsed q) v = Ok sample_change"
  "mk_pretty_graph (sample_mcp C parsed q) g = ''graph''"
  "sk_codec (sample_session_codec C) = C"
  by (simp_all add: sample_mcp_def sample_session_codec_def)

lemma sample_server_fields [simp]:
  "ms_sessions (sample_server profile previews) = fixture_manager"
  "ms_policy (sample_server profile previews) = policy_new profile ''client'' ''secret''"
  "ms_artifacts (sample_server profile previews) = empty_artifacts"
  "ms_previews (sample_server profile previews) = previews"
  by (simp_all add: sample_server_def)

lemma sample_args_fields [simp]:
  "jget ''session'' (sample_args ''x'' text) = Some (JStr ''s'')" "jget ''document'' (sample_args ''x'' text) = Some (JStr ''d'')"
  "jget ''preview_hash'' (sample_args ''preview_hash'' text) = Some (JStr text)"
  by (simp_all add: sample_args_def)

lemma fixture_document: "g_document sample_graph = ''d''"
  by (simp add: sample_graph_def graph_new_def)

lemma fixture_graph: "session_graph fixture_manager ''s'' ''d'' = Ok sample_graph"
  by (simp add: session_graph_def session_store_def find_session_def fixture_manager_def check_document_def
      sample_store_current fixture_document)

lemma fixture_refresh:
  "session_refresh K u ''s'' ''d'' fixture_manager = (Ok (revision_id (g_revision sample_graph)), fixture_manager)"
  by (simp add: session_refresh_def find_session_def fixture_manager_def check_document_def sample_store_current
      fixture_document)

lemma sample_refresh:
  "mcp_refresh K u ''s'' ''d'' (sample_server profile previews)
     = (Ok (revision_id (g_revision sample_graph)), sample_server profile previews)"
  by (simp add: mcp_refresh_def on_sessions_def fixture_refresh sample_server_def)

section \<open>Witnesses\<close>

theorem never_write_server_only_looks_witness:
  "\<exists>out panic sv. run_stdio (sample_mcp sample_codec (Ok sample_ping) sample_request) (\<lambda>n. sample_env) ''ping''
      (sample_server NeverWrite []) = (out, panic, sv) \<and> ms_artifacts sv = empty_artifacts"
proof -
  obtain out panic sv where run: "run_stdio (sample_mcp sample_codec (Ok sample_ping) sample_request) (\<lambda>n. sample_env) ''ping''
      (sample_server NeverWrite []) = (out, panic, sv)" by (cases rule: prod_cases3)
  have "pl_profile (ms_policy (sample_server NeverWrite [])) = NeverWrite" by (simp add: policy_new_def)
  from never_write_server_only_looks [OF this run] run show ?thesis by simp
qed

theorem read_only_tools_keep_the_model_witness:
  "\<exists>r sv. call_tool (sample_mcp sample_codec (Ok sample_ping) sample_request) sample_env
      (jobj [(''name'', JStr ''cad.validate'')]) (sample_server Developer []) = (r, sv)
     \<and> ms_previews sv = [] \<and> pl_audit (ms_policy sv) = []"
proof -
  let ?K = "sample_mcp sample_codec (Ok sample_ping) sample_request"
  obtain r sv where run: "call_tool ?K sample_env (jobj [(''name'', JStr ''cad.validate'')]) (sample_server Developer []) = (r, sv)"
    by force
  let ?d = "read_tool ''cad.validate'' ''Run deterministic health and validation checks.''
        (session_document) (requiring [''revision'', ''status'', ''checks''])"
  have "?d \<in> set tool_definitions" by (simp add: tool_definitions_def)
  moreover have "jget ''name'' ?d = Some (JStr ''cad.validate'')"
      "jpath [''annotations'', ''readOnlyHint''] ?d = Some (JBool True)" by (simp_all only: read_tool_def tool_entry_fields)
  moreover have "required_string (jobj [(''name'', JStr ''cad.validate'')]) ''name'' = Ok ''cad.validate''"
    by (simp add: required_string_def)
  ultimately have "ms_previews sv = [] \<and> pl_audit (ms_policy sv) = []"
    using read_only_tools_keep_the_model [OF _ _ _ _ _ run] by (fastforce simp: policy_new_def)
  then show ?thesis using run by blast
qed

lemma empty_store_put:
  "ai_bytes input = ''graph'' \<Longrightarrow> \<exists>m a. artifact_put sample_artifacts pid now input empty_artifacts = (Ok m, a)"
  by (simp add: artifact_put_def store_content_def create_renamed_def Let_def empty_artifacts_def current_bytes_def
      bm_contains_def artifact_digest_def)

theorem export_writes_though_announced_read_only_witness:
  "\<exists>v sv. export_graph (sample_mcp sample_codec (Ok sample_ping) sample_request) sample_env (sample_args ''x'' ''y'')
      (sample_server Developer []) = (Ok v, sv) \<and> as_root (ms_artifacts sv) \<noteq> []"
proof -
  let ?K = "sample_mcp sample_codec (Ok sample_ping) sample_request" and ?sv = "sample_server Developer []"
  have "authorize_capability (ms_policy ?sv) ExportArtifacts = Ok ()"
    by (simp add: authorize_capability_def set_capabilities policy_new_def)
  moreover have "required_string (sample_args ''x'' ''y'') ''session'' = Ok ''s''"
      "required_string (sample_args ''x'' ''y'') ''document'' = Ok ''d''" by (simp_all add: required_string_def)
  moreover have put: "\<exists>m sv. mcp_put ?K sample_env input ?sv = (Ok m, sv)" if "ai_bytes input = ''graph''" for input
    using empty_store_put [OF that, of "env_pid sample_env" "unat (env_now sample_env 1)"]
    by (auto simp: mcp_put_def)
  moreover obtain m sv where "mcp_put ?K sample_env
      \<lparr>ai_bytes = mk_pretty_graph ?K sample_graph, ai_media_type = ''application/json'',
        ai_source_revision = revision_id (g_revision sample_graph), ai_source_entities = bm_keys (g_entities sample_graph),
        ai_generator = ''ccir.graph/1.0'', ai_parameters = jobj [(''schema_version'', JStr (g_schema_version sample_graph))],
        ai_expires_at_ms = Some (unat (env_now sample_env 0) + 86400000)\<rparr> ?sv = (Ok m, sv)"
    using put by (metis artifact_input.select_convs(1) sample_mcp_fields(8))
  moreover have "mcp_graph ''s'' ''d'' ?sv = (Ok sample_graph, ?sv)" by (simp add: mcp_graph_Ok_iff fixture_graph)
  ultimately obtain v sv where run: "export_graph ?K sample_env (sample_args ''x'' ''y'') ?sv = (Ok v, sv)"
    by (simp add: export_graph_def eff_bind_read with_document_def eff_bind_lift del: sample_server_fields sample_mcp_fields)
  then show ?thesis using export_writes_though_announced_read_only [OF run] by (fastforce simp: bm_contains_def)
qed

definition sample_stored :: "string \<Rightarrow> preview_envelope" where
  "sample_stored hash = (preview_envelope_of (sample_session_codec sample_codec) sample_preview hash)"

lemma sample_stored_fields [simp]:
  "pe_preview_hash (sample_stored hash) = hash" "rollback_verified (sample_stored hash)"
  by (simp_all add: sample_stored_def preview_envelope_of_def rollback_verified_def sample_preview_def)

lemma sample_change_fields:
  "cs_session sample_change = ''s''" "cs_document sample_change = ''d''" "cs_idempotency_key sample_change = ''u1''"
  by (simp_all add: sample_change_def changeset_new_def)

text \<open>A developer's server that applies the sample change under a stored preview: all that is left is the commit.\<close>

lemma sample_apply:
  fixes hash :: string
  defines "K \<equiv> sample_mcp sample_codec (Ok sample_ping) sample_request"
    and "sv \<equiv> sample_server Developer [(preview_key sample_change, sample_stored hash)]"
    and "args \<equiv> jobj [(''changeset'', JNull), (''preview_hash'', JStr hash)]"
  assumes "hash \<noteq> []"
  obtains p where "pl_used_idempotency p = [''u1'']"
    and "apply_change K sample_env args sv = eff_bind (mcp_commit K (\<lambda>n. env_uuid sample_env (n + 2)) sample_change hash) (\<lambda>c.
     eff_bind (eff_modify (\<lambda>sv. sv\<lparr>ms_previews := bm_remove (preview_key sample_change) (ms_previews sv)\<rparr>)) (\<lambda>_.
     eff_bind (eff_modify (\<lambda>sv. mcp_record
       (commit_event K (env_now sample_env 1) (ms_policy sv) sample_change c (ce_changeset_hash c) hash) sv)) (\<lambda>_.
     eff_lift (Ok c)))) (sv\<lparr>ms_policy := p\<rparr>)"
proof -
  let ?p = "policy_new Developer ''client'' ''secret''"
  have cs: "changeset_arg K args = Ok sample_change" by (simp add: changeset_arg_def args_def K_def)
  have hash: "required_string args ''preview_hash'' = Ok hash" using assms(4) by (simp add: required_string_def args_def)
  have stored: "stored_preview sample_change hash sv = Ok ()"
    by (simp add: stored_preview_Ok_iff sv_def)
  have allowed: "authorize_changeset ?p sample_change = Ok ()"
    by (simp add: authorize_changeset_Ok_iff authorize_workspace_Ok_iff policy_new_def)
  define p where "p = ?p\<lparr>pl_used_idempotency := [''u1'']\<rparr>"
  have "authorize_commit sample_codec sample_crypto ?p sample_change hash (env_now sample_env 0) = (Ok (), p)"
    using allowed by (simp add: authorize_commit_Ok_iff approval_needed_def approval_required_def policy_new_def
        sample_change_fields p_def)
  then have commit: "mcp_authorize_commit K sample_env sample_change hash sv = (Ok (), sv\<lparr>ms_policy := p\<rparr>)"
    by (simp add: mcp_authorize_commit_def K_def sv_def)
  have refresh: "mcp_refresh K (env_uuid sample_env 1) (cs_session sample_change) (cs_document sample_change) sv
      = (Ok (revision_id (g_revision sample_graph)), sv)"
    unfolding sample_change_fields sv_def by (rule sample_refresh)
  have preview: "authorize_preview (ms_policy sv) sample_change = Ok ()"
    using allowed by (simp add: authorize_preview_def sv_def)
  show thesis
  proof (rule that)
    show "pl_used_idempotency p = [''u1'']" by (simp add: p_def policy_new_def)
  qed (simp add: apply_change_def eff_bind_lift eff_bind_read cs hash stored preview refresh commit del: One_nat_def)
qed

lemma fixture_entry:
  "bm_get fixture_manager ''s'' = Some \<lparr>se_summary = sample_summary, se_backend = Fixture sample_store\<rparr>"
  by (simp add: fixture_manager_def)

lemma fixture_commit:
  "\<exists>c m. session_commit (sample_session_codec sample_codec) uuids sample_change sample_hash fixture_manager = (Ok c, m)"
  using sample_commits(1)
  by (auto simp: session_commit_def find_session_def sample_change_fields fixture_entry)

lemma fixture_commit_fails:
  "hash \<noteq> sample_hash \<Longrightarrow>
     \<exists>e m. session_commit (sample_session_codec sample_codec) uuids sample_change hash fixture_manager = (Err e, m)"
  using sample_previews
  by (auto simp: session_commit_def find_session_def sample_change_fields fixture_entry store_commit_def
      reviewed_preview_def sample_hash_def)

theorem applied_change_was_reviewed_witness:
  "\<exists>c sv. apply_change (sample_mcp sample_codec (Ok sample_ping) sample_request) sample_env
        (jobj [(''changeset'', JNull), (''preview_hash'', JStr sample_hash)])
        (sample_server Developer [(preview_key sample_change, sample_stored sample_hash)]) = (Ok c, sv)
     \<and> (\<exists>r s. store_commit sample_codec sample_store sample_change sample_hash = (Ok r, s)
          \<and> ce_resulting_revision c = Some (revision_id (rr_revision r)))"
proof -
  let ?K = "sample_mcp sample_codec (Ok sample_ping) sample_request"
    and ?sv = "sample_server Developer [(preview_key sample_change, sample_stored sample_hash)]"
    and ?args = "jobj [(''changeset'', JNull), (''preview_hash'', JStr sample_hash)]"
  have "sample_hash \<noteq> []" by (simp add: sample_hash_def preview_hash_def sha256_json_def sha256_bytes_def)
  then obtain c sv where run: "apply_change ?K sample_env ?args ?sv = (Ok c, sv)"
  proof (rule sample_apply)
    fix p
    obtain c m where "session_commit (sample_session_codec sample_codec) (\<lambda>n. env_uuid sample_env (n + 2)) sample_change
        sample_hash fixture_manager = (Ok c, m)" using fixture_commit by blast
    then have "mcp_commit ?K (\<lambda>n. env_uuid sample_env (n + 2)) sample_change sample_hash (?sv\<lparr>ms_policy := p\<rparr>)
        = (Ok c, ?sv\<lparr>ms_policy := p, ms_sessions := m\<rparr>)" by (simp add: mcp_commit_def on_sessions_def)
    moreover assume "apply_change ?K sample_env ?args ?sv = eff_bind (mcp_commit ?K (\<lambda>n. env_uuid sample_env (n + 2)) sample_change sample_hash) (\<lambda>c.
     eff_bind (eff_modify (\<lambda>sv. sv\<lparr>ms_previews := bm_remove (preview_key sample_change) (ms_previews sv)\<rparr>)) (\<lambda>_.
     eff_bind (eff_modify (\<lambda>sv. mcp_record
       (commit_event ?K (env_now sample_env 1) (ms_policy sv) sample_change c (ce_changeset_hash c) sample_hash) sv)) (\<lambda>_.
     eff_lift (Ok c)))) (?sv\<lparr>ms_policy := p\<rparr>)"
    ultimately show thesis by (intro that) simp
  qed
  have "changeset_arg ?K ?args = Ok sample_change" "required_string ?args ''preview_hash'' = Ok sample_hash"
    using \<open>sample_hash \<noteq> []\<close> by (simp_all add: changeset_arg_def required_string_def)
  then show ?thesis
    using applied_change_was_reviewed [OF run] run by (auto simp: sample_change_fields fixture_entry)
qed

theorem failed_commit_uses_up_its_key_witness:
  "\<exists>e sv. apply_change (sample_mcp sample_codec (Ok sample_ping) sample_request) sample_env
        (jobj [(''changeset'', JNull), (''preview_hash'', JStr ''other'')])
        (sample_server Developer [(preview_key sample_change, sample_stored ''other'')]) = (Err e, sv)
     \<and> (\<forall>h now p. authorize_commit sample_codec sample_crypto (ms_policy sv) sample_change h now \<noteq> (Ok (), p))"
proof -
  let ?K = "sample_mcp sample_codec (Ok sample_ping) sample_request"
    and ?sv = "sample_server Developer [(preview_key sample_change, sample_stored ''other'')]"
    and ?args = "jobj [(''changeset'', JNull), (''preview_hash'', JStr ''other'')]"
  have "''other'' \<noteq> sample_hash" by (simp add: sample_hash_def preview_hash_def sha256_json_def sha256_bytes_def)
  then obtain e m where fails: "session_commit (sample_session_codec sample_codec) (\<lambda>n. env_uuid sample_env (n + 2))
      sample_change ''other'' fixture_manager = (Err e, m)" using fixture_commit_fails by blast
  obtain sv where run: "apply_change ?K sample_env ?args ?sv = (Err (McpSession e), sv)"
    and used: "pl_used_idempotency (ms_policy sv) = [''u1'']"
  proof (rule sample_apply [of "''other''"])
    fix p
    assume "pl_used_idempotency p = [''u1'']"
      and "apply_change ?K sample_env ?args ?sv = eff_bind (mcp_commit ?K (\<lambda>n. env_uuid sample_env (n + 2)) sample_change ''other'') (\<lambda>c.
     eff_bind (eff_modify (\<lambda>sv. sv\<lparr>ms_previews := bm_remove (preview_key sample_change) (ms_previews sv)\<rparr>)) (\<lambda>_.
     eff_bind (eff_modify (\<lambda>sv. mcp_record
       (commit_event ?K (env_now sample_env 1) (ms_policy sv) sample_change c (ce_changeset_hash c) ''other'') sv)) (\<lambda>_.
     eff_lift (Ok c)))) (?sv\<lparr>ms_policy := p\<rparr>)"
    moreover from fails have "mcp_commit ?K (\<lambda>n. env_uuid sample_env (n + 2)) sample_change ''other'' (?sv\<lparr>ms_policy := p\<rparr>)
        = (Err (McpSession e), ?sv\<lparr>ms_policy := p, ms_sessions := m\<rparr>)" by (simp add: mcp_commit_def on_sessions_def)
    ultimately have "apply_change ?K sample_env ?args ?sv = (Err (McpSession e), ?sv\<lparr>ms_policy := p, ms_sessions := m\<rparr>)"
      by (simp only: eff_bind_Err)
    moreover have "ms_policy (?sv\<lparr>ms_policy := p, ms_sessions := m\<rparr>) = p" by simp
    ultimately show thesis using \<open>pl_used_idempotency p = [''u1'']\<close> that by metis
  qed simp
  have "changeset_arg ?K ?args = Ok sample_change" by (simp add: changeset_arg_def)
  moreover have "ms_policy sv \<noteq> ms_policy ?sv"
  proof
    assume "ms_policy sv = ms_policy ?sv"
    then show False using used by (simp add: policy_new_def)
  qed
  moreover have "sorted_wrt (<) (pl_used_idempotency (ms_policy ?sv))" by (simp add: policy_new_def)
  ultimately show ?thesis using failed_commit_uses_up_its_key [OF run] run by auto
qed

theorem every_request_is_answered_witness:
  "\<exists>sv. handle_json (sample_mcp sample_codec (Ok sample_ping) sample_request) sample_env ''ping'' (sample_server NeverWrite [])
     = (Ok (Some ''2.0''), sv) \<and> sv = sample_server NeverWrite []"
proof -
  let ?K = "sample_mcp sample_codec (Ok sample_ping) sample_request" and ?sv = "sample_server NeverWrite []"
  have parsed: "mk_request_parse ?K ''ping'' = Ok sample_ping" and two: "rq_jsonrpc sample_ping = Some ''2.0''"
    by (simp_all add: sample_ping_def)
  have m: "handle_method ?K sample_env (rq_method sample_ping) (rq_params sample_ping) ?sv = (Ok (jobj []), ?sv)"
    by (simp add: handle_method_def sample_ping_def)
  obtain response sv where run: "handle_json ?K sample_env ''ping'' ?sv = (Ok response, sv)"
    by (simp add: handle_json_parsed [OF parsed two m])
  show ?thesis using every_request_is_answered [OF parsed two m run] run
    by (auto simp: sample_ping_def sample_mcp_def)
qed

theorem entity_address_leads_to_the_entity_witness:
  "fst (read_resource (sample_mcp sample_codec (Ok sample_ping) sample_request) sample_env
      (jobj [(''uri'', JStr (entity_uri ''s'' ''d'' box_a))]) (sample_server NeverWrite []))
     = Ok (resource_text (entity_uri ''s'' ''d'' box_a) box_a)"
proof -
  have "graph_entity sample_graph box_a = Some (sample_box box_a ''A'' 10 [])" "en_ref (sample_box box_a ''A'' 10 []) = box_a"
    by code_simp+
  then show ?thesis
    using entity_address_leads_to_the_entity [OF _ _ sample_refresh] fixture_graph
    by (simp add: sample_mcp_def)
qed

text \<open>Undo under a profile that asks for approval, with a token issued for the sample change.\<close>

definition request_codec :: codec where
  "request_codec = sample_codec\<lparr>text_of_changeset := cs_request_id\<rparr>"

theorem undo_cannot_be_approved_witness:
  "\<exists>raw e. issue_approval request_codec sample_crypto ''nonce'' (policy_new ApproveEach ''client'' ''secret'') sample_change
        sample_hash 0 1000 = Ok raw
     \<and> mcp_undo_redo (sample_mcp request_codec (Ok sample_ping) sample_request) sample_env
        (jobj [(''session'', JStr ''s''), (''document'', JStr ''d''), (''approval_token'', JStr raw)]) False
        (sample_server ApproveEach []) = (Err e, sample_server ApproveEach [])"
proof -
  let ?K = "sample_mcp request_codec (Ok sample_ping) sample_request"
  have "authorize_changeset (policy_new ApproveEach ''client'' ''secret'') sample_change = Ok ()"
    by (simp add: authorize_changeset_Ok_iff authorize_workspace_Ok_iff policy_new_def)
  then obtain raw where raw: "issue_approval request_codec sample_crypto ''nonce''
      (policy_new ApproveEach ''client'' ''secret'') sample_change sample_hash 0 1000 = Ok raw"
    by (simp add: issue_approval_def policy_new_def Let_def)
  have "\<forall>a b. changeset_hash (mcp_ccir ?K) a = changeset_hash (mcp_ccir ?K) b \<longrightarrow> cs_request_id a = cs_request_id b"
    by (simp add: changeset_hash_def sha256_json_def sha256_bytes_def request_codec_def sample_codec_def)
  note distinct = this
  have "\<forall>t. token_parse (mk_crypto ?K) (token_text (mk_crypto ?K) t) = Ok t"
    using sample_token_round_trip by simp
  note parses = this
  have "pl_profile (ms_policy (sample_server ApproveEach [])) \<in> {ApproveEach, ApproveHighRisk, WorkspacePolicy}"
    by (simp add: policy_new_def)
  note profile = this
  have fresh: "cs_request_id sample_change \<noteq> env_uuid sample_env 1"
    by (simp add: sample_change_def changeset_new_def sample_env_def)
  let ?args = "jobj [(''session'', JStr ''s''), (''document'', JStr ''d''), (''approval_token'', JStr raw)]"
  have token: "jget ''approval_token'' ?args = Some (JStr raw)" by simp
  have "issue_approval (mcp_ccir ?K) (mk_crypto ?K) ''nonce'' (policy_new ApproveEach ''client'' ''secret'') sample_change
      sample_hash 0 1000 = Ok raw" using raw by simp
  from undo_cannot_be_approved [OF distinct parses profile this fresh token, of False] raw show ?thesis by blast
qed

text \<open>A query with a forged token, on one line, before another line that is never read.\<close>

definition forged_request :: query_request where
  "forged_request = sample_request\<lparr>qr_continuation := Some (page_token (hash_request sample_query_codec sample_request) 3)\<rparr>"

definition sample_query_call :: rpc_request where
  "sample_query_call = \<lparr>rq_jsonrpc = Some ''2.0'', rq_id = Some JNull, rq_method = ''tools/call'',
     rq_params = Some (jobj [(''name'', JStr ''cad.query_entities''), (''arguments'', sample_args ''x'' ''y'')])\<rparr>"

theorem forged_offset_stops_the_server_witness:
  "serve_lines (sample_mcp sample_codec (Ok sample_query_call) forged_request) (\<lambda>n. sample_env) 0 [''q'', ''later'']
      (sample_server NeverWrite [])
     = ([], Some ''range start is past the end'', sample_server NeverWrite [])"
proof (rule forged_offset_stops_the_server)
  show "\<not> blank ''q''" by simp
  show "mk_request_parse (sample_mcp sample_codec (Ok sample_query_call) forged_request) ''q'' = Ok sample_query_call" by simp
  show "rq_jsonrpc sample_query_call = Some ''2.0''" "rq_method sample_query_call = ''tools/call''"
    "rq_params sample_query_call = Some (jobj [(''name'', JStr ''cad.query_entities''), (''arguments'', sample_args ''x'' ''y'')])"
    by (simp_all add: sample_query_call_def)
  show "mcp_refresh (sample_mcp sample_codec (Ok sample_query_call) forged_request) (env_uuid sample_env 0) ''s'' ''d''
      (sample_server NeverWrite []) = (Ok (revision_id (g_revision sample_graph)), sample_server NeverWrite [])"
    by (rule sample_refresh)
  show "session_graph (ms_sessions (sample_server NeverWrite [])) ''s'' ''d'' = Ok sample_graph" by (simp add: fixture_graph)
  show "qr_revision forged_request \<noteq> []" by (simp add: forged_request_def sample_request_def)
  show "admitted sample_graph forged_request" unfolding forged_request_def by (rule sample_offset)
  have "current_selection sample_graph = []" by (simp add: current_selection_def sample_graph_def graph_new_def)
  then show "length (result_refs (mk_query (sample_mcp sample_codec (Ok sample_query_call) forged_request)) sample_graph
      forged_request (current_selection sample_graph)) < 3"
    using sample_offset(2) by (simp add: forged_request_def)
  show "qr_continuation forged_request = Some (page_token (hash_request
      (mk_query (sample_mcp sample_codec (Ok sample_query_call) forged_request)) forged_request) 3)"
    using sample_offset(3) by (simp add: forged_request_def)
qed simp_all

end
