(* ===== verification/PyHost.thy ===== *)
theory PyHost
  imports Ccir Effects
begin

text \<open>
  The Python objects of the CAD program, as the extension sees them, and \<^verbatim>\<open>pyutil.rs\<close>.

  The interpreter and the CAD program are not part of the sources: the record \<open>python\<close> holds what the
  code asks of them.  A world of type \<open>'w\<close> is the state of all their objects, an object is a handle of
  type \<open>'o\<close>.  Reading an attribute and the queries of \<open>call0\<close> and \<open>call1\<close> leave the world as it is; a
  call that is made for its effect returns the world after it and the observer callbacks that came
  while it ran.  \<open>py_view\<close> says as which value PyO3 extracts an object; the contents of dictionaries,
  lists and tuples are finite trees.
\<close>

section \<open>Observer callbacks\<close>

text \<open>The methods of \<open>DocumentObserver\<close> and \<open>SelectionObserver\<close>, with what they use of their arguments.\<close>

datatype observer_call =
    SlotCreatedObject "string option"
  | SlotDeletedObject string
  | SlotChangedObject "string option" string
  | SlotRecomputedDocument
  | TransactionOpened
  | TransactionCommitted
  | TransactionAborted
  | AddSelection string
  | ClearSelection
  | SetPreselection string
  | RemoveSelection string

text \<open>A callback with the time its event is recorded and the time of the flush that follows.\<close>

type_synonym observed = "nat \<times> nat \<times> observer_call"

section \<open>The host\<close>

text \<open>
  What a snapshot reads besides the documents: the wall clock in milliseconds, and the order in which
  the hash maps of its run list their keys, which \<^verbatim>\<open>HashMap\<close> draws anew for every map.
\<close>

record snapshot_env =
  se_now :: nat
  se_order :: "string list \<Rightarrow> string list"

text \<open>
  The first extraction that succeeds, in the order the code tries them: none, a boolean, a 64-bit
  integer, a float (also of objects that convert to one), a string, a dictionary with the texts of its
  keys, a list, a tuple.  Any other object comes with its attribute \<^verbatim>\<open>Value\<close> or, without one,
  \<^verbatim>\<open>UserString\<close>.
\<close>

datatype 'o py_value =
    PyNone
  | PyBool bool
  | PyInt int
  | PyFloat f64
  | PyStr string
  | PyDict "(string \<times> 'o py_value) list"
  | PyList "'o py_value list"
  | PyTuple "'o py_value list"
  | PyObject 'o "'o py_value option"

record ('w, 'o) python =
  py_attr :: "'w \<Rightarrow> 'o \<Rightarrow> string \<Rightarrow> 'o option"
  py_call :: "'w \<Rightarrow> 'o \<Rightarrow> 'o list \<Rightarrow> ('o, string) result \<times> 'w \<times> observed list"
  py_setattr :: "'w \<Rightarrow> 'o \<Rightarrow> string \<Rightarrow> 'o \<Rightarrow> (unit, string) result \<times> 'w \<times> observed list"
  py_view :: "'w \<Rightarrow> 'o \<Rightarrow> 'o py_value"
  py_iter :: "'w \<Rightarrow> 'o \<Rightarrow> 'o list option"
  py_items :: "'w \<Rightarrow> 'o \<Rightarrow> ('o \<times> 'o) list option"
  py_type_name :: "'w \<Rightarrow> 'o \<Rightarrow> string option"
  py_repr :: "'w \<Rightarrow> 'o \<Rightarrow> string option"
  py_import :: "'w \<Rightarrow> string \<Rightarrow> ('o, string) result"
  py_make :: "'o py_value \<Rightarrow> 'o"
  py_show_f64 :: "f64 \<Rightarrow> string"
  py_show_names :: "string list \<Rightarrow> string"

section \<open>Access\<close>

definition attr :: "('w, 'o) python \<Rightarrow> 'w \<Rightarrow> 'o \<Rightarrow> string \<Rightarrow> 'o option" where
  "attr P w object name = py_attr P w object name"

definition ask :: "('w, 'o) python \<Rightarrow> 'w \<Rightarrow> 'o \<Rightarrow> 'o list \<Rightarrow> 'o option" where
  "ask P w f arguments = (case py_call P w f arguments of (Ok v, _) \<Rightarrow> Some v | (Err _, _) \<Rightarrow> None)"

definition call0 :: "('w, 'o) python \<Rightarrow> 'w \<Rightarrow> 'o \<Rightarrow> string \<Rightarrow> 'o option" where
  "call0 P w object name = Option.bind (attr P w object name) (\<lambda>f. ask P w f [])"

definition call1 :: "('w, 'o) python \<Rightarrow> 'w \<Rightarrow> 'o \<Rightarrow> string \<Rightarrow> 'o \<Rightarrow> 'o option" where
  "call1 P w object name argument = Option.bind (attr P w object name) (\<lambda>f. ask P w f [argument])"

definition is_none :: "('w, 'o) python \<Rightarrow> 'w \<Rightarrow> 'o \<Rightarrow> bool" where
  "is_none P w object \<longleftrightarrow> py_view P w object = PyNone"

definition not_none :: "('w, 'o) python \<Rightarrow> 'w \<Rightarrow> 'o option \<Rightarrow> 'o option" where
  "not_none P w m = (case m of Some object \<Rightarrow> if is_none P w object then None else Some object | None \<Rightarrow> None)"

definition list_from_value :: "('w, 'o) python \<Rightarrow> 'w \<Rightarrow> 'o \<Rightarrow> 'o list" where
  "list_from_value P w v = (case py_iter P w v of None \<Rightarrow> [] | Some items \<Rightarrow> items)"

definition list_attr :: "('w, 'o) python \<Rightarrow> 'w \<Rightarrow> 'o \<Rightarrow> string \<Rightarrow> 'o list" where
  "list_attr P w object name = (case Option.bind (attr P w object name) (py_iter P w) of
       None \<Rightarrow> [] | Some items \<Rightarrow> items)"

text \<open>\<^verbatim>\<open>extract\<close> at the types the code uses; a boolean and an integer also extract as a float.\<close>

fun extract_string :: "'o py_value \<Rightarrow> string option" where
  "extract_string (PyStr s) = Some s"
| "extract_string _ = None"

fun extract_bool :: "'o py_value \<Rightarrow> bool option" where
  "extract_bool (PyBool b) = Some b"
| "extract_bool _ = None"

fun extract_f64 :: "'o py_value \<Rightarrow> f64 option" where
  "extract_f64 (PyBool b) = Some (Finite (of_bool b))"
| "extract_f64 (PyInt i) = Some (f64_round (of_int i))"
| "extract_f64 (PyFloat x) = Some x"
| "extract_f64 _ = None"

fun extract_strings :: "'o py_value \<Rightarrow> string list option" where
  "extract_strings (PyList vs) = those (map extract_string vs)"
| "extract_strings (PyTuple vs) = those (map extract_string vs)"
| "extract_strings _ = None"

definition string_of :: "('w, 'o) python \<Rightarrow> 'w \<Rightarrow> 'o \<Rightarrow> string option" where
  "string_of P w object = extract_string (py_view P w object)"

definition bool_of :: "('w, 'o) python \<Rightarrow> 'w \<Rightarrow> 'o \<Rightarrow> bool option" where
  "bool_of P w object = extract_bool (py_view P w object)"

definition f64_of :: "('w, 'o) python \<Rightarrow> 'w \<Rightarrow> 'o \<Rightarrow> f64 option" where
  "f64_of P w object = extract_f64 (py_view P w object)"

definition string_attr :: "('w, 'o) python \<Rightarrow> 'w \<Rightarrow> 'o \<Rightarrow> string \<Rightarrow> string option" where
  "string_attr P w object name = Option.bind (attr P w object name) (string_of P w)"

definition bool_attr :: "('w, 'o) python \<Rightarrow> 'w \<Rightarrow> 'o \<Rightarrow> string \<Rightarrow> bool option" where
  "bool_attr P w object name = Option.bind (attr P w object name) (bool_of P w)"

definition number_attr :: "('w, 'o) python \<Rightarrow> 'w \<Rightarrow> 'o \<Rightarrow> string \<Rightarrow> f64 option" where
  "number_attr P w object name = Option.bind (attr P w object name) (f64_of P w)"

definition type_name :: "('w, 'o) python \<Rightarrow> 'w \<Rightarrow> 'o \<Rightarrow> string" where
  "type_name P w object = (case py_type_name P w object of None \<Rightarrow> ''object'' | Some name \<Rightarrow> name)"

definition version_string :: "('w, 'o) python \<Rightarrow> 'w \<Rightarrow> 'o \<Rightarrow> string" where
  "version_string P w v = (case extract_strings (py_view P w v) of
       Some parts \<Rightarrow> join_with ''.'' parts
     | None \<Rightarrow> or_default ''unknown'' (string_of P w v))"

section \<open>Values\<close>

definition vector_of :: "('w, 'o) python \<Rightarrow> 'w \<Rightarrow> 'o \<Rightarrow> string \<times> string \<times> string \<Rightarrow> json option" where
  "vector_of P w v = (\<lambda>(nx, ny, nz).
     Option.bind (number_attr P w v nx) (\<lambda>x.
     Option.bind (number_attr P w v ny) (\<lambda>y.
     Option.bind (number_attr P w v nz) (\<lambda>z.
     Some (json_of_vec3 \<lparr>v_x = x, v_y = y, v_z = z\<rparr>)))))"

definition vector :: "('w, 'o) python \<Rightarrow> 'w \<Rightarrow> 'o \<Rightarrow> json option" where
  "vector P w v = (case vector_of P w v (''x'', ''y'', ''z'') of
       Some found \<Rightarrow> Some found
     | None \<Rightarrow> vector_of P w v (''X'', ''Y'', ''Z''))"

definition json_of_int :: "int \<Rightarrow> json" where
  "json_of_int i = JNum (if 0 \<le> i then PosInt (nat i) else NegInt i)"

text \<open>
  The characters of a string start at the bytes that do not continue one; \<open>take_chars\<close> keeps the first
  characters of UTF-8 text.
\<close>

definition continues_char :: "char \<Rightarrow> bool" where
  "continues_char c \<longleftrightarrow> 128 \<le> (of_char c :: nat) \<and> (of_char c :: nat) < 192"

fun take_chars :: "nat \<Rightarrow> string \<Rightarrow> string" where
  "take_chars n [] = []"
| "take_chars n (c # cs) =
     (if continues_char c then c # take_chars n cs
      else case n of 0 \<Rightarrow> [] | Suc m \<Rightarrow> c # take_chars m cs)"

text \<open>An object that is no plain value: a vector, a quantity, or its printed form, cut off.\<close>

definition safe_object :: "('w, 'o) python \<Rightarrow> 'w \<Rightarrow> 'o \<Rightarrow> json option \<Rightarrow> json" where
  "safe_object P w object quantity = (case vector P w object of
       Some found \<Rightarrow> found
     | None \<Rightarrow>
         (case quantity of
            Some v \<Rightarrow> jobj [(''value'', v), (''type'', JStr (type_name P w object))]
          | None \<Rightarrow> jobj [(''type'', JStr (type_name P w object)),
               (''repr'', JStr (take_chars 256 (or_default [] (py_repr P w object))))]))"

primrec safe_view :: "('w, 'o) python \<Rightarrow> 'w \<Rightarrow> 'o py_value \<Rightarrow> json" where
  "safe_view P w PyNone = JNull"
| "safe_view P w (PyBool b) = JBool b"
| "safe_view P w (PyInt i) = json_of_int i"
| "safe_view P w (PyFloat x) = json_of_f64 x"
| "safe_view P w (PyStr s) = JStr s"
| "safe_view P w (PyDict kvs) = jobj (map (map_prod id (safe_view P w)) kvs)"
| "safe_view P w (PyList vs) = JArr (map (safe_view P w) vs)"
| "safe_view P w (PyTuple vs) = JArr (map (safe_view P w) vs)"
| "safe_view P w (PyObject object quantity) = safe_object P w object (map_option (safe_view P w) quantity)"

definition safe_value :: "('w, 'o) python \<Rightarrow> 'w \<Rightarrow> 'o \<Rightarrow> json" where
  "safe_value P w object = safe_view P w (py_view P w object)"

text \<open>The Python value of a JSON document; a number outside the 64-bit integers becomes a float.\<close>

definition i64_max :: int where
  "i64_max = 9223372036854775807"

fun py_number :: "jnum \<Rightarrow> 'o py_value" where
  "py_number (PosInt n) = (if int n \<le> i64_max then PyInt (int n) else PyFloat (f64_round (of_nat n)))"
| "py_number (NegInt i) = PyInt i"
| "py_number (Float r) = PyFloat (Finite r)"

fun json_view :: "json \<Rightarrow> 'o py_value" where
  "json_view JNull = PyNone"
| "json_view (JBool b) = PyBool b"
| "json_view (JNum x) = py_number x"
| "json_view (JStr s) = PyStr s"
| "json_view (JArr vs) = PyList (map json_view vs)"
| "json_view (JObj kvs) = PyDict (map (\<lambda>(k, v). (k, json_view v)) kvs)"

definition to_python :: "('w, 'o) python \<Rightarrow> json \<Rightarrow> 'o" where
  "to_python P v = py_make P (json_view v)"

end
