(* ===== verification/PercentCoding.thy ===== *)
theory PercentCoding
  imports Prelude
begin

text \<open>
  The percent coding of \<^verbatim>\<open>pyutil.rs\<close> and the lossy reading of bytes as UTF-8 text, with the round trip
  of valid text.  Decoding slices the text at byte positions, which panics inside a character; that
  result is \<^const>\<open>None\<close>.
\<close>

section \<open>UTF-8\<close>

definition byte_in :: "nat \<Rightarrow> nat \<Rightarrow> char \<Rightarrow> bool" where
  "byte_in lo hi c \<longleftrightarrow> lo \<le> (of_char c :: nat) \<and> (of_char c :: nat) \<le> hi"

abbreviation continuation_byte :: "char \<Rightarrow> bool" where
  "continuation_byte \<equiv> byte_in 128 191"

text \<open>
  What may follow the first byte of a character: the tests of the bytes after it, or nothing when no
  character starts with that byte.
\<close>

definition utf8_follow :: "char \<Rightarrow> (char \<Rightarrow> bool) list option" where
  "utf8_follow c =
     (if byte_in 0 127 c then Some []
      else if byte_in 194 223 c then Some [continuation_byte]
      else if byte_in 224 224 c then Some [byte_in 160 191, continuation_byte]
      else if byte_in 237 237 c then Some [byte_in 128 159, continuation_byte]
      else if byte_in 225 239 c then Some [continuation_byte, continuation_byte]
      else if byte_in 240 240 c then Some [byte_in 144 191, continuation_byte, continuation_byte]
      else if byte_in 241 243 c then Some [continuation_byte, continuation_byte, continuation_byte]
      else if byte_in 244 244 c then Some [byte_in 128 143, continuation_byte, continuation_byte]
      else None)"

fun match_bytes :: "(char \<Rightarrow> bool) list \<Rightarrow> string \<Rightarrow> nat" where
  "match_bytes [] cs = 0"
| "match_bytes (t # ts) [] = 0"
| "match_bytes (t # ts) (c # cs) = (if t c then Suc (match_bytes ts cs) else 0)"

definition replacement_char :: string where
  "replacement_char = [CHR 0xEF, CHR 0xBF, CHR 0xBD]"

text \<open>\<^verbatim>\<open>String::from_utf8_lossy\<close>: the longest beginning of a character that is cut short is replaced.\<close>

function utf8_lossy :: "string \<Rightarrow> string" where
  "utf8_lossy [] = []"
| "utf8_lossy (c # cs) = (case utf8_follow c of
       None \<Rightarrow> replacement_char @ utf8_lossy cs
     | Some tests \<Rightarrow>
         let n = match_bytes tests cs in
         if n = length tests then c # take n cs @ utf8_lossy (drop n cs)
         else replacement_char @ utf8_lossy (drop n cs))"
  by pat_completeness auto

termination
  by (relation "measure length") auto

fun utf8_valid :: "string \<Rightarrow> bool" where
  "utf8_valid s = (utf8_lossy s = s)"

section \<open>Percent coding\<close>

definition is_unreserved :: "char \<Rightarrow> bool" where
  "is_unreserved c \<longleftrightarrow> is_ascii_alphanumeric c \<or> c \<in> set ''._-~''"

definition upper_hex :: "nat \<Rightarrow> char" where
  "upper_hex d = (if d < 10 then char_of (48 + d) else char_of (55 + d))"

definition percent_byte :: "char \<Rightarrow> string" where
  "percent_byte c =
     (if is_unreserved c then [c]
      else [CHR ''%'', upper_hex (of_char c div 16), upper_hex (of_char c mod 16)])"

definition percent_encode :: "string \<Rightarrow> string" where
  "percent_encode s = concat (map percent_byte s)"

definition hex_digit :: "char \<Rightarrow> nat option" where
  "hex_digit c =
     (if is_ascii_digit c then Some (of_char c - 48)
      else if byte_in 65 70 c then Some (of_char c - 55)
      else if byte_in 97 102 c then Some (of_char c - 87)
      else None)"

text \<open>\<^verbatim>\<open>u8::from_str_radix\<close> at radix 16 on two characters: a leading plus sign is accepted.\<close>

definition parse_hex_byte :: "char \<Rightarrow> char \<Rightarrow> char option" where
  "parse_hex_byte a b =
     (if a = CHR ''+'' then map_option char_of (hex_digit b)
      else Option.bind (hex_digit a) (\<lambda>h. map_option (\<lambda>l. char_of (16 * h + l)) (hex_digit b)))"

text \<open>
  The bytes of the decoded text.  The slice of two bytes after a percent sign must end between two
  characters.
\<close>

fun percent_bytes :: "string \<Rightarrow> string option" where
  "percent_bytes (c # a # b # cs) =
     (if c = CHR ''%'' then
        if (case cs of [] \<Rightarrow> False | d # _ \<Rightarrow> continuation_byte d) \<or> continuation_byte a then None
        else case parse_hex_byte a b of
            Some byte \<Rightarrow> map_option (Cons byte) (percent_bytes cs)
          | None \<Rightarrow> map_option (Cons c) (percent_bytes (a # b # cs))
      else map_option (Cons c) (percent_bytes (a # b # cs)))"
| "percent_bytes cs = Some cs"

definition percent_decode :: "string \<Rightarrow> string option" where
  "percent_decode s = map_option utf8_lossy (percent_bytes s)"

section \<open>Laws\<close>

lemma upper_hex_digit: "d < 16 \<Longrightarrow> hex_digit (upper_hex d) = Some d"
  by (auto simp: hex_digit_def upper_hex_def is_ascii_digit_def byte_in_def)

lemma upper_hex_plain: "d < 16 \<Longrightarrow> is_ascii_alphanumeric (upper_hex d)"
  by (auto simp: upper_hex_def ascii_defs)

lemma percent_byte_chars: "x \<in> set (percent_byte c) \<Longrightarrow> x = CHR ''%'' \<or> is_unreserved x"
proof -
  have "of_char c div 16 < (16::nat)"
    by (simp add: div_less_iff_less_mult)
  then show "x \<in> set (percent_byte c) \<Longrightarrow> x = CHR ''%'' \<or> is_unreserved x"
    using upper_hex_plain [of "of_char c div 16"] upper_hex_plain [of "of_char c mod 16"]
    by (auto simp: percent_byte_def is_unreserved_def split: if_splits)
qed

lemma percent_encode_chars: "x \<in> set (percent_encode s) \<Longrightarrow> x = CHR ''%'' \<or> is_unreserved x"
  using percent_byte_chars by (auto simp: percent_encode_def)

lemma percent_encode_no_slash: "CHR ''/'' \<notin> set (percent_encode s)"
  using percent_encode_chars [of "CHR ''/''" s] by (auto simp: is_unreserved_def ascii_defs)

lemma percent_encode_no_at: "CHR ''@'' \<notin> set (percent_encode s)"
  using percent_encode_chars [of "CHR ''@''" s] by (auto simp: is_unreserved_def ascii_defs)

lemma percent_encode_Nil [simp]: "percent_encode [] = []"
  by (simp add: percent_encode_def)

lemma percent_encode_Cons: "percent_encode (c # s) = percent_byte c @ percent_encode s"
  by (simp add: percent_encode_def)

lemma percent_encode_append: "percent_encode (s @ t) = percent_encode s @ percent_encode t"
  by (simp add: percent_encode_def)

lemma percent_encode_plain: "list_all is_unreserved s \<Longrightarrow> percent_encode s = s"
  by (induction s) (simp_all add: percent_encode_Cons percent_byte_def)

lemma unreserved_ascii: "is_unreserved c \<Longrightarrow> \<not> continuation_byte c"
  by (auto simp: is_unreserved_def ascii_defs byte_in_def)

lemma encoded_not_continuation: "x \<in> set (percent_encode s) \<Longrightarrow> \<not> continuation_byte x"
  using percent_encode_chars [of x s] unreserved_ascii [of x] by (auto simp: byte_in_def)

lemma percent_bytes_plain:
  "c \<noteq> CHR ''%'' \<Longrightarrow> percent_bytes (c # s) = map_option (Cons c) (percent_bytes s)"
  by (cases s; cases "tl s") auto

lemma percent_bytes_encode [simp]: "percent_bytes (percent_encode s) = Some s"
proof (induction s)
  case (Cons c s)
  show ?case
  proof (cases "is_unreserved c")
    case True
    then have "c \<noteq> CHR ''%''" by (auto simp: is_unreserved_def ascii_defs)
    then show ?thesis using True Cons.IH
      by (simp add: percent_encode_Cons percent_byte_def percent_bytes_plain)
  next
    case False
    let ?h = "of_char c div 16 :: nat" and ?l = "of_char c mod 16 :: nat"
    have small: "?h < 16" "?l < 16" by (simp_all add: div_less_iff_less_mult)
    have plain: "is_ascii_alphanumeric (upper_hex ?h)" using small(1) by (rule upper_hex_plain)
    then have "upper_hex ?h \<noteq> CHR ''+''" "\<not> continuation_byte (upper_hex ?h)"
      using unreserved_ascii [of "upper_hex ?h"] by (auto simp: is_unreserved_def ascii_defs)
    moreover have "\<not> (case percent_encode s of [] \<Rightarrow> False | d # _ \<Rightarrow> continuation_byte d)"
      using encoded_not_continuation [of _ s] by (auto split: list.splits)
    moreover have "16 * ?h + ?l = of_char c" by simp
    ultimately show ?thesis using False Cons.IH small
      by (simp add: percent_encode_Cons percent_byte_def parse_hex_byte_def upper_hex_digit)
  qed
qed simp

lemma percent_round_trip: "utf8_valid s \<Longrightarrow> percent_decode (percent_encode s) = Some s"
  by (simp add: percent_decode_def)

end
