(* ===== verification/Extractor.thy ===== *)
theory Extractor
  imports PyHost PercentCoding
begin

text \<open>
  Reading a document into a snapshot (\<^verbatim>\<open>freecad-extension/src/extractor.rs\<close>).  Every function takes the
  host and the world it reads; the snapshot it returns is the JSON document sent to the sidecar.
\<close>

section \<open>References\<close>

definition bridge_ref :: "string \<Rightarrow> string \<Rightarrow> string \<Rightarrow> string \<Rightarrow> string" where
  "bridge_ref session document path r =
     ''fc://session/'' @ percent_encode session @ ''/document/'' @ percent_encode document @ ''/''
     @ join_with ''/'' (map percent_encode (split_on (CHR ''/'') path)) @ ''@'' @ r"

definition object_path :: "string \<Rightarrow> string" where
  "object_path name = ''object/'' @ name"

definition part_path :: "string \<Rightarrow> string \<Rightarrow> nat \<Rightarrow> string" where
  "part_path name kind index = ''object/'' @ name @ ''/'' @ kind @ ''/'' @ show_nat index"

definition subelement_kind :: "string \<Rightarrow> (string \<times> string) option" where
  "subelement_kind v =
     (case strip_prefix ''Face'' v of Some number \<Rightarrow> Some (''face'', number) | None \<Rightarrow>
      case strip_prefix ''Edge'' v of Some number \<Rightarrow> Some (''edge'', number) | None \<Rightarrow>
      case strip_prefix ''Vertex'' v of Some number \<Rightarrow> Some (''vertex'', number) | None \<Rightarrow>
      case strip_prefix ''Constraint'' v of Some number \<Rightarrow> Some (''constraint'', number) | None \<Rightarrow> None)"

section \<open>Documents\<close>

definition find_document :: "('w, 'o) python \<Rightarrow> 'w \<Rightarrow> 'o \<Rightarrow> string \<Rightarrow> 'o option" where
  "find_document P w app name =
     (case Option.bind (Option.bind (attr P w app ''Documents'') (py_items P w))
             (find (\<lambda>(key, _). string_of P w key = Some name)) of
        Some (_, document) \<Rightarrow> not_none P w (Some document)
      | None \<Rightarrow> None)"

definition extract_document :: "('w, 'o) python \<Rightarrow> 'w \<Rightarrow> 'o \<Rightarrow> string option \<Rightarrow> 'o option" where
  "extract_document P w app name = (case name of
       Some name \<Rightarrow>
         (case find_document P w app name of
            Some document \<Rightarrow> Some document
          | None \<Rightarrow> not_none P w (call1 P w app ''getDocument'' (py_make P (PyStr name))))
     | None \<Rightarrow> not_none P w (attr P w app ''ActiveDocument''))"

definition dict_names :: "('w, 'o) python \<Rightarrow> 'w \<Rightarrow> 'o \<Rightarrow> string list option" where
  "dict_names P w v = map_option (\<lambda>items. List.map_filter (\<lambda>(key, _). string_of P w key) items) (py_items P w v)"

definition extract_documents :: "('w, 'o) python \<Rightarrow> 'w \<Rightarrow> 'o \<Rightarrow> string list" where
  "extract_documents P w app =
     (case Option.bind (attr P w app ''Documents'') (dict_names P w) of
        Some names \<Rightarrow> names
      | None \<Rightarrow>
          (case call0 P w app ''listDocuments'' of
             None \<Rightarrow> []
           | Some documents \<Rightarrow>
               (case dict_names P w documents of
                  Some names \<Rightarrow> names
                | None \<Rightarrow> List.map_filter (\<lambda>document. case string_of P w document of
                      Some name \<Rightarrow> Some name | None \<Rightarrow> string_attr P w document ''Name'')
                    (list_from_value P w documents))))"

definition active_workbench :: "('w, 'o) python \<Rightarrow> 'w \<Rightarrow> 'o option \<Rightarrow> string option" where
  "active_workbench P w gui =
     Option.bind (Option.bind gui (\<lambda>gui. call0 P w gui ''activeWorkbench'')) (string_of P w)"

section \<open>Shapes\<close>

definition extract_bounds :: "('w, 'o) python \<Rightarrow> 'w \<Rightarrow> 'o \<Rightarrow> json option" where
  "extract_bounds P w v =
     Option.bind (vector_of P w v (''XMin'', ''YMin'', ''ZMin'')) (\<lambda>lower.
     Option.bind (vector_of P w v (''XMax'', ''YMax'', ''ZMax'')) (\<lambda>upper.
     Some (jobj [(''min'', lower), (''max'', upper), (''frame'', JStr ''world'')])))"

definition bounds_attr :: "('w, 'o) python \<Rightarrow> 'w \<Rightarrow> 'o \<Rightarrow> json option" where
  "bounds_attr P w v = Option.bind (attr P w v ''BoundBox'') (extract_bounds P w)"

abbreviation json_or_null :: "json option \<Rightarrow> json" where
  "json_or_null m \<equiv> (case m of None \<Rightarrow> JNull | Some v \<Rightarrow> v)"

definition some_member :: "string \<Rightarrow> json option \<Rightarrow> (string \<times> json) list" where
  "some_member name m = (case m of None \<Rightarrow> [] | Some v \<Rightarrow> [(name, v)])"

definition shape_properties :: "('w, 'o) python \<Rightarrow> 'w \<Rightarrow> 'o \<Rightarrow> json \<Rightarrow> json" where
  "shape_properties P w shape topology = jobj
     ([(''valid'', JBool (or_default True (Option.bind (call0 P w shape ''isValid'') (bool_of P w)))),
       (''shape_type'', JStr (or_default [] (string_attr P w shape ''ShapeType''))),
       (''topology'', topology)]
      @ some_member ''volume'' (map_option json_of_f64 (number_attr P w shape ''Volume''))
      @ some_member ''area'' (map_option json_of_f64 (number_attr P w shape ''Area''))
      @ some_member ''length'' (map_option json_of_f64 (number_attr P w shape ''Length''))
      @ some_member ''center_of_mass'' (Option.bind (attr P w shape ''CenterOfMass'') (vector P w)))"

definition shape_summary :: "('w, 'o) python \<Rightarrow> 'w \<Rightarrow> 'o \<Rightarrow> json option" where
  "shape_summary P w shape =
     (if or_default False (Option.bind (call0 P w shape ''isNull'') (bool_of P w)) then None
      else let topology = jobj (map (\<lambda>(attribute, output_name).
                 (output_name, json_of_nat (length (list_attr P w shape attribute))))
               [(''Vertexes'', ''vertexes''), (''Edges'', ''edges''), (''Wires'', ''wires''),
                (''Faces'', ''faces''), (''Shells'', ''shells''), (''Solids'', ''solids''),
                (''CompSolids'', ''compsolids'')]);
               properties = shape_properties P w shape topology in
           Some (jobj
             [(''bounds'', json_or_null (bounds_attr P w shape)),
              (''properties'', properties),
              (''shape'', jobj
                 [(''shape_type'', JStr (or_default [] (string_attr P w shape ''ShapeType''))),
                  (''topology'', topology), (''geometry_type'', JNull), (''exact'', JBool True),
                  (''properties'', properties)])]))"

text \<open>The members every entity has.\<close>

definition entity_source :: "string option \<Rightarrow> string option \<Rightarrow> string \<Rightarrow> string option \<Rightarrow> json" where
  "entity_source object subelement extractor digest = jobj
     [(''object'', json_of_option JStr object), (''subelement'', json_of_option JStr subelement),
      (''extractor'', JStr extractor), (''kernel_tolerance'', JNull),
      (''fingerprint'', json_of_option JStr digest)]"

definition exact_identity :: "string list \<Rightarrow> json" where
  "exact_identity signals = jobj
     [(''state'', JStr ''exact''), (''confidence'', JNum (Float 1)), (''signals'', json_of_list JStr signals)]"

definition extracted_entity ::
  "string \<Rightarrow> string \<Rightarrow> string \<Rightarrow> json \<Rightarrow> string \<Rightarrow> json \<Rightarrow> json \<Rightarrow> json \<Rightarrow> json \<Rightarrow> json list \<Rightarrow> json \<Rightarrow> json \<Rightarrow> json" where
  "extracted_entity reference kind name label frame units source identity properties links bounds shape = jobj
     [(''ref'', JStr reference), (''kind'', JStr kind), (''name'', JStr name), (''label'', label),
      (''frame'', JStr frame), (''units'', units), (''source'', source), (''identity'', identity),
      (''properties'', properties), (''links'', JArr links), (''bounds'', bounds), (''shape'', shape)]"

definition extracted_link :: "string \<Rightarrow> string \<Rightarrow> json" where
  "extracted_link relation target = jobj [(''relation'', JStr relation), (''target'', JStr target)]"

definition digest_json :: "codec \<Rightarrow> json \<Rightarrow> string" where
  "digest_json C v = sha256_json C (json_text C) v"

definition edge_entity ::
  "codec \<Rightarrow> ('w, 'o) python \<Rightarrow> 'w \<Rightarrow> string \<Rightarrow> string \<Rightarrow> string \<Rightarrow> string \<Rightarrow> nat \<Rightarrow> 'o \<Rightarrow> json" where
  "edge_entity C P w session document object_name r index edge =
     extracted_entity (bridge_ref session document (part_path object_name ''edge'' index) r) ''cad.edge''
       (''Edge'' @ show_nat index) JNull ''world'' (jobj [])
       (entity_source (Some object_name) (Some (''Edge'' @ show_nat index)) ''freecad.part/1.0''
          (Some (digest_json C (jobj [(''object'', JStr object_name), (''edge'', json_of_nat index),
             (''length'', json_of_option json_of_f64 (number_attr P w edge ''Length''))]))))
       (exact_identity [''object_and_subelement''])
       (jobj [(''length'', json_of_f64 (or_default (Finite 0) (number_attr P w edge ''Length''))),
              (''curve_type'', json_of_option (\<lambda>curve. JStr (type_name P w curve)) (attr P w edge ''Curve''))])
       [] (json_or_null (bounds_attr P w edge)) JNull"

definition same_shape :: "('w, 'o) python \<Rightarrow> 'w \<Rightarrow> 'o \<Rightarrow> 'o \<Rightarrow> bool" where
  "same_shape P w a b = or_default False (Option.bind (call1 P w a ''isSame'' b) (bool_of P w))"

text \<open>The extent of a box along an axis; a coordinate that is missing counts as zero.\<close>

definition box_extent :: "json \<Rightarrow> string \<Rightarrow> f64" where
  "box_extent box axis =
     (let coordinate = (\<lambda>corner. or_default (Finite 0) (as_f64 (index_json axis (index_json corner box)))) in
      f64_abs (f64_sub (coordinate ''max'') (coordinate ''min'')))"

definition box_depth :: "json \<Rightarrow> f64" where
  "box_depth box = f64_max (f64_max (box_extent box ''x'') (box_extent box ''y'')) (box_extent box ''z'')"

definition face_geometry :: "('w, 'o) python \<Rightarrow> 'w \<Rightarrow> 'o \<Rightarrow> json" where
  "face_geometry P w face =
     (let surface = attr P w face ''Surface'';
          surface_type = map_option (type_name P w) surface in
      jobj
        ([(''surface_type'', json_of_option JStr surface_type)]
         @ (case surface of
              Some s \<Rightarrow>
                if surface_type = Some ''Cylinder'' \<or> surface_type = Some ''cylinder'' then
                  some_member ''radius'' (map_option json_of_f64 (number_attr P w s ''Radius''))
                  @ some_member ''axis'' (Option.bind (attr P w s ''Axis'') (vector P w))
                  @ some_member ''origin'' (Option.bind (attr P w s ''Center'') (vector P w))
                else []
            | None \<Rightarrow> [])
         @ some_member ''depth'' (map_option (\<lambda>box. json_of_f64 (box_depth box)) (bounds_attr P w face))))"

definition ascii_lower_char :: "char \<Rightarrow> char" where
  "ascii_lower_char c = (if is_ascii_upper c then char_of (of_char c + 32 :: nat) else c)"

definition ascii_lower :: "string \<Rightarrow> string" where
  "ascii_lower = map ascii_lower_char"

text \<open>\<^verbatim>\<open>enumerate\<close> from one, keeping the results there are.\<close>

definition numbered :: "'a list \<Rightarrow> (nat \<times> 'a) list" where
  "numbered xs = zip [1..<length xs + 1] xs"

definition face_entity ::
  "codec \<Rightarrow> ('w, 'o) python \<Rightarrow> 'w \<Rightarrow> string \<Rightarrow> string \<Rightarrow> string \<Rightarrow> string \<Rightarrow> 'o list \<Rightarrow> nat \<Rightarrow> 'o \<Rightarrow> json" where
  "face_entity C P w session document object_name r edges index face =
     (let surface_type = map_option (type_name P w) (attr P w face ''Surface'');
          geometry = face_geometry P w face;
          orientation = or_default ''Forward'' (string_attr P w face ''Orientation'');
          face_edges = list_attr P w face ''Edges'';
          box = bounds_attr P w face;
          bounded = List.map_filter (\<lambda>(k, candidate).
            if list_ex (same_shape P w candidate) face_edges
            then Some (extracted_link ''bounded_by''
                   (bridge_ref session document (part_path object_name ''edge'' k) r))
            else None) (numbered edges)
      in extracted_entity (bridge_ref session document (part_path object_name ''face'' index) r) ''cad.face''
           (''Face'' @ show_nat index) JNull ''world''
           (jobj [(''length'', JStr ''mm''), (''area'', JStr (''mm'' @ [CHR 0xC2, CHR 0xB2]))])
           (entity_source (Some object_name) (Some (''Face'' @ show_nat index)) ''freecad.part/1.0''
              (Some (digest_json C (jobj [(''object'', JStr object_name), (''face'', json_of_nat index),
                 (''surface'', json_of_option JStr surface_type), (''bounds'', json_or_null box)]))))
           (exact_identity [''object_and_subelement'', ''shape_fingerprint''])
           (jobj [(''geometry'', geometry),
                  (''semantic'', jobj
                     [(''orientation'', JStr (if ascii_lower orientation = ''reversed'' then ''interior'' else ''exterior'')),
                      (''openings'', JNum (Float (of_nat (min 2 (max 1 (length face_edges))))))]),
                  (''orientation'', JStr orientation),
                  (''area'', json_of_f64 (or_default (Finite 0) (number_attr P w face ''Area'')))])
           (extracted_link ''generated_by'' (bridge_ref session document (object_path object_name) r) # bounded)
           (json_or_null box)
           (jobj [(''shape_type'', JStr ''face''),
                  (''topology'', jobj [(''edges'', json_of_nat (length face_edges))]),
                  (''geometry_type'', json_of_option JStr surface_type), (''exact'', JBool True),
                  (''properties'', geometry)]))"

definition shape_entities ::
  "codec \<Rightarrow> ('w, 'o) python \<Rightarrow> 'w \<Rightarrow> string \<Rightarrow> string \<Rightarrow> string \<Rightarrow> string \<Rightarrow> 'o \<Rightarrow> json list" where
  "shape_entities C P w session document object_name r shape =
     (let edges = list_attr P w shape ''Edges'' in
      map (\<lambda>(k, edge). edge_entity C P w session document object_name r k edge) (numbered edges)
      @ map (\<lambda>(k, face). face_entity C P w session document object_name r edges k face)
          (numbered (list_attr P w shape ''Faces'')))"

section \<open>Sketches\<close>

definition is_sketch :: "('w, 'o) python \<Rightarrow> 'w \<Rightarrow> 'o \<Rightarrow> bool" where
  "is_sketch P w object \<longleftrightarrow>
     str_contains ''Sketcher::SketchObject'' (or_default [] (string_attr P w object ''TypeId''))"

definition constraint_entity ::
  "codec \<Rightarrow> ('w, 'o) python \<Rightarrow> 'w \<Rightarrow> string \<Rightarrow> string \<Rightarrow> string \<Rightarrow> 'o \<Rightarrow> string \<Rightarrow> nat \<Rightarrow> 'o \<Rightarrow> json" where
  "constraint_entity C P w session document r object object_name index constraint =
     extracted_entity (bridge_ref session document (part_path object_name ''constraint'' index) r)
       ''sketch.constraint'' (''Constraint'' @ show_nat index) JNull ''sketch_local'' (jobj [])
       (entity_source (Some object_name) (Some (''Constraint'' @ show_nat index)) ''freecad.sketcher/1.0''
          (Some (digest_json C (jobj [(''object'', JStr object_name), (''constraint'', safe_value P w constraint)]))))
       (exact_identity [''constraint_index_and_sketch''])
       (jobj [(''constraint_index'', json_of_nat index), (''constraint'', safe_value P w constraint),
              (''datum'', json_of_option (safe_value P w)
                 (call1 P w object ''Datum'' (py_make P (PyInt (int index)))))])
       [extracted_link ''constrains'' (bridge_ref session document (object_path object_name) r)] JNull JNull"

definition sketch_entities ::
  "codec \<Rightarrow> ('w, 'o) python \<Rightarrow> 'w \<Rightarrow> string \<Rightarrow> string \<Rightarrow> string \<Rightarrow> 'o \<Rightarrow> json list" where
  "sketch_entities C P w session document r object =
     (if \<not> is_sketch P w object then []
      else let object_name = or_default ''Sketch'' (string_attr P w object ''Name'');
               constraints = list_attr P w object ''Constraints'' in
           map (\<lambda>(k, constraint). constraint_entity C P w session document r object object_name k constraint)
             (zip [0..<length constraints] constraints)
           @ [extracted_entity (bridge_ref session document (object_path object_name) r @ ''/sketch'')
                ''sketch.sketch'' object_name (json_of_option JStr (string_attr P w object ''Label''))
                ''sketch_local'' (jobj [])
                (entity_source (string_attr P w object ''Name'') None ''freecad.sketcher/1.0'' None)
                (exact_identity [''sketch_internal_name''])
                (jobj [(''solver'', json_of_option (safe_value P w) (attr P w object ''SolverMessages'')),
                       (''constraint_count'', json_of_nat (length constraints)),
                       (''geometry_count'', json_of_nat (length (list_attr P w object ''Geometry'')))])
                [extracted_link ''contained_by'' (bridge_ref session document ''document'' r)] JNull JNull])"

section \<open>Objects\<close>

definition plain_property :: "string \<Rightarrow> bool" where
  "plain_property name \<longleftrightarrow> \<not> starts_with ''_'' name \<and> name \<noteq> ''Shape'' \<and> name \<noteq> ''Proxy''"

definition object_properties :: "('w, 'o) python \<Rightarrow> 'w \<Rightarrow> 'o \<Rightarrow> json" where
  "object_properties P w object = jobj
     ([(''type_id'', JStr (or_default [] (string_attr P w object ''TypeId''))),
       (''visible'', JBool (or_default True
          (Option.bind (attr P w object ''ViewObject'') (\<lambda>view. bool_attr P w view ''Visibility''))))]
      @ map (\<lambda>name. (name, case attr P w object name of
               Some v \<Rightarrow> safe_value P w v
             | None \<Rightarrow> jobj [(''unsupported'', JStr ''unavailable'')]))
          (filter plain_property
            (List.map_filter (string_of P w) (list_attr P w object ''PropertiesList''))))"

text \<open>\<^verbatim>\<open>extend\<close> of an object by the members of another.\<close>

fun json_extend :: "json \<Rightarrow> json option \<Rightarrow> json" where
  "json_extend (JObj kvs) (Some (JObj others)) = JObj (bm_extend kvs others)"
| "json_extend v _ = v"

definition object_entity ::
  "codec \<Rightarrow> ('w, 'o) python \<Rightarrow> 'w \<Rightarrow> string \<Rightarrow> string \<Rightarrow> string \<Rightarrow> (string, string) bmap \<Rightarrow> 'o \<Rightarrow> json" where
  "object_entity C P w session document r object_refs object =
     (let name = or_default ''Object'' (string_attr P w object ''Name'');
          dependencies = List.map_filter (bm_get object_refs)
            (List.map_filter (\<lambda>dependency. string_attr P w dependency ''Name'')
               (list_attr P w object ''OutList''));
          summary = Option.bind (attr P w object ''Shape'') (shape_summary P w);
          type_id = string_attr P w object ''TypeId'' in
      extracted_entity
        (or_default (bridge_ref session document (object_path name) r) (bm_get object_refs name))
        (or_default ''cad.object'' type_id) name (json_of_option JStr (string_attr P w object ''Label''))
        ''world'' (jobj [])
        (entity_source (string_attr P w object ''Name'') None ''freecad.core/1.0''
           (Some (digest_json C (jobj [(''name'', JStr name), (''type'', json_of_option JStr type_id),
              (''shape'', json_or_null summary)]))))
        (exact_identity [''freecad_internal_name''])
        (json_extend (object_properties P w object) (Option.bind summary (jget ''properties'')))
        (extracted_link ''contained_by'' (bridge_ref session document ''document'' r)
           # map (extracted_link ''depends_on'') dependencies)
        (json_or_null (Option.bind summary (jget ''bounds'')))
        (json_or_null (Option.bind summary (jget ''shape''))))"

definition document_entity ::
  "('w, 'o) python \<Rightarrow> 'w \<Rightarrow> string \<Rightarrow> string \<Rightarrow> string \<Rightarrow> 'o \<Rightarrow> nat \<Rightarrow> json" where
  "document_entity P w session name r document objects =
     extracted_entity (bridge_ref session name ''document'' r) ''cad.document'' name
       (JStr (or_default name (string_attr P w document ''Label''))) ''world'' (jobj [])
       (entity_source None None ''freecad.core/1.0'' None) (exact_identity [''document_name''])
       (jobj [(''recompute'', JStr ''ok''), (''object_count'', json_of_nat objects)]) [] JNull JNull"

definition object_references ::
  "('w, 'o) python \<Rightarrow> 'w \<Rightarrow> string \<Rightarrow> string \<Rightarrow> string \<Rightarrow> 'o list \<Rightarrow> (string, string) bmap" where
  "object_references P w session document r objects = bm_collect (map (\<lambda>(k, object).
     let name = or_default (''Object'' @ show_nat k) (string_attr P w object ''Name'') in
     (name, bridge_ref session document (object_path name) r)) (zip [0..<length objects] objects))"

section \<open>Adjacency\<close>

definition push_value :: "string \<Rightarrow> 'a \<Rightarrow> (string, 'a list) bmap \<Rightarrow> (string, 'a list) bmap" where
  "push_value key v m = bm_insert key (or_default [] (bm_get m key) @ [v]) m"

text \<open>The faces at each edge, in the order of the entities.\<close>

definition face_edges :: "json \<Rightarrow> (string \<times> string) list" where
  "face_edges entity =
     (if str_at ''kind'' entity \<noteq> Some ''cad.face'' then []
      else case str_at ''ref'' entity of
          None \<Rightarrow> []
        | Some reference \<Rightarrow>
            map (\<lambda>target. (target, reference)) (List.map_filter (str_at ''target'')
              (filter (\<lambda>link. str_at ''relation'' link = Some ''bounded_by'') (json_array ''links'' entity))))"

definition edge_faces :: "json list \<Rightarrow> (string, string list) bmap" where
  "edge_faces entities =
     foldl (\<lambda>m (edge, face). push_value edge face m) [] (concat (map face_edges entities))"

definition neighbours_at :: "string list \<Rightarrow> (string \<times> string) list" where
  "neighbours_at faces =
     concat (map (\<lambda>source. map (Pair source) (filter (\<lambda>target. source \<noteq> target) faces)) faces)"

text \<open>The lists are filled edge by edge, in the order a hash map lists the edges.\<close>

definition adjacency :: "(string list \<Rightarrow> string list) \<Rightarrow> json list \<Rightarrow> (string, string list) bmap" where
  "adjacency order entities =
     (let at_edge = edge_faces entities in
      foldl (\<lambda>m (source, target). push_value source target m) []
        (concat (map (\<lambda>edge. neighbours_at (or_default [] (bm_get at_edge edge))) (order (bm_keys at_edge)))))"

fun extend_array :: "json list \<Rightarrow> json \<Rightarrow> json" where
  "extend_array added (JArr vs) = JArr (vs @ added)"
| "extend_array added v = v"

definition add_adjacency :: "(string list \<Rightarrow> string list) \<Rightarrow> json list \<Rightarrow> json list" where
  "add_adjacency order entities =
     (let m = adjacency order entities in
      map (\<lambda>entity. case Option.bind (str_at ''ref'' entity) (bm_get m) of
             None \<Rightarrow> entity
           | Some targets \<Rightarrow> json_map_member ''links''
               (extend_array (map (extracted_link ''adjacent_to'') targets)) entity) entities)"

definition document_entities ::
  "codec \<Rightarrow> ('w, 'o) python \<Rightarrow> 'w \<Rightarrow> (string list \<Rightarrow> string list) \<Rightarrow> string \<Rightarrow> 'o \<Rightarrow> string \<Rightarrow> string \<Rightarrow> json list" where
  "document_entities C P w order session document name r =
     (let objects = list_attr P w document ''Objects'';
          object_refs = object_references P w session name r objects in
      add_adjacency order
        (document_entity P w session name r document (length objects)
         # concat (map (\<lambda>object.
             object_entity C P w session name r object_refs object
             # (case attr P w object ''Shape'' of
                  None \<Rightarrow> []
                | Some shape \<Rightarrow> shape_entities C P w session name
                    (or_default ''Object'' (string_attr P w object ''Name'')) r shape)
             @ sketch_entities C P w session name r object) objects)))"

section \<open>The snapshot\<close>

definition reports_error :: "('w, 'o) python \<Rightarrow> 'w \<Rightarrow> 'o \<Rightarrow> bool" where
  "reports_error P w object \<longleftrightarrow>
     list_ex (\<lambda>state. string_of P w state = Some ''Error'') (list_attr P w object ''State'')"

definition document_diagnostics :: "('w, 'o) python \<Rightarrow> 'w \<Rightarrow> 'o \<Rightarrow> json list \<Rightarrow> json list" where
  "document_diagnostics P w document entities =
     map (\<lambda>object.
       let name = or_default ''object'' (string_attr P w object ''Name'') in
       jobj [(''code'', JStr ''recompute_error''), (''severity'', JStr ''error''),
             (''message'', JStr (name @ '' reports an error'')),
             (''entity'', json_or_null (Option.bind
                (find (\<lambda>entity. str_at ''name'' entity = Some name) entities) (jget ''ref''))),
             (''retryable'', JBool False), (''evidence'', JArr [])])
       (filter (reports_error P w) (list_attr P w document ''Objects''))"

definition selected_items ::
  "('w, 'o) python \<Rightarrow> 'w \<Rightarrow> string \<Rightarrow> string \<Rightarrow> string \<Rightarrow> nat \<Rightarrow> 'o \<Rightarrow> json list" where
  "selected_items P w session document r index item =
     (case Option.bind (attr P w item ''Object'') (\<lambda>object. string_attr P w object ''Name'') of
        None \<Rightarrow> []
      | Some name \<Rightarrow>
          let names = List.map_filter (string_of P w) (list_attr P w item ''SubElementNames'') in
          map (\<lambda>subelement. jobj
            [(''ref'', JStr (bridge_ref session document
                (case subelement_kind subelement of
                   Some (kind, number) \<Rightarrow> ''object/'' @ name @ ''/'' @ kind @ ''/'' @ number
                 | None \<Rightarrow> object_path name) r)),
             (''selection_index'', json_of_nat index),
             (''subelement'', if subelement = [] then JNull else JStr subelement),
             (''source'', JStr ''Gui.Selection'')])
            (if names = [] then [[]] else names))"

definition extract_selection ::
  "('w, 'o) python \<Rightarrow> 'w \<Rightarrow> 'o option \<Rightarrow> string \<Rightarrow> string \<Rightarrow> string \<Rightarrow> json list" where
  "extract_selection P w gui session document r =
     (case Option.bind gui (\<lambda>gui. attr P w gui ''Selection'') of
        None \<Rightarrow> []
      | Some selection \<Rightarrow>
          let selected = (case call0 P w selection ''getSelectionEx'' of
                None \<Rightarrow> [] | Some v \<Rightarrow> list_from_value P w v) in
          concat (map (\<lambda>(k, item). selected_items P w session document r k item)
            (zip [0..<length selected] selected)))"

definition active_edit ::
  "('w, 'o) python \<Rightarrow> 'w \<Rightarrow> 'o option \<Rightarrow> string \<Rightarrow> string \<Rightarrow> string \<Rightarrow> json option" where
  "active_edit P w gui session document r =
     map_option (\<lambda>name. JStr (bridge_ref session document (object_path name) r))
       (Option.bind (not_none P w
          (Option.bind (Option.bind gui (\<lambda>gui. attr P w gui ''ActiveDocument''))
             (\<lambda>active. call0 P w active ''getInEdit'')))
          (\<lambda>edit. string_attr P w edit ''Name''))"

definition shown_object :: "('w, 'o) python \<Rightarrow> 'w \<Rightarrow> 'o \<Rightarrow> bool" where
  "shown_object P w object =
     or_default False (Option.bind (attr P w object ''ViewObject'') (\<lambda>view. bool_attr P w view ''Visibility''))"

text \<open>The names of camera types are ASCII, so lowering the letters of ASCII is enough.\<close>

definition extract_view ::
  "('w, 'o) python \<Rightarrow> 'w \<Rightarrow> nat \<Rightarrow> 'o \<Rightarrow> 'o option \<Rightarrow> string \<Rightarrow> string \<Rightarrow> string \<Rightarrow> json option" where
  "extract_view P w now app gui session document r =
     map_option (\<lambda>view.
       let camera = call0 P w view ''getCameraNode'';
           camera_value = (\<lambda>name. Option.bind (Option.bind camera (\<lambda>c. attr P w c name))
              (\<lambda>v. call0 P w v ''getValue''));
           objects = filter (\<lambda>object. string_attr P w object ''Name'' \<noteq> None)
             (case extract_document P w app (Some document) of
                None \<Rightarrow> [] | Some d \<Rightarrow> list_attr P w d ''Objects'');
           reference = (\<lambda>object. JStr (bridge_ref session document
             (object_path (or_default [] (string_attr P w object ''Name''))) r)) in
       jobj
         [(''view_id'', JStr (session @ '':'' @ document @ '':view'')),
          (''projection'', JStr (ascii_lower (or_default ''perspective''
             (Option.bind (call0 P w view ''getCameraType'') (string_of P w))))),
          (''camera_position'', json_or_null (Option.bind (camera_value ''position'') (vector P w))),
          (''camera_orientation'', json_of_option (safe_value P w) (camera_value ''orientation'')),
          (''look_direction'', JNull), (''up_direction'', JNull), (''target'', JNull),
          (''field_of_view_deg'', json_of_option json_of_f64
             (Option.bind (call0 P w view ''getCameraFOV'') (f64_of P w))),
          (''orthographic_scale'', json_of_option json_of_f64
             (Option.bind (call0 P w view ''getCameraHeight'') (f64_of P w))),
          (''clipping'', JNull), (''viewport'', JNull),
          (''visible_objects'', JArr (map reference (filter (shown_object P w) objects))),
          (''hidden_objects'', JArr (map reference (filter (\<lambda>object. \<not> shown_object P w object) objects))),
          (''section_planes'', JArr []), (''timestamp_ms'', json_of_nat now), (''revision'', JStr r)])
       (Option.bind (Option.bind gui (\<lambda>gui. attr P w gui ''ActiveDocument''))
          (\<lambda>active. attr P w active ''ActiveView''))"

definition no_document_snapshot ::
  "('w, 'o) python \<Rightarrow> 'w \<Rightarrow> 'o option \<Rightarrow> string \<Rightarrow> revision \<Rightarrow> json" where
  "no_document_snapshot P w gui session r = jobj
     [(''schema_version'', JStr ''bridge-dto/1.0''), (''session'', JStr session),
      (''session_epoch'', JStr (rev_epoch r)), (''document'', JStr []), (''document_label'', JNull),
      (''revision'', json_of_revision r),
      (''active_workbench'', json_of_option JStr (active_workbench P w gui)),
      (''gui_mode'', JBool (gui \<noteq> None)), (''active_object'', JNull), (''active_edit'', JNull),
      (''selection'', JArr []), (''view'', JNull), (''entities'', JArr []),
      (''diagnostics'', JArr [jobj
         [(''code'', JStr ''document_not_found''), (''severity'', JStr ''warning''),
          (''message'', JStr ''No open FreeCAD document''), (''entity'', JNull),
          (''retryable'', JBool True), (''evidence'', JArr [])]]),
      (''metadata'', jobj [])]"

definition extract_snapshot ::
  "codec \<Rightarrow> ('w, 'o) python \<Rightarrow> 'o \<Rightarrow> 'o option \<Rightarrow> 'w \<Rightarrow> snapshot_env \<Rightarrow> string \<Rightarrow> revision \<Rightarrow> string option \<Rightarrow> json" where
  "extract_snapshot C P app gui w E session r document_name =
     (case extract_document P w app document_name of
        None \<Rightarrow> no_document_snapshot P w gui session r
      | Some document \<Rightarrow>
          let id = revision_id r;
              name = or_default [] (string_attr P w document ''Name'');
              entities = document_entities C P w (se_order E) session document name id;
              selection = extract_selection P w gui session name id in
          jobj
            [(''schema_version'', JStr ''bridge-dto/1.0''), (''session'', JStr session),
             (''session_epoch'', JStr (rev_epoch r)), (''document'', JStr name),
             (''document_label'', JStr (or_default name (string_attr P w document ''Label''))),
             (''revision'', json_of_revision r),
             (''active_workbench'', json_of_option JStr (active_workbench P w gui)),
             (''gui_mode'', JBool (gui \<noteq> None)),
             (''active_object'', json_or_null (case selection of [] \<Rightarrow> None | item # _ \<Rightarrow> jget ''ref'' item)),
             (''active_edit'', json_or_null (active_edit P w gui session name id)),
             (''selection'', JArr selection),
             (''view'', json_or_null (extract_view P w (se_now E) app gui session name id)),
             (''diagnostics'', JArr (document_diagnostics P w document entities)),
             (''entities'', JArr entities),
             (''metadata'', jobj [(''source'', JStr ''FreeCAD main thread''),
                (''extractor'', JStr ''freecad.rust/1.0'')])])"

end
