(* ===== verification/Executor.thy ===== *)
theory Executor
  imports Extractor
begin

text \<open>
  Changing a document (\<^verbatim>\<open>freecad-extension/src/executor.rs\<close>): the operations of a change set, the
  validation after them, and the transaction around them.  The state of a step is the world and the
  observer callbacks so far.  Decoding a reference may panic, which unwinds through the transaction.
\<close>

section \<open>Steps\<close>

record operation_result =
  or_changed :: "string list"
  or_checks :: "json list"

datatype exec_error = ExecFault string | ExecPanic

type_synonym 'w exec_state = "'w \<times> observed list"

type_synonym ('a, 'w) exec = "('a, exec_error, 'w exec_state) effect"

definition exec_call :: "('w, 'o) python \<Rightarrow> 'o \<Rightarrow> 'o list \<Rightarrow> ('o, 'w) exec" where
  "exec_call P f arguments = (\<lambda>(w, seen). case py_call P w f arguments of
     (r, w', now) \<Rightarrow> (map_err ExecFault r, (w', seen @ now)))"

definition exec_setattr :: "('w, 'o) python \<Rightarrow> 'o \<Rightarrow> string \<Rightarrow> 'o \<Rightarrow> (unit, 'w) exec" where
  "exec_setattr P object name v = (\<lambda>(w, seen). case py_setattr P w object name v of
     (r, w', now) \<Rightarrow> (map_err ExecFault r, (w', seen @ now)))"

definition exec_read :: "('w \<Rightarrow> ('a, exec_error) result) \<Rightarrow> ('a, 'w) exec" where
  "exec_read f = eff_read (\<lambda>(w, _). f w)"

definition needed :: "string \<Rightarrow> 'a option \<Rightarrow> ('a, exec_error) result" where
  "needed message m = ok_or m (ExecFault message)"

definition exec_attr :: "('w, 'o) python \<Rightarrow> 'o \<Rightarrow> string \<Rightarrow> string \<Rightarrow> ('o, 'w) exec" where
  "exec_attr P object name message = exec_read (\<lambda>w. needed message (attr P w object name))"

text \<open>\<^verbatim>\<open>attr(..).ok_or(..)?.call(..)?\<close>\<close>

definition exec_method ::
  "('w, 'o) python \<Rightarrow> 'o \<Rightarrow> string \<Rightarrow> string \<Rightarrow> 'o list \<Rightarrow> ('o, 'w) exec" where
  "exec_method P object name message arguments =
     eff_bind (exec_attr P object name message) (\<lambda>f. exec_call P f arguments)"

section \<open>Reading the change set\<close>

definition property_name :: "string \<Rightarrow> (string, exec_error) result" where
  "property_name v =
     (if v = [] \<or> str_contains ''.'' v \<or> str_contains ''('' v \<or> str_contains ''__'' v
      then Err (ExecFault ''property names must be declared, simple identifiers'') else Ok v)"

definition parameter_number :: "json \<Rightarrow> (f64, exec_error) result" where
  "parameter_number v =
     res_bind (needed ''parameter must be a number''
       (as_f64 (case jget ''value'' v of Some inner \<Rightarrow> inner | None \<Rightarrow> v))) (\<lambda>number.
     if \<not> is_finite number \<or> f64_lt number (Finite 0)
     then Err (ExecFault ''parameter must be a non-negative finite number'') else Ok number)"

text \<open>\<^verbatim>\<open>str::parse::<i32>\<close>: an optional sign, then digits, in range.\<close>

definition parse_i32 :: "string \<Rightarrow> int option" where
  "parse_i32 s =
     (let negative = (case s of c # _ \<Rightarrow> c = CHR ''-'' | [] \<Rightarrow> False);
          ds = (case s of c # cs \<Rightarrow> if c = CHR ''-'' \<or> c = CHR ''+'' then cs else s | [] \<Rightarrow> []);
          v = (if negative then - int (dec_value ds) else int (dec_value ds)) in
      if ds \<noteq> [] \<and> list_all is_ascii_digit ds \<and> - 2147483648 \<le> v \<and> v \<le> 2147483647 then Some v else None)"

fun part_after :: "string \<Rightarrow> string list \<Rightarrow> string option" where
  "part_after kind [] = None"
| "part_after kind (part # parts) =
     (if part = kind then (case parts of [] \<Rightarrow> None | next_part # _ \<Rightarrow> Some next_part)
      else part_after kind parts)"

definition subelement_index :: "string list \<Rightarrow> string \<Rightarrow> (int, exec_error) result" where
  "subelement_index parts kind =
     needed (''reference has no numeric '' @ kind @ '' index'') (Option.bind (part_after kind parts) parse_i32)"

text \<open>Only called for the four ASCII words below.\<close>

definition capitalize :: "string \<Rightarrow> string" where
  "capitalize s = (case s of [] \<Rightarrow> []
     | c # cs \<Rightarrow> (if is_ascii_lower c then char_of (of_char c - 32 :: nat) else c) # cs)"

definition subelement_name :: "string list \<Rightarrow> string option" where
  "subelement_name parts = (case parts of
       kind # number # _ \<Rightarrow>
         if kind \<in> {''face'', ''edge'', ''vertex'', ''constraint''} then Some (capitalize kind @ number) else None
     | _ \<Rightarrow> None)"

section \<open>References\<close>

text \<open>The parts of a reference after the first \<^verbatim>\<open>object\<close>.\<close>

fun after_object :: "string list \<Rightarrow> string list option" where
  "after_object [] = None"
| "after_object (part # parts) = (if part = ''object'' then Some parts else after_object parts)"

definition decoded :: "string \<Rightarrow> (string, exec_error) result" where
  "decoded s = ok_or (percent_decode s) ExecPanic"

text \<open>The name of the object a reference is to, and the decoded parts after it.\<close>

definition reference_parts :: "string \<Rightarrow> (string \<times> string list, exec_error) result" where
  "reference_parts reference =
     res_bind (ensure (starts_with ''fc://'' reference)
                 (ExecFault ''target must be an opaque fc:// reference'')) (\<lambda>_.
     res_bind (needed ''reference does not identify an object''
                 (after_object (split_on (CHR ''/'') (hd (split_on (CHR ''@'') reference))))) (\<lambda>parts.
     case parts of
       [] \<Rightarrow> Err (ExecFault ''reference has no object name'')
     | name # others \<Rightarrow>
         res_bind (decoded name) (\<lambda>name. Ok (name, others))))"

definition resolve ::
  "('w, 'o) python \<Rightarrow> 'o \<Rightarrow> string \<Rightarrow> 'w \<Rightarrow> ('o \<times> string list, exec_error) result" where
  "resolve P document reference w =
     res_bind (reference_parts reference) (\<lambda>(name, others).
     res_bind (needed (''object is not open: '' @ name)
                 (not_none P w (call1 P w document ''getObject'' (py_make P (PyStr name))))) (\<lambda>object.
     res_bind (res_map decoded others) (\<lambda>parts. Ok (object, parts))))"

definition target_object ::
  "('w, 'o) python \<Rightarrow> 'o \<Rightarrow> string \<Rightarrow> json \<Rightarrow> ('o \<times> string list, 'w) exec" where
  "target_object P document key operation =
     eff_bind (eff_lift (needed (key @ '' is required'') (str_at key operation))) (\<lambda>reference.
     exec_read (resolve P document reference))"

definition declared_property :: "('w, 'o) python \<Rightarrow> 'o \<Rightarrow> string \<Rightarrow> (unit, 'w) exec" where
  "declared_property P object property = exec_read (\<lambda>w.
     ensure (property \<in> set (List.map_filter (string_of P w) (list_attr P w object ''PropertiesList'')))
       (ExecFault (''property is not declared on the target: '' @ property)))"

section \<open>Values\<close>

definition quantity_text :: "('w, 'o) python \<Rightarrow> json \<Rightarrow> string \<Rightarrow> (string, exec_error) result" where
  "quantity_text P number unit =
     res_bind (needed ''quantity value must be numeric'' (as_f64 number)) (\<lambda>x.
     Ok (py_show_f64 P x @ '' '' @ unit))"

definition typed_value :: "('w, 'o) python \<Rightarrow> json \<Rightarrow> ('o, 'w) exec" where
  "typed_value P v =
     (case (jget ''value'' v, str_at ''unit'' v) of
        (Some number, Some unit) \<Rightarrow>
          eff_bind (exec_read (\<lambda>w. map_err ExecFault (py_import P w ''FreeCAD''))) (\<lambda>freecad.
          eff_bind (exec_attr P freecad ''Units'' ''FreeCAD.Units is unavailable'') (\<lambda>units.
          eff_bind (eff_lift (quantity_text P number unit)) (\<lambda>quantity.
          exec_method P units ''Quantity'' ''FreeCAD.Units.Quantity is unavailable''
            [py_make P (PyStr quantity)])))
      | _ \<Rightarrow>
          eff_bind (eff_lift (ensure (as_array v = None \<and> as_object v = None)
             (ExecFault ''complex property values require an adapter-specific operation''))) (\<lambda>_.
          eff_bind (eff_lift (ensure (case as_f64 v of Some x \<Rightarrow> is_finite x | None \<Rightarrow> True)
             (ExecFault ''numeric values must be finite''))) (\<lambda>_.
          eff_lift (Ok (to_python P v)))))"

section \<open>Operations\<close>

text \<open>Every operation returns the references or names it changed.\<close>

definition op_set_property :: "('w, 'o) python \<Rightarrow> 'o \<Rightarrow> json \<Rightarrow> (string list, 'w) exec" where
  "op_set_property P document operation =
     eff_bind (target_object P document ''target'' operation) (\<lambda>(object, _).
     eff_bind (eff_lift (property_name (str_or_empty ''property'' operation))) (\<lambda>property.
     eff_bind (declared_property P object property) (\<lambda>_.
     eff_bind (typed_value P (index_json ''value'' operation)) (\<lambda>v.
     eff_bind (exec_setattr P object property v) (\<lambda>_.
     eff_lift (Ok [str_or_empty ''target'' operation]))))))"

definition op_set_expression :: "('w, 'o) python \<Rightarrow> 'o \<Rightarrow> json \<Rightarrow> (string list, 'w) exec" where
  "op_set_expression P document operation =
     eff_bind (target_object P document ''target'' operation) (\<lambda>(object, _).
     eff_bind (eff_lift (property_name (str_or_empty ''property'' operation))) (\<lambda>property.
     eff_bind (declared_property P object property) (\<lambda>_.
     eff_bind (eff_lift (needed ''set_expression requires a string expression''
                           (str_at ''expression'' operation))) (\<lambda>expression.
     eff_bind (exec_method P object ''setExpression'' ''target does not support expressions''
                 [py_make P (PyStr property), py_make P (PyStr expression)]) (\<lambda>_.
     eff_lift (Ok [str_or_empty ''target'' operation]))))))"

definition op_sketch_set_datum :: "('w, 'o) python \<Rightarrow> 'o \<Rightarrow> json \<Rightarrow> (string list, 'w) exec" where
  "op_sketch_set_datum P document operation =
     eff_bind (target_object P document ''constraint'' operation) (\<lambda>(object, parts).
     eff_bind (exec_read (\<lambda>w. ensure (is_sketch P w object)
                 (ExecFault ''sketch.set_datum target is not a Sketcher object''))) (\<lambda>_.
     eff_bind (eff_lift (subelement_index parts ''constraint'')) (\<lambda>index.
     eff_bind (typed_value P (index_json ''value'' operation)) (\<lambda>v.
     eff_bind (exec_method P object ''setDatum'' ''sketch does not expose setDatum''
                 [py_make P (PyInt index), v]) (\<lambda>_.
     eff_lift (Ok [str_or_empty ''constraint'' operation]))))))"

definition op_set_visibility :: "('w, 'o) python \<Rightarrow> 'o \<Rightarrow> json \<Rightarrow> (string list, 'w) exec" where
  "op_set_visibility P document operation =
     eff_bind (target_object P document ''target'' operation) (\<lambda>(object, _).
     eff_bind (exec_attr P object ''ViewObject'' ''target has no view object'') (\<lambda>view.
     eff_bind (eff_lift (needed ''visible must be boolean''
                           (Option.bind (jget ''visible'' operation) as_bool))) (\<lambda>visible.
     eff_bind (exec_setattr P view ''Visibility'' (py_make P (PyBool visible))) (\<lambda>_.
     eff_lift (Ok [str_or_empty ''target'' operation])))))"

definition string_items :: "string \<Rightarrow> json \<Rightarrow> string list" where
  "string_items key v = List.map_filter as_str (json_array key v)"

definition selection_mode :: "json \<Rightarrow> (string, exec_error) result" where
  "selection_mode operation =
     (let mode = or_default ''replace'' (str_at ''mode'' operation) in
      if mode \<in> {''replace'', ''add'', ''remove''} then Ok mode
      else Err (ExecFault (''selection mode is not allowlisted: '' @ mode)))"

definition required_targets :: "json \<Rightarrow> (string list, exec_error) result" where
  "required_targets operation =
     res_bind (needed ''targets must be an array'' (Option.bind (jget ''targets'' operation) as_array))
       (\<lambda>targets. Ok (List.map_filter as_str targets))"

definition select_target ::
  "('w, 'o) python \<Rightarrow> 'o \<Rightarrow> 'o \<Rightarrow> string \<Rightarrow> string \<Rightarrow> (unit, 'w) exec" where
  "select_target P document selection mode reference =
     eff_bind (exec_read (resolve P document reference)) (\<lambda>(object, parts).
     eff_bind (exec_method P selection (if mode = ''remove'' then ''removeSelection'' else ''addSelection'')
                 ''selection API is unavailable''
                 (object # (case subelement_name parts of None \<Rightarrow> [] | Some s \<Rightarrow> [py_make P (PyStr s)])))
       (\<lambda>_. eff_lift (Ok ())))"

fun exec_each :: "('x \<Rightarrow> (unit, 'w) exec) \<Rightarrow> 'x list \<Rightarrow> (unit, 'w) exec" where
  "exec_each f [] = eff_lift (Ok ())"
| "exec_each f (x # xs) = eff_bind (f x) (\<lambda>_. exec_each f xs)"

definition op_set_selection ::
  "('w, 'o) python \<Rightarrow> 'o \<Rightarrow> 'o option \<Rightarrow> json \<Rightarrow> (string list, 'w) exec" where
  "op_set_selection P document gui operation =
     eff_bind (eff_lift (needed ''selection requires GUI mode'' gui)) (\<lambda>gui.
     eff_bind (exec_attr P gui ''Selection'' ''FreeCAD selection API is unavailable'') (\<lambda>selection.
     eff_bind (eff_lift (selection_mode operation)) (\<lambda>mode.
     eff_bind (if mode = ''replace''
               then eff_bind (exec_method P selection ''clearSelection'' ''selection API is unavailable'' [])
                      (\<lambda>_. eff_lift (Ok ()))
               else eff_lift (Ok ())) (\<lambda>_.
     eff_bind (eff_lift (required_targets operation)) (\<lambda>targets.
     eff_bind (exec_each (select_target P document selection mode) targets) (\<lambda>_.
     eff_lift (Ok targets)))))))"

definition view_method :: "string \<Rightarrow> (string, exec_error) result" where
  "view_method operation =
     (case map_of
        [(''fit_all'', ''fitAll''), (''view_axo'', ''viewAxonometric''), (''view_front'', ''viewFront''),
         (''view_rear'', ''viewRear''), (''view_left'', ''viewLeft''), (''view_right'', ''viewRight''),
         (''view_top'', ''viewTop''), (''view_bottom'', ''viewBottom'')] operation of
        Some name \<Rightarrow> Ok name
      | None \<Rightarrow> Err (ExecFault (''view operation is not allowlisted: '' @ operation)))"

text \<open>The method of the active view an operation is to call.\<close>

definition active_view_method ::
  "('w, 'o) python \<Rightarrow> 'o option \<Rightarrow> json \<Rightarrow> (string \<times> 'o, 'w) exec" where
  "active_view_method P gui operation =
     eff_bind (eff_lift (needed ''view requires GUI mode'' gui)) (\<lambda>gui.
     eff_bind (exec_attr P gui ''ActiveDocument'' ''active view is unavailable'') (\<lambda>active.
     eff_bind (exec_attr P active ''ActiveView'' ''active view is unavailable'') (\<lambda>view.
     eff_bind (eff_lift (needed ''view operation is required'' (str_at ''operation'' operation))) (\<lambda>name.
     eff_bind (eff_lift (view_method name)) (\<lambda>attribute.
     eff_bind (exec_attr P view attribute ''view operation is unavailable'') (\<lambda>f.
     eff_lift (Ok (name, f))))))))"

definition op_set_view :: "('w, 'o) python \<Rightarrow> 'o option \<Rightarrow> json \<Rightarrow> (string list, 'w) exec" where
  "op_set_view P gui operation =
     eff_bind (active_view_method P gui operation) (\<lambda>(name, f).
     eff_bind (exec_call P f []) (\<lambda>_. eff_lift (Ok [name])))"

definition parameter_at :: "json \<Rightarrow> string \<Rightarrow> (f64, exec_error) result" where
  "parameter_at parameters name =
     res_bind (needed (name @ '' is required'') (jget name parameters)) parameter_number"

definition primitive_shape :: "string \<Rightarrow> (string \<times> string list) option" where
  "primitive_shape primitive = map_of
     [(''box'', (''makeBox'', [''length'', ''width'', ''height''])),
      (''cylinder'', (''makeCylinder'', [''radius'', ''height''])),
      (''sphere'', (''makeSphere'', [''radius'']))] primitive"

definition make_shape :: "('w, 'o) python \<Rightarrow> 'o \<Rightarrow> string \<Rightarrow> json \<Rightarrow> ('o, 'w) exec" where
  "make_shape P part primitive parameters = (case primitive_shape primitive of
       None \<Rightarrow> eff_lift (Err (ExecFault (''primitive is not allowlisted: '' @ primitive)))
     | Some (attribute, names) \<Rightarrow>
         eff_bind (exec_attr P part attribute (''Part.'' @ attribute @ '' is unavailable'')) (\<lambda>f.
         eff_bind (eff_lift (res_map (parameter_at parameters) names)) (\<lambda>numbers.
         exec_call P f (map (\<lambda>x. py_make P (PyFloat x)) numbers))))"

definition new_object :: "('w, 'o) python \<Rightarrow> 'o \<Rightarrow> string \<Rightarrow> string \<Rightarrow> ('o, 'w) exec" where
  "new_object P document type_id name =
     exec_method P document ''addObject'' ''document object creation is unavailable''
       [py_make P (PyStr type_id), py_make P (PyStr name)]"

definition op_create_primitive ::
  "('w, 'o) python \<Rightarrow> 'o \<Rightarrow> 'o option \<Rightarrow> json \<Rightarrow> (string list, 'w) exec" where
  "op_create_primitive P document part operation =
     eff_bind (eff_lift (needed ''Part module is unavailable'' part)) (\<lambda>part.
     eff_bind (eff_lift (needed ''object is required'' (str_at ''object'' operation))) (\<lambda>name.
     eff_bind (eff_lift (needed ''primitive is required'' (str_at ''primitive'' operation))) (\<lambda>primitive.
     eff_bind (eff_lift (needed ''parameters are required''
        (case jget ''parameters'' operation of Some (JObj kvs) \<Rightarrow> Some (JObj kvs) | _ \<Rightarrow> None))) (\<lambda>parameters.
     eff_bind (make_shape P part primitive parameters) (\<lambda>shape.
     eff_bind (new_object P document ''Part::Feature'' name) (\<lambda>object.
     eff_bind (exec_setattr P object ''Shape'' shape) (\<lambda>_.
     eff_lift (Ok [name]))))))))"

definition created_kinds :: "string list" where
  "created_kinds = [''Part::Feature'', ''PartDesign::Feature'', ''PartDesign::Body'',
     ''PartDesign::FeaturePython'', ''Sketcher::SketchObject'']"

definition assign_property :: "('w, 'o) python \<Rightarrow> 'o \<Rightarrow> string \<times> json \<Rightarrow> (unit, 'w) exec" where
  "assign_property P object = (\<lambda>(name, v).
     eff_bind (declared_property P object name) (\<lambda>_.
     eff_bind (typed_value P v) (\<lambda>v. exec_setattr P object name v)))"

definition op_create_object :: "('w, 'o) python \<Rightarrow> 'o \<Rightarrow> json \<Rightarrow> (string list, 'w) exec" where
  "op_create_object P document operation =
     eff_bind (eff_lift (needed ''object is required'' (str_at ''object'' operation))) (\<lambda>name.
     eff_bind (eff_lift (needed ''kind is required'' (str_at ''kind'' operation))) (\<lambda>kind.
     eff_bind (eff_lift (ensure (kind \<in> set created_kinds)
                 (ExecFault (''object type is not allowlisted: '' @ kind)))) (\<lambda>_.
     eff_bind (new_object P document kind name) (\<lambda>object.
     eff_bind (exec_each (assign_property P object)
                 (case jget ''properties'' operation of Some (JObj kvs) \<Rightarrow> kvs | _ \<Rightarrow> [])) (\<lambda>_.
     eff_lift (Ok [name]))))))"

definition op_delete_object :: "('w, 'o) python \<Rightarrow> 'o \<Rightarrow> json \<Rightarrow> (string list, 'w) exec" where
  "op_delete_object P document operation =
     eff_bind (target_object P document ''target'' operation) (\<lambda>(object, _).
     eff_bind (exec_read (\<lambda>w. ensure (\<not> (or_default True (Option.bind (jget ''require_no_dependents'' operation) as_bool)
                                      \<and> list_attr P w object ''InList'' \<noteq> []))
                 (ExecFault ''delete would leave dependent objects''))) (\<lambda>_.
     eff_bind (exec_read (\<lambda>w. needed ''target has no internal name'' (string_attr P w object ''Name''))) (\<lambda>name.
     eff_bind (exec_method P document ''removeObject'' ''document deletion is unavailable''
                 [py_make P (PyStr name)]) (\<lambda>_.
     eff_lift (Ok [str_or_empty ''target'' operation])))))"

definition boolean_type :: "json \<Rightarrow> (string, exec_error) result" where
  "boolean_type operation = (case str_at ''operation'' operation of
       None \<Rightarrow> Err (ExecFault ''boolean operation is required'')
     | Some name \<Rightarrow>
         if name = ''cut'' then Ok ''Part::Cut''
         else if name = ''fuse'' then Ok ''Part::Fuse''
         else if name = ''common'' then Ok ''Part::MultiCommon''
         else Err (ExecFault (''boolean operation is not allowlisted: '' @ name)))"

text \<open>An object in a value made for Python.\<close>

definition py_handle :: "'o \<Rightarrow> 'o py_value" where
  "py_handle object = PyObject object None"

definition op_boolean :: "('w, 'o) python \<Rightarrow> 'o \<Rightarrow> json \<Rightarrow> (string list, 'w) exec" where
  "op_boolean P document operation =
     eff_bind (target_object P document ''left'' operation) (\<lambda>(left, _).
     eff_bind (target_object P document ''right'' operation) (\<lambda>(right, _).
     eff_bind (eff_lift (needed ''result is required'' (str_at ''result'' operation))) (\<lambda>name.
     eff_bind (eff_lift (boolean_type operation)) (\<lambda>type_id.
     eff_bind (new_object P document type_id name) (\<lambda>object.
     eff_bind (if type_id = ''Part::MultiCommon''
               then exec_setattr P object ''Shapes'' (py_make P (PyList [py_handle left, py_handle right]))
               else eff_bind (exec_setattr P object ''Base'' left)
                      (\<lambda>_. exec_setattr P object ''Tool'' right)) (\<lambda>_.
     eff_lift (Ok [name])))))))"

definition apply_bridge_operation ::
  "('w, 'o) python \<Rightarrow> 'o \<Rightarrow> 'o option \<Rightarrow> 'o option \<Rightarrow> json \<Rightarrow> (string list, 'w) exec" where
  "apply_bridge_operation P document gui part operation =
     eff_bind (eff_lift (needed ''typed operation requires op'' (str_at ''op'' operation))) (\<lambda>name.
     if name = ''set_property'' then op_set_property P document operation
     else if name = ''set_expression'' then op_set_expression P document operation
     else if name = ''sketch_set_datum'' then op_sketch_set_datum P document operation
     else if name = ''set_visibility'' then op_set_visibility P document operation
     else if name = ''set_selection'' then op_set_selection P document gui operation
     else if name = ''set_view'' then op_set_view P gui operation
     else if name = ''create_primitive'' then op_create_primitive P document part operation
     else if name = ''create_object'' then op_create_object P document operation
     else if name = ''delete_object'' then op_delete_object P document operation
     else if name = ''boolean'' then op_boolean P document operation
     else eff_lift (Err (ExecFault (''operation is not supported: '' @ name))))"

section \<open>Previews\<close>

text \<open>In a preview the operations on the user interface are only checked.\<close>

definition check_selection :: "('w, 'o) python \<Rightarrow> 'o \<Rightarrow> 'o option \<Rightarrow> json \<Rightarrow> (unit, 'w) exec" where
  "check_selection P document gui operation =
     eff_bind (eff_lift (needed ''selection requires GUI mode'' gui)) (\<lambda>gui.
     eff_bind (exec_attr P gui ''Selection'' ''FreeCAD selection API is unavailable'') (\<lambda>selection.
     eff_bind (eff_lift (selection_mode operation)) (\<lambda>mode.
     eff_bind (exec_attr P selection
                 (if mode = ''remove'' then ''removeSelection''
                  else if mode = ''replace'' then ''clearSelection'' else ''addSelection'')
                 ''FreeCAD selection API is unavailable'') (\<lambda>_.
     eff_bind (eff_lift (required_targets operation)) (\<lambda>targets.
     exec_each (\<lambda>reference. eff_bind (exec_read (resolve P document reference)) (\<lambda>_. eff_lift (Ok ())))
       targets)))))"

definition check_view :: "('w, 'o) python \<Rightarrow> 'o option \<Rightarrow> json \<Rightarrow> (unit, 'w) exec" where
  "check_view P gui operation =
     eff_bind (active_view_method P gui operation) (\<lambda>_. eff_lift (Ok ()))"

definition check_visibility :: "('w, 'o) python \<Rightarrow> 'o \<Rightarrow> json \<Rightarrow> (unit, 'w) exec" where
  "check_visibility P document operation =
     eff_bind (target_object P document ''target'' operation) (\<lambda>(object, _).
     eff_bind (exec_attr P object ''ViewObject'' ''target has no view object'') (\<lambda>_.
     eff_bind (eff_lift (needed ''visible must be boolean''
                           (Option.bind (jget ''visible'' operation) as_bool))) (\<lambda>_.
     eff_lift (Ok ()))))"

definition run_operation ::
  "('w, 'o) python \<Rightarrow> 'o \<Rightarrow> 'o option \<Rightarrow> 'o option \<Rightarrow> bool \<Rightarrow> json \<Rightarrow> (string list, 'w) exec" where
  "run_operation P document gui part commit operation =
     (let name = str_at ''op'' operation in
      if \<not> commit \<and> name = Some ''set_selection''
      then eff_bind (check_selection P document gui operation)
             (\<lambda>_. eff_lift (Ok (string_items ''targets'' operation)))
      else if \<not> commit \<and> name = Some ''set_view''
      then eff_bind (check_view P gui operation)
             (\<lambda>_. eff_lift (Ok [str_or_empty ''operation'' operation]))
      else if \<not> commit \<and> name = Some ''set_visibility''
      then eff_bind (check_visibility P document operation)
             (\<lambda>_. eff_lift (Ok [str_or_empty ''target'' operation]))
      else apply_bridge_operation P document gui part operation)"

fun exec_concat :: "('x \<Rightarrow> ('y list, 'w) exec) \<Rightarrow> 'x list \<Rightarrow> ('y list, 'w) exec" where
  "exec_concat f [] = eff_lift (Ok [])"
| "exec_concat f (x # xs) =
     eff_bind (f x) (\<lambda>ys. eff_bind (exec_concat f xs) (\<lambda>zs. eff_lift (Ok (ys @ zs))))"

section \<open>Validation\<close>

definition check_report :: "('w, 'o) python \<Rightarrow> string \<Rightarrow> string \<Rightarrow> string \<Rightarrow> string list \<Rightarrow> json" where
  "check_report P name good bad culprits = jobj
     [(''id'', JStr name), (''status'', JStr (if culprits = [] then ''pass'' else ''fail'')),
      (''message'', JStr (if culprits = [] then good else bad @ '': '' @ py_show_names P culprits)),
      (''evidence'', json_of_list JStr culprits)]"

definition named_objects ::
  "('w, 'o) python \<Rightarrow> 'w \<Rightarrow> 'o \<Rightarrow> string \<Rightarrow> ('o \<Rightarrow> bool) \<Rightarrow> string list" where
  "named_objects P w document unnamed bad =
     map (\<lambda>object. or_default unnamed (string_attr P w object ''Name''))
       (filter bad (list_attr P w document ''Objects''))"

definition invalid_shape :: "('w, 'o) python \<Rightarrow> 'w \<Rightarrow> 'o \<Rightarrow> bool" where
  "invalid_shape P w object = (case attr P w object ''Shape'' of
       None \<Rightarrow> False
     | Some shape \<Rightarrow> or_default False (map_option Not (Option.bind (call0 P w shape ''isValid'') (bool_of P w))))"

definition conflicting_sketch :: "codec \<Rightarrow> ('w, 'o) python \<Rightarrow> 'w \<Rightarrow> 'o \<Rightarrow> bool" where
  "conflicting_sketch C P w object \<longleftrightarrow> is_sketch P w object
     \<and> str_contains ''Conflict'' (case attr P w object ''SolverMessages'' of
          None \<Rightarrow> [] | Some v \<Rightarrow> json_text C (safe_value P w v))"

definition validation_reports ::
  "codec \<Rightarrow> ('w, 'o) python \<Rightarrow> 'o \<Rightarrow> string set \<Rightarrow> 'w \<Rightarrow> json list" where
  "validation_reports C P document requested w =
     (if ''recompute'' \<in> requested
      then [check_report P ''recompute'' ''recompute completed'' ''objects with errors''
              (named_objects P w document ''object'' (reports_error P w))] else [])
     @ (if ''shape_validity'' \<in> requested
        then [check_report P ''shape_validity'' ''all reported shapes are valid'' ''invalid shapes''
                (named_objects P w document ''object'' (invalid_shape P w))] else [])
     @ (if ''sketch_solver'' \<in> requested
        then [check_report P ''sketch_solver'' ''sketch solver reports no conflicts'' ''conflicting sketches''
                (named_objects P w document ''sketch'' (conflicting_sketch C P w))] else [])"

text \<open>A method that is called when there is one.\<close>

definition exec_optional :: "('w, 'o) python \<Rightarrow> 'o \<Rightarrow> string \<Rightarrow> 'o list \<Rightarrow> (unit, 'w) exec" where
  "exec_optional P object name arguments =
     eff_bind (exec_read (\<lambda>w. Ok (attr P w object name))) (\<lambda>m. case m of
       None \<Rightarrow> eff_lift (Ok ())
     | Some f \<Rightarrow> eff_bind (exec_call P f arguments) (\<lambda>_. eff_lift (Ok ())))"

definition validate_document ::
  "codec \<Rightarrow> ('w, 'o) python \<Rightarrow> 'o \<Rightarrow> string list \<Rightarrow> (json list, 'w) exec" where
  "validate_document C P document requested =
     eff_bind (exec_optional P document ''recompute'' []) (\<lambda>_.
     exec_read (\<lambda>w. Ok (validation_reports C P document
       (if requested = [] then {''recompute'', ''shape_validity''} else set requested) w)))"

section \<open>The transaction\<close>

definition failed_check :: "json \<Rightarrow> bool" where
  "failed_check check \<longleftrightarrow> str_at ''status'' check = Some ''fail''"

definition transaction_body ::
  "codec \<Rightarrow> ('w, 'o) python \<Rightarrow> 'o \<Rightarrow> 'o option \<Rightarrow> 'o option \<Rightarrow> json \<Rightarrow> bool \<Rightarrow> (operation_result, 'w) exec" where
  "transaction_body C P document gui part changeset commit =
     eff_bind (exec_concat (run_operation P document gui part commit) (json_array ''operations'' changeset)) (\<lambda>changed.
     eff_bind (validate_document C P document (string_items ''validate'' changeset)) (\<lambda>checks.
     eff_bind (eff_lift (ensure (\<not> list_ex failed_check checks)
        (ExecFault (''validation failed: ''
           @ join_with ''; '' (map (str_or_empty ''message'') (filter failed_check checks)))))) (\<lambda>_.
     eff_bind (exec_optional P document (if commit then ''commitTransaction'' else ''abortTransaction'') []) (\<lambda>_.
     eff_lift (Ok \<lparr>or_changed = changed, or_checks = checks\<rparr>)))))"

text \<open>An error aborts the transaction, ignoring what that gives; a panic leaves it open.\<close>

definition aborting :: "('w, 'o) python \<Rightarrow> 'o \<Rightarrow> ('a, 'w) exec \<Rightarrow> ('a, 'w) exec" where
  "aborting P document body = (\<lambda>s. case body s of
       (Err (ExecFault message), s') \<Rightarrow>
         (Err (ExecFault message), snd (exec_optional P document ''abortTransaction'' [] s'))
     | (r, s') \<Rightarrow> (r, s'))"

definition execute_changeset ::
  "codec \<Rightarrow> ('w, 'o) python \<Rightarrow> 'o \<Rightarrow> 'o option \<Rightarrow> 'o option \<Rightarrow> json \<Rightarrow> bool \<Rightarrow> (operation_result, 'w) exec" where
  "execute_changeset C P app gui part changeset commit =
     eff_bind (exec_read (\<lambda>w. needed ''document is not open''
                 (extract_document P w app (str_at ''document'' changeset)))) (\<lambda>document.
     eff_bind (eff_lift (needed ''changeset must contain operations''
                 (Option.bind (jget ''operations'' changeset) as_array))) (\<lambda>operations.
     eff_bind (eff_lift (ensure (operations \<noteq> [])
                 (ExecFault ''changeset must contain at least one operation''))) (\<lambda>_.
     eff_bind (exec_optional P document ''openTransaction''
                 [py_make P (PyStr (''Topomind '' @ or_default ''change'' (str_at ''request_id'' changeset)))]) (\<lambda>_.
     aborting P document (transaction_body C P document gui part changeset commit)))))"

definition navigate ::
  "('w, 'o) python \<Rightarrow> 'o \<Rightarrow> string \<Rightarrow> string option \<Rightarrow> (unit, 'w) exec" where
  "navigate P app name document_name =
     eff_bind (exec_read (\<lambda>w. needed (name @ '' is unavailable'') (extract_document P w app document_name))) (\<lambda>document.
     eff_bind (exec_method P document name (name @ '' is unavailable'') []) (\<lambda>_. eff_lift (Ok ())))"

definition execute_undo :: "('w, 'o) python \<Rightarrow> 'o \<Rightarrow> string option \<Rightarrow> (unit, 'w) exec" where
  "execute_undo P app = navigate P app ''undo''"

definition execute_redo :: "('w, 'o) python \<Rightarrow> 'o \<Rightarrow> string option \<Rightarrow> (unit, 'w) exec" where
  "execute_redo P app = navigate P app ''redo''"

end
