(* ===== verification/BridgeRuntime.thy ===== *)
theory BridgeRuntime
  imports BridgeDto Executor
begin

text \<open>
  The bridge inside the CAD process (\<^verbatim>\<open>freecad-extension/src/runtime.rs\<close>): the coalesced
  document events, the revision counters, the requests the sidecar sends, their queue between the
  socket thread and the main thread, and the pairing files.

  The open documents are a world of their own type.  What the bridge reads from it and does to it are
  the functions of \<open>bridge_host\<close>; \<open>freecad_host\<close> gives the ones of \<open>Extractor\<close> and \<open>Executor\<close>.  A call that
  changes the documents also lists the observer callbacks that came while it ran.  Times of events are
  nanoseconds of the monotonic clock, times of snapshots milliseconds of the wall clock.  Texts of
  documents and the digest are parameters; a JSON document never fails to serialize.

  A panic of the executor unwinds through the main thread's poll: the answers of all requests it took
  from the queue are lost, and the lock it holds, that of the one bridge, is poisoned for good.

  The texts of frames are parsed and printed by derived code, which is the parameter \<open>bridge_wire\<close>.
\<close>

section \<open>Events\<close>

record pending_event =
  pe_sequence :: "64 word"
  pe_object_name :: "string option"
  pe_at :: nat

record event_coalescer =
  ev_sequence :: "64 word"
  ev_pending :: "(string, pending_event) bmap"

definition coalescer_new :: event_coalescer where
  "coalescer_new = \<lparr>ev_sequence = 0, ev_pending = []\<rparr>"

definition emit :: "string \<Rightarrow> string option \<Rightarrow> nat \<Rightarrow> event_coalescer \<Rightarrow> event_coalescer" where
  "emit event_class object_name now c =
     (let sequence = ev_sequence c + 1 in
      \<lparr>ev_sequence = sequence,
       ev_pending = bm_insert event_class
         \<lparr>pe_sequence = sequence, pe_object_name = object_name, pe_at = now\<rparr> (ev_pending c)\<rparr>)"

definition event_ready :: "bool \<Rightarrow> nat \<Rightarrow> string \<times> pending_event \<Rightarrow> bool" where
  "event_ready force now = (\<lambda>(event_class, event).
     force \<or> event_class = ''transaction'' \<or> 100 * 1000 * 1000 \<le> now - pe_at event)"

definition flush :: "bool \<Rightarrow> nat \<Rightarrow> event_coalescer \<Rightarrow> string list \<times> event_coalescer" where
  "flush force now c =
     (let ready = filter (event_ready force now) (ev_pending c);
          pending = foldl (\<lambda>m (event_class, _). bm_remove event_class m) (ev_pending c) ready in
      (map fst (sort_key (pe_sequence \<circ> snd) ready), c\<lparr>ev_pending := pending\<rparr>))"

section \<open>State\<close>

record 'w bridge_host =
  hs_snapshot :: "'w \<Rightarrow> snapshot_env \<Rightarrow> string \<Rightarrow> revision \<Rightarrow> string option \<Rightarrow> json"
  hs_documents :: "'w \<Rightarrow> string list"
  hs_apply :: "'w \<Rightarrow> json \<Rightarrow> bool \<Rightarrow> (operation_result, exec_error) result \<times> 'w \<times> observed list"
  hs_undo :: "'w \<Rightarrow> string option \<Rightarrow> (unit, exec_error) result \<times> 'w \<times> observed list"
  hs_redo :: "'w \<Rightarrow> string option \<Rightarrow> (unit, exec_error) result \<times> 'w \<times> observed list"
  hs_version :: "'w \<Rightarrow> string option"
  hs_python :: "'w \<Rightarrow> string option"
  hs_workbench :: "'w \<Rightarrow> string option"
  hs_gui :: bool

record preview_record =
  pr_base_revision :: string
  pr_base_fingerprint :: string
  pr_preview_hash :: string

text \<open>A queued request, with the number of the call that waits for its answer.\<close>

record pending_request =
  pq_request :: ipc_request
  pq_authenticated :: bool
  pq_reply :: nat

record 'w bridge_state =
  st_world :: 'w
  st_session :: string
  st_epoch :: string
  st_secret :: string
  st_revision :: revision
  st_queue :: "pending_request list"
  st_previews :: "(string, preview_record) bmap"
  st_write_blocked :: bool
  st_events :: event_coalescer

definition bridge_new :: "'w \<Rightarrow> string \<Rightarrow> string \<Rightarrow> string \<Rightarrow> 'w bridge_state" where
  "bridge_new world session epoch secret =
     \<lparr>st_world = world, st_session = session, st_epoch = epoch, st_secret = secret,
      st_revision = revision_new epoch, st_queue = [], st_previews = [],
      st_write_blocked = False, st_events = coalescer_new\<rparr>"

text \<open>How a request fails: with a reported fault, or by a panic of the executor.\<close>

datatype bridge_fault = Fault (bf_code: string) (bf_message: string) (bf_retryable: bool) | Panicked

abbreviation fault :: "string \<Rightarrow> string \<Rightarrow> bool \<Rightarrow> bridge_fault" where
  "fault \<equiv> Fault"

type_synonym ('a, 'w) bridge_effect = "('a, bridge_fault, 'w bridge_state) effect"

section \<open>Revision counters\<close>

definition bump_class :: "string \<Rightarrow> revision \<Rightarrow> revision" where
  "bump_class event_class r =
     (if event_class \<in> {''geometry'', ''parametric'', ''transaction''}
      then r\<lparr>rev_geometry := rev_geometry r + 1\<rparr>
      else if event_class = ''metadata'' then r\<lparr>rev_metadata := rev_metadata r + 1\<rparr>
      else if event_class = ''focus'' then r\<lparr>rev_focus := rev_focus r + 1\<rparr>
      else if event_class = ''view'' then r\<lparr>rev_view := rev_view r + 1\<rparr>
      else r)"

definition bump_event :: "string \<Rightarrow> 'w bridge_state \<Rightarrow> 'w bridge_state" where
  "bump_event event_class st = st\<lparr>st_revision := bump_class event_class (st_revision st)\<rparr>"

definition flush_events :: "bool \<Rightarrow> nat \<Rightarrow> 'w bridge_state \<Rightarrow> 'w bridge_state" where
  "flush_events force now st =
     (case flush force now (st_events st) of
        (classes, events) \<Rightarrow> fold bump_event classes (st\<lparr>st_events := events\<rparr>))"

text \<open>What each callback records: the class of the event, the object, and whether the flush is forced.\<close>

fun observer_event :: "observer_call \<Rightarrow> string \<times> string option \<times> bool" where
  "observer_event (SlotCreatedObject name) = (''geometry'', name, False)"
| "observer_event (SlotDeletedObject name) = (''geometry'', Some name, False)"
| "observer_event (SlotChangedObject name property) =
     (if property = ''Label'' \<or> property = ''Label2'' then ''metadata'' else ''parametric'', name, False)"
| "observer_event SlotRecomputedDocument = (''geometry'', None, False)"
| "observer_event TransactionOpened = (''transaction'', None, True)"
| "observer_event TransactionCommitted = (''transaction'', None, True)"
| "observer_event TransactionAborted = (''transaction'', None, True)"
| "observer_event (AddSelection name) = (''focus'', Some name, False)"
| "observer_event ClearSelection = (''focus'', None, False)"
| "observer_event (SetPreselection name) = (''focus'', Some name, False)"
| "observer_event (RemoveSelection name) = (''focus'', Some name, False)"

definition observe :: "observed \<Rightarrow> 'w bridge_state \<Rightarrow> 'w bridge_state" where
  "observe = (\<lambda>(emitted, flushed, call) st. case observer_event call of
     (event_class, object_name, force) \<Rightarrow>
       flush_events force flushed
         (st\<lparr>st_events := emit event_class object_name emitted (st_events st)\<rparr>))"

definition operation_class :: "json \<Rightarrow> string" where
  "operation_class operation = (case Option.bind (jget ''op'' operation) as_str of
       Some name \<Rightarrow>
         if name = ''set_selection'' then ''focus''
         else if name = ''set_view'' then ''view''
         else if name = ''set_visibility'' then ''metadata''
         else ''geometry''
     | None \<Rightarrow> ''geometry'')"

definition bump_for_changeset :: "json \<Rightarrow> 'w bridge_state \<Rightarrow> 'w bridge_state" where
  "bump_for_changeset changeset =
     fold bump_event (remdups_adj (sort (map operation_class (json_array ''operations'' changeset))))"

section \<open>Documents as JSON\<close>

definition counter_at :: "string \<Rightarrow> json \<Rightarrow> string" where
  "counter_at key v = show_nat (case Option.bind (jget key v) as_u64 of None \<Rightarrow> 0 | Some n \<Rightarrow> n)"

definition snapshot_revision_id :: "json \<Rightarrow> string" where
  "snapshot_revision_id snapshot = (case jget ''revision'' snapshot of
       None \<Rightarrow> []
     | Some r \<Rightarrow> ''g'' @ counter_at ''geometry'' r @ ''.m'' @ counter_at ''metadata'' r
         @ ''.f'' @ counter_at ''focus'' r @ ''.v'' @ counter_at ''view'' r @ ''.'' @ str_or_empty ''epoch'' r)"

definition revision_matches :: "string option \<Rightarrow> json \<Rightarrow> bool" where
  "revision_matches wanted snapshot = (case wanted of
       None \<Rightarrow> False
     | Some v \<Rightarrow> v = snapshot_revision_id snapshot
         \<or> v = ''g'' @ counter_at ''geometry'' (index_json ''revision'' snapshot) @ ''.''
              @ str_or_empty ''epoch'' (index_json ''revision'' snapshot))"

definition bridge_changeset_hash :: "codec \<Rightarrow> json \<Rightarrow> string" where
  "bridge_changeset_hash C changeset = sha256_json C (json_text C) (json_remove ''approval_token'' changeset)"

definition snapshot_content :: "json \<Rightarrow> json" where
  "snapshot_content snapshot =
     json_map_member ''view'' (\<lambda>view. json_remove ''timestamp_ms'' (json_remove ''revision'' view))
       (json_remove ''revision'' snapshot)"

definition snapshot_fingerprint :: "codec \<Rightarrow> json \<Rightarrow> string" where
  "snapshot_fingerprint C snapshot = sha256_json C (json_text C) (snapshot_content snapshot)"

definition bridge_property_value :: "json \<Rightarrow> string \<Rightarrow> json" where
  "bridge_property_value v path = foldl (\<lambda>current part. index_json part current) v (split_on (CHR ''.'') path)"

definition has_subelement :: "string \<Rightarrow> bool" where
  "has_subelement reference =
     list_ex (\<lambda>part. part \<in> {''face'', ''edge'', ''vertex'', ''constraint''})
       (split_on (CHR ''/'') (hd (split_on (CHR ''@'') reference)))"

definition bridge_error_code :: "string \<Rightarrow> string" where
  "bridge_error_code message =
     (if str_contains ''busy'' message then ''bridge_busy''
      else if str_contains ''revision'' message then ''revision_conflict''
      else if str_contains ''validation'' message then ''validation_failed''
      else ''invalid_request'')"

definition bridge_change_response ::
  "string \<Rightarrow> string option \<Rightarrow> string \<Rightarrow> string option \<Rightarrow> bool \<Rightarrow> bool \<Rightarrow> json \<Rightarrow> json list \<Rightarrow> json" where
  "bridge_change_response base resulting hash preview_hash rolled_back rollback_verified diff checks = jobj
     [(''base_revision'', JStr base), (''resulting_revision'', json_of_option JStr resulting),
      (''changeset_hash'', JStr hash), (''preview_hash'', json_of_option JStr preview_hash),
      (''rolled_back'', JBool rolled_back), (''rollback_fingerprint_verified'', JBool rollback_verified),
      (''diff'', diff),
      (''validation'', jobj
         [(''status'', JStr (if list_ex failed_check checks then ''fail'' else ''pass'')),
          (''checks'', JArr checks)])]"

section \<open>Validation of a change set\<close>

definition revision_conflict :: bridge_fault where
  "revision_conflict = fault ''revision_conflict'' ''revision conflict'' True"

definition stale_reference :: bridge_fault where
  "stale_reference = fault ''stale_reference'' ''stale reference'' True"

definition validate_precondition ::
  "(string, json) bmap \<Rightarrow> json \<Rightarrow> json \<Rightarrow> (unit, bridge_fault) result" where
  "validate_precondition entities snapshot p =
     res_bind (ok_or (str_at ''kind'' p) (fault ''invalid_request'' ''invalid precondition'' False)) (\<lambda>kind.
     if kind = ''revision_equals'' then ensure (revision_matches (str_at ''revision'' p) snapshot) revision_conflict
     else if kind \<in> {''entity_exists'', ''entity_kind'', ''property_equals''} then
       res_bind (ok_or (str_at ''target'' p)
                   (fault ''invalid_request'' ''precondition target is required'' False)) (\<lambda>target.
       res_bind (ok_or (bm_get entities target) stale_reference) (\<lambda>entity.
       res_bind (ensure (\<not> (kind = ''entity_kind'' \<and> str_at ''kind'' entity \<noteq> str_at ''expected_kind'' p))
                   (fault ''precondition_failed'' ''entity kind precondition failed'' False)) (\<lambda>_.
       ensure (\<not> (kind = ''property_equals''
                 \<and> bridge_property_value (index_json ''properties'' entity) (str_or_empty ''property'' p)
                   \<noteq> index_json ''value'' p))
         (fault ''precondition_failed'' ''property precondition failed'' False))))
     else Err (fault ''invalid_request'' (''unsupported precondition: '' @ kind) False))"

definition identity_usable :: "json \<Rightarrow> bool" where
  "identity_usable entity \<longleftrightarrow>
     Option.bind (jget ''identity'' entity) (str_at ''state'') \<in> {Some ''exact'', Some ''mapped_exact''}"

definition names_subelement :: "json \<Rightarrow> string \<Rightarrow> bool" where
  "names_subelement operation key =
     (case str_at key operation of None \<Rightarrow> False | Some reference \<Rightarrow> has_subelement reference)"

definition validate_bridge_operation ::
  "(string, json) bmap \<Rightarrow> json \<Rightarrow> (unit, bridge_fault) result" where
  "validate_bridge_operation entities operation =
     res_bind (ok_or (str_at ''op'' operation) (fault ''invalid_request'' ''invalid typed operation'' False)) (\<lambda>name.
     res_bind (res_each (\<lambda>key. case str_at key operation of
                  None \<Rightarrow> Ok ()
                | Some reference \<Rightarrow>
                    res_bind (ok_or (bm_get entities reference) stale_reference) (\<lambda>entity.
                    ensure (identity_usable entity) stale_reference))
               [''target'', ''constraint'', ''left'', ''right'']) (\<lambda>_.
     res_bind (ensure (\<not> (name \<in> {''set_property'', ''set_expression'', ''set_visibility'', ''delete_object''}
                        \<and> names_subelement operation ''target''))
                 (fault ''invalid_request'' ''operation target must be an object, not a sub-element'' False)) (\<lambda>_.
     ensure (\<not> (name = ''boolean'' \<and> list_ex (names_subelement operation) [''left'', ''right'']))
       (fault ''invalid_request'' ''boolean operands must be objects, not sub-elements'' False))))"

definition snapshot_entities :: "json \<Rightarrow> (string, json) bmap" where
  "snapshot_entities snapshot =
     bm_collect (List.map_filter (\<lambda>entity. map_option (\<lambda>reference. (reference, entity)) (str_at ''ref'' entity))
       (json_array ''entities'' snapshot))"

definition validate_changeset :: "bool \<Rightarrow> string \<Rightarrow> json \<Rightarrow> json \<Rightarrow> (unit, bridge_fault) result" where
  "validate_changeset write_blocked session changeset snapshot =
     res_bind (ensure (\<not> write_blocked)
                 (fault ''write_blocked''
                    ''writes are blocked after an unverified rollback; restart the bridge'' False)) (\<lambda>_.
     res_bind (ensure (str_at ''schema_version'' changeset = Some ''changeset/1.0'')
                 (fault ''invalid_request'' ''unsupported changeset schema'' False)) (\<lambda>_.
     res_bind (ensure (str_at ''session'' changeset \<in> {None, Some [], Some session})
                 (fault ''permission_denied'' ''session does not belong to this bridge'' False)) (\<lambda>_.
     res_bind (ensure (str_at ''document'' changeset = str_at ''document'' snapshot)
                 (fault ''invalid_request'' ''document is not the active bridge document'' False)) (\<lambda>_.
     let operations = json_array ''operations'' changeset in
     res_bind (ensure (operations \<noteq> [])
                 (fault ''invalid_request'' ''changeset must contain operations'' False)) (\<lambda>_.
     res_bind (ensure (revision_matches (str_at ''base_revision'' changeset) snapshot) revision_conflict) (\<lambda>_.
     let entities = snapshot_entities snapshot in
     res_bind (res_each (validate_precondition entities snapshot) (json_array ''preconditions'' changeset)) (\<lambda>_.
     res_each (validate_bridge_operation entities) operations)))))))"

section \<open>Requests\<close>

text \<open>What each snapshot of a request reads besides the documents, and the clock at its flush.\<close>

record bridge_env =
  be_site :: "nat \<Rightarrow> snapshot_env"
  be_instant :: nat

definition take_snapshot ::
  "'w bridge_host \<Rightarrow> bridge_env \<Rightarrow> nat \<Rightarrow> string option \<Rightarrow> (json, 'w) bridge_effect" where
  "take_snapshot H E site document = eff_read (\<lambda>st.
     Ok (hs_snapshot H (st_world st) (be_site E site) (st_session st) (st_revision st) document))"

fun host_fault :: "exec_error \<Rightarrow> bridge_fault" where
  "host_fault (ExecFault message) = fault (bridge_error_code message) message False"
| "host_fault ExecPanic = Panicked"

definition run_host ::
  "('w \<Rightarrow> ('a, exec_error) result \<times> 'w \<times> observed list) \<Rightarrow> ('a, 'w) bridge_effect" where
  "run_host call = (\<lambda>st. case call (st_world st) of
     (r, world, seen) \<Rightarrow> (map_err host_fault r, fold observe seen (st\<lparr>st_world := world\<rparr>)))"

definition bridge_apply :: "'w bridge_host \<Rightarrow> json \<Rightarrow> bool \<Rightarrow> (operation_result, 'w) bridge_effect" where
  "bridge_apply H changeset commit = run_host (\<lambda>world. hs_apply H world changeset commit)"

definition inspect :: "'w bridge_host \<Rightarrow> bridge_env \<Rightarrow> json \<Rightarrow> (json, 'w) bridge_effect" where
  "inspect H E payload =
     eff_bind (take_snapshot H E 0 (str_at ''document'' payload)) (\<lambda>snapshot.
     eff_bind (eff_lift (ok_or (str_at ''ref'' payload)
                           (fault ''invalid_request'' ''ref is required'' False))) (\<lambda>reference.
     eff_bind (eff_lift (ok_or (find (\<lambda>entity. str_at ''ref'' entity = Some reference)
                                 (json_array ''entities'' snapshot))
                           (fault ''stale_reference'' ''entity is not present in the current snapshot'' True)))
       (\<lambda>entity. eff_lift (Ok (jobj [(''entity'', entity),
                                     (''revision'', index_json ''revision'' snapshot)])))))"

definition required_changeset :: "json \<Rightarrow> (json, bridge_fault) result" where
  "required_changeset payload = (case jget ''changeset'' payload of
       Some changeset \<Rightarrow> if is_object changeset then Ok changeset
                          else Err (fault ''invalid_request'' ''changeset is required'' False)
     | None \<Rightarrow> Err (fault ''invalid_request'' ''changeset is required'' False))"

definition preview_hash_of :: "codec \<Rightarrow> string \<Rightarrow> string \<Rightarrow> string \<Rightarrow> string \<Rightarrow> string" where
  "preview_hash_of C base_revision base_fingerprint preview_fingerprint hash =
     sha256_json C (json_text C) (jobj
       [(''base_revision'', JStr base_revision), (''base_fingerprint'', JStr base_fingerprint),
        (''preview_fingerprint'', JStr preview_fingerprint), (''changeset_hash'', JStr hash)])"

definition validated :: "json \<Rightarrow> json \<Rightarrow> (unit, 'w) bridge_effect" where
  "validated changeset snapshot = eff_read (\<lambda>st.
     validate_changeset (st_write_blocked st) (st_session st) changeset snapshot)"

definition bridge_preview ::
  "codec \<Rightarrow> 'w bridge_host \<Rightarrow> bridge_env \<Rightarrow> json \<Rightarrow> (json, 'w) bridge_effect" where
  "bridge_preview C H E payload =
     eff_bind (eff_lift (required_changeset payload)) (\<lambda>changeset.
     let document = str_at ''document'' changeset in
     eff_bind (take_snapshot H E 0 document) (\<lambda>before.
     eff_bind (validated changeset before) (\<lambda>_.
     let base_revision = snapshot_revision_id before;
         hash = bridge_changeset_hash C changeset;
         base_fingerprint = snapshot_fingerprint C before in
     eff_bind (eff_read (\<lambda>st. Ok (st_revision st))) (\<lambda>counters.
     eff_bind (bridge_apply H changeset False) (\<lambda>result.
     eff_bind (eff_modify (bump_for_changeset changeset)) (\<lambda>_.
     eff_bind (take_snapshot H E 1 document) (\<lambda>preview_snapshot.
     eff_bind (eff_modify (\<lambda>st. st\<lparr>st_revision := counters\<rparr>)) (\<lambda>_.
     eff_bind (take_snapshot H E 2 document) (\<lambda>after_abort.
     if snapshot_fingerprint C after_abort \<noteq> base_fingerprint then
       eff_bind (eff_modify (\<lambda>st. st\<lparr>st_write_blocked := True\<rparr>)) (\<lambda>_.
       eff_lift (Err (fault ''rollback_verification_failed'' ''rollback verification failed'' False)))
     else
       let preview_hash = preview_hash_of C base_revision base_fingerprint
             (snapshot_fingerprint C preview_snapshot) hash in
       eff_bind (eff_modify (\<lambda>st. st\<lparr>st_previews := bm_insert hash
           \<lparr>pr_base_revision = base_revision, pr_base_fingerprint = base_fingerprint,
            pr_preview_hash = preview_hash\<rparr> (st_previews st)\<rparr>)) (\<lambda>_.
       eff_lift (Ok (bridge_change_response base_revision (Some (snapshot_revision_id preview_snapshot)) hash
         (Some preview_hash) True True
         (jobj [(''changed_entities'', json_of_list JStr (or_changed result)),
                (''objects_recomputed'', json_of_nat (length (or_changed result)))])
         (or_checks result)))))))))))))"

definition unknown_preview :: bridge_fault where
  "unknown_preview = fault ''invalid_request'' ''preview hash is not known or does not match'' False"

definition bridge_commit ::
  "codec \<Rightarrow> 'w bridge_host \<Rightarrow> bridge_env \<Rightarrow> json \<Rightarrow> (json, 'w) bridge_effect" where
  "bridge_commit C H E payload =
     eff_bind (eff_lift (required_changeset payload)) (\<lambda>changeset.
     let hash = bridge_changeset_hash C changeset;
         document = str_at ''document'' changeset in
     eff_bind (eff_read (\<lambda>st. ok_or (bm_get (st_previews st) hash) unknown_preview)) (\<lambda>reviewed.
     eff_bind (eff_lift (ensure (pr_preview_hash reviewed = str_or_empty ''preview_hash'' payload) unknown_preview)) (\<lambda>_.
     eff_bind (take_snapshot H E 0 document) (\<lambda>before.
     eff_bind (validated changeset before) (\<lambda>_.
     eff_bind (eff_lift (ensure (snapshot_fingerprint C before = pr_base_fingerprint reviewed) revision_conflict)) (\<lambda>_.
     eff_bind (bridge_apply H changeset True) (\<lambda>result.
     eff_bind (eff_modify (bump_for_changeset changeset)) (\<lambda>_.
     eff_bind (take_snapshot H E 1 document) (\<lambda>after.
     eff_bind (eff_modify (\<lambda>st. st\<lparr>st_previews := bm_remove hash (st_previews st)\<rparr>)) (\<lambda>_.
     eff_lift (Ok (bridge_change_response (pr_base_revision reviewed) (Some (snapshot_revision_id after)) hash
       (Some (pr_preview_hash reviewed)) False True
       (jobj [(''changed_entities'', json_of_list JStr (or_changed result))]) (or_checks result)))))))))))))"

definition navigation_response :: "string \<Rightarrow> string \<Rightarrow> string \<Rightarrow> json" where
  "navigation_response name message resulting = jobj
     [(''resulting_revision'', JStr resulting),
      (''validation'', jobj
         [(''status'', JStr ''pass''),
          (''checks'', JArr [jobj [(''id'', JStr name), (''status'', JStr ''pass''),
             (''message'', JStr message), (''evidence'', JArr [])]])])]"

definition bridge_undo :: "'w bridge_host \<Rightarrow> string option \<Rightarrow> (json, 'w) bridge_effect" where
  "bridge_undo H document =
     eff_bind (run_host (\<lambda>world. hs_undo H world document)) (\<lambda>_.
     eff_bind (eff_modify (bump_event ''transaction'')) (\<lambda>_.
     eff_read (\<lambda>st. Ok (navigation_response ''undo'' ''FreeCAD undo completed'' (revision_id (st_revision st))))))"

definition bridge_redo :: "'w bridge_host \<Rightarrow> string option \<Rightarrow> (json, 'w) bridge_effect" where
  "bridge_redo H document =
     eff_bind (run_host (\<lambda>world. hs_redo H world document)) (\<lambda>_.
     eff_bind (eff_modify (bump_event ''transaction'')) (\<lambda>_.
     eff_read (\<lambda>st. Ok (navigation_response ''redo'' ''FreeCAD redo completed'' (revision_id (st_revision st))))))"

section \<open>Answers\<close>

definition bridge_operations :: "string list" where
  "bridge_operations = [''boolean'', ''create_object'', ''create_primitive'', ''delete_object'',
     ''set_expression'', ''set_property'', ''set_selection'', ''set_view'', ''set_visibility'',
     ''sketch_set_datum'']"

definition bridge_hello :: "'w bridge_host \<Rightarrow> 'w \<Rightarrow> json" where
  "bridge_hello H world = jobj
     [(''message'', JStr ''bridge.hello''),
      (''ipc_versions'', JArr [JStr IPC_VERSION]),
      (''dto_versions'', JArr [JStr DTO_VERSION]),
      (''freecad'', jobj
         [(''version'', JStr (case hs_version H world of None \<Rightarrow> ''unknown'' | Some v \<Rightarrow> v)),
          (''python'', JStr (case hs_python H world of None \<Rightarrow> ''unknown'' | Some v \<Rightarrow> v)),
          (''occt'', JStr ''reported-at-runtime''),
          (''mode'', JStr (if hs_gui H then ''gui'' else ''headless'')),
          (''active_workbench'',
             json_of_option JStr (if hs_gui H then hs_workbench H world else None))]),
      (''extractors'', json_of_list JStr
         [''core.document/1'', ''sketcher/1'', ''part/1'', ''partdesign/1'', ''view/1'']),
      (''operations'', json_of_list JStr bridge_operations),
      (''transaction_safety'', jobj
         [(''core'', JStr ''verified''), (''unknown_third_party_objects'', JStr ''read_only'')]),
      (''limits'', jobj
         [(''max_control_message_bytes'', json_of_nat MAX_FRAME),
          (''max_pending_requests'', json_of_nat 64),
          (''max_entities_per_snapshot'', json_of_nat 50000)]),
      (''capabilities'', json_of_list JStr
         [''read_document_structure'', ''read_exact_geometry'', ''write_model_low_risk'',
          if hs_gui H then ''write_selection'' else ''write_selection_unavailable'',
          if hs_gui H then ''write_view'' else ''write_view_unavailable'']),
      (''compatibility'', JStr ''capability_probe'')]"

definition bridge_documents :: "'w bridge_host \<Rightarrow> 'w \<Rightarrow> string list" where
  "bridge_documents H world = sort (hs_documents H world)"

definition ok_response :: "'w bridge_state \<Rightarrow> string \<Rightarrow> json \<Rightarrow> ipc_response" where
  "ok_response st request_id payload =
     \<lparr>ir_protocol_version = IPC_VERSION, ir_message = ''bridge.response'', ir_request_id = request_id,
      ir_status = RespOk, ir_session_epoch = st_epoch st, ir_payload = Some payload, ir_diagnostics = []\<rparr>"

definition fault_response :: "'w bridge_state \<Rightarrow> string \<Rightarrow> bridge_fault \<Rightarrow> ipc_response" where
  "fault_response st request_id f =
     \<lparr>ir_protocol_version = IPC_VERSION, ir_message = ''bridge.response'', ir_request_id = request_id,
      ir_status = RespError, ir_session_epoch = st_epoch st, ir_payload = None,
      ir_diagnostics = [\<lparr>dg_code = bf_code f, dg_severity = Error, dg_message = bf_message f,
        dg_entity = None, dg_retryable = bf_retryable f, dg_evidence = []\<rparr>]\<rparr>"

definition forces_flush :: "ipc_request \<Rightarrow> bool" where
  "forces_flush request \<longleftrightarrow>
     str_at ''freshness'' (iq_payload request) = Some ''synchronized''
     \<or> iq_message request \<in> {''bridge.inspect'', ''bridge.preview'', ''bridge.commit'', ''bridge.undo'', ''bridge.redo''}"

definition dispatch ::
  "codec \<Rightarrow> 'w bridge_host \<Rightarrow> bridge_env \<Rightarrow> string \<Rightarrow> json \<Rightarrow> (json, 'w) bridge_effect" where
  "dispatch C H E message payload =
     (if message = ''bridge.snapshot'' then take_snapshot H E 0 (str_at ''document'' payload)
      else if message = ''bridge.inspect'' then inspect H E payload
      else if message = ''bridge.preview'' then bridge_preview C H E payload
      else if message = ''bridge.commit'' then bridge_commit C H E payload
      else if message = ''bridge.undo'' then bridge_undo H (str_at ''document'' payload)
      else if message = ''bridge.redo'' then bridge_redo H (str_at ''document'' payload)
      else eff_lift (Err (fault ''invalid_request'' (''unsupported bridge message: '' @ message) False)))"

text \<open>
  \<^verbatim>\<open>BridgeState::handle\<close>: the response, and whether the connection is authenticated after it; nothing
  when it panics.
\<close>

definition bridge_handle ::
  "codec \<Rightarrow> crypto \<Rightarrow> 'w bridge_host \<Rightarrow> bridge_env \<Rightarrow> ipc_request \<Rightarrow> bool \<Rightarrow> 'w bridge_state
     \<Rightarrow> (ipc_response \<times> bool) option \<times> 'w bridge_state" where
  "bridge_handle C K H E request authenticated st =
     (let answer = (\<lambda>code message retryable. fault_response st (iq_request_id request) (fault code message retryable)) in
      if iq_protocol_version request \<noteq> IPC_VERSION
      then (Some (answer ''invalid_request'' ''unsupported IPC protocol version'' False, authenticated), st)
      else if iq_message request = ''bridge.authenticate''
      then if \<not> verify_pairing K (st_secret st) (str_or_empty ''nonce'' (iq_payload request))
                 (str_or_empty ''proof'' (iq_payload request))
           then (Some (answer ''permission_denied'' ''bridge authentication failed'' False, False), st)
           else (Some (ok_response st (iq_request_id request)
                    (jobj [(''session'', JStr (st_session st)),
                           (''hello'', bridge_hello H (st_world st)),
                           (''documents'', json_of_list JStr (bridge_documents H (st_world st)))]), True), st)
      else if \<not> authenticated
      then (Some (answer ''permission_denied'' ''bridge must be authenticated'' False, False), st)
      else if iq_session_epoch request \<noteq> st_epoch st
      then (Some (answer ''session_unavailable'' ''session epoch is stale'' True, authenticated), st)
      else case dispatch C H E (iq_message request) (iq_payload request)
                  (flush_events (forces_flush request) (be_instant E) st) of
             (Ok payload, st') \<Rightarrow> (Some (ok_response st' (iq_request_id request) payload, authenticated), st')
           | (Err Panicked, st') \<Rightarrow> (None, st')
           | (Err f, st') \<Rightarrow> (Some (fault_response st' (iq_request_id request) f, authenticated), st'))"

section \<open>The two threads\<close>

text \<open>
  The socket thread reads a request, queues it and waits up to ten seconds for the answer; the main
  thread takes the whole queue each time its timer fires.  An answer nobody waits for any more is
  dropped.  One connection is served at a time.
\<close>

definition enqueue :: "ipc_request \<Rightarrow> bool \<Rightarrow> nat \<Rightarrow> 'w bridge_state \<Rightarrow> 'w bridge_state" where
  "enqueue request authenticated reply st =
     st\<lparr>st_queue := st_queue st
          @ [\<lparr>pq_request = request, pq_authenticated = authenticated, pq_reply = reply\<rparr>]\<rparr>"

definition busy_response :: "'w bridge_state \<Rightarrow> ipc_response" where
  "busy_response st = fault_response st ''unknown''
     (fault ''bridge_busy'' ''bridge main thread did not respond'' True)"

text \<open>The answers that were sent, and whether every request was answered.\<close>

primrec handle_all ::
  "codec \<Rightarrow> crypto \<Rightarrow> 'w bridge_host \<Rightarrow> (nat \<Rightarrow> bridge_env) \<Rightarrow> pending_request list \<Rightarrow> 'w bridge_state
     \<Rightarrow> (nat \<times> ipc_response \<times> bool) list \<times> bool \<times> 'w bridge_state" where
  "handle_all C K H E [] st = ([], True, st)"
| "handle_all C K H E (item # items) st =
     (case bridge_handle C K H (E (length items)) (pq_request item) (pq_authenticated item) st of
        (None, st1) \<Rightarrow> ([], False, st1)
      | (Some answer, st1) \<Rightarrow>
          case handle_all C K H E items st1 of
            (answers, finished, st2) \<Rightarrow> ((pq_reply item, answer) # answers, finished, st2))"

definition process_pending ::
  "codec \<Rightarrow> crypto \<Rightarrow> 'w bridge_host \<Rightarrow> (nat \<Rightarrow> bridge_env) \<Rightarrow> 'w bridge_state
     \<Rightarrow> (nat \<times> ipc_response \<times> bool) list \<times> bool \<times> 'w bridge_state" where
  "process_pending C K H E st = handle_all C K H E (st_queue st) (st\<lparr>st_queue := []\<rparr>)"

text \<open>
  The texts of requests and answers on the socket.  An answer that is written reaches the client when its
  frame is not too large and the socket takes it.
\<close>

record bridge_wire =
  bw_request_parse :: "string \<Rightarrow> (ipc_request, string) result"
  bw_response_text :: "ipc_response \<Rightarrow> string"

definition sends :: "bridge_wire \<Rightarrow> bool \<Rightarrow> ipc_response \<Rightarrow> bool" where
  "sends W taken response \<longleftrightarrow> is_ok (write_frame (bw_response_text W response) []) \<and> taken"

text \<open>
  What the socket thread is at: the head of its loop, the listener, a connection it reads, one it waits
  with for the answer to a call, or its end.  When the stop flag is set the main thread is in \<^verbatim>\<open>stop\<close> and
  does nothing but wait for the end of the socket thread.
\<close>

datatype socket_thread = Looping | Accepting | Reading bool | Awaiting nat bool | Ended

record 'w bridge_run =
  br_state :: "'w bridge_state"
  br_thread :: socket_thread
  br_calls :: nat
  br_poisoned :: bool
  br_stop :: bool
  br_written :: "ipc_response list"

definition run_new :: "'w bridge_state \<Rightarrow> 'w bridge_run" where
  "run_new st = \<lparr>br_state = st, br_thread = Looping, br_calls = 0, br_poisoned = False, br_stop = False,
     br_written = []\<rparr>"

text \<open>
  The answer that arrives is written to the connection, and decides whether it is authenticated; when it
  cannot be written, the connection ends.  A request that was taken from the queue but not answered has
  lost its sender, which ends the wait as well.
\<close>

definition answer_client :: "bridge_wire \<Rightarrow> bool \<Rightarrow> ipc_response \<times> bool \<Rightarrow> 'w bridge_run \<Rightarrow> 'w bridge_run" where
  "answer_client W taken = (\<lambda>(response, authenticated) s.
     if sends W taken response
     then s\<lparr>br_thread := Reading authenticated, br_written := br_written s @ [response]\<rparr>
     else s\<lparr>br_thread := Looping\<rparr>)"

definition give_up :: "bridge_wire \<Rightarrow> bool \<Rightarrow> bool \<Rightarrow> 'w bridge_run \<Rightarrow> 'w bridge_run" where
  "give_up W taken authenticated s = answer_client W taken (busy_response (br_state s), authenticated) s"

definition deliver ::
  "bridge_wire \<Rightarrow> bool \<Rightarrow> (nat \<times> ipc_response \<times> bool) list \<Rightarrow> 'w bridge_run \<Rightarrow> 'w bridge_run" where
  "deliver W taken answers s = (case br_thread s of
       Awaiting call authenticated \<Rightarrow>
         (case map_of answers call of
            Some answer \<Rightarrow> answer_client W taken answer s
          | None \<Rightarrow> give_up W taken authenticated s)
     | _ \<Rightarrow> s)"

text \<open>
  What happens: in the loop of the socket thread, on its connection, on the timers of the two threads, and
  in the documents.  Received are the bytes of one frame, or those up to the end of the connection; a
  frame that cannot be read ends it.  An answer may find a socket that takes it, or not.
\<close>

datatype 'w bridge_action =
    CheckStop
  | NoClient
  | AcceptFails
  | Accept
  | Receive string
  | Poll "nat \<Rightarrow> bridge_env" bool
  | TimeOut bool
  | UserActs 'w "observed list"

abbreviation HangUp :: "'w bridge_action" where
  "HangUp \<equiv> Receive []"

lemma read_nothing [simp]: "read_frame parse [] = Err (WireIo ''failed to fill whole buffer'')"
  by (simp add: read_frame_def read_exact_def)

fun bridge_act ::
  "codec \<Rightarrow> crypto \<Rightarrow> bridge_wire \<Rightarrow> 'w bridge_host \<Rightarrow> 'w bridge_action \<Rightarrow> 'w bridge_run \<Rightarrow> 'w bridge_run option" where
  "bridge_act C K W H CheckStop s =
     (if br_thread s = Looping then Some (s\<lparr>br_thread := if br_stop s then Ended else Accepting\<rparr>) else None)"
| "bridge_act C K W H NoClient s = (if br_thread s = Accepting then Some (s\<lparr>br_thread := Looping\<rparr>) else None)"
| "bridge_act C K W H AcceptFails s = (if br_thread s = Accepting then Some (s\<lparr>br_thread := Ended\<rparr>) else None)"
| "bridge_act C K W H Accept s =
     (if br_thread s = Accepting then Some (s\<lparr>br_thread := Reading False\<rparr>) else None)"
| "bridge_act C K W H (Receive input) s = (case br_thread s of
       Reading authenticated \<Rightarrow>
         (case read_frame (bw_request_parse W) input of
            Err e \<Rightarrow> Some (s\<lparr>br_thread := Looping\<rparr>)
          | Ok (request, rest) \<Rightarrow>
              if rest \<noteq> [] then None
              else Some (s\<lparr>br_state := enqueue request authenticated (br_calls s) (br_state s),
                          br_thread := Awaiting (br_calls s) authenticated, br_calls := br_calls s + 1\<rparr>))
     | _ \<Rightarrow> None)"
| "bridge_act C K W H (Poll E taken) s =
     (if br_stop s then None
      else if br_poisoned s then Some s
      else case process_pending C K H E (br_state s) of
          (answers, finished, st) \<Rightarrow>
            Some (deliver W taken answers (s\<lparr>br_state := st, br_poisoned := \<not> finished\<rparr>)))"
| "bridge_act C K W H (TimeOut taken) s = (case br_thread s of
       Awaiting call authenticated \<Rightarrow> Some (give_up W taken authenticated s) | _ \<Rightarrow> None)"
| "bridge_act C K W H (UserActs world seen) s =
     (if br_stop s then None else Some (s\<lparr>br_state := fold observe seen ((br_state s)\<lparr>st_world := world\<rparr>)\<rparr>))"

inductive bridge_reaches ::
  "codec \<Rightarrow> crypto \<Rightarrow> bridge_wire \<Rightarrow> 'w bridge_host \<Rightarrow> 'w bridge_run \<Rightarrow> 'w bridge_action list \<Rightarrow> 'w bridge_run \<Rightarrow> bool"
  for C :: codec and K :: crypto and W :: bridge_wire and H :: "'w bridge_host" and s :: "'w bridge_run" where
  stay: "bridge_reaches C K W H s [] s"
| act: "bridge_reaches C K W H s as t \<Longrightarrow> bridge_act C K W H a t = Some u \<Longrightarrow> bridge_reaches C K W H s (as @ [a]) u"

section \<open>The pairing files\<close>

text \<open>
  The files of the runtime directory by path.  Replacing a file writes a temporary one that must not
  exist yet and renames it.
\<close>

type_synonym files = "(string, string) bmap"

record rendezvous =
  rz_session :: string
  rz_epoch :: string
  rz_socket_path :: string
  rz_secret_path :: string
  rz_record_path :: string
  rz_secret :: string

text \<open>The two version 4 UUIDs and the 32 random bytes it draws are arguments.\<close>

definition rendezvous_new :: "string \<Rightarrow> string \<Rightarrow> string \<Rightarrow> string \<Rightarrow> rendezvous" where
  "rendezvous_new dir session_uuid epoch_uuid secret =
     (let session = ''s_'' @ session_uuid;
          path = (\<lambda>suffix. dir @ ''/bridge-'' @ session @ suffix) in
      \<lparr>rz_session = session, rz_epoch = ''e_'' @ epoch_uuid, rz_socket_path = path ''.sock'',
       rz_secret_path = path ''.secret'', rz_record_path = path ''.json'', rz_secret = secret\<rparr>)"

definition with_extension :: "string \<Rightarrow> string \<Rightarrow> string" where
  "with_extension path ext =
     (case rsplit_once (CHR ''.'') path of None \<Rightarrow> path | Some (stem, _) \<Rightarrow> stem) @ ''.'' @ ext"

definition write_atomically :: "nat \<Rightarrow> string \<Rightarrow> string \<Rightarrow> files \<Rightarrow> (unit, string) result \<times> files" where
  "write_atomically pid path content fs =
     (let temporary = with_extension path (''tmp.'' @ show_nat pid) in
      if bm_contains fs temporary then (Err ''file exists'', fs)
      else (Ok (), bm_insert path content (bm_remove temporary fs)))"

definition pairing_record :: "rendezvous \<Rightarrow> json \<Rightarrow> string list \<Rightarrow> string \<Rightarrow> nat \<Rightarrow> nat \<Rightarrow> json" where
  "pairing_record r hello documents endpoint pid started_at_ms = jobj
     [(''session'', JStr (rz_session r)), (''session_epoch'', JStr (rz_epoch r)),
      (''endpoint'', JStr endpoint), (''secret_path'', JStr (rz_secret_path r)),
      (''pid'', json_of_nat pid), (''started_at_ms'', json_of_nat started_at_ms),
      (''hello'', hello), (''documents'', json_of_list JStr documents)]"

definition publish ::
  "codec \<Rightarrow> rendezvous \<Rightarrow> json \<Rightarrow> string list \<Rightarrow> string \<Rightarrow> nat \<Rightarrow> nat \<Rightarrow> (unit, string, files) effect" where
  "publish C r hello documents endpoint pid now =
     eff_bind (write_atomically pid (rz_secret_path r) (rz_secret r)) (\<lambda>_.
     write_atomically pid (rz_record_path r)
       (json_text C (pairing_record r hello documents endpoint pid now)))"

definition rendezvous_close :: "rendezvous \<Rightarrow> files \<Rightarrow> files" where
  "rendezvous_close r fs =
     bm_remove (rz_secret_path r) (bm_remove (rz_record_path r) (bm_remove (rz_socket_path r) fs))"

lemma close_twice [simp]: "rendezvous_close r (rendezvous_close r fs) = rendezvous_close r fs"
  by (simp add: rendezvous_close_def bm_remove_def, rule filter_cong) auto

definition pairing_state :: "(string \<Rightarrow> json option) \<Rightarrow> rendezvous \<Rightarrow> files \<Rightarrow> json" where
  "pairing_state parse r fs =
     (let starting = jobj [(''state'', JStr ''starting''), (''record'', JStr (rz_record_path r))] in
      case bm_get fs (rz_record_path r) of
        None \<Rightarrow> starting
      | Some content \<Rightarrow>
          (case parse content of
             None \<Rightarrow> starting
           | Some (JObj kvs) \<Rightarrow> JObj (bm_extend [(''state'', JStr ''ready'')] kvs)
           | Some _ \<Rightarrow> jobj [(''state'', JStr ''ready'')]))"

section \<open>Starting and stopping\<close>

text \<open>
  The socket thread binds its listener, on a Unix socket unless TCP is forced, publishes the pairing
  files and then accepts; when publishing fails it removes what it left.  What binding gives is an
  argument; so are the installation of observers and timer and the runtime directory, which may fail
  before that.
\<close>

record listener_env =
  le_forced_tcp :: bool
  le_unix :: "(unit, string) result"
  le_tcp :: "(string, string) result"

definition bind_listener :: "rendezvous \<Rightarrow> listener_env \<Rightarrow> files \<Rightarrow> string option \<times> files" where
  "bind_listener r L fs =
     (if le_forced_tcp L
      then (case le_tcp L of Err e \<Rightarrow> (None, fs) | Ok address \<Rightarrow> (Some (''tcp://'' @ address), fs))
      else let fs = bm_remove (rz_socket_path r) fs in
        (case le_unix L of
           Err e \<Rightarrow> (None, fs)
         | Ok _ \<Rightarrow> (Some (rz_socket_path r), bm_insert (rz_socket_path r) [] fs)))"

definition server_start ::
  "codec \<Rightarrow> rendezvous \<Rightarrow> listener_env \<Rightarrow> json \<Rightarrow> string list \<Rightarrow> nat \<Rightarrow> nat \<Rightarrow> files \<Rightarrow> bool \<times> files" where
  "server_start C r L hello documents pid now fs = (case bind_listener r L fs of
       (None, fs) \<Rightarrow> (False, fs)
     | (Some endpoint, fs) \<Rightarrow>
         (case publish C r hello documents endpoint pid now fs of
            (Ok _, fs') \<Rightarrow> (True, fs')
          | (Err _, fs') \<Rightarrow> (False, rendezvous_close r fs')))"

record 'w bridge_process =
  bp_bridge :: "(rendezvous \<times> 'w bridge_run) option"
  bp_files :: files

definition start_bridge ::
  "codec \<Rightarrow> 'w bridge_host \<Rightarrow> 'w \<Rightarrow> (rendezvous, string) result \<Rightarrow> (unit, string) result \<Rightarrow> (unit, string) result
     \<Rightarrow> listener_env \<Rightarrow> nat \<Rightarrow> nat \<Rightarrow> 'w bridge_process \<Rightarrow> (string, string) result \<times> 'w bridge_process" where
  "start_bridge C H world directory observers timer L pid now p = (case bp_bridge p of
       Some (r, s) \<Rightarrow> (if br_poisoned s then Err ''bridge lock poisoned'' else Ok (rz_record_path r), p)
     | None \<Rightarrow>
         (case res_bind directory (\<lambda>r. res_bind observers (\<lambda>_. res_bind timer (\<lambda>_. Ok r))) of
            Err e \<Rightarrow> (Err e, p)
          | Ok r \<Rightarrow>
              (case server_start C r L (bridge_hello H world) (bridge_documents H world) pid now (bp_files p) of
                 (listening, fs) \<Rightarrow>
                   (Ok (rz_record_path r), p
                      \<lparr>bp_bridge := Some (r, (run_new (bridge_new world (rz_session r) (rz_epoch r) (rz_secret r)))
                         \<lparr>br_thread := if listening then Looping else Ended\<rparr>),
                       bp_files := fs\<rparr>))))"

text \<open>
  Stopping sets the stop flag and waits for the socket thread; when the lock is poisoned it panics before
  that.  The slot of the bridge is locked until stopping returns, so it counts as taken only then.  Whoever
  ends first, the thread at the end of its loop or the main thread after the wait, removes the files.
\<close>

definition stop_bridge :: "'w bridge_process \<Rightarrow> 'w bridge_process option" where
  "stop_bridge p = (case bp_bridge p of
       None \<Rightarrow> Some p
     | Some (r, s) \<Rightarrow> if br_poisoned s then None else Some (p\<lparr>bp_bridge := Some (r, s\<lparr>br_stop := True\<rparr>)\<rparr>))"

definition stop_returns :: "'w bridge_process \<Rightarrow> 'w bridge_process option" where
  "stop_returns p = (case bp_bridge p of
       None \<Rightarrow> None
     | Some (r, s) \<Rightarrow>
         if br_stop s \<and> br_thread s = Ended
         then Some (p\<lparr>bp_bridge := None, bp_files := rendezvous_close r (bp_files p)\<rparr>)
         else None)"

datatype 'w process_action = Runs "'w bridge_action" | StopCalled | StopReturns

fun process_act ::
  "codec \<Rightarrow> crypto \<Rightarrow> bridge_wire \<Rightarrow> 'w bridge_host \<Rightarrow> 'w process_action \<Rightarrow> 'w bridge_process \<Rightarrow> 'w bridge_process option" where
  "process_act C K W H (Runs a) p = (case bp_bridge p of
       None \<Rightarrow> None
     | Some (r, s) \<Rightarrow> map_option (\<lambda>t. p
         \<lparr>bp_bridge := Some (r, t),
          bp_files := if br_thread s \<noteq> Ended \<and> br_thread t = Ended then rendezvous_close r (bp_files p)
            else bp_files p\<rparr>) (bridge_act C K W H a s))"
| "process_act C K W H StopCalled p =
     (case bp_bridge p of Some (r, s) \<Rightarrow> if br_stop s then None else stop_bridge p | None \<Rightarrow> stop_bridge p)"
| "process_act C K W H StopReturns p = stop_returns p"

inductive process_reaches ::
  "codec \<Rightarrow> crypto \<Rightarrow> bridge_wire \<Rightarrow> 'w bridge_host \<Rightarrow> 'w bridge_process \<Rightarrow> 'w process_action list
     \<Rightarrow> 'w bridge_process \<Rightarrow> bool"
  for C :: codec and K :: crypto and W :: bridge_wire and H :: "'w bridge_host" and p :: "'w bridge_process" where
  stay: "process_reaches C K W H p [] p"
| act: "process_reaches C K W H p as q \<Longrightarrow> process_act C K W H a q = Some q' \<Longrightarrow> process_reaches C K W H p (as @ [a]) q'"

section \<open>The bridge of FreeCAD\<close>

definition host_run :: "('a, 'w) exec \<Rightarrow> 'w \<Rightarrow> ('a, exec_error) result \<times> 'w \<times> observed list" where
  "host_run m w = m (w, [])"

definition freecad_host ::
  "codec \<Rightarrow> ('w, 'o) python \<Rightarrow> 'o \<Rightarrow> 'o option \<Rightarrow> 'o option \<Rightarrow> 'w bridge_host" where
  "freecad_host C P app gui part =
     \<lparr>hs_snapshot = extract_snapshot C P app gui,
       hs_documents = (\<lambda>w. extract_documents P w app),
       hs_apply = (\<lambda>w changeset commit. host_run (execute_changeset C P app gui part changeset commit) w),
       hs_undo = (\<lambda>w document. host_run (execute_undo P app document) w),
       hs_redo = (\<lambda>w document. host_run (execute_redo P app document) w),
       hs_version = (\<lambda>w. map_option (version_string P w) (call0 P w app ''Version'')),
       hs_python = (\<lambda>w. case py_import P w ''platform'' of
          Err _ \<Rightarrow> None
        | Ok platform \<Rightarrow> Option.bind (call0 P w platform ''python_version'') (string_of P w)),
       hs_workbench = (\<lambda>w. active_workbench P w gui),
       hs_gui = (gui \<noteq> None)\<rparr>"

section \<open>Status\<close>

definition pairing_status :: "(string \<Rightarrow> json option) \<Rightarrow> 'w bridge_process \<Rightarrow> json option" where
  "pairing_status parse p = (case bp_bridge p of
       None \<Rightarrow> Some (jobj [(''state'', JStr ''stopped'')])
     | Some (r, s) \<Rightarrow> if br_poisoned s then None else Some (pairing_state parse r (bp_files p)))"

end
