(* ===== verification/BridgeLaws.thy ===== *)
theory BridgeLaws
  imports BridgeRuntime "HOL-Library.Multiset"
begin

text \<open>
  Laws of the bridge: what its events and revision counters do to its state, what an operation may
  change, and the properties of its protocol.
\<close>

section \<open>Events\<close>

lemma bump_event_simps [simp]:
  "st_world (bump_event c st) = st_world st" "st_session (bump_event c st) = st_session st"
  "st_epoch (bump_event c st) = st_epoch st" "st_secret (bump_event c st) = st_secret st"
  "st_queue (bump_event c st) = st_queue st" "st_previews (bump_event c st) = st_previews st"
  "st_write_blocked (bump_event c st) = st_write_blocked st" "st_events (bump_event c st) = st_events st"
  by (simp_all add: bump_event_def)

lemma fold_bump_simps [simp]:
  "st_world (fold bump_event cs st) = st_world st" "st_session (fold bump_event cs st) = st_session st"
  "st_epoch (fold bump_event cs st) = st_epoch st" "st_secret (fold bump_event cs st) = st_secret st"
  "st_queue (fold bump_event cs st) = st_queue st" "st_previews (fold bump_event cs st) = st_previews st"
  "st_write_blocked (fold bump_event cs st) = st_write_blocked st" "st_events (fold bump_event cs st) = st_events st"
  by (induction cs arbitrary: st) simp_all

lemma fold_bump_revision: "st_revision (fold bump_event cs st) = fold bump_class cs (st_revision st)"
  by (induction cs arbitrary: st) (simp_all add: bump_event_def)

lemma bump_for_changeset_simps [simp]:
  "st_world (bump_for_changeset v st) = st_world st" "st_session (bump_for_changeset v st) = st_session st"
  "st_epoch (bump_for_changeset v st) = st_epoch st" "st_secret (bump_for_changeset v st) = st_secret st"
  "st_queue (bump_for_changeset v st) = st_queue st" "st_previews (bump_for_changeset v st) = st_previews st"
  "st_write_blocked (bump_for_changeset v st) = st_write_blocked st"
  "st_events (bump_for_changeset v st) = st_events st"
  by (simp_all add: bump_for_changeset_def)

lemma flush_events_simps [simp]:
  "st_world (flush_events f n st) = st_world st" "st_session (flush_events f n st) = st_session st"
  "st_epoch (flush_events f n st) = st_epoch st" "st_secret (flush_events f n st) = st_secret st"
  "st_queue (flush_events f n st) = st_queue st" "st_previews (flush_events f n st) = st_previews st"
  "st_write_blocked (flush_events f n st) = st_write_blocked st"
  by (simp_all add: flush_events_def split: prod.splits)

lemma observe_simps [simp]:
  "st_world (observe x st) = st_world st" "st_session (observe x st) = st_session st"
  "st_epoch (observe x st) = st_epoch st" "st_secret (observe x st) = st_secret st"
  "st_queue (observe x st) = st_queue st" "st_previews (observe x st) = st_previews st"
  "st_write_blocked (observe x st) = st_write_blocked st"
  by (simp_all add: observe_def split: prod.splits)

lemma fold_observe_simps [simp]:
  "st_world (fold observe xs st) = st_world st" "st_session (fold observe xs st) = st_session st"
  "st_epoch (fold observe xs st) = st_epoch st" "st_secret (fold observe xs st) = st_secret st"
  "st_queue (fold observe xs st) = st_queue st" "st_previews (fold observe xs st) = st_previews st"
  "st_write_blocked (fold observe xs st) = st_write_blocked st"
  by (induction xs arbitrary: st) simp_all

text \<open>The queue plays no part in what an event does.\<close>

lemma bump_event_queue: "bump_event c (st\<lparr>st_queue := q\<rparr>) = (bump_event c st)\<lparr>st_queue := q\<rparr>"
  by (simp add: bump_event_def)

lemma fold_bump_queue: "fold bump_event cs (st\<lparr>st_queue := q\<rparr>) = (fold bump_event cs st)\<lparr>st_queue := q\<rparr>"
  by (induction cs arbitrary: st) (simp_all add: bump_event_queue)

lemma flush_events_queue: "flush_events f n (st\<lparr>st_queue := q\<rparr>) = (flush_events f n st)\<lparr>st_queue := q\<rparr>"
proof -
  have swap: "(st\<lparr>st_queue := q\<rparr>)\<lparr>st_events := e\<rparr> = (st\<lparr>st_events := e\<rparr>)\<lparr>st_queue := q\<rparr>" for e by simp
  show ?thesis by (simp add: flush_events_def swap fold_bump_queue split: prod.splits)
qed

lemma observe_queue: "observe x (st\<lparr>st_queue := q\<rparr>) = (observe x st)\<lparr>st_queue := q\<rparr>"
proof -
  have swap: "(st\<lparr>st_queue := q\<rparr>)\<lparr>st_events := e\<rparr> = (st\<lparr>st_events := e\<rparr>)\<lparr>st_queue := q\<rparr>" for e by simp
  show ?thesis by (simp add: observe_def swap flush_events_queue split: prod.splits)
qed

lemma fold_observe_queue:
  "fold observe xs (st\<lparr>st_queue := q\<rparr>) = (fold observe xs st)\<lparr>st_queue := q\<rparr>"
  by (induction xs arbitrary: st) (simp_all add: observe_queue)

subsection \<open>Which classes a flush returns\<close>

definition emit_event :: "string \<times> string option \<times> nat \<Rightarrow> event_coalescer \<Rightarrow> event_coalescer" where
  "emit_event = (\<lambda>(event_class, object_name, now). emit event_class object_name now)"

lemma mset_bm_insert: "bm_wf m \<Longrightarrow> mset (bm_insert k v m) = add_mset (k, v) (mset (bm_remove k m))"
proof (induction m)
  case Nil
  show ?case by (simp add: bm_remove_def)
next
  case (Cons p m)
  obtain j w where p: "p = (j, w)" by force
  have wf: "bm_wf m" and above: "\<forall>i \<in> set (bm_keys m). j < i"
    using Cons.prems p by (simp_all add: bm_wf_Cons)
  have away: "bm_remove k m = m" if "k \<le> j"
    using that above by (auto simp: bm_remove_def filter_id_conv)
  show ?case
    using Cons.IH [OF wf] away p by (auto simp: bm_remove_def add_mset_commute simp del: mset_filter)
qed

lemma remdups_snoc: "remdups (xs @ [x]) = filter (\<lambda>y. y \<noteq> x) (remdups xs) @ [x]"
  by (induction xs) auto

lemma foldl_bm_remove: "foldl (\<lambda>m (k, _). bm_remove k m) m kvs = filter (\<lambda>(k, _). k \<notin> fst ` set kvs) m"
proof (induction kvs arbitrary: m)
  case (Cons p kvs)
  then show ?case by (cases p) (auto simp: bm_remove_def intro: filter_cong)
qed simp

lemma emitted_events:
  assumes "length es < 2 ^ 64"
  shows "let c = fold emit_event es coalescer_new in
    ev_sequence c = word_of_nat (length es) \<and> bm_wf (ev_pending c)
    \<and> inj_on (pe_sequence \<circ> snd) (set (ev_pending c))
    \<and> (\<forall>p \<in> set (ev_pending c). unat (pe_sequence (snd p)) \<le> length es)
    \<and> map fst (sort_key (pe_sequence \<circ> snd) (ev_pending c)) = remdups (map fst es)"
  using assms
proof (induction es rule: rev_induct)
  case Nil
  show ?case by (simp add: coalescer_new_def)
next
  case (snoc e es)
  obtain k n t where e: "e = (k, n, t)" by (cases e) auto
  let ?c = "fold emit_event es coalescer_new"
  let ?seq = "pe_sequence \<circ> snd"
  obtain w :: "64 word" where w: "w = word_of_nat (Suc (length es))" by simp
  have top: "unat w = Suc (length es)"
    using snoc.prems by (simp add: w unat_of_nat del: of_nat_Suc)
  let ?new = "(k, \<lparr>pe_sequence = w, pe_object_name = n, pe_at = t\<rparr>)"
  have IH: "ev_sequence ?c = word_of_nat (length es)" "bm_wf (ev_pending ?c)"
      "inj_on ?seq (set (ev_pending ?c))" "\<forall>p \<in> set (ev_pending ?c). unat (pe_sequence (snd p)) \<le> length es"
      "map fst (sort_key ?seq (ev_pending ?c)) = remdups (map fst es)"
    using snoc by (simp_all add: Let_def comp_def)
  let ?m = "bm_remove k (ev_pending ?c)"
  have c: "fold emit_event (es @ [e]) coalescer_new = \<lparr>ev_sequence = w,
      ev_pending = bm_insert k (snd ?new) (ev_pending ?c)\<rparr>"
  proof -
    have "emit_event e ?c = \<lparr>ev_sequence = ev_sequence ?c + 1, ev_pending = bm_insert k
        \<lparr>pe_sequence = ev_sequence ?c + 1, pe_object_name = n, pe_at = t\<rparr> (ev_pending ?c)\<rparr>"
      by (simp add: e emit_event_def emit_def Let_def)
    then show ?thesis using IH(1) by (simp add: w add.commute)
  qed
  have mset: "mset (bm_insert k (snd ?new) (ev_pending ?c)) = add_mset ?new (mset ?m)"
    using IH(2) by (simp add: mset_bm_insert)
  then have set: "set (bm_insert k (snd ?new) (ev_pending ?c)) = insert ?new (set ?m)"
    by (metis set_mset_add_mset_insert set_mset_mset)
  have sub: "set ?m \<subseteq> set (ev_pending ?c)" by (auto simp: bm_remove_def)
  have below: "pe_sequence (snd p) < w" if "p \<in> set ?m" for p
    using IH(4) sub that top by (auto simp: word_less_nat_alt less_Suc_eq_le)
  have inj: "inj_on ?seq (insert ?new (set ?m))"
  proof -
    have "inj_on ?seq (set ?m)" using IH(3) sub by (rule inj_on_subset)
    moreover have "w \<notin> ?seq ` set ?m" using below by fastforce
    ultimately show ?thesis by auto
  qed
  have "sort_key ?seq (bm_insert k (snd ?new) (ev_pending ?c)) = sort_key ?seq ?m @ [?new]"
  proof (rule sort_key_inj_key_eq)
    show "mset (bm_insert k (snd ?new) (ev_pending ?c)) = mset (sort_key ?seq ?m @ [?new])"
      using mset by simp
    show "inj_on ?seq (set (bm_insert k (snd ?new) (ev_pending ?c)))" using inj set by simp
    show "sorted (map ?seq (sort_key ?seq ?m @ [?new]))"
      using below by (auto simp: sorted_append less_imp_le)
  qed
  moreover have "map fst (sort_key ?seq ?m) = filter (\<lambda>y. y \<noteq> k) (remdups (map fst es))"
    by (simp add: bm_remove_def filter_sort [symmetric] IH(5) [symmetric] filter_map comp_def case_prod_unfold)
  ultimately have order: "map fst (sort_key ?seq (bm_insert k (snd ?new) (ev_pending ?c))) = remdups (map fst (es @ [e]))"
    by (simp add: e remdups_snoc)
  have bound: "\<forall>p \<in> insert ?new (set ?m). unat (pe_sequence (snd p)) \<le> length (es @ [e])"
    using IH(4) sub top by (auto intro: le_SucI)
  show ?case
    unfolding c Let_def using IH(2) inj set order bound w by simp
qed

text \<open>C28: Coalescing does what a plain list of the emitted classes would do: a forced flush returns every
  class once, in the order in which the classes were last emitted, and leaves nothing pending.\<close>

theorem flush_returns_last_emissions:
  assumes "length es < 2 ^ 64"
  shows "fst (flush True now (fold emit_event es coalescer_new)) = remdups (map fst es)
     \<and> ev_pending (snd (flush True now (fold emit_event es coalescer_new))) = []"
proof -
  let ?c = "fold emit_event es coalescer_new"
  have ready: "filter (event_ready True now) (ev_pending ?c) = ev_pending ?c"
    by (simp add: event_ready_def filter_id_conv case_prod_beta)
  have "filter (\<lambda>(k, _). k \<notin> fst ` set (ev_pending ?c)) (ev_pending ?c) = []"
    by (force simp: filter_empty_conv)
  then show ?thesis
    using emitted_events [OF assms] by (simp add: flush_def Let_def ready foldl_bm_remove)
qed

theorem flush_returns_last_emissions_witness:
  "fst (flush True 5 (fold emit_event
      [(''view'', Some ''one'', 1), (''transaction'', None, 2), (''view'', Some ''two'', 3)] coalescer_new))
    = [''transaction'', ''view'']"
  using flush_returns_last_emissions [of "[(''view'', Some ''one'', 1), (''transaction'', None, 2),
      (''view'', Some ''two'', 3)]" 5] by simp

section \<open>What an operation keeps\<close>

text \<open>The identity of the bridge, its queue and a block on writes outlast every operation.\<close>

definition bridge_kept :: "'w bridge_state \<Rightarrow> 'w bridge_state \<Rightarrow> bool" where
  "bridge_kept s t \<longleftrightarrow> st_session t = st_session s \<and> st_epoch t = st_epoch s \<and> st_secret t = st_secret s
     \<and> st_queue t = st_queue s \<and> (st_write_blocked s \<longrightarrow> st_write_blocked t)"

interpretation bk: state_preorder "bridge_kept :: 'w bridge_state \<Rightarrow> 'w bridge_state \<Rightarrow> bool"
  by unfold_locales (auto simp: bridge_kept_def)

lemma take_snapshot_kept [intro]: "related_by bridge_kept (take_snapshot H E site document)"
  by (auto simp: take_snapshot_def)

lemma validated_kept [intro]: "related_by bridge_kept (validated changeset snapshot)"
  by (auto simp: validated_def)

lemma run_host_kept [intro]: "related_by bridge_kept (run_host call)"
  by (rule related_byI) (auto simp: run_host_def bridge_kept_def split: prod.splits)

lemma bridge_apply_kept [intro]: "related_by bridge_kept (bridge_apply H changeset commit)"
  by (auto simp: bridge_apply_def)

lemma modify_kept [intro]:
  "related_by bridge_kept (eff_modify (bump_for_changeset v))"
  "related_by bridge_kept (eff_modify (bump_event c))"
  "related_by bridge_kept (eff_modify (\<lambda>st. st\<lparr>st_revision := r\<rparr>))"
  "related_by bridge_kept (eff_modify (\<lambda>st. st\<lparr>st_write_blocked := True\<rparr>))"
  "related_by bridge_kept (eff_modify (\<lambda>st. st\<lparr>st_previews := f st\<rparr>))"
  by (rule bk.modify, simp add: bridge_kept_def)+

lemma dispatch_kept: "related_by bridge_kept (dispatch C H E message payload)"
  unfolding dispatch_def inspect_def bridge_preview_def bridge_commit_def bridge_undo_def bridge_redo_def Let_def
  by (intro bk.cond bk.bind bk.lift bk.read take_snapshot_kept validated_kept run_host_kept
      bridge_apply_kept modify_kept)

lemma handle_kept:
  assumes "bridge_handle C K H E request authenticated st = (answer, st')"
  shows "bridge_kept st st'"
proof -
  have "bridge_kept st st'" if "dispatch C H E m p (flush_events f n st) = (r, st')" for m p f n r
    using related_byD [OF dispatch_kept that] by (simp add: bridge_kept_def)
  then show ?thesis using assms
    by (auto simp: bridge_handle_def Let_def split: if_splits prod.splits sum.splits bridge_fault.splits)
qed

lemma handle_all_kept: "handle_all C K H E items st = (answers, finished, st') \<Longrightarrow> bridge_kept st st'"
proof (induction items arbitrary: st answers)
  case (Cons item items)
  then show ?case
    by (auto split: prod.splits option.splits dest!: handle_kept intro: bk.chain)
qed (simp add: bridge_kept_def)

section \<open>Clients without the secret\<close>

definition presents_proof :: "crypto \<Rightarrow> string \<Rightarrow> ipc_request \<Rightarrow> bool" where
  "presents_proof K secret request \<longleftrightarrow> iq_message request = ''bridge.authenticate''
     \<and> str_or_empty ''proof'' (iq_payload request)
       = hmac_hex K secret (str_or_empty ''nonce'' (iq_payload request))"

definition refusal :: "ipc_response \<Rightarrow> bool" where
  "refusal response \<longleftrightarrow> ir_status response = RespError \<and> ir_payload response = None"

lemma refusal_fault [simp]: "refusal (fault_response st request_id f)"
  by (simp add: refusal_def fault_response_def)

lemma handle_unproven:
  assumes "\<not> presents_proof K (st_secret st) request"
    and "bridge_handle C K H E request False st = (answer, st')"
  shows "st' = st \<and> (\<exists>response. answer = Some (response, False) \<and> refusal response)"
  using assms
  by (auto simp: bridge_handle_def Let_def presents_proof_def verify_pairing_iff split: if_splits)

definition unproven_item :: "crypto \<Rightarrow> string \<Rightarrow> pending_request \<Rightarrow> bool" where
  "unproven_item K secret item \<longleftrightarrow>
     \<not> pq_authenticated item \<and> \<not> presents_proof K secret (pq_request item)"

lemma handle_all_unproven:
  assumes "handle_all C K H E items st = (answers, finished, st')"
    and "\<forall>item \<in> set items. unproven_item K (st_secret st) item"
  shows "st' = st \<and> finished \<and> (\<forall>x \<in> set answers. \<not> snd (snd x) \<and> refusal (fst (snd x)))"
  using assms
proof (induction items arbitrary: answers finished st')
  case (Cons item items)
  obtain answer st1 where first:
    "bridge_handle C K H (E (length items)) (pq_request item) (pq_authenticated item) st = (answer, st1)"
    by force
  have item: "\<not> pq_authenticated item" "\<not> presents_proof K (st_secret st) (pq_request item)"
    using Cons.prems(2) by (simp_all add: unproven_item_def)
  have "st1 = st \<and> (\<exists>response. answer = Some (response, False) \<and> refusal response)"
    using first item by (intro handle_unproven [OF item(2)]) simp
  moreover obtain rest finished' st2 where "handle_all C K H E items st = (rest, finished', st2)"
    by (metis prod_cases3)
  moreover have "st2 = st \<and> finished' \<and> (\<forall>x \<in> set rest. \<not> snd (snd x) \<and> refusal (fst (snd x)))"
    using Cons.IH calculation(2) Cons.prems(2) by simp
  ultimately obtain response where "st' = st" "finished" "refusal response"
      "answers = (pq_reply item, response, False) # rest"
      "\<forall>x \<in> set rest. \<not> snd (snd x) \<and> refusal (fst (snd x))"
    using Cons.prems(1) first by auto
  then show ?case
    by simp
qed simp

text \<open>The request a client sends, and what the user, and nobody else, does to the bridge.\<close>

fun received :: "bridge_wire \<Rightarrow> 'w bridge_action \<Rightarrow> ipc_request option" where
  "received W (Receive input) = (case read_frame (bw_request_parse W) input of
     Ok (request, rest) \<Rightarrow> Some request | Err e \<Rightarrow> None)"
| "received W _ = None"

fun user_acts :: "'w bridge_action \<Rightarrow> 'w bridge_state \<Rightarrow> 'w bridge_state" where
  "user_acts (UserActs world seen) st = fold observe seen (st\<lparr>st_world := world\<rparr>)"
| "user_acts _ st = st"

definition unproven_run :: "crypto \<Rightarrow> string \<Rightarrow> 'w bridge_run \<Rightarrow> bool" where
  "unproven_run K secret s \<longleftrightarrow> st_secret (br_state s) = secret
     \<and> (\<forall>item \<in> set (st_queue (br_state s)). unproven_item K secret item)
     \<and> br_thread s \<noteq> Reading True \<and> (\<forall>call. br_thread s \<noteq> Awaiting call True)
     \<and> (\<forall>response \<in> set (br_written s). refusal response)"

lemma answer_client_simps [simp]:
  "br_state (answer_client W taken answer s) = br_state s" "br_calls (answer_client W taken answer s) = br_calls s"
  "br_poisoned (answer_client W taken answer s) = br_poisoned s" "br_stop (answer_client W taken answer s) = br_stop s"
  by (simp_all add: answer_client_def split: prod.split)

lemma give_up_simps [simp]:
  "br_state (give_up W taken authenticated s) = br_state s" "br_calls (give_up W taken authenticated s) = br_calls s"
  "br_poisoned (give_up W taken authenticated s) = br_poisoned s" "br_stop (give_up W taken authenticated s) = br_stop s"
  by (simp_all add: give_up_def)

lemma deliver_simps [simp]:
  "br_state (deliver W taken answers s) = br_state s" "br_calls (deliver W taken answers s) = br_calls s"
  "br_poisoned (deliver W taken answers s) = br_poisoned s" "br_stop (deliver W taken answers s) = br_stop s"
  by (simp_all add: deliver_def split: socket_thread.splits option.splits)

lemma deliver_unproven:
  assumes "unproven_run K secret s"
    and "\<forall>x \<in> set answers. \<not> snd (snd x) \<and> refusal (fst (snd x))"
  shows "unproven_run K secret (deliver W taken answers s)"
proof -
  have "\<not> authenticated \<and> refusal response" if "map_of answers call = Some (response, authenticated)"
    for call response authenticated
    using assms(2) map_of_SomeD [OF that] by fastforce
  then show ?thesis
    using assms(1) by (auto simp: deliver_def answer_client_def give_up_def busy_response_def unproven_run_def
        split: socket_thread.splits option.splits if_splits)
qed

lemma act_unproven:
  assumes "unproven_run K secret s" and "bridge_act C K W H a s = Some t"
    and "\<forall>request. received W a = Some request \<longrightarrow> \<not> presents_proof K secret request"
  shows "unproven_run K secret t
     \<and> (br_state t)\<lparr>st_queue := []\<rparr> = (user_acts a (br_state s))\<lparr>st_queue := []\<rparr>"
proof (cases a)
  case (Poll E taken)
  obtain answers finished st where all: "process_pending C K H E (br_state s) = (answers, finished, st)"
    by (metis prod_cases3)
  then have ok: "st = (br_state s)\<lparr>st_queue := []\<rparr>"
      "\<forall>x \<in> set answers. \<not> snd (snd x) \<and> refusal (fst (snd x))"
    using handle_all_unproven [of C K H E _ _ answers finished st] assms(1)
    by (auto simp: unproven_run_def process_pending_def)
  then have "unproven_run K secret (s\<lparr>br_state := st, br_poisoned := \<not> finished\<rparr>)"
    using assms(1) by (simp add: unproven_run_def)
  then have "unproven_run K secret (deliver W taken answers (s\<lparr>br_state := st, br_poisoned := \<not> finished\<rparr>))"
    using ok(2) by (rule deliver_unproven)
  then show ?thesis using Poll assms all ok(1) by (auto split: if_splits)
qed (use assms in \<open>auto simp: unproven_run_def enqueue_def unproven_item_def busy_response_def give_up_def
       answer_client_def split: if_splits socket_thread.splits sum.splits prod.splits\<close>)

lemma user_acts_queue:
  "(user_acts a (st\<lparr>st_queue := []\<rparr>))\<lparr>st_queue := []\<rparr> = (user_acts a st)\<lparr>st_queue := []\<rparr>"
proof (cases a)
  case (UserActs world seen)
  have swap: "(st\<lparr>st_queue := []\<rparr>)\<lparr>st_world := world\<rparr> = (st\<lparr>st_world := world\<rparr>)\<lparr>st_queue := []\<rparr>" by simp
  show ?thesis unfolding UserActs user_acts.simps swap fold_observe_queue by simp
qed simp_all

text \<open>C26: A client that never proves knowledge of the pairing secret changes nothing and learns nothing: as
  long as no request carries the proof for its own nonce, the bridge is in the state the user's actions
  alone lead to, apart from requests still queued, and everything written to a connection is an error
  without a payload.\<close>

theorem unproven_client_changes_nothing:
  assumes "bridge_reaches C K W H (run_new (bridge_new world session epoch secret)) as s"
    and "\<forall>a \<in> set as. \<forall>request. received W a = Some request \<longrightarrow> \<not> presents_proof K secret request"
  shows "(br_state s)\<lparr>st_queue := []\<rparr> = (fold user_acts as (bridge_new world session epoch secret))\<lparr>st_queue := []\<rparr>
     \<and> (\<forall>response \<in> set (br_written s). ir_status response = RespError \<and> ir_payload response = None)"
proof -
  have "unproven_run K secret s
     \<and> (br_state s)\<lparr>st_queue := []\<rparr> = (fold user_acts as (bridge_new world session epoch secret))\<lparr>st_queue := []\<rparr>"
    using assms
  proof induction
    case stay
    show ?case by (simp add: run_new_def bridge_new_def unproven_run_def)
  next
    case (act as t a u)
    let ?st = "fold user_acts as (bridge_new world session epoch secret)"
    have IH: "unproven_run K secret t" "(br_state t)\<lparr>st_queue := []\<rparr> = ?st\<lparr>st_queue := []\<rparr>"
      using act by auto
    have step: "unproven_run K secret u
        \<and> (br_state u)\<lparr>st_queue := []\<rparr> = (user_acts a (br_state t))\<lparr>st_queue := []\<rparr>"
      by (rule act_unproven [OF IH(1) act.hyps(2)]) (use act.prems in auto)
    then show ?case
      using IH(2) user_acts_queue [of a "br_state t"] user_acts_queue [of a ?st] by simp
  qed
  then show ?thesis by (simp add: unproven_run_def refusal_def)
qed

section \<open>Reviewed changes\<close>

text \<open>What a document a request looks at is, and what running the executor leaves behind.\<close>

abbreviation seen_at :: "'w bridge_host \<Rightarrow> bridge_env \<Rightarrow> nat \<Rightarrow> json \<Rightarrow> 'w bridge_state \<Rightarrow> json" where
  "seen_at H E site changeset st \<equiv>
     hs_snapshot H (st_world st) (be_site E site) (st_session st) (st_revision st) (str_at ''document'' changeset)"

definition applied :: "'w bridge_host \<Rightarrow> json \<Rightarrow> bool \<Rightarrow> 'w bridge_state \<Rightarrow> 'w bridge_state" where
  "applied H changeset commit st = (case hs_apply H (st_world st) changeset commit of
     (_, world, seen) \<Rightarrow> fold observe seen (st\<lparr>st_world := world\<rparr>))"

lemma applied_simps [simp]:
  "st_world (applied H v c st) = fst (snd (hs_apply H (st_world st) v c))"
  "st_session (applied H v c st) = st_session st" "st_previews (applied H v c st) = st_previews st"
  "st_write_blocked (applied H v c st) = st_write_blocked st" "st_queue (applied H v c st) = st_queue st"
  by (simp_all add: applied_def split: prod.splits)

lemma bridge_apply_eq:
  "bridge_apply H changeset commit st =
     (map_err host_fault (fst (hs_apply H (st_world st) changeset commit)), applied H changeset commit st)"
  by (simp add: bridge_apply_def run_host_def applied_def split: prod.splits)

definition commit_allowed ::
  "codec \<Rightarrow> 'w bridge_host \<Rightarrow> bridge_env \<Rightarrow> json \<Rightarrow> json \<Rightarrow> preview_record \<Rightarrow> 'w bridge_state \<Rightarrow> bool" where
  "commit_allowed C H E payload changeset reviewed st \<longleftrightarrow>
     required_changeset payload = Ok changeset
     \<and> bm_get (st_previews st) (bridge_changeset_hash C changeset) = Some reviewed
     \<and> str_or_empty ''preview_hash'' payload = pr_preview_hash reviewed
     \<and> validate_changeset (st_write_blocked st) (st_session st) changeset (seen_at H E 0 changeset st) = Ok ()
     \<and> snapshot_fingerprint C (seen_at H E 0 changeset st) = pr_base_fingerprint reviewed"

text \<open>The checks before the executor is called neither panic nor report a failed rollback.\<close>

fun plain_fault :: "bridge_fault \<Rightarrow> bool" where
  "plain_fault (Fault code message retryable) = (code \<noteq> ''rollback_verification_failed'')"
| "plain_fault Panicked = False"

definition plain_errors :: "('a, bridge_fault) result \<Rightarrow> bool" where
  "plain_errors r \<longleftrightarrow> (\<forall>f. r = Err f \<longrightarrow> plain_fault f)"

lemma plain_errors_intros:
  "plain_errors (Ok x)"
  "plain_fault f \<Longrightarrow> plain_errors (Err f :: ('a, bridge_fault) result)"
  "plain_fault f \<Longrightarrow> plain_errors (ensure b f)"
  "plain_fault f \<Longrightarrow> plain_errors (ok_or m f)"
  "plain_errors r \<Longrightarrow> (\<And>x. plain_errors (g x)) \<Longrightarrow> plain_errors (res_bind r g)"
  "(\<And>x. plain_errors (h x)) \<Longrightarrow> plain_errors (res_each h xs)"
  "plain_errors r \<Longrightarrow> plain_errors r' \<Longrightarrow> plain_errors (if b then r else r')"
  by (auto simp: plain_errors_def res_bind_Err_iff dest!: res_each_Err)

lemma reported_codes [simp]:
  "plain_fault revision_conflict"
  "plain_fault stale_reference"
  by (simp_all add: revision_conflict_def stale_reference_def)

lemma precondition_code: "plain_errors (validate_precondition entities snapshot p)"
  unfolding validate_precondition_def by (intro plain_errors_intros) simp_all

lemma operation_code: "plain_errors (validate_bridge_operation entities operation)"
  unfolding validate_bridge_operation_def
  by (intro plain_errors_intros) (auto split: option.splits intro!: plain_errors_intros)

lemma validate_code: "plain_errors (validate_changeset blocked session changeset snapshot)"
  unfolding validate_changeset_def Let_def
  by (intro plain_errors_intros precondition_code operation_code) simp_all

lemmas commit_unfolded = bridge_commit_def commit_allowed_def Let_def eff_bind_lift eff_bind_read
  take_snapshot_def validated_def eff_bind_def [of "bridge_apply H changeset True" for H changeset] bridge_apply_eq

lemma commit_failed:
  assumes "commit_allowed C H E payload changeset reviewed st"
    and "fst (hs_apply H (st_world st) changeset True) = Err message"
  shows "bridge_commit C H E payload st
    = (Err (host_fault message), applied H changeset True st)"
  using assms by (simp add: commit_unfolded)

lemma commit_committed:
  assumes "commit_allowed C H E payload changeset reviewed st"
    and "fst (hs_apply H (st_world st) changeset True) = Ok result"
  shows "\<exists>response. bridge_commit C H E payload st = (Ok response,
    (bump_for_changeset changeset (applied H changeset True st))
       \<lparr>st_previews := bm_remove (bridge_changeset_hash C changeset) (st_previews st)\<rparr>)"
  using assms by (simp add: commit_unfolded)

lemma commit_cases:
  assumes "bridge_commit C H E payload st = (r, st')"
  obtains (refused) f where "r = Err f" "st' = st" "plain_fault f"
  | (failed) changeset reviewed f where "commit_allowed C H E payload changeset reviewed st" "r = Err f"
      "st' = applied H changeset True st"
  | (committed) changeset reviewed response where "commit_allowed C H E payload changeset reviewed st"
      "r = Ok response"
      "st' = (bump_for_changeset changeset (applied H changeset True st))
         \<lparr>st_previews := bm_remove (bridge_changeset_hash C changeset) (st_previews st)\<rparr>"
proof (cases "\<exists>changeset reviewed. commit_allowed C H E payload changeset reviewed st")
  case True
  then obtain changeset reviewed where allowed: "commit_allowed C H E payload changeset reviewed st"
    by blast
  show thesis
  proof (cases "fst (hs_apply H (st_world st) changeset True)")
    case (Inl message)
    then show thesis using assms failed [OF allowed] commit_failed [OF allowed Inl] by auto
  next
    case (Inr result)
    then show thesis using assms committed [OF allowed] commit_committed [OF allowed Inr] by auto
  qed
next
  case False
  have "\<exists>f. r = Err f \<and> st' = st \<and> plain_fault f"
  proof (cases "required_changeset payload")
    case (Inl f)
    then have "r = Err f \<and> st' = st" using assms by (auto simp: bridge_commit_def eff_bind_lift)
    moreover have "plain_fault f" using Inl by (auto simp: required_changeset_def split: option.splits if_splits)
    ultimately show ?thesis by blast
  next
    case (Inr changeset)
    then show ?thesis
      using assms False validate_code [unfolded plain_errors_def]
      by (auto simp: bridge_commit_def commit_allowed_def Let_def eff_bind_lift eff_bind_read take_snapshot_def
          validated_def ensure_def unknown_preview_def split: sum.splits if_splits)
  qed
  then show thesis using refused by blast
qed

text \<open>C25: The bridge changes the document for a commit only if that very change set was previewed, the
  request names the hash of that preview, writes are not blocked, the change set is valid against the
  document as it now is and the document still has the content the preview started from; then it runs
  the change set once.  A commit that succeeds uses the preview up, so the same request is refused from
  then on; one that fails in the CAD program keeps it.\<close>

theorem commit_runs_only_a_reviewed_change:
  assumes "bridge_commit C H E payload st = (r, st')"
  shows "(st_world st' \<noteq> st_world st \<or> is_ok r \<longrightarrow> (\<exists>changeset reviewed.
        required_changeset payload = Ok changeset
        \<and> bm_get (st_previews st) (bridge_changeset_hash C changeset) = Some reviewed
        \<and> str_or_empty ''preview_hash'' payload = pr_preview_hash reviewed
        \<and> \<not> st_write_blocked st
        \<and> validate_changeset False (st_session st) changeset (seen_at H E 0 changeset st) = Ok ()
        \<and> snapshot_fingerprint C (seen_at H E 0 changeset st) = pr_base_fingerprint reviewed
        \<and> st_world st' = fst (snd (hs_apply H (st_world st) changeset True))))
     \<and> (is_ok r \<longrightarrow> (\<forall>E'. bridge_commit C H E' payload st' = (Err unknown_preview, st')))
     \<and> (\<not> is_ok r \<longrightarrow> st_previews st' = st_previews st)"
proof -
  have blocked: "\<not> st_write_blocked st" if "commit_allowed C H E payload v p st" for v p
    using that by (auto simp: commit_allowed_def validate_changeset_def)
  from assms show ?thesis
  proof (cases rule: commit_cases)
    case (committed changeset reviewed response)
    have "bridge_commit C H E' payload st' = (Err unknown_preview, st')" for E'
      using committed by (simp add: bridge_commit_def commit_allowed_def eff_bind_lift eff_bind_read Let_def)
    then show ?thesis using committed blocked by (auto simp: commit_allowed_def)
  qed (use blocked in \<open>auto simp: commit_allowed_def\<close>)
qed

definition previewed :: "codec \<Rightarrow> 'w bridge_host \<Rightarrow> bridge_env \<Rightarrow> json \<Rightarrow> 'w bridge_state \<Rightarrow> 'w bridge_state" where
  "previewed C H E changeset st =
     (let before = seen_at H E 0 changeset st;
          rolled_back = applied H changeset False st;
          shown = seen_at H E 1 changeset (bump_for_changeset changeset rolled_back) in
      rolled_back\<lparr>st_revision := st_revision st,
        st_previews := bm_insert (bridge_changeset_hash C changeset)
          \<lparr>pr_base_revision = snapshot_revision_id before, pr_base_fingerprint = snapshot_fingerprint C before,
           pr_preview_hash = preview_hash_of C (snapshot_revision_id before) (snapshot_fingerprint C before)
             (snapshot_fingerprint C shown) (bridge_changeset_hash C changeset)\<rparr> (st_previews st)\<rparr>)"

definition preview_allowed ::
  "'w bridge_host \<Rightarrow> bridge_env \<Rightarrow> json \<Rightarrow> json \<Rightarrow> 'w bridge_state \<Rightarrow> bool" where
  "preview_allowed H E payload changeset st \<longleftrightarrow>
     required_changeset payload = Ok changeset
     \<and> validate_changeset (st_write_blocked st) (st_session st) changeset (seen_at H E 0 changeset st) = Ok ()"

definition rollback_verified :: "codec \<Rightarrow> 'w bridge_host \<Rightarrow> bridge_env \<Rightarrow> json \<Rightarrow> 'w bridge_state \<Rightarrow> bool" where
  "rollback_verified C H E changeset st \<longleftrightarrow>
     snapshot_fingerprint C (seen_at H E 2 changeset ((applied H changeset False st)\<lparr>st_revision := st_revision st\<rparr>))
       = snapshot_fingerprint C (seen_at H E 0 changeset st)"

lemmas preview_unfolded = bridge_preview_def preview_allowed_def Let_def eff_bind_lift eff_bind_read
  take_snapshot_def validated_def eff_bind_def [of "bridge_apply H changeset False" for H changeset] bridge_apply_eq

lemma preview_failed:
  assumes "preview_allowed H E payload changeset st" and "fst (hs_apply H (st_world st) changeset False) = Err message"
  shows "bridge_preview C H E payload st
    = (Err (host_fault message), applied H changeset False st)"
  using assms by (simp add: preview_unfolded)

lemma preview_unverified:
  assumes "preview_allowed H E payload changeset st" and "fst (hs_apply H (st_world st) changeset False) = Ok result"
    and "\<not> rollback_verified C H E changeset st"
  shows "bridge_preview C H E payload st
    = (Err (fault ''rollback_verification_failed'' ''rollback verification failed'' False),
       (applied H changeset False st)\<lparr>st_revision := st_revision st, st_write_blocked := True\<rparr>)"
  using assms by (simp add: preview_unfolded rollback_verified_def)

lemma preview_shown:
  assumes "preview_allowed H E payload changeset st" and "fst (hs_apply H (st_world st) changeset False) = Ok result"
    and "rollback_verified C H E changeset st"
  shows "\<exists>response. bridge_preview C H E payload st = (Ok response, previewed C H E changeset st)"
  using assms by (simp add: preview_unfolded rollback_verified_def previewed_def)

lemma preview_cases:
  assumes "bridge_preview C H E payload st = (r, st')"
  obtains (refused) f where "r = Err f" "st' = st" "plain_fault f"
  | (failed) changeset message where "preview_allowed H E payload changeset st"
      "r = Err (host_fault message)" "st' = applied H changeset False st"
  | (unverified) changeset where "preview_allowed H E payload changeset st"
      "\<not> rollback_verified C H E changeset st"
      "r = Err (fault ''rollback_verification_failed'' ''rollback verification failed'' False)"
      "st' = (applied H changeset False st)\<lparr>st_revision := st_revision st, st_write_blocked := True\<rparr>"
  | (shown) changeset response where "preview_allowed H E payload changeset st"
      "rollback_verified C H E changeset st" "r = Ok response" "st' = previewed C H E changeset st"
proof (cases "\<exists>changeset. preview_allowed H E payload changeset st")
  case True
  then obtain changeset where allowed: "preview_allowed H E payload changeset st" by blast
  show thesis
  proof (cases "fst (hs_apply H (st_world st) changeset False)")
    case (Inl message)
    then show thesis using assms failed [OF allowed] preview_failed [OF allowed Inl] by auto
  next
    case (Inr result)
    then show thesis
      using assms shown [OF allowed] unverified [OF allowed] preview_shown [OF allowed Inr, of C]
        preview_unverified [OF allowed Inr, of C]
      by (cases "rollback_verified C H E changeset st") auto
  qed
next
  case False
  have "\<exists>f. r = Err f \<and> st' = st \<and> plain_fault f"
    using assms False validate_code [unfolded plain_errors_def]
    by (auto simp: bridge_preview_def preview_allowed_def Let_def eff_bind_lift eff_bind_read take_snapshot_def
        validated_def required_changeset_def split: sum.splits if_splits option.splits)
  then show thesis using refused by blast
qed

section \<open>A rollback that cannot be verified\<close>

lemma host_fault_not_rollback: "host_fault e \<noteq> fault ''rollback_verification_failed'' message retryable"
  by (cases e) (simp_all add: bridge_error_code_def)

lemma blocked_preview:
  assumes "st_write_blocked st" and "bridge_preview C H E payload st = (r, st')"
  shows "\<not> is_ok r \<and> st' = st"
  using assms(2)
  by (cases rule: preview_cases) (use assms(1) in \<open>auto simp: preview_allowed_def validate_changeset_def\<close>)

lemma blocked_commit:
  assumes "st_write_blocked st" and "bridge_commit C H E payload st = (r, st')"
  shows "\<not> is_ok r \<and> st' = st"
  using assms(2)
  by (cases rule: commit_cases) (use assms(1) in \<open>auto simp: commit_allowed_def validate_changeset_def\<close>)

text \<open>Undo and redo do not look at the block.\<close>

lemma undo_runs:
  "st_world (snd (bridge_undo H document st)) = fst (snd (hs_undo H (st_world st) document))
   \<and> is_ok (fst (bridge_undo H document st)) = is_ok (fst (hs_undo H (st_world st) document))"
  by (cases "fst (hs_undo H (st_world st) document)")
    (auto simp: bridge_undo_def eff_bind_def eff_modify_def eff_read_def run_host_def split: prod.splits sum.splits)

lemma redo_runs:
  "st_world (snd (bridge_redo H document st)) = fst (snd (hs_redo H (st_world st) document))
   \<and> is_ok (fst (bridge_redo H document st)) = is_ok (fst (hs_redo H (st_world st) document))"
  by (cases "fst (hs_redo H (st_world st) document)")
    (auto simp: bridge_redo_def eff_bind_def eff_modify_def eff_read_def run_host_def split: prod.splits sum.splits)

lemma act_kept: "bridge_act C K W H a s = Some t \<Longrightarrow> st_write_blocked (br_state s) \<Longrightarrow> st_write_blocked (br_state t)"
proof (cases a)
  case (Poll E taken)
  assume "bridge_act C K W H a s = Some t" and "st_write_blocked (br_state s)"
  then show ?thesis using Poll
    by (auto simp: process_pending_def bridge_kept_def dest!: handle_all_kept split: prod.splits if_splits)
qed (auto simp: enqueue_def split: if_splits socket_thread.splits sum.splits prod.splits)

lemma reaches_blocked:
  "bridge_reaches C K W H s as t \<Longrightarrow> st_write_blocked (br_state s) \<Longrightarrow> st_write_blocked (br_state t)"
  by (induction rule: bridge_reaches.induct) (auto dest: act_kept)

text \<open>C27: When the document after a preview does not have the content it had before, the preview is
  refused and the bridge stops writing for good: whatever happens afterwards, no preview and no commit
  succeeds or changes anything.  The block does not reach undo and redo: both still
  run in the CAD program, change the documents as it does, and succeed exactly when it does.  And
  the revision the document had before the failed rollback is kept, although its content is another.\<close>

theorem unverified_rollback_blocks_writes:
  assumes "bridge_preview C H E payload st
      = (Err (fault ''rollback_verification_failed'' message retryable), br_state s)"
    and "bridge_reaches C K W H s as t"
  shows "st_revision (br_state s) = st_revision st
     \<and> (\<forall>E payload. \<not> is_ok (fst (bridge_preview C H E payload (br_state t)))
                   \<and> snd (bridge_preview C H E payload (br_state t)) = br_state t)
     \<and> (\<forall>E payload. \<not> is_ok (fst (bridge_commit C H E payload (br_state t)))
                   \<and> snd (bridge_commit C H E payload (br_state t)) = br_state t)
     \<and> (\<forall>document. st_world (snd (bridge_undo H document (br_state t)))
                   = fst (snd (hs_undo H (st_world (br_state t)) document))
         \<and> is_ok (fst (bridge_undo H document (br_state t)))
                   = is_ok (fst (hs_undo H (st_world (br_state t)) document)))
     \<and> (\<forall>document. st_world (snd (bridge_redo H document (br_state t)))
                   = fst (snd (hs_redo H (st_world (br_state t)) document))
         \<and> is_ok (fst (bridge_redo H document (br_state t)))
                   = is_ok (fst (hs_redo H (st_world (br_state t)) document)))"
proof -
  have "st_write_blocked (br_state s) \<and> st_revision (br_state s) = st_revision st"
    using assms(1) by (cases rule: preview_cases) (use host_fault_not_rollback in \<open>auto simp: eq_commute\<close>)
  moreover have "st_write_blocked (br_state t)"
    using reaches_blocked [OF assms(2)] calculation by simp
  moreover have "\<not> is_ok (fst (bridge_preview C H E payload st)) \<and> snd (bridge_preview C H E payload st) = st"
    "\<not> is_ok (fst (bridge_commit C H E payload st)) \<and> snd (bridge_commit C H E payload st) = st"
    if "st_write_blocked st" for E payload and st :: "'a bridge_state"
    using blocked_preview [OF that prod.collapse [symmetric]] blocked_commit [OF that prod.collapse [symmetric]] by blast+
  ultimately show ?thesis
    using undo_runs [of H _ "br_state t"] redo_runs [of H _ "br_state t"] by blast
qed

section \<open>Requests that time out\<close>

definition call_queued :: "'w bridge_run \<Rightarrow> bool" where
  "call_queued s \<longleftrightarrow> (\<forall>call authenticated. br_thread s = Awaiting call authenticated \<longrightarrow>
     call \<in> pq_reply ` set (st_queue (br_state s)))"

lemma answer_client_ends_wait [simp]: "br_thread (answer_client W taken answer s) \<noteq> Awaiting call authenticated"
  by (simp add: answer_client_def split: prod.split)

text \<open>A poll that works ends every wait.\<close>

lemma poll_answers:
  assumes "br_thread s = Awaiting call authenticated" and "\<not> br_poisoned s" and "\<not> br_stop s"
  obtains answer finished st where "bridge_act C K W H (Poll E taken) s
      = Some (answer_client W taken answer (s\<lparr>br_state := st, br_poisoned := \<not> finished\<rparr>))"
    "snd (process_pending C K H E (br_state s)) = (finished, st)"
proof -
  obtain answers finished st where all: "process_pending C K H E (br_state s) = (answers, finished, st)"
    by (metis prod_cases3)
  show thesis
    using that [of "case map_of answers call of Some answer \<Rightarrow> answer | None \<Rightarrow> (busy_response st, authenticated)" finished st]
      assms all
    by (cases "map_of answers call") (simp_all add: deliver_def give_up_def)
qed

lemma act_queued:
  assumes "call_queued s" and "bridge_act C K W H a s = Some t"
  shows "call_queued t"
proof (cases a)
  case (Poll E taken)
  show ?thesis
  proof (cases "br_poisoned s \<or> (\<forall>call authenticated. br_thread s \<noteq> Awaiting call authenticated)")
    case True
    then show ?thesis using assms Poll
      by (auto simp: call_queued_def deliver_def split: prod.splits if_splits socket_thread.splits)
  next
    case False
    then obtain call authenticated where waits: "br_thread s = Awaiting call authenticated" "\<not> br_poisoned s" by blast
    have "\<not> br_stop s" using assms(2) Poll by auto
    from poll_answers [OF waits this, of C K W H E taken] obtain answer u where "t = answer_client W taken answer u"
      using assms(2) Poll by (metis option.inject)
    then show ?thesis by (simp add: call_queued_def)
  qed
qed (use assms in \<open>auto simp: call_queued_def enqueue_def give_up_def
       split: if_splits socket_thread.splits sum.splits prod.splits\<close>)

lemma reaches_queued: "bridge_reaches C K W H (run_new st) as s \<Longrightarrow> call_queued s"
proof (induction rule: bridge_reaches.induct)
  case stay
  show ?case by (simp add: call_queued_def run_new_def)
qed (rule act_queued)

text \<open>C29: Unless the bridge is being stopped, the next poll of the main thread ends the wait of a connection
  with an answer.  If the socket thread gives up before that, it answers with a retryable error under the
  request id "unknown", but the request is still in the queue: the poll runs it all the same, with the
  same effect on the document, and its answer is lost.  An answer that fits a frame and that the socket
  takes is written; any other ends the connection, and the request runs all the same.\<close>

theorem timed_out_request_still_runs:
  assumes "bridge_reaches C K W H (run_new st) as s" and "br_thread s = Awaiting call authenticated"
    and "\<not> br_poisoned s" and "\<not> br_stop s"
  shows "\<exists>gave_up in_time late response authenticated'.
       bridge_act C K W H (Poll E taken) s = Some in_time
     \<and> bridge_act C K W H (TimeOut taken) s = Some gave_up
     \<and> call \<in> pq_reply ` set (st_queue (br_state gave_up))
     \<and> bridge_act C K W H (Poll E taken) gave_up = Some late
     \<and> (if sends W taken response
        then br_thread in_time = Reading authenticated' \<and> br_written in_time = br_written s @ [response]
        else br_thread in_time = Looping \<and> br_written in_time = br_written s)
     \<and> (let busy = fault_response (br_state s) ''unknown''
              (fault ''bridge_busy'' ''bridge main thread did not respond'' True) in
        if sends W taken busy
        then br_thread late = Reading authenticated \<and> br_written late = br_written s @ [busy]
        else br_thread late = Looping \<and> br_written late = br_written s)
     \<and> br_state late = br_state in_time"
proof -
  obtain answer finished st' where poll: "bridge_act C K W H (Poll E taken) s
      = Some (answer_client W taken answer (s\<lparr>br_state := st', br_poisoned := \<not> finished\<rparr>))"
    and st': "snd (process_pending C K H E (br_state s)) = (finished, st')"
    using poll_answers [OF assms(2,3,4)] by blast
  have queued: "call \<in> pq_reply ` set (st_queue (br_state s))"
    using reaches_queued [OF assms(1)] assms(2) by (simp add: call_queued_def)
  have late: "bridge_act C K W H (Poll E taken) (give_up W taken authenticated s)
      = Some ((give_up W taken authenticated s)\<lparr>br_state := st', br_poisoned := \<not> finished\<rparr>)"
    using st' assms(3,4) by (auto simp: deliver_def give_up_def answer_client_def split: prod.splits)
  have timed_out: "bridge_act C K W H (TimeOut taken) s = Some (give_up W taken authenticated s)"
    using assms(2) by simp
  show ?thesis
    by (rule exI [of _ "give_up W taken authenticated s"],
        rule exI [of _ "answer_client W taken answer (s\<lparr>br_state := st', br_poisoned := \<not> finished\<rparr>)"],
        rule exI [of _ "(give_up W taken authenticated s)\<lparr>br_state := st', br_poisoned := \<not> finished\<rparr>"],
        rule exI [of _ "fst answer"], rule exI [of _ "snd answer"], intro conjI, fact poll, fact timed_out, simp add: queued, fact late)
      (simp_all add: give_up_def answer_client_def busy_response_def Let_def split_beta)
qed

section \<open>Revisions in snapshots\<close>

text \<open>The classes of events that advance a counter.\<close>

definition counter_classes :: "string list" where
  "counter_classes = [''geometry'', ''parametric'', ''transaction'', ''metadata'', ''focus'', ''view'']"

lemma bump_class_counter:
  "rev_geometry (bump_class c r) = rev_geometry r + of_bool (c \<in> {''geometry'', ''parametric'', ''transaction''})"
  "rev_metadata (bump_class c r) = rev_metadata r + of_bool (c = ''metadata'')"
  "rev_focus (bump_class c r) = rev_focus r + of_bool (c = ''focus'')"
  "rev_view (bump_class c r) = rev_view r + of_bool (c = ''view'')"
  "rev_epoch (bump_class c r) = rev_epoch r"
  by (auto simp: bump_class_def)

lemma fold_counter:
  assumes "\<And>c r. counter (bump_class c r) = counter r + (of_bool (P c) :: 64 word)"
  shows "counter (fold bump_class cs r) = counter r + word_of_nat (length (filter P cs))"
  by (induction cs arbitrary: r) (auto simp: assms algebra_simps)

lemma fold_counter_moves:
  assumes "\<And>c r. counter (bump_class c r) = counter r + (of_bool (P c) :: 64 word)"
    and "c \<in> set cs" and "P c" and "length cs < 2 ^ 64"
  shows "fold bump_class cs r \<noteq> r"
proof
  assume "fold bump_class cs r = r"
  then have "(word_of_nat (length (filter P cs)) :: 64 word) = 0"
    using fold_counter [of counter P cs r, OF assms(1)] by simp
  moreover have "length (filter P cs) < 2 ^ 64"
    using assms(4) length_filter_le [of P cs] by linarith
  ultimately have "length (filter P cs) = 0"
    by (auto simp: word_of_nat_eq_0_iff dest: dvd_imp_le)
  then show False using assms(2,3) by (auto simp: filter_empty_conv)
qed

lemma fold_bump_moves:
  assumes "c \<in> set cs" and "c \<in> set counter_classes" and "length cs < 2 ^ 64"
  shows "fold bump_class cs r \<noteq> r"
proof -
  note moves = fold_counter_moves [OF _ assms(1) _ assms(3)]
  have "c \<in> {''geometry'', ''parametric'', ''transaction''} \<or> c = ''metadata'' \<or> c = ''focus'' \<or> c = ''view''"
    using assms(2) by (simp add: counter_classes_def)
  then show ?thesis
    by (elim disjE) (erule moves [OF bump_class_counter(1)] moves [OF bump_class_counter(2)]
        moves [OF bump_class_counter(3)] moves [OF bump_class_counter(4)])+
qed

lemma counters_of_revision:
  "counter_at ''geometry'' (json_of_revision r) = show_u64 (rev_geometry r)"
  "counter_at ''metadata'' (json_of_revision r) = show_u64 (rev_metadata r)"
  "counter_at ''focus'' (json_of_revision r) = show_u64 (rev_focus r)"
  "counter_at ''view'' (json_of_revision r) = show_u64 (rev_view r)"
  "str_at ''epoch'' (json_of_revision r) = Some (rev_epoch r)"
  by (simp_all add: counter_at_def json_of_revision_def json_of_nat_def show_u64_def str_at_def)

lemma snapshot_revision_id_eq:
  "jget ''revision'' v = Some (json_of_revision r) \<Longrightarrow> snapshot_revision_id v = revision_id r"
  by (simp add: snapshot_revision_id_def counters_of_revision revision_id_def)

lemma revision_matches_iff:
  "jget ''revision'' v = Some (json_of_revision r) \<Longrightarrow>
   revision_matches (Some wanted) v \<longleftrightarrow> wanted = revision_id r \<or> wanted = geometry_id r"
  by (simp add: revision_matches_def snapshot_revision_id_eq index_json_def counters_of_revision geometry_id_def)

lemma revision_id_not_geometry_id: "revision_id r = geometry_id s \<Longrightarrow>
   rev_epoch s = ''m'' @ show_u64 (rev_metadata r) @ ''.f'' @ show_u64 (rev_focus r) @ ''.v''
     @ show_u64 (rev_view r) @ ''.'' @ rev_epoch r"
  by (auto simp: revision_id_def geometry_id_def)

lemma revision_ids_differ:
  assumes "rev_epoch r = rev_epoch s" and "r \<noteq> s"
  shows "revision_id r \<noteq> revision_id s" and "revision_id r \<noteq> geometry_id s"
proof -
  show "revision_id r \<noteq> revision_id s" using assms(2) by (simp add: revision_id_eq_iff)
  show "revision_id r \<noteq> geometry_id s"
  proof
    assume "revision_id r = geometry_id s"
    then have "length (rev_epoch s) > length (rev_epoch r)"
      using revision_id_not_geometry_id by fastforce
    then show False using assms(1) by simp
  qed
qed

lemma validate_wrong_revision:
  assumes "jget ''revision'' snapshot = Some (json_of_revision s)"
    and "str_at ''base_revision'' changeset = Some (revision_id r)"
    and "rev_epoch r = rev_epoch s" and "r \<noteq> s"
  shows "\<not> is_ok (validate_changeset blocked session changeset snapshot)"
proof -
  have "\<not> revision_matches (str_at ''base_revision'' changeset) snapshot"
    using assms revision_ids_differ [OF assms(3,4)] by (simp add: revision_matches_iff)
  then show ?thesis by (auto simp: is_ok_iff validate_changeset_def Let_def)
qed

section \<open>Events left over from a preview\<close>

lemma fold_bump_epoch: "rev_epoch (fold bump_class cs r) = rev_epoch r"
  by (induction cs arbitrary: r) (simp_all add: bump_class_counter)

lemma forced_flush_revision:
  "st_revision (flush_events True now st)
     = fold bump_class (map fst (sort_key (pe_sequence \<circ> snd) (ev_pending (st_events st)))) (st_revision st)"
proof -
  have ready: "filter (event_ready True now) m = m" for m
    by (simp add: event_ready_def filter_id_conv case_prod_beta)
  show ?thesis by (simp add: flush_events_def flush_def Let_def ready fold_bump_revision)
qed

text \<open>A preview the bridge accepts is lost when the CAD program left an event pending: the next commit
  flushes it, the revision moves on, and the very change set that was just previewed is refused
  although nobody touched the document.\<close>

theorem leftover_events_defeat_the_commit:
  assumes "\<And>world now session r document.
      jget ''revision'' (hs_snapshot H world now session r document) = Some (json_of_revision r)"
    and "bridge_preview C H E payload st = (Ok response, st')"
    and "Option.bind (jget ''changeset'' payload) (str_at ''base_revision'') = Some (revision_id (st_revision st))"
    and "event_class \<in> set (bm_keys (ev_pending (st_events st')))" and "event_class \<in> set counter_classes"
    and "length (ev_pending (st_events st')) < 2 ^ 64"
    and "iq_message request = ''bridge.commit''" and "jget ''changeset'' (iq_payload request) = jget ''changeset'' payload"
  shows "\<exists>response authenticated st''. bridge_handle C K H E' request True st' = (Some (response, authenticated), st'')
     \<and> ir_status response = RespError \<and> st_world st'' = st_world st'"
proof -
  obtain changeset where changeset: "required_changeset payload = Ok changeset"
    and rev: "st_revision st' = st_revision st"
    using assms(2) by (cases rule: preview_cases) (auto simp: preview_allowed_def previewed_def Let_def)
  let ?st = "flush_events True (be_instant E') st'"
  let ?events = "sort_key (pe_sequence \<circ> snd) (ev_pending (st_events st'))"
  have moved: "st_revision ?st \<noteq> st_revision st" "rev_epoch (st_revision ?st) = rev_epoch (st_revision st)"
    using fold_bump_moves [of event_class "map fst ?events" "st_revision st"] assms(4-6) rev
    by (auto simp: forced_flush_revision fold_bump_epoch)
  have inner: "required_changeset (iq_payload request) = Ok changeset"
    using changeset assms(8) by (simp add: required_changeset_def)
  have base: "str_at ''base_revision'' changeset = Some (revision_id (st_revision st))"
    using assms(3) changeset by (auto simp: required_changeset_def split: option.splits if_splits)
  have "\<not> commit_allowed C H E' (iq_payload request) v p ?st" for v p
    using validate_wrong_revision [OF assms(1) base moved(2) [symmetric]] moved(1) inner
    by (auto simp: commit_allowed_def is_ok_iff)
  note not_allowed = this
  obtain r st'' where run: "bridge_commit C H E' (iq_payload request) ?st = (r, st'')" by force
  then have "\<exists>f. r = Err f \<and> st'' = ?st \<and> plain_fault f"
    by (cases rule: commit_cases) (use not_allowed in auto)
  then obtain code message retryable where refused:
    "dispatch C H E' (iq_message request) (iq_payload request) ?st = (Err (fault code message retryable), ?st)"
    using run assms(7) by (auto simp: dispatch_def elim: plain_fault.elims)
  show ?thesis
    using refused assms(7)
    by (auto simp: bridge_handle_def Let_def forces_flush_def fault_response_def)
qed

section \<open>Undo over the wire\<close>

definition well_formed :: "'w bridge_state \<Rightarrow> ipc_request \<Rightarrow> bool" where
  "well_formed st request \<longleftrightarrow>
     iq_protocol_version request = IPC_VERSION \<and> iq_session_epoch request = st_epoch st"

text \<open>An undo the CAD program performs is answered with a success whose payload is no change response: a
  client that requires the member "base_revision" of it, as the sidecar does, sees an error after the
  document has been undone.\<close>

theorem live_undo_is_reported_as_a_failure:
  assumes "\<And>v. jget ''base_revision'' v = None \<Longrightarrow> \<not> is_ok (from_json v)"
    and "well_formed st request" and "iq_message request = ''bridge.undo''"
    and "fst (hs_undo H (st_world st) (str_at ''document'' (iq_payload request))) = Ok ()"
  shows "\<exists>response st'. bridge_handle C K H E request True st = (Some (response, True), st')
     \<and> ir_status response = RespOk
     \<and> st_world st' = fst (snd (hs_undo H (st_world st) (str_at ''document'' (iq_payload request))))
     \<and> \<not> is_ok (decode_payload from_json response)"
proof -
  obtain world seen where undone:
    "hs_undo H (st_world st) (str_at ''document'' (iq_payload request)) = (Ok (), world, seen)"
    using assms(4) by (metis prod.collapse)
  have "\<not> is_ok (from_json (navigation_response n m r))" for n m r
    by (rule assms(1)) (simp add: navigation_response_def)
  then have bad: "\<not> is_ok (map_err IpcSerialization (from_json (navigation_response n m r)))" for n m r
    by (metis is_ok_iff map_err_Ok_iff)
  show ?thesis
    using assms(2,3) undone bad
    by (simp add: bridge_handle_def well_formed_def Let_def dispatch_def bridge_undo_def run_host_def eff_bind_def
        ok_response_def decode_payload_def)
qed

end
