(* ===== verification/BridgeSamples.thy ===== *)
theory BridgeSamples
  imports BridgeLaws
begin

text \<open>
  A small host of the bridge, at which the properties of the bridge are evaluated: a document of one
  object with one number, whose changes are counted, and which the flaw of a host can be switched on
  for: a rollback that leaves the change behind, or an event after it.
\<close>

section \<open>A printer of documents\<close>

fun plain_text :: "json \<Rightarrow> string" and plain_members :: "(string \<times> json) list \<Rightarrow> string"
    and plain_items :: "json list \<Rightarrow> string" where
  "plain_text JNull = ''null''"
| "plain_text (JBool b) = (if b then ''true'' else ''false'')"
| "plain_text (JNum (PosInt n)) = show_nat n"
| "plain_text (JNum _) = ''number''"
| "plain_text (JStr s) = CHR ''!'' # s @ ''!''"
| "plain_text (JArr vs) = ''['' @ plain_items vs @ '']''"
| "plain_text (JObj kvs) = ''{'' @ plain_members kvs @ ''}''"
| "plain_members [] = []"
| "plain_members ((k, v) # kvs) = k @ '':'' @ plain_text v @ '','' @ plain_members kvs"
| "plain_items [] = []"
| "plain_items (v # vs) = plain_text v @ '','' @ plain_items vs"

definition bridge_codec :: codec where
  "bridge_codec = sample_codec\<lparr>json_text := plain_text\<rparr>"

definition bridge_crypto :: crypto where
  "bridge_crypto = \<lparr>hmac_hex = (\<lambda>secret nonce. secret @ nonce), token_text = (\<lambda>_. []),
     token_parse = (\<lambda>_. Err ''token''), rules_text = (\<lambda>_. [])\<rparr>"

section \<open>A host\<close>

definition sample_seen :: "nat \<Rightarrow> snapshot_env \<Rightarrow> string \<Rightarrow> revision \<Rightarrow> string option \<Rightarrow> json" where
  "sample_seen world site session r document = jobj
     [(''document'', JStr ''d''), (''revision'', json_of_revision r),
      (''entities'', JArr [jobj
         [(''ref'', JStr (''fc://A@'' @ revision_id r)), (''identity'', jobj [(''state'', JStr ''exact'')]),
          (''properties'', jobj [(''Length'', json_of_nat world)])]])]"

definition sample_host :: "bool \<Rightarrow> observed list \<Rightarrow> nat bridge_host" where
  "sample_host keeps late =
     \<lparr>hs_snapshot = sample_seen, hs_documents = (\<lambda>_. [''d'']),
      hs_apply = (\<lambda>world changeset commit. (Ok \<lparr>or_changed = [''A''], or_checks = []\<rparr>,
        if commit \<or> keeps then world + 1 else world, late)),
      hs_undo = (\<lambda>world document. (Ok (), world - 1, [])),
      hs_redo = (\<lambda>world document. (Ok (), world + 1, [])),
      hs_version = (\<lambda>_. None), hs_python = (\<lambda>_. None), hs_workbench = (\<lambda>_. None), hs_gui = False\<rparr>"

definition sample_env :: bridge_env where
  "sample_env = \<lparr>be_site = (\<lambda>_. \<lparr>se_now = 0, se_order = (\<lambda>xs. xs)\<rparr>), be_instant = 0\<rparr>"

definition sample_bridge :: "nat bridge_state" where
  "sample_bridge = bridge_new 7 ''s'' ''e'' ''k''"

definition sample_changes :: json where
  "sample_changes = JObj
     [(''base_revision'', JStr ''g0.m0.f0.v0.e''), (''document'', JStr ''d''),
      (''operations'', JArr [JObj [(''op'', JStr ''set_property''), (''target'', JStr ''fc://A@g0.m0.f0.v0.e'')]]),
      (''schema_version'', JStr ''changeset/1.0'')]"

definition sample_payload :: json where
  "sample_payload = JObj [(''changeset'', sample_changes)]"

lemmas bridge_sample_defs = bridge_codec_def bridge_crypto_def sample_seen_def sample_host_def sample_env_def
  sample_bridge_def sample_changes_def sample_payload_def

lemma sample_validates:
  "validate_changeset False ''s'' sample_changes (sample_seen world now session (revision_new ''e'') document) = Ok ()"
  by code_simp

lemma sample_preview_allowed:
  "preview_allowed (sample_host keeps late) sample_env sample_payload sample_changes sample_bridge"
  using sample_validates
  by (simp add: preview_allowed_def required_changeset_def sample_payload_def sample_changes_def is_object_def
      sample_bridge_def bridge_new_def sample_host_def)

section \<open>Runs\<close>

inductive_cases reaches_snocE: "bridge_reaches C K W H s (as @ [a]) t"

lemma reaches_iff:
  "bridge_reaches C K W H s as t \<longleftrightarrow> foldl (\<lambda>m a. Option.bind m (bridge_act C K W H a)) (Some s) as = Some t"
proof (induction as arbitrary: t rule: rev_induct)
  case Nil
  show ?case by (auto elim: bridge_reaches.cases intro: bridge_reaches.stay)
next
  case (snoc a as)
  show ?case
    using snoc.IH by (auto elim!: reaches_snocE intro: bridge_reaches.act simp: bind_eq_Some_conv)
qed

definition sample_request :: "string \<Rightarrow> json \<Rightarrow> ipc_request" where
  "sample_request message payload = \<lparr>iq_protocol_version = IPC_VERSION, iq_message = message,
     iq_request_id = ''r1'', iq_session_epoch = ''e'', iq_deadline_ms = 1000, iq_payload = payload\<rparr>"

text \<open>Texts of requests on the wire are one byte; the answers have a text that fits.\<close>

definition sample_proof :: ipc_request where
  "sample_proof = sample_request ''bridge.authenticate'' (JObj [(''nonce'', JStr ''n''), (''proof'', JStr ''kn'')])"

definition sample_wire :: bridge_wire where
  "sample_wire = \<lparr>bw_request_parse = (\<lambda>t. if t = ''u'' then Ok (sample_request ''bridge.undo'' JNull)
       else if t = ''p'' then Ok sample_proof else Err ''expected value''),
     bw_response_text = (\<lambda>response. ''{}'')\<rparr>"

definition sent :: "string \<Rightarrow> string" where
  "sent t = be_bytes (word_of_nat (length t)) @ t"

lemma read_sent [simp]:
  assumes "length t \<le> MAX_FRAME"
  shows "read_frame parse (sent t) = res_bind (map_err WireSerialization (parse t)) (\<lambda>v. Ok (v, []))"
proof -
  have body: "read_exact (length t) t = Ok (t, [])" by (simp add: read_exact_def)
  show ?thesis using assms by (simp add: read_frame_def sent_def length_frame body)
qed

lemma sample_sends [simp]: "sends sample_wire taken response \<longleftrightarrow> taken"
  by (simp add: sends_def sample_wire_def write_frame_def MAX_FRAME_def)

lemma sample_reads [simp]:
  "read_frame (bw_request_parse sample_wire) (sent ''u'') = Ok (sample_request ''bridge.undo'' JNull, [])"
  "read_frame (bw_request_parse sample_wire) (sent ''p'') = Ok (sample_proof, [])"
  by (simp_all add: MAX_FRAME_def) (simp_all add: sample_wire_def)

definition stranger :: "nat bridge_action list" where
  "stranger = [CheckStop, Accept, Receive (sent ''u''), Poll (\<lambda>_. sample_env) True]"

lemma stranger_run:
  "\<exists>s. bridge_reaches bridge_codec bridge_crypto sample_wire (sample_host False []) (run_new sample_bridge) stranger s
     \<and> length (br_written s) = 1"
  by (simp add: reaches_iff stranger_def run_new_def enqueue_def process_pending_def bridge_handle_def Let_def
      sample_request_def deliver_def answer_client_def sample_bridge_def bridge_new_def)

theorem unproven_client_changes_nothing_witness:
  "\<exists>s. bridge_reaches bridge_codec bridge_crypto sample_wire (sample_host False []) (run_new (bridge_new 7 ''s'' ''e'' ''k'')) stranger s
     \<and> st_world (br_state s) = 7 \<and> length (br_written s) = 1
     \<and> (\<forall>response \<in> set (br_written s). ir_status response = RespError)"
proof -
  obtain s where s: "bridge_reaches bridge_codec bridge_crypto sample_wire (sample_host False [])
      (run_new (bridge_new 7 ''s'' ''e'' ''k'')) stranger s" "length (br_written s) = 1"
    using stranger_run by (auto simp: sample_bridge_def)
  have "\<forall>a \<in> set stranger. \<forall>request. received sample_wire a = Some request
      \<longrightarrow> \<not> presents_proof bridge_crypto ''k'' request"
    by (auto simp: stranger_def presents_proof_def sample_request_def)
  from unproven_client_changes_nothing [OF s(1) this]
  have "(br_state s)\<lparr>st_queue := []\<rparr> = (fold user_acts stranger (bridge_new 7 ''s'' ''e'' ''k''))\<lparr>st_queue := []\<rparr>"
    and written: "\<forall>response \<in> set (br_written s). ir_status response = RespError"
    by simp_all
  then have "st_world ((br_state s)\<lparr>st_queue := []\<rparr>) = 7"
    by (simp add: stranger_def bridge_new_def)
  then show ?thesis using s written by auto
qed

section \<open>Previews and commits\<close>

definition reviewed_bridge :: "observed list \<Rightarrow> nat bridge_state" where
  "reviewed_bridge late = previewed bridge_codec (sample_host False late) sample_env sample_changes sample_bridge"

lemma sample_rollback:
  "rollback_verified bridge_codec (sample_host False late) sample_env sample_changes sample_bridge"
  by (simp add: rollback_verified_def applied_def sample_host_def sample_env_def)

lemma sample_preview:
  "\<exists>response. bridge_preview bridge_codec (sample_host False late) sample_env sample_payload sample_bridge
     = (Ok response, reviewed_bridge late)"
  unfolding reviewed_bridge_def
  by (rule preview_shown [OF sample_preview_allowed _ sample_rollback]) (simp add: sample_host_def)

definition sample_commit :: json where
  "sample_commit = JObj
     [(''changeset'', sample_changes),
      (''preview_hash'', JStr (case bm_get (st_previews (reviewed_bridge [])) (bridge_changeset_hash bridge_codec sample_changes)
         of Some reviewed \<Rightarrow> pr_preview_hash reviewed | None \<Rightarrow> []))]"

lemma reviewed_bridge_fields:
  "st_world (reviewed_bridge late) = 7" "st_session (reviewed_bridge late) = ''s''"
  "st_epoch (reviewed_bridge late) = ''e''" "st_write_blocked (reviewed_bridge late) = False"
  "st_revision (reviewed_bridge late) = revision_new ''e''"
  by (simp_all add: reviewed_bridge_def previewed_def Let_def applied_def sample_host_def sample_bridge_def bridge_new_def)

lemma sample_commit_allowed:
  "\<exists>reviewed. commit_allowed bridge_codec (sample_host False []) sample_env sample_commit sample_changes reviewed
     (reviewed_bridge [])"
proof -
  have "required_changeset sample_commit = Ok sample_changes"
    by (simp add: required_changeset_def sample_commit_def sample_changes_def is_object_def)
  moreover have "bm_get (st_previews (reviewed_bridge [])) (bridge_changeset_hash bridge_codec sample_changes) \<noteq> None"
    by (simp add: reviewed_bridge_def previewed_def Let_def)
  moreover have "pr_base_fingerprint reviewed = snapshot_fingerprint bridge_codec (sample_seen 7 \<lparr>se_now = 0, se_order = (\<lambda>xs. xs)\<rparr> ''s'' (revision_new ''e'') (Some ''d''))"
    if "bm_get (st_previews (reviewed_bridge [])) (bridge_changeset_hash bridge_codec sample_changes) = Some reviewed"
    for reviewed
    using that by (auto simp: reviewed_bridge_def previewed_def Let_def sample_host_def sample_env_def
        sample_bridge_def bridge_new_def sample_changes_def str_at_def)
  ultimately show ?thesis
    using sample_validates
    by (auto simp: commit_allowed_def reviewed_bridge_fields sample_commit_def str_at_def sample_host_def
        sample_env_def sample_changes_def)
qed

theorem commit_runs_only_a_reviewed_change_witness:
  "\<exists>response st'. bridge_commit bridge_codec (sample_host False []) sample_env sample_commit (reviewed_bridge [])
       = (Ok response, st') \<and> st_world st' = 8
     \<and> bridge_commit bridge_codec (sample_host False []) sample_env sample_commit st' = (Err unknown_preview, st')"
proof -
  obtain reviewed where allowed: "commit_allowed bridge_codec (sample_host False []) sample_env sample_commit
      sample_changes reviewed (reviewed_bridge [])"
    using sample_commit_allowed by blast
  obtain response st' where run: "bridge_commit bridge_codec (sample_host False []) sample_env sample_commit
      (reviewed_bridge []) = (Ok response, st')"
    using commit_committed [OF allowed] by (auto simp: sample_host_def)
  note facts = commit_runs_only_a_reviewed_change [OF run]
  have "\<exists>changeset. st_world st' = fst (snd (hs_apply (sample_host False []) (st_world (reviewed_bridge [])) changeset True))"
    using facts by auto
  then have "st_world st' = 8" by (auto simp: sample_host_def reviewed_bridge_fields)
  then show ?thesis using run facts by auto
qed

section \<open>The other properties\<close>

definition stuck_run :: "nat bridge_run" where
  "stuck_run = run_new ((applied (sample_host True []) sample_changes False sample_bridge)
     \<lparr>st_revision := st_revision sample_bridge, st_write_blocked := True\<rparr>)"

lemma sample_stuck:
  "bridge_preview bridge_codec (sample_host True []) sample_env sample_payload sample_bridge
     = (Err (fault ''rollback_verification_failed'' ''rollback verification failed'' False), br_state stuck_run)"
proof -
  have moved: "snapshot_fingerprint bridge_codec (sample_seen 8 site ''s'' (revision_new ''e'') d)
      \<noteq> snapshot_fingerprint bridge_codec (sample_seen 7 site ''s'' (revision_new ''e'') d)" for site d
    by code_simp
  have "\<not> rollback_verified bridge_codec (sample_host True []) sample_env sample_changes sample_bridge"
    using moved by (simp add: rollback_verified_def applied_def sample_host_def sample_env_def sample_bridge_def
        bridge_new_def)
  then show ?thesis
    unfolding stuck_run_def run_new_def bridge_run.simps
    by (intro preview_unverified [OF sample_preview_allowed]) (simp_all add: sample_host_def)
qed

theorem unverified_rollback_blocks_writes_witness:
  "\<exists>f. bridge_preview bridge_codec (sample_host True []) sample_env sample_payload sample_bridge
       = (Err f, br_state stuck_run)
     \<and> \<not> is_ok (fst (bridge_commit bridge_codec (sample_host True []) sample_env sample_payload (br_state stuck_run)))
     \<and> st_world (snd (bridge_undo (sample_host True []) None (br_state stuck_run))) = 7
     \<and> st_world (snd (bridge_redo (sample_host True []) None (br_state stuck_run))) = 9"
  using unverified_rollback_blocks_writes [OF sample_stuck bridge_reaches.stay]
  by (simp add: sample_stuck) (simp add: stuck_run_def run_new_def sample_host_def sample_bridge_def bridge_new_def)

definition waiting :: "nat bridge_action list" where
  "waiting = [CheckStop, Accept, Receive (sent ''p'')]"

lemma waiting_run:
  "\<exists>s. bridge_reaches bridge_codec bridge_crypto sample_wire (sample_host False []) (run_new sample_bridge) waiting s
     \<and> br_thread s = Awaiting 0 False \<and> \<not> br_poisoned s \<and> \<not> br_stop s"
  by (simp add: reaches_iff waiting_def run_new_def)

theorem timed_out_request_still_runs_witness:
  "\<exists>s in_time late. bridge_reaches bridge_codec bridge_crypto sample_wire (sample_host False []) (run_new sample_bridge) waiting s
     \<and> bridge_act bridge_codec bridge_crypto sample_wire (sample_host False []) (Poll (\<lambda>_. sample_env) True) s = Some in_time
     \<and> Option.bind (bridge_act bridge_codec bridge_crypto sample_wire (sample_host False []) (TimeOut True) s)
         (bridge_act bridge_codec bridge_crypto sample_wire (sample_host False []) (Poll (\<lambda>_. sample_env) True)) = Some late
     \<and> br_state late = br_state in_time"
proof -
  obtain s where s: "bridge_reaches bridge_codec bridge_crypto sample_wire (sample_host False []) (run_new sample_bridge) waiting s"
      "br_thread s = Awaiting 0 False" "\<not> br_poisoned s" "\<not> br_stop s"
    using waiting_run by blast
  from timed_out_request_still_runs [OF s, of "\<lambda>_. sample_env" True] obtain gave_up in_time late where
      "bridge_act bridge_codec bridge_crypto sample_wire (sample_host False []) (Poll (\<lambda>_. sample_env) True) s = Some in_time"
      "bridge_act bridge_codec bridge_crypto sample_wire (sample_host False []) (TimeOut True) s = Some gave_up"
      "bridge_act bridge_codec bridge_crypto sample_wire (sample_host False []) (Poll (\<lambda>_. sample_env) True) gave_up = Some late"
      "br_state late = br_state in_time"
    by blast
  then show ?thesis using s(1)
    by (intro exI [of _ s] exI [of _ in_time] exI [of _ late]) (simp del: bridge_act.simps)
qed

definition late_event :: "observed list" where
  "late_event = [(0, 0, SlotChangedObject (Some ''A'') ''Length'')]"

lemma late_pending: "ev_pending (st_events (reviewed_bridge late_event))
   = [(''parametric'', \<lparr>pe_sequence = 1, pe_object_name = Some ''A'', pe_at = 0\<rparr>)]"
  by (simp add: reviewed_bridge_def previewed_def Let_def applied_def sample_host_def sample_bridge_def bridge_new_def
      late_event_def observe_def flush_events_def flush_def event_ready_def emit_def coalescer_new_def)

theorem leftover_events_defeat_the_commit_witness:
  "\<exists>response. bridge_preview bridge_codec (sample_host False late_event) sample_env sample_payload sample_bridge
       = (Ok response, reviewed_bridge late_event)
     \<and> (\<exists>answer authenticated st'. bridge_handle bridge_codec bridge_crypto (sample_host False late_event) sample_env
         (sample_request ''bridge.commit'' sample_payload) True (reviewed_bridge late_event)
           = (Some (answer, authenticated), st') \<and> ir_status answer = RespError)"
proof -
  obtain response where run: "bridge_preview bridge_codec (sample_host False late_event) sample_env sample_payload
      sample_bridge = (Ok response, reviewed_bridge late_event)"
    using sample_preview by blast
  have base: "Option.bind (jget ''changeset'' sample_payload) (str_at ''base_revision'')
      = Some (revision_id (st_revision sample_bridge))"
    by code_simp
  have "\<exists>answer authenticated st'. bridge_handle bridge_codec bridge_crypto (sample_host False late_event) sample_env
      (sample_request ''bridge.commit'' sample_payload) True (reviewed_bridge late_event)
        = (Some (answer, authenticated), st')
      \<and> ir_status answer = RespError \<and> st_world st' = st_world (reviewed_bridge late_event)"
    by (rule leftover_events_defeat_the_commit [where event_class = "''parametric''", OF _ run base])
      (simp_all add: sample_host_def sample_seen_def late_pending counter_classes_def sample_request_def)
  then show ?thesis using run by blast
qed

theorem live_undo_is_reported_as_a_failure_witness:
  "\<exists>response st'. bridge_handle bridge_codec bridge_crypto (sample_host False []) sample_env
       (sample_request ''bridge.undo'' JNull) True sample_bridge = (Some (response, True), st')
     \<and> ir_status response = RespOk \<and> st_world st' = 6
     \<and> \<not> is_ok (decode_payload (\<lambda>v. if jget ''base_revision'' v = None then Err ''missing field'' else Ok v) response)"
proof -
  let ?read = "\<lambda>v :: json. if jget ''base_revision'' v = None then Err ''missing field'' else Ok v"
  have "\<exists>response st'. bridge_handle bridge_codec bridge_crypto (sample_host False []) sample_env
       (sample_request ''bridge.undo'' JNull) True sample_bridge = (Some (response, True), st')
     \<and> ir_status response = RespOk
     \<and> st_world st' = fst (snd (hs_undo (sample_host False []) (st_world sample_bridge)
          (str_at ''document'' (iq_payload (sample_request ''bridge.undo'' JNull)))))
     \<and> \<not> is_ok (decode_payload ?read response)"
    by (rule live_undo_is_reported_as_a_failure)
      (simp_all add: well_formed_def sample_request_def sample_bridge_def bridge_new_def sample_host_def)
  then show ?thesis by (simp add: sample_host_def sample_bridge_def bridge_new_def)
qed

end
