(* ===== verification/Workbench.thy ===== *)
theory Workbench
  imports BridgeRuntime
begin

text \<open>
  The registration with the CAD program (\<^verbatim>\<open>freecad-extension/src/workbench.rs\<close>): the workbench, its three
  commands and what they do to the bridge of the process; and the observers and the timer that
  \<^verbatim>\<open>BridgeState::start\<close> of \<^verbatim>\<open>runtime.rs\<close> installs and \<^verbatim>\<open>stop\<close> removes.  The Python objects made of Rust values
  are arguments.
\<close>

section \<open>The commands\<close>

datatype bridge_command = StartCommand | StopCommand | PairingCommand

fun command_name :: "bridge_command \<Rightarrow> string" where
  "command_name StartCommand = ''Topomind_StartBridge''"
| "command_name StopCommand = ''Topomind_StopBridge''"
| "command_name PairingCommand = ''Topomind_ShowPairing''"

definition command_resources :: "string \<Rightarrow> string \<Rightarrow> (string \<times> string) list" where
  "command_resources menu tooltip = [(''MenuText'', menu), (''ToolTip'', tooltip)]"

fun resources :: "bridge_command \<Rightarrow> (string \<times> string) list" where
  "resources StartCommand = command_resources ''Start bridge'' ''Start the authenticated local Topomind bridge''"
| "resources StopCommand = command_resources ''Stop bridge'' ''Stop the Topomind bridge''"
| "resources PairingCommand = command_resources ''Show pairing status'' ''Show local Topomind pairing status''"

text \<open>
  What the start finds: the documents, the directory, observers and timer, the listener, the process and
  the time.
\<close>

record 'w start_env =
  sv_world :: 'w
  sv_directory :: "(rendezvous, string) result"
  sv_observers :: "(unit, string) result"
  sv_timer :: "(unit, string) result"
  sv_listener :: listener_env
  sv_pid :: nat
  sv_now :: nat

text \<open>
  \<^verbatim>\<open>Activated\<close>: the message of the exception, if one is raised, and the process after it; nothing when it
  panics into the interpreter, at a poisoned lock.  The process after the stop is the one that waits for
  the socket thread, from which \<open>process_reaches\<close> leads on.
\<close>

fun activated ::
  "codec \<Rightarrow> 'w bridge_host \<Rightarrow> (string \<Rightarrow> json option) \<Rightarrow> 'w start_env \<Rightarrow> bridge_command \<Rightarrow> 'w bridge_process
     \<Rightarrow> (string option \<times> 'w bridge_process) option" where
  "activated C H parse S StartCommand p =
     (case start_bridge C H (sv_world S) (sv_directory S) (sv_observers S) (sv_timer S) (sv_listener S)
             (sv_pid S) (sv_now S) p of
        (Err e, p) \<Rightarrow> Some (Some e, p)
      | (Ok path, p) \<Rightarrow> Some (None, p))"
| "activated C H parse S StopCommand p = map_option (Pair None) (stop_bridge p)"
| "activated C H parse S PairingCommand p = map_option (\<lambda>status. (None, p)) (pairing_status parse p)"

section \<open>Observers and timer\<close>

text \<open>
  \<^verbatim>\<open>install_observers\<close>: the observers that are called back from now on.  An error leaves those installed
  before it in place.
\<close>

definition install_observers :: "('w, 'o) python \<Rightarrow> 'o \<Rightarrow> 'o option \<Rightarrow> 'o \<Rightarrow> 'o \<Rightarrow> ('o list, 'w) exec" where
  "install_observers P app gui document_observer selection_observer =
     eff_bind (exec_read (\<lambda>w. Ok (attr P w app ''addDocumentObserver''))) (\<lambda>add.
     eff_bind (case add of
         None \<Rightarrow> eff_lift (Ok [])
       | Some f \<Rightarrow> eff_bind (exec_call P f [document_observer]) (\<lambda>_. eff_lift (Ok [document_observer]))) (\<lambda>installed.
     eff_bind (exec_read (\<lambda>w. Ok (Option.bind gui (\<lambda>gui.
         Option.bind (attr P w gui ''Selection'') (\<lambda>selection. attr P w selection ''addObserver''))))) (\<lambda>add.
     case add of
       None \<Rightarrow> eff_lift (Ok installed)
     | Some f \<Rightarrow> eff_bind (exec_call P f [selection_observer]) (\<lambda>_. eff_lift (Ok (installed @ [selection_observer]))))))"

text \<open>The message of a missing attribute is its name.\<close>

definition install_timer :: "('w, 'o) python \<Rightarrow> 'o \<Rightarrow> ('o, 'w) exec" where
  "install_timer P poller =
     eff_bind (exec_read (\<lambda>w. case py_import P w ''PySide.QtCore'' of
         Ok qtcore \<Rightarrow> Ok qtcore
       | Err _ \<Rightarrow> map_err (\<lambda>_. ExecFault ''FreeCAD QtCore module is unavailable'') (py_import P w ''PySide6.QtCore''))) (\<lambda>qtcore.
     eff_bind (exec_method P qtcore ''QTimer'' ''QTimer'' []) (\<lambda>timer.
     eff_bind (exec_method P timer ''setInterval'' ''setInterval'' [py_make P (PyInt 10)]) (\<lambda>_.
     eff_bind (exec_attr P timer ''timeout'' ''timeout'') (\<lambda>timeout.
     eff_bind (exec_method P timeout ''connect'' ''connect'' [poller]) (\<lambda>_.
     eff_bind (exec_method P timer ''start'' ''start'' []) (\<lambda>_.
     eff_lift (Ok timer)))))))"

text \<open>\<^verbatim>\<open>BridgeState::stop\<close> around the wait for the socket thread: what it calls is not needed to succeed.\<close>

definition quietly :: "('a, 'w) exec \<Rightarrow> (unit, 'w) exec" where
  "quietly m = (\<lambda>s. (Ok (), snd (m s)))"

definition stop_timer :: "('w, 'o) python \<Rightarrow> 'o option \<Rightarrow> (unit, 'w) exec" where
  "stop_timer P timer = (case timer of
       None \<Rightarrow> eff_lift (Ok ()) | Some timer \<Rightarrow> quietly (exec_method P timer ''stop'' ''stop'' []))"

definition remove_observer :: "('w, 'o) python \<Rightarrow> 'o \<Rightarrow> 'o option \<Rightarrow> 'o \<Rightarrow> (unit, 'w) exec" where
  "remove_observer P app gui observer =
     eff_bind (quietly (exec_optional P app ''removeDocumentObserver'' [observer])) (\<lambda>_.
     eff_bind (exec_read (\<lambda>w. Ok (Option.bind gui (\<lambda>gui. attr P w gui ''Selection'')))) (\<lambda>selection.
     case selection of
       None \<Rightarrow> eff_lift (Ok ())
     | Some selection \<Rightarrow> quietly (exec_optional P selection ''removeObserver'' [observer])))"

definition remove_observers :: "('w, 'o) python \<Rightarrow> 'o \<Rightarrow> 'o option \<Rightarrow> 'o list \<Rightarrow> (unit, 'w) exec" where
  "remove_observers P app gui = exec_each (remove_observer P app gui)"

text \<open>Starting runs both installations in this order; the results are what \<open>start_bridge\<close> gets.\<close>

definition install_hooks ::
  "('w, 'o) python \<Rightarrow> 'o \<Rightarrow> 'o option \<Rightarrow> 'o \<Rightarrow> 'o \<Rightarrow> 'o \<Rightarrow> ('o list \<times> 'o, 'w) exec" where
  "install_hooks P app gui document_observer selection_observer poller =
     eff_bind (install_observers P app gui document_observer selection_observer) (\<lambda>observers.
     eff_bind (install_timer P poller) (\<lambda>timer. eff_lift (Ok (observers, timer))))"

section \<open>Registration\<close>

definition class_name :: string where
  "class_name = ''Gui::PythonWorkbench''"

text \<open>\<^verbatim>\<open>Initialize\<close> with the objects of the commands; a menu that cannot be added is not needed.\<close>

definition initialize :: "('w, 'o) python \<Rightarrow> (bridge_command \<Rightarrow> 'o) \<Rightarrow> (unit, 'w) exec" where
  "initialize P made =
     eff_bind (exec_read (\<lambda>w. map_err ExecFault (py_import P w ''FreeCADGui''))) (\<lambda>gui.
     eff_bind (exec_each (\<lambda>command. eff_bind
         (exec_method P gui ''addCommand'' ''addCommand'' [py_make P (PyStr (command_name command)), made command])
         (\<lambda>_. eff_lift (Ok ()))) [StartCommand, StopCommand, PairingCommand]) (\<lambda>_.
     \<lambda>s. (Ok (), snd (exec_optional P gui ''addMenu'' [py_make P (PyStr ''Topomind'')] s))))"

definition add_workbench :: "('w, 'o) python \<Rightarrow> 'o \<Rightarrow> (unit, 'w) exec" where
  "add_workbench P workbench =
     eff_bind (exec_read (\<lambda>w. map_err ExecFault (py_import P w ''FreeCADGui''))) (\<lambda>gui.
     eff_bind (exec_method P gui ''addWorkbench'' ''addWorkbench'' [workbench]) (\<lambda>_.
     eff_lift (Ok ())))"

section \<open>Laws\<close>

text \<open>
  A timer that cannot be made fails the start, but the observers of that bridge, which nobody removes any
  more, stay: the CAD program keeps the calls that installed them.
\<close>

lemma failed_timer_leaves_observers:
  assumes "install_observers P app gui document_observer selection_observer s = (Ok observers, t)"
    and "py_import P (fst t) ''PySide.QtCore'' = Err e" and "py_import P (fst t) ''PySide6.QtCore'' = Err e'"
  shows "install_hooks P app gui document_observer selection_observer poller s
    = (Err (ExecFault ''FreeCAD QtCore module is unavailable''), t)"
  using assms by (cases t) (simp add: install_hooks_def install_timer_def eff_bind_def exec_read_def)

text \<open>Removing never fails.\<close>

lemma remove_observers_Ok: "\<exists>t. remove_observers P app gui observers s = (Ok (), t)"
proof -
  have one: "\<exists>t. remove_observer P app gui observer s = (Ok (), t)" for observer s
    by (simp add: remove_observer_def quietly_def eff_bind_def exec_read_def split_beta split: option.split)
  show ?thesis
    unfolding remove_observers_def
  proof (induction observers arbitrary: s)
    case (Cons observer observers)
    obtain t where "remove_observer P app gui observer s = (Ok (), t)" using one by blast
    then show ?case using Cons.IH [of t] by (simp add: eff_bind_def)
  qed simp
qed

text \<open>Starting twice keeps the bridge that runs, and stopping undoes starting.\<close>

lemma start_when_running:
  "bp_bridge p = Some b \<Longrightarrow> \<exists>e. activated C H parse S StartCommand p = Some (e, p)"
  by (cases b) (auto simp: start_bridge_def split: sum.split)

lemma start_then_stop:
  assumes "bp_bridge p = None" and "activated C H parse S StartCommand p = Some (None, q)"
  shows "\<exists>r waits as. activated C H parse S' StopCommand q = Some (None, waits)
    \<and> process_reaches C K W H waits as (p\<lparr>bp_bridge := None, bp_files := rendezvous_close r (bp_files q)\<rparr>)"
proof -
  obtain r s where q: "q = p\<lparr>bp_bridge := Some (r, s), bp_files := bp_files q\<rparr>" "\<not> br_poisoned s"
    "br_thread s = Looping \<or> br_thread s = Ended"
    using assms by (auto simp: start_bridge_def run_new_def split: prod.splits sum.splits)
  let ?t = "s\<lparr>br_stop := True, br_thread := Ended\<rparr>"
  let ?q = "\<lambda>u fs. p\<lparr>bp_bridge := Some (r, u), bp_files := fs\<rparr>"
  have waits: "activated C H parse S' StopCommand q = Some (None, ?q (s\<lparr>br_stop := True\<rparr>) (bp_files q))"
    using q(2) by (subst q(1)) (simp add: stop_bridge_def)
  have ended: "process_reaches C K W H (?q ?t fs) [StopReturns] (p\<lparr>bp_bridge := None, bp_files := rendezvous_close r fs\<rparr>)"
    for fs
    using process_reaches.act [OF process_reaches.stay, of C K W H StopReturns "?q ?t fs"] by (simp add: stop_returns_def)
  show ?thesis
  proof (cases "br_thread s = Ended")
    case True
    then have "s\<lparr>br_stop := True\<rparr> = ?t" by simp
    then show ?thesis using waits ended by metis
  next
    case False
    then have "process_act C K W H (Runs CheckStop) (?q (s\<lparr>br_stop := True\<rparr>) (bp_files q))
        = Some (?q ?t (rendezvous_close r (bp_files q)))"
      using q(3) by simp
    from process_reaches.act [OF process_reaches.act [OF process_reaches.stay this], of StopReturns]
    show ?thesis using waits by (auto simp: stop_returns_def)
  qed
qed

end
