(* ===== verification/Command.thy ===== *)
theory Command
  imports McpAdapter "HOL-Library.AList"
begin

text \<open>
  The command \<^verbatim>\<open>topomind\<close> (\<^verbatim>\<open>sidecar/crates/topomind/src/main.rs\<close>): its arguments, the check of the JSON
  schemas and their manifest, the packaging of the extension, and the start of the server, which finds
  running bridges by their pairing records.

  What the process finds around it (arguments, variables, files, directories, sockets) is the record
  \<open>process\<close>.  Folders of the schemas are a tree; a folder that exists can be listed.  The texts of
  derived serializers, the zip library and the messages of the operating system are parameters; texts
  of arguments, variables and file names are UTF-8.
\<close>

section \<open>Arguments\<close>

fun argument :: "string list \<Rightarrow> string \<Rightarrow> string option" where
  "argument (a # b # rest) name = (if a = name then Some b else argument (b # rest) name)"
| "argument _ name = None"

definition has_flag :: "string list \<Rightarrow> string \<Rightarrow> bool" where
  "has_flag args name \<longleftrightarrow> list_ex (\<lambda>argument. argument = name) args"

text \<open>\<^verbatim>\<open>PathBuf::join\<close> and \<^verbatim>\<open>Path::file_name\<close>.\<close>

definition path_join :: "string \<Rightarrow> string \<Rightarrow> string" where
  "path_join base name =
     (if base = [] \<or> starts_with ''/'' name then name
      else if last base = CHR ''/'' then base @ name else base @ ''/'' @ name)"

definition file_name :: "string \<Rightarrow> string option" where
  "file_name path =
     (case filter (\<lambda>part. part \<noteq> [] \<and> part \<noteq> ''.'') (split_on (CHR ''/'') path) of
        [] \<Rightarrow> None
      | part # parts \<Rightarrow> if last (part # parts) = ''..'' then None else Some (last (part # parts)))"

section \<open>What the process finds\<close>

datatype node = Content string | Unreadable | Folder "(string \<times> node) list"

text \<open>
  Variables, files, the names in a directory (nothing when there is no such directory), trees, sockets
  with what comes from their other end, the directory of the artifacts, and the UUIDs that are drawn.
\<close>

record process =
  ps_args :: "string list"
  ps_var :: "string \<Rightarrow> string option"
  ps_cwd :: "(string, string) result"
  ps_temp_dir :: string
  ps_read :: "string \<Rightarrow> (string, string) result"
  ps_list :: "string \<Rightarrow> (string list option, string) result"
  ps_tree :: "string \<Rightarrow> node"
  ps_create :: "string \<Rightarrow> (unit, string) result"
  ps_tcp :: "string \<Rightarrow> (string, string) result"
  ps_unix :: "string \<Rightarrow> (string, string) result"
  ps_artifacts :: "string \<Rightarrow> (directory, string) result"
  ps_uuid :: "nat \<Rightarrow> string"
  ps_secret_uuid :: string

record command_codec =
  ck_mcp :: mcp_codec
  ck_parse :: "string \<Rightarrow> (json, string) result"
  ck_hello_of_json :: "json \<Rightarrow> (bridge_hello, string) result"
  ck_rules_parse :: "string \<Rightarrow> (workspace_rules, string) result"
  ck_start_file :: "string list \<Rightarrow> string \<Rightarrow> (unit, string) result"

datatype command_error =
    IoFailure string
  | ParseFailure string
  | Refused string
  | SessionFailure session_error
  | IpcFailure ipc_error
  | PolicyFailure policy_error

section \<open>Schemas\<close>

text \<open>Files are named by the parts of their paths under the root.\<close>

fun node_at :: "string list \<Rightarrow> node \<Rightarrow> node option" where
  "node_at [] n = Some n"
| "node_at (name # names) (Folder entries) = Option.bind (map_of entries name) (node_at names)"
| "node_at (name # names) _ = None"

fun schema_paths :: "string list \<Rightarrow> string \<times> node \<Rightarrow> string list list" where
  "schema_paths parents (name, Folder entries) =
     (if name \<noteq> ''generated'' then concat (map (schema_paths (parents @ [name])) entries) else [])"
| "schema_paths parents (name, _) =
     (if extension name = Some ''json'' then [parents @ [name]] else [])"

definition collect_schema_paths :: "string list \<Rightarrow> node \<Rightarrow> (string list list, command_error) result" where
  "collect_schema_paths parents base = (case node_at parents base of
       Some (Folder entries) \<Rightarrow> Ok (concat (map (schema_paths parents) entries))
     | _ \<Rightarrow> Err (IoFailure (join_with ''/'' parents)))"

definition read_node :: "string list \<Rightarrow> node \<Rightarrow> (string, command_error) result" where
  "read_node path base = (case node_at path base of
       Some (Content text) \<Rightarrow> Ok text
     | _ \<Rightarrow> Err (IoFailure (join_with ''/'' path)))"

definition shown_path :: "string \<Rightarrow> string list \<Rightarrow> string" where
  "shown_path base path = foldl path_join base path"

definition schema_keys :: "string list" where
  "schema_keys = [''$schema'', ''$id'', ''title'', ''type'', ''properties'']"

definition check_schema :: "string \<Rightarrow> json \<Rightarrow> (unit, command_error) result" where
  "check_schema path v =
     res_bind (ensure (is_object v) (Refused (path @ '': top-level schema must be an object''))) (\<lambda>_.
     res_bind (res_each (\<lambda>key. ensure (jget key v \<noteq> None) (Refused (path @ '': missing schema key '' @ key)))
                 schema_keys) (\<lambda>_.
     res_bind (ensure (str_at ''type'' v = Some ''object'')
                 (Refused (path @ '': top-level schema must be an object''))) (\<lambda>_.
     res_bind (ensure (starts_with ''https://github.com/caniko/topomind/'' (str_or_empty ''$id'' v))
                 (Refused (path @ '': schema id is not owned by caniko/topomind''))) (\<lambda>_.
     res_bind (ensure (is_object (index_json ''properties'' v))
                 (Refused (path @ '': properties must be an object''))) (\<lambda>_.
     res_each (\<lambda>field. ensure (jget field (index_json ''properties'' v) \<noteq> None)
                 (Refused (path @ '': required field '' @ field @ '' is not declared'')))
       (List.map_filter as_str (json_array ''required'' v)))))))"

definition schema_entry :: "command_codec \<Rightarrow> string list \<Rightarrow> json \<Rightarrow> json" where
  "schema_entry K path v = (let C = sk_codec (mk_session (ck_mcp K)) in jobj
     [(''path'', JStr (join_with ''/'' path)), (''id'', index_json ''$id'' v), (''title'', index_json ''title'' v),
      (''sha256'', JStr (trim_start_matches ''sha256:'' (sha256_json C (json_text C) v)))])"

definition checked_schema :: "command_codec \<Rightarrow> string \<Rightarrow> node \<Rightarrow> string list \<Rightarrow> (json, command_error) result" where
  "checked_schema K base tree path =
     res_bind (read_node path tree) (\<lambda>text.
     res_bind (map_err ParseFailure (ck_parse K text)) (\<lambda>v.
     res_bind (check_schema (shown_path base path) v) (\<lambda>_.
     Ok (schema_entry K path v))))"

definition manifest_path :: "string list" where
  "manifest_path = [''schemas'', ''generated'', ''manifest.json'']"

definition manifest_text :: "command_codec \<Rightarrow> json list \<Rightarrow> string" where
  "manifest_text K schemas = mk_pretty (ck_mcp K) (jobj
     [(''schema_version'', JStr ''manifest/1.0''), (''schemas'', JArr schemas)]) @ [CHR 0x0A]"

text \<open>Writing a file, with the folders above it.\<close>

definition new_node :: "string list \<Rightarrow> string \<Rightarrow> node" where
  "new_node names text = foldr (\<lambda>name n. Folder [(name, n)]) names (Content text)"

fun write_node :: "string list \<Rightarrow> string \<Rightarrow> node \<Rightarrow> node option" where
  "write_node (name # names) text (Folder entries) =
     map_option (\<lambda>n. Folder (AList.update name n entries))
       (case map_of entries name of None \<Rightarrow> Some (new_node names text) | Some n \<Rightarrow> write_node names text n)"
| "write_node [] text (Content _) = Some (Content text)"
| "write_node _ text _ = None"

definition validate_schemas ::
  "command_codec \<Rightarrow> string \<Rightarrow> bool \<Rightarrow> node \<Rightarrow> (string, command_error) result \<times> node" where
  "validate_schemas K base check tree =
     (case res_bind (collect_schema_paths [''schemas''] tree) (\<lambda>paths.
             res_map (checked_schema K base tree) (sort paths)) of
        Err e \<Rightarrow> (Err e, tree)
      | Ok schemas \<Rightarrow>
          let expected = manifest_text K schemas;
              printed = ''validated '' @ show_nat (length schemas) @ '' schemas'' in
          if check
          then (res_bind (read_node manifest_path tree) (\<lambda>actual.
                res_bind (ensure (actual = expected)
                  (Refused (shown_path base manifest_path @ '' is stale; run topomind --validate-schemas''))) (\<lambda>_.
                Ok printed)), tree)
          else (case write_node manifest_path expected tree of
                  None \<Rightarrow> (Err (IoFailure (join_with ''/'' manifest_path)), tree)
                | Some tree \<Rightarrow> (Ok printed, tree)))"

section \<open>Packaging\<close>

text \<open>The members of the archive, in order.\<close>

definition add_member ::
  "command_codec \<Rightarrow> string \<Rightarrow> (string, command_error) result \<Rightarrow> (string \<times> string) list
     \<Rightarrow> ((string \<times> string) list, command_error) result" where
  "add_member K name content members =
     res_bind (map_err Refused (ck_start_file K (map fst members) (''SemanticMCP/'' @ name))) (\<lambda>_.
     res_bind content (\<lambda>content.
     Ok (members @ [(''SemanticMCP/'' @ name, content)])))"

definition is_python_file :: "string \<times> node \<Rightarrow> bool" where
  "is_python_file = (\<lambda>(name, n). (case n of Folder _ \<Rightarrow> False | _ \<Rightarrow> True) \<and> extension name = Some ''py'')"

definition package_addon ::
  "command_codec \<Rightarrow> process \<Rightarrow> string \<Rightarrow> string \<Rightarrow> string \<Rightarrow> ((string \<times> string) list, command_error) result" where
  "package_addon K P source native target =
     res_bind (map_err IoFailure (ps_create P target)) (\<lambda>_.
     res_bind (case ps_tree P source of Folder entries \<Rightarrow> Ok entries | _ \<Rightarrow> Err (IoFailure source)) (\<lambda>entries.
     res_bind (res_fold (\<lambda>members name. add_member K name (read_node [name] (Folder entries)) members) []
                 (sort (map fst (filter is_python_file entries)))) (\<lambda>members.
     res_bind (ok_or (file_name native) (Refused ''native extension has no filename'')) (\<lambda>name.
     add_member K (case strip_prefix ''lib'' name of None \<Rightarrow> name | Some rest \<Rightarrow> rest)
       (map_err IoFailure (ps_read P native)) members))))"

section \<open>Bridges\<close>

abbreviation session_codec_of :: "command_codec \<Rightarrow> session_codec" where
  "session_codec_of K \<equiv> mk_session (ck_mcp K)"

text \<open>The n-th authentication of the process draws two UUIDs, the nonce and the request identifier.\<close>

definition greet ::
  "command_codec \<Rightarrow> process \<Rightarrow> nat \<Rightarrow> ipc_client \<Rightarrow> (ipc_response, ipc_error) result \<times> ipc_client" where
  "greet K P n client =
     client_authenticate (sk_wire (session_codec_of K)) (mk_crypto (ck_mcp K))
       (ps_uuid P (2 * n)) (ps_uuid P (2 * n + 1)) client"

definition greeting_payload :: "ipc_response \<Rightarrow> json" where
  "greeting_payload response = (case ir_payload response of None \<Rightarrow> JNull | Some v \<Rightarrow> v)"

definition greeting_hello :: "command_codec \<Rightarrow> json \<Rightarrow> (bridge_hello, string) result" where
  "greeting_hello K payload = ck_hello_of_json K (case jget ''hello'' payload of None \<Rightarrow> JNull | Some v \<Rightarrow> v)"

definition greeting_documents :: "json \<Rightarrow> string list" where
  "greeting_documents payload = List.map_filter as_str (json_array ''documents'' payload)"

text \<open>The bridge named by arguments or variables: every failure ends the start.\<close>

definition named_bridge ::
  "command_codec \<Rightarrow> process \<Rightarrow> string \<Rightarrow> string \<Rightarrow> session_manager \<Rightarrow> (session_manager, command_error) result" where
  "named_bridge K P socket secret_file m =
     res_bind (map_err IoFailure (ps_read P secret_file)) (\<lambda>secret.
     res_bind (map_err IpcFailure (connect_endpoint (ps_tcp P) (ps_unix P) socket secret)) (\<lambda>client.
     (case greet K P 0 client of (greeting, client) \<Rightarrow>
        res_bind (map_err IpcFailure greeting) (\<lambda>response.
        let payload = greeting_payload response in
        res_bind (map_err ParseFailure (greeting_hello K payload)) (\<lambda>hello.
        Ok (register_ipc
          \<lparr>sa_session = (case str_at ''session'' payload of None \<Rightarrow> ''freecad'' | Some s \<Rightarrow> s),
           sa_session_epoch = ir_session_epoch response, sa_endpoint = socket, sa_pid = 0, sa_started_at_ms = 0,
           sa_hello = hello, sa_documents = greeting_documents payload\<rparr> client m))))))"

definition u64_at :: "string \<Rightarrow> json \<Rightarrow> nat" where
  "u64_at key v = (case Option.bind (jget key v) as_u64 of None \<Rightarrow> 0 | Some n \<Rightarrow> n)"

text \<open>What a pairing record leads to: a session, unless anything on the way fails.\<close>

definition paired ::
  "command_codec \<Rightarrow> process \<Rightarrow> nat \<Rightarrow> json \<Rightarrow> (session_advertisement \<times> ipc_client) option" where
  "paired K P n v =
     (let endpoint = str_or_empty ''endpoint'' v; secret_path = str_or_empty ''secret_path'' v in
      if endpoint = [] \<or> secret_path = [] then None
      else case ps_read P secret_path of
        Err e \<Rightarrow> None
      | Ok secret \<Rightarrow>
      (case connect_endpoint (ps_tcp P) (ps_unix P) endpoint secret of
        Err e \<Rightarrow> None
      | Ok client \<Rightarrow>
      (case greet K P n client of
        (Err e, client) \<Rightarrow> None
      | (Ok response, client) \<Rightarrow>
          let payload = greeting_payload response in
          (case greeting_hello K payload of
             Err e \<Rightarrow> None
           | Ok hello \<Rightarrow>
               let session = str_or_empty ''session'' payload in
               if session = [] then None
               else Some
                 (\<lparr>sa_session = session, sa_session_epoch = ir_session_epoch response, sa_endpoint = endpoint,
                   sa_pid = u64_at ''pid'' v mod 2 ^ 32, sa_started_at_ms = u64_at ''started_at_ms'' v,
                   sa_hello = hello, sa_documents = greeting_documents payload\<rparr>, client)))))"

definition discover_entry ::
  "command_codec \<Rightarrow> process \<Rightarrow> session_manager \<Rightarrow> nat \<times> string \<Rightarrow> (session_manager, command_error) result" where
  "discover_entry K P m = (\<lambda>(n, path).
     res_bind (map_err IoFailure (ps_read P path)) (\<lambda>text.
     Ok (case ck_parse K text of
           Err e \<Rightarrow> m
         | Ok v \<Rightarrow> (case paired K P n v of None \<Rightarrow> m | Some (ad, client) \<Rightarrow> register_ipc ad client m))))"

definition runtime_root :: "process \<Rightarrow> string" where
  "runtime_root P =
     path_join (case ps_var P ''XDG_RUNTIME_DIR'' of None \<Rightarrow> ps_temp_dir P | Some dir \<Rightarrow> dir) ''topomind''"

definition record_names :: "string list \<Rightarrow> string list" where
  "record_names = filter (\<lambda>name. extension name = Some ''json'')"

definition discover_sessions ::
  "command_codec \<Rightarrow> process \<Rightarrow> session_manager \<Rightarrow> (session_manager, command_error) result" where
  "discover_sessions K P m =
     res_bind (map_err IoFailure (ps_list P (runtime_root P))) (\<lambda>names.
     case names of
       None \<Rightarrow> Ok m
     | Some names \<Rightarrow>
         res_fold (discover_entry K P) m
           (List.enumerate 0 (map (path_join (runtime_root P)) (record_names names))))"

section \<open>The start of the server\<close>

definition given :: "process \<Rightarrow> string \<Rightarrow> string \<Rightarrow> string option" where
  "given P name variable = or_else (argument (ps_args P) name) (ps_var P variable)"

definition fixture_sessions :: "command_codec \<Rightarrow> process \<Rightarrow> (session_manager, command_error) result" where
  "fixture_sessions K P = (case given P ''--fixture'' ''TOPOMIND_FIXTURE'' of
       None \<Rightarrow> Ok []
     | Some path \<Rightarrow>
         (case load_fixture_file (session_codec_of K) (ps_read P path) [] of
            (Err e, m) \<Rightarrow> Err (SessionFailure e)
          | (Ok session, m) \<Rightarrow> Ok m))"

definition bridge_sessions ::
  "command_codec \<Rightarrow> process \<Rightarrow> session_manager \<Rightarrow> (session_manager, command_error) result" where
  "bridge_sessions K P m =
     (case (given P ''--bridge-socket'' ''TOPOMIND_BRIDGE_SOCKET'', given P ''--bridge-secret'' ''TOPOMIND_BRIDGE_SECRET'') of
        (Some socket, Some secret_file) \<Rightarrow> named_bridge K P socket secret_file m
      | _ \<Rightarrow> if has_flag (ps_args P) ''--no-discover'' then Ok m else discover_sessions K P m)"

definition chosen_profile :: "string option \<Rightarrow> policy_profile" where
  "chosen_profile v =
     (if v = Some ''approve_each'' then ApproveEach
      else if v = Some ''approve_high_risk'' then ApproveHighRisk
      else if v = Some ''workspace_policy'' then WorkspacePolicy
      else if v = Some ''developer'' then Developer
      else NeverWrite)"

definition start_policy :: "command_codec \<Rightarrow> process \<Rightarrow> (policy, command_error) result" where
  "start_policy K P =
     (let profile = chosen_profile (ps_var P ''TOPOMIND_POLICY'');
          secret = (case ps_var P ''TOPOMIND_POLICY_SECRET'' of None \<Rightarrow> ps_secret_uuid P | Some s \<Rightarrow> s) in
      if profile = WorkspacePolicy
      then res_bind (ok_or (ps_var P ''TOPOMIND_WORKSPACE_POLICY'')
                      (Refused ''TOPOMIND_WORKSPACE_POLICY is required for workspace_policy'')) (\<lambda>path.
           res_bind (map_err IoFailure (ps_read P path)) (\<lambda>text.
           res_bind (map_err ParseFailure (ck_rules_parse K text)) (\<lambda>rules.
           map_err PolicyFailure
             (with_workspace_rules (mk_crypto (ck_mcp K)) (policy_new profile ''stdio-client'' secret) rules))))
      else Ok (policy_new profile ''stdio-client'' secret))"

definition artifact_root :: "process \<Rightarrow> string" where
  "artifact_root P = (case argument (ps_args P) ''--artifact-root'' of
       Some path \<Rightarrow> path
     | None \<Rightarrow>
         (case ps_var P ''XDG_RUNTIME_DIR'' of
            Some dir \<Rightarrow> path_join dir ''topomind/artifacts''
          | None \<Rightarrow> path_join (ps_temp_dir P) ''topomind-artifacts''))"

definition start_server :: "command_codec \<Rightarrow> process \<Rightarrow> (mcp_server, command_error) result" where
  "start_server K P =
     res_bind (fixture_sessions K P) (\<lambda>m.
     res_bind (bridge_sessions K P m) (\<lambda>m.
     res_bind (start_policy K P) (\<lambda>p.
     res_bind (map_err IoFailure (ps_artifacts P (artifact_root P))) (\<lambda>dir.
     Ok \<lparr>ms_sessions = m, ms_policy = p,
        ms_artifacts = \<lparr>as_root = dir, as_max_bytes = 256 * 1024 * 1024\<rparr>, ms_previews = []\<rparr>))))"

section \<open>The command\<close>

text \<open>What a run leaves: a printed text, the tree of the schemas, an archive, or what the server wrote.\<close>

datatype command_result =
    Printed string
  | Validated string node
  | Packaged string "(string \<times> string) list"
  | Served "string \<times> string option \<times> mcp_server"

definition help_text :: string where
  "help_text = join_with [CHR 0x0A]
     [''topomind '' @ [CHR 0xE2, CHR 0x80, CHR 0x94] @ '' FreeCAD Semantic Context MCP'', [],
      ''Usage: topomind [--fixture PATH] [--bridge-socket ENDPOINT --bridge-secret PATH] [--no-discover]'', [],
      ''MCP is served over stdio. The default policy is never_write.'',
      ''TOPOMIND_POLICY may be never_write, approve_each, approve_high_risk, workspace_policy, or developer.'',
      ''workspace_policy additionally requires TOPOMIND_WORKSPACE_POLICY and a matching TOPOMIND_POLICY_SECRET.'', [],
      ''Maintenance: topomind --validate-schemas [--check] [--root PATH]'',
      ''            topomind --package-addon --native PATH --output PATH [--source PATH]'', []]"

definition topomind ::
  "command_codec \<Rightarrow> process \<Rightarrow> (nat \<Rightarrow> mcp_env) \<Rightarrow> string \<Rightarrow> (command_result, command_error) result" where
  "topomind K P env input =
     (let args = ps_args P in
      if has_flag args ''--validate-schemas''
      then res_bind (map_err IoFailure (ps_cwd P)) (\<lambda>cwd.
           let base = or_default cwd (argument args ''--root'') in
           case validate_schemas K base (has_flag args ''--check'') (ps_tree P base) of
             (r, tree) \<Rightarrow> res_bind r (\<lambda>text. Ok (Validated text tree)))
      else if has_flag args ''--package-addon''
      then res_bind (ok_or (argument args ''--native'') (Refused ''--native is required'')) (\<lambda>native.
           res_bind (ok_or (argument args ''--output'') (Refused ''--output is required'')) (\<lambda>target.
           res_bind (package_addon K P (or_default ''freecad-addon/SemanticMCP'' (argument args ''--source'')) native target) (\<lambda>members.
           Ok (Packaged (''wrote '' @ target) members))))
      else if has_flag args ''--help'' \<or> has_flag args ''-h'' then Ok (Printed help_text)
      else if has_flag args ''--version'' then Ok (Printed (''topomind 0.1.0'' @ [CHR 0x0A]))
      else res_bind (start_server K P) (\<lambda>server. Ok (Served (run_stdio (ck_mcp K) env input server))))"

end
