(* ===== verification/CommandLaws.thy ===== *)
theory CommandLaws
  imports Command McpLaws "HOL-Library.Sublist"
begin

text \<open>
  What the command promises: the manifest it writes passes its own check, a server whose policy is not
  named exactly only looks, and which records the discovery of bridges needs.
\<close>

section \<open>Trees\<close>

lemma node_at_new: "node_at names (new_node names written) = Some (Content written)"
  by (induction names) (simp_all add: new_node_def)

lemma parallel_new_name: "(x # xs) \<parallel> (x # ys) \<longleftrightarrow> xs \<parallel> ys"
  by (auto simp: parallel_def)

lemma node_at_new_parallel: "p \<parallel> q \<Longrightarrow> node_at q (new_node p written) = None"
proof (induction p arbitrary: q)
  case (Cons name names)
  then obtain other others where q: "q = other # others" by (cases q) simp_all
  then show ?case using Cons by (auto simp: new_node_def parallel_new_name)
qed simp

text \<open>What was written is there, and what lies elsewhere is untouched.\<close>

lemma write_node_there: "write_node p written n = Some n' \<Longrightarrow> node_at p n' = Some (Content written)"
proof (induction p written n arbitrary: n' rule: write_node.induct)
  case (1 name names written entries)
  then show ?case by (auto simp: AList.update_conv' node_at_new split: option.splits)
qed auto

lemma write_node_elsewhere: "write_node p written n = Some n' \<Longrightarrow> p \<parallel> q \<Longrightarrow> node_at q n' = node_at q n"
proof (induction p written n arbitrary: n' q rule: write_node.induct)
  case (1 name names written entries)
  obtain other others where q: "q = other # others" using 1(3) by (cases q) simp_all
  obtain m where m: "(case map_of entries name of None \<Rightarrow> Some (new_node names written) | Some n \<Rightarrow> write_node names written n) = Some m"
    and n': "n' = Folder (AList.update name m entries)" using 1(2) by auto
  show ?case
  proof (cases "other = name")
    case True
    then have below: "names \<parallel> others" using 1(3) q by (simp add: parallel_new_name)
    then show ?thesis
      using m n' q True 1(1) [of _ m others] node_at_new_parallel [OF below, of written]
      by (auto simp: AList.update_conv' split: option.splits)
  qed (simp add: n' q AList.update_conv')
qed auto

lemma update_twice: "AList.update k v (AList.update k v entries) = AList.update k v entries"
  by (induction entries) auto

lemma write_new_node: "write_node names written (new_node names written) = Some (new_node names written)"
  by (induction names) (simp_all add: new_node_def)

lemma write_node_twice: "write_node p written n = Some n' \<Longrightarrow> write_node p written n' = Some n'"
proof (induction p written n arbitrary: n' rule: write_node.induct)
  case (1 name names written entries)
  then show ?case by (auto simp: AList.update_conv' update_twice write_new_node split: option.splits)
qed auto

text \<open>
  What the check of the schemas needs of a tree of files: a file that was written is there, files on
  other paths are as they were, and writing the same again changes nothing.
\<close>

locale file_tree =
  fixes look :: "string list \<Rightarrow> 't \<Rightarrow> 'f option"
    and store :: "string list \<Rightarrow> string \<Rightarrow> 't \<Rightarrow> 't option"
    and plain :: "string \<Rightarrow> 'f"
  assumes there: "store p content t = Some t' \<Longrightarrow> look p t' = Some (plain content)"
    and elsewhere: "store p content t = Some t' \<Longrightarrow> p \<parallel> q \<Longrightarrow> look q t' = look q t"
    and again: "store p content t = Some t' \<Longrightarrow> store p content t' = Some t'"
begin

lemma kept_by_later:
  "store p content t = Some t' \<Longrightarrow> store q other t' = Some t'' \<Longrightarrow> q \<parallel> p \<Longrightarrow> look p t'' = Some (plain content)"
  using there elsewhere by metis

lemma reads_kept:
  "store p content t = Some t' \<Longrightarrow> \<forall>q \<in> set qs. p \<parallel> q \<Longrightarrow> map (\<lambda>q. f q (look q t')) qs = map (\<lambda>q. f q (look q t)) qs"
  using elsewhere by simp

end

interpretation ft: file_tree node_at write_node Content
  by unfold_locales (fact write_node_there write_node_elsewhere write_node_twice)+

section \<open>The manifest\<close>

lemma generated_plain: "extension ''generated'' = None"
  by code_simp

lemma generated_skipped: "schema_paths parents (''generated'', n) = []"
  by (cases n) (simp_all add: generated_plain)

lemma paths_update:
  "concat (map (schema_paths parents) (AList.update ''generated'' n entries)) = concat (map (schema_paths parents) entries)"
  by (induction entries) (auto simp: generated_skipped)

lemma schema_paths_prefix:
  "q \<in> set (schema_paths parents (name, n)) \<Longrightarrow> name \<noteq> ''generated'' \<and> (\<exists>names. q = parents @ name # names)"
proof (induction parents "(name, n)" arbitrary: name n rule: schema_paths.induct)
  case (1 parents name entries)
  then obtain below m where entry: "name \<noteq> ''generated''" "(below, m) \<in> set entries"
      "q \<in> set (schema_paths (parents @ [name]) (below, m))"
    by (auto split: if_splits)
  then have "\<exists>names. q = (parents @ [name]) @ below # names"
    using 1(1) [OF entry(1-3)] by simp
  then show ?case using entry(1) by auto
qed (auto simp: generated_plain split: if_splits)

text \<open>Writing the manifest changes no schema.\<close>

lemma written_manifest:
  assumes "collect_schema_paths [''schemas''] tree = Ok paths" and "write_node manifest_path written tree = Some tree'"
  shows "collect_schema_paths [''schemas''] tree' = Ok paths" and "p \<in> set paths \<Longrightarrow> node_at p tree' = node_at p tree"
proof -
  obtain entries schemas where tree: "tree = Folder entries" "map_of entries ''schemas'' = Some (Folder schemas)"
    and paths: "paths = concat (map (schema_paths [''schemas'']) schemas)"
    using assms(1) by (cases tree) (auto simp: collect_schema_paths_def bind_eq_Some_conv split: option.splits node.splits)
  obtain n where "tree' = Folder (AList.update ''schemas'' (Folder (AList.update ''generated'' n schemas)) entries)"
    using assms(2) tree by (auto simp: manifest_path_def)
  then show "collect_schema_paths [''schemas''] tree' = Ok paths"
    by (simp add: collect_schema_paths_def AList.update_conv' paths paths_update)
  show "node_at p tree' = node_at p tree" if "p \<in> set paths"
  proof (rule ft.elsewhere [OF assms(2)])
    obtain name names where "p = ''schemas'' # name # names" "name \<noteq> ''generated''"
    proof -
      obtain name n where "(name, n) \<in> set schemas" "p \<in> set (schema_paths [''schemas''] (name, n))"
        using \<open>p \<in> set paths\<close> paths by auto
      then show thesis using schema_paths_prefix [of p "[''schemas'']" name n] that by auto
    qed
    then show "manifest_path \<parallel> p" by (auto simp: manifest_path_def parallel_def)
  qed
qed

text \<open>C39: After the manifest of the schemas was written, the check of the same schemas passes and writing
  again changes nothing; only what lies at or above the path of the manifest has changed.  Nothing is
  written unless every schema is accepted.\<close>

theorem written_manifest_passes_the_check:
  assumes "validate_schemas K base False tree = (Ok line, tree')"
  shows "validate_schemas K base True tree' = (Ok line, tree')
     \<and> validate_schemas K base False tree' = (Ok line, tree')
     \<and> (\<forall>q. manifest_path \<parallel> q \<longrightarrow> node_at q tree' = node_at q tree)
     \<and> (\<exists>paths. collect_schema_paths [''schemas''] tree = Ok paths
          \<and> (\<forall>p \<in> set paths. \<exists>v. checked_schema K base tree p = Ok v)
          \<and> line = ''validated '' @ show_nat (length paths) @ '' schemas'')"
proof -
  obtain paths schemas where paths: "collect_schema_paths [''schemas''] tree = Ok paths"
    and schemas: "res_map (checked_schema K base tree) (sort paths) = Ok schemas"
    and line: "line = ''validated '' @ show_nat (length schemas) @ '' schemas''"
    and stored: "write_node manifest_path (manifest_text K schemas) tree = Some tree'"
    using assms by (auto simp: validate_schemas_def Let_def split: sum.splits option.splits)
  note after = written_manifest [OF paths stored]
  have "map (checked_schema K base tree') (sort paths) = map (checked_schema K base tree) (sort paths)"
    using after(2) by (simp add: checked_schema_def read_node_def)
  then have again: "res_map (checked_schema K base tree') (sort paths) = Ok schemas"
    using schemas by (simp only: res_map_Ok_iff)
  have "read_node manifest_path tree' = Ok (manifest_text K schemas)"
    by (simp add: read_node_def ft.there [OF stored])
  then have "validate_schemas K base True tree' = (Ok line, tree')" "validate_schemas K base False tree' = (Ok line, tree')"
    using after(1) again line ft.again [OF stored] by (simp_all add: validate_schemas_def Let_def)
  moreover have all_checked: "map (checked_schema K base tree) (sort paths) = map Ok schemas"
    using schemas by (simp add: res_map_Ok_iff)
  then have "length schemas = length paths" by (metis length_map length_sort)
  moreover have "\<exists>v. checked_schema K base tree p = Ok v" if "p \<in> set paths" for p
  proof -
    have "checked_schema K base tree p \<in> set (map Ok schemas)"
      using that by (simp flip: all_checked)
    then show ?thesis by auto
  qed
  ultimately show ?thesis
    using ft.elsewhere [OF stored] paths line by auto
qed

section \<open>The policy\<close>

lemma start_server_Ok:
  assumes "start_server K P = Ok sv"
  shows "start_policy K P = Ok (ms_policy sv)" and "ms_previews sv = []"
  using assms by (auto simp: start_server_def)

lemma start_policy_profile: "start_policy K P = Ok p \<Longrightarrow> pl_profile p = chosen_profile (ps_var P ''TOPOMIND_POLICY'')"
  by (auto simp: start_policy_def Let_def policy_new_def with_workspace_rules_def split: if_splits)

text \<open>C17: A command whose variable for the policy is missing or not exactly one of the four names of a
  writing profile serves requests without ever writing: whatever is read from standard input, no artifact
  and no preview is kept, no fixture changes, and a bridge gets requests for snapshots only.\<close>

theorem unnamed_policy_only_looks:
  assumes "topomind K P env input = Ok (Served (out, panic, sv'))"
    and "ps_var P ''TOPOMIND_POLICY''
      \<notin> {Some ''approve_each'', Some ''approve_high_risk'', Some ''workspace_policy'', Some ''developer''}"
  shows "\<exists>sv. start_server K P = Ok sv \<and> ms_artifacts sv' = ms_artifacts sv \<and> ms_previews sv' = []
    \<and> (\<forall>k. bm_get (ms_sessions sv') k = None \<longleftrightarrow> bm_get (ms_sessions sv) k = None)
    \<and> (\<forall>k e. bm_get (ms_sessions sv) k = Some e \<longrightarrow> (\<exists>e'. bm_get (ms_sessions sv') k = Some e'
        \<and> (\<forall>s. se_backend e = Fixture s \<longrightarrow> e' = e)
        \<and> (\<forall>client mirror. se_backend e = Ipc client mirror \<longrightarrow> (\<exists>client' mirror' rs.
             se_backend e' = Ipc client' mirror' \<and> (\<forall>r \<in> set rs. iq_message r = ''bridge.snapshot'')
             \<and> ic_output client' = ic_output client
                 @ concat (map (snapshot_frame (sk_wire (session_codec_of K))) rs)))))"
proof -
  obtain sv where sv: "start_server K P = Ok sv" and run: "run_stdio (ck_mcp K) env input sv = (out, panic, sv')"
    using assms(1) by (auto simp: topomind_def Let_def split: if_splits prod.splits)
  have "pl_profile (ms_policy sv) = NeverWrite"
    using start_policy_profile [OF start_server_Ok(1) [OF sv]] assms(2) by (simp add: chosen_profile_def)
  then have kept: "kept (ck_mcp K) sv sv'"
    using serve_lines_never_write run by (simp add: run_stdio_def kept_never_write_def)
  show ?thesis
  proof (intro exI [of _ sv] conjI allI impI)
    show "start_server K P = Ok sv" by (fact sv)
    show "ms_artifacts sv' = ms_artifacts sv" "ms_previews sv' = []"
      using kept start_server_Ok(2) [OF sv] by (simp_all add: kept_def)
    show "bm_get (ms_sessions sv') k = None \<longleftrightarrow> bm_get (ms_sessions sv) k = None" for k
      using kept by (rule kept_none)
  qed (rule kept_entry [OF kept])
qed

section \<open>The discovery\<close>

lemma discover_entry_ok: "is_ok (discover_entry K P m (n, path)) \<longleftrightarrow> is_ok (ps_read P path)"
  by (cases "ps_read P path") (simp_all add: discover_entry_def is_ok_iff)

lemma discover_fold_ok:
  "is_ok (res_fold (discover_entry K P) m (List.enumerate n paths)) \<longleftrightarrow> (\<forall>path \<in> set paths. is_ok (ps_read P path))"
proof (induction paths arbitrary: m n)
  case (Cons path paths)
  show ?case
  proof (cases "discover_entry K P m (n, path)")
    case (Inl e)
    then show ?thesis using discover_entry_ok [of K P m n path] by simp
  next
    case (Inr m')
    then show ?thesis using discover_entry_ok [of K P m n path] Cons.IH [of m' "Suc n"] by simp
  qed
qed simp

definition registered :: "session_advertisement \<Rightarrow> ipc_client \<Rightarrow> session_entry option" where
  "registered ad client = bm_get (register_ipc ad client []) (sa_session ad)"

lemma register_ipc_get:
  "bm_get (register_ipc ad client m) k = (if k = sa_session ad then registered ad client else bm_get m k)"
  by (simp add: registered_def register_ipc_def Let_def)

definition found_at :: "command_codec \<Rightarrow> process \<Rightarrow> string \<Rightarrow> string \<Rightarrow> session_entry \<Rightarrow> bool" where
  "found_at K P path session e \<longleftrightarrow> (\<exists>n content v ad client. ps_read P path = Ok content \<and> ck_parse K content = Ok v
     \<and> paired K P n v = Some (ad, client) \<and> sa_session ad = session \<and> registered ad client = Some e)"

lemma discovered_entry:
  assumes "discover_entry K P m (n, path) = Ok m'" and "bm_get m' session = Some e"
  shows "bm_get m session = Some e \<or> found_at K P path session e"
proof -
  obtain content where content: "ps_read P path = Ok content"
    using assms(1) by (cases "ps_read P path") (simp_all add: discover_entry_def)
  consider "m' = m" | v ad client where "ck_parse K content = Ok v" "paired K P n v = Some (ad, client)"
      "m' = register_ipc ad client m"
    using assms(1) content by (auto simp: discover_entry_def split: sum.splits option.splits)
  then show ?thesis
  proof cases
    case 2
    show ?thesis
    proof (cases "session = sa_session ad")
      case True
      then have "registered ad client = Some e" using assms(2) 2(3) by (simp add: register_ipc_get)
      then show ?thesis using content 2(1,2) True unfolding found_at_def by blast
    qed (use assms(2) 2(3) in \<open>simp add: register_ipc_get\<close>)
  qed (use assms(2) in simp)
qed

lemma discovered_fold:
  "res_fold (discover_entry K P) m (List.enumerate n paths) = Ok m' \<Longrightarrow> bm_get m' session = Some e \<Longrightarrow>
   bm_get m session = Some e \<or> (\<exists>path \<in> set paths. found_at K P path session e)"
proof (induction paths arbitrary: m n)
  case (Cons path paths)
  then obtain m1 where first: "discover_entry K P m (n, path) = Ok m1"
    and others: "res_fold (discover_entry K P) m1 (List.enumerate (Suc n) paths) = Ok m'"
    by auto
  show ?case
    using Cons.IH [OF others Cons.prems(2)] discovered_entry [OF first] by auto
qed simp

text \<open>C40: Looking for bridges succeeds exactly when the directory, if there is one, can be listed and every
  record in it can be read: one record that vanished since, as when a bridge is being closed, or that is
  another user's, keeps the server from starting, although a record that is no JSON, leads nowhere or
  belongs to a bridge that refuses is passed over.  A session that is found was there before or answers
  behind one of the records.\<close>

theorem one_unreadable_record_stops_the_start:
  assumes "ps_list P (runtime_root P) = Ok (Some names)"
  shows "(is_ok (discover_sessions K P m)
      \<longleftrightarrow> (\<forall>name \<in> set (record_names names). is_ok (ps_read P (path_join (runtime_root P) name))))
    \<and> (\<forall>m' session e. discover_sessions K P m = Ok m' \<longrightarrow> bm_get m' session = Some e \<longrightarrow> bm_get m session = Some e
      \<or> (\<exists>name \<in> set (record_names names). found_at K P (path_join (runtime_root P) name) session e))"
proof -
  have unfolded: "discover_sessions K P m = res_fold (discover_entry K P) m
      (List.enumerate 0 (map (path_join (runtime_root P)) (record_names names)))"
    using assms by (simp add: discover_sessions_def)
  show ?thesis
    unfolding unfolded discover_fold_ok using discovered_fold by fastforce
qed

end
