(* ===== verification/Pairing.thy ===== *)
theory Pairing
  imports CommandLaws BridgeLaws
begin

text \<open>
  How the sidecar finds the bridge: the bridge publishes its pairing files, the command reads them,
  connects and proves the secret.
\<close>

section \<open>The files\<close>

lemma write_atomically_Ok:
  "write_atomically pid path content fs = (Ok u, fs') \<Longrightarrow>
   bm_get fs' path = Some content
   \<and> (\<forall>p. p \<noteq> path \<longrightarrow> p \<noteq> with_extension path (''tmp.'' @ show_nat pid) \<longrightarrow> bm_get fs' p = bm_get fs p)"
  by (auto simp: write_atomically_def Let_def split: if_splits)

lemma published_files:
  assumes "r = rendezvous_new dir session_uuid epoch_uuid secret"
    and "publish C r hello documents endpoint pid now fs = (Ok u, fs')"
  shows "bm_get fs' (rz_secret_path r) = Some secret"
    and "bm_get fs' (rz_record_path r) = Some (json_text C (pairing_record r hello documents endpoint pid now))"
proof -
  let ?stored = "json_text C (pairing_record r hello documents endpoint pid now)"
  obtain fs1 where first: "write_atomically pid (rz_secret_path r) secret fs = (Ok (), fs1)"
    and second: "write_atomically pid (rz_record_path r) ?stored fs1 = (Ok (), fs')"
    using assms by (auto simp: publish_def eff_bind_def rendezvous_new_def Let_def split: prod.splits sum.splits)
  obtain stem where paths: "rz_secret_path r = stem @ ''.secret''" "rz_record_path r = stem @ ''.json''"
    unfolding assms(1) by (simp add: rendezvous_new_def Let_def)
  have "with_extension (stem @ ''.json'') (''tmp.'' @ show_nat pid) = (stem @ ''.tmp'') @ ''.'' @ show_nat pid"
  proof -
    have "rsplit_once (CHR ''.'') (stem @ ''.json'') = Some (stem, ''json'')"
      by (simp add: rsplit_once_Some_iff)
    then show ?thesis by (simp add: with_extension_def)
  qed
  moreover have "(stem @ ''.tmp'') @ ''.'' @ show_nat pid \<noteq> stem @ ''.secret''"
    by simp
  ultimately show "bm_get fs' (rz_secret_path r) = Some secret"
    using write_atomically_Ok [OF first] write_atomically_Ok [OF second] paths by simp
  show "bm_get fs' (rz_record_path r) = Some ?stored"
    using write_atomically_Ok [OF second] by blast
qed

text \<open>The endpoint that was bound is one the client knows how to connect to.\<close>

lemma bound_connects:
  assumes "bind_listener r L fs = (Some endpoint, bound)" and "\<not> starts_with ''tcp://'' (rz_socket_path r)"
    and "(if le_forced_tcp L then res_bind (le_tcp L) tcp else unix (rz_socket_path r)) = Ok frame"
    and "rz_socket_path r \<noteq> []"
  shows "connect_endpoint tcp unix endpoint secret = Ok (client_new frame secret)" and "endpoint \<noteq> []"
proof -
  have "strip_prefix ''tcp://'' (rz_socket_path r) = None"
    using assms(2) by (simp add: starts_with_def)
  moreover have "strip_prefix ''tcp://'' (''tcp://'' @ address) = Some address" for address
    by (rule strip_prefix_append)
  ultimately show "connect_endpoint tcp unix endpoint secret = Ok (client_new frame secret)" and "endpoint \<noteq> []"
    using assms by (auto simp: connect_endpoint_def bind_listener_def Let_def split: if_splits sum.splits)
qed

section \<open>The greeting\<close>

definition greeting_request :: "command_codec \<Rightarrow> process \<Rightarrow> nat \<Rightarrow> string \<Rightarrow> ipc_request" where
  "greeting_request K P n secret =
     \<lparr>iq_protocol_version = IPC_VERSION, iq_message = ''bridge.authenticate'', iq_request_id = ps_uuid P (2 * n + 1),
      iq_session_epoch = [], iq_deadline_ms = 10000,
      iq_payload = jobj [(''nonce'', JStr (ps_uuid P (2 * n))),
        (''proof'', JStr (pairing_proof (mk_crypto (ck_mcp K)) secret (ps_uuid P (2 * n))))]\<rparr>"

definition greeting_answer :: "'w bridge_host \<Rightarrow> 'w bridge_state \<Rightarrow> string \<Rightarrow> ipc_response" where
  "greeting_answer H st request_id = ok_response st request_id
     (jobj [(''session'', JStr (st_session st)), (''hello'', bridge_hello H (st_world st)),
            (''documents'', json_of_list JStr (bridge_documents H (st_world st)))])"

lemma greeting_accepted:
  "bridge_handle C (mk_crypto (ck_mcp K)) H E (greeting_request K P n (st_secret st)) authenticated st
     = (Some (greeting_answer H st (ps_uuid P (2 * n + 1)), True), st)"
  by (simp add: bridge_handle_def Let_def greeting_request_def greeting_answer_def verify_pairing_iff pairing_proof_def str_at_def)

lemma greet_answered:
  assumes "length (wk_request_text (sk_wire (session_codec_of K)) (greeting_request K P n secret)) \<le> MAX_FRAME"
    and "write_frame answer_text [] = Ok frame"
    and "wk_response_parse (sk_wire (session_codec_of K)) answer_text = Ok response" and "ir_status response = RespOk"
  shows "\<exists>client. greet K P n (client_new frame secret) = (Ok response, client)
     \<and> ic_session_epoch client = ir_session_epoch response \<and> ic_input client = []"
proof -
  let ?W = "sk_wire (session_codec_of K)"
  have "\<exists>frame'. write_frame answer_text [] = Ok ([] @ frame')
      \<and> read_frame (wk_response_parse ?W) (frame' @ []) = Ok (response, [])"
    using frame_round_trip [where parse = "wk_response_parse ?W" and bytes = answer_text and v = response
        and sink = "[]" and rest = "[]"] assms(2,3) by (simp add: write_frame_def split: if_splits)
  then have "read_frame (wk_response_parse ?W) frame = Ok (response, [])"
    using assms(2) by auto
  moreover obtain sent where "write_frame (wk_request_text ?W (greeting_request K P n secret)) [] = Ok sent"
    using assms(1) by (simp add: write_frame_def)
  ultimately show ?thesis
    using assms(4) by (simp add: greet_def client_authenticate_def client_request_def client_new_def
        greeting_request_def Let_def)
qed

lemma strings_of_array: "List.map_filter as_str (map JStr xs) = xs"
  by (induction xs) (simp_all add: map_filter_simps)

lemma greeting_answer_facts:
  "ir_status (greeting_answer H st i) = RespOk" "ir_session_epoch (greeting_answer H st i) = st_epoch st"
  "str_at ''session'' (greeting_payload (greeting_answer H st i)) = Some (st_session st)"
  "jget ''hello'' (greeting_payload (greeting_answer H st i)) = Some (bridge_hello H (st_world st))"
  "greeting_documents (greeting_payload (greeting_answer H st i)) = bridge_documents H (st_world st)"
  by (simp_all add: greeting_answer_def ok_response_def greeting_payload_def greeting_documents_def str_at_def
      json_array_def json_of_list_def strings_of_array)

section \<open>The discovery\<close>

lemma record_path_joined:
  assumes "r = rendezvous_new (runtime_root P) session_uuid epoch_uuid secret"
  shows "path_join (runtime_root P) (''bridge-'' @ rz_session r @ ''.json'') = rz_record_path r"
proof -
  have "runtime_root P \<noteq> [] \<and> last (runtime_root P) = CHR ''d''"
    by (simp add: runtime_root_def path_join_def split: option.split)
  then show ?thesis
    by (simp add: path_join_def assms rendezvous_new_def Let_def starts_with_iff)
qed

lemma record_name_json: "extension (''bridge-'' @ session @ ''.json'') = Some ''json''"
proof -
  have "rsplit_once (CHR ''.'') ((''bridge-'' @ session) @ CHR ''.'' # ''json'') = Some (''bridge-'' @ session, ''json'')"
    unfolding rsplit_once_Some_iff by simp
  then show ?thesis by (simp add: extension_def)
qed

text \<open>C30: A bridge that has published its pairing files is found by a command started later in the same
  environment: when the directory holds no other record, the connection reaches the bridge, and texts are
  read back as they were written, the bridge accepts the proof of the secret, keeps its state, and the
  command registers its session with its epoch, its capabilities and the documents open by then; other
  sessions stay as they were.\<close>

theorem published_bridge_is_discovered:
  assumes "server_start C r L (bridge_hello H w) (bridge_documents H w) pid now fs = (True, fs')"
    and "bind_listener r L fs = (Some endpoint, bound)" and "\<not> starts_with ''tcp://'' (rz_socket_path r)"
    and "r = rendezvous_new (runtime_root P) session_uuid epoch_uuid (st_secret st)"
    and "st_session st = rz_session r" and "st_epoch st = rz_epoch r"
    and "\<forall>path content. bm_get fs' path = Some content \<longrightarrow> ps_read P path = Ok content"
    and "ps_list P (runtime_root P) = Ok (Some names)" and "record_names names = [''bridge-'' @ rz_session r @ ''.json'']"
    and "(if le_forced_tcp L then res_bind (le_tcp L) (ps_tcp P) else ps_unix P (rz_socket_path r)) = Ok frame"
    and "bridge_handle C (mk_crypto (ck_mcp K)) H E (greeting_request K P 0 (st_secret st)) False st
      = (Some (response, authenticated), st')"
    and "write_frame answer_text [] = Ok frame"
    and "wk_response_parse (sk_wire (session_codec_of K)) answer_text = Ok response"
    and "length (wk_request_text (sk_wire (session_codec_of K)) (greeting_request K P 0 (st_secret st))) \<le> MAX_FRAME"
    and "let v = pairing_record r (bridge_hello H w) (bridge_documents H w) endpoint pid now in ck_parse K (json_text C v) = Ok v"
    and "ck_hello_of_json K (bridge_hello H (st_world st)) = Ok hello"
  shows "authenticated \<and> st' = st \<and> (\<exists>m' e client. discover_sessions K P m = Ok m'
     \<and> bm_get m' (st_session st) = Some e \<and> (\<forall>k. k \<noteq> st_session st \<longrightarrow> bm_get m' k = bm_get m k)
     \<and> ss_id (se_summary e) = st_session st \<and> ss_epoch (se_summary e) = st_epoch st
     \<and> ss_documents (se_summary e) = bridge_documents H (st_world st)
     \<and> ss_capabilities (se_summary e) = bh_capabilities hello
     \<and> se_backend e = Ipc client None \<and> ic_session_epoch client = st_epoch st)"
proof -
  let ?v = "pairing_record r (bridge_hello H w) (bridge_documents H w) endpoint pid now"
  have answer: "response = greeting_answer H st (ps_uuid P 1)" "authenticated" "st' = st"
    using assms(11) greeting_accepted [of C K H E P 0 st False] by auto
  have "publish C r (bridge_hello H w) (bridge_documents H w) endpoint pid now bound = (Ok (), fs')"
    using assms(1,2) by (auto simp: server_start_def split: prod.splits sum.splits)
  note files = published_files [OF assms(4) this]
  have secret: "ps_read P (rz_secret_path r) = Ok (st_secret st)" and
    stored: "ps_read P (rz_record_path r) = Ok (json_text C ?v)"
    using assms(7) files by blast+
  have members: "str_or_empty ''endpoint'' ?v = endpoint" "str_or_empty ''secret_path'' ?v = rz_secret_path r"
    by (simp_all add: pairing_record_def str_at_def)
  have named: "rz_secret_path r \<noteq> []" "st_session st \<noteq> []" "rz_socket_path r \<noteq> []"
    unfolding assms(5) unfolding assms(4) by (simp_all add: rendezvous_new_def Let_def)
  have linked: "connect_endpoint (ps_tcp P) (ps_unix P) endpoint (st_secret st) = Ok (client_new frame (st_secret st))"
    "endpoint \<noteq> []"
    by (rule bound_connects [where tcp = "ps_tcp P" and unix = "ps_unix P"], (fact assms(2,3,10) named(3))+)+
  obtain client where greeted: "greet K P 0 (client_new frame (st_secret st)) = (Ok response, client)"
    "ic_session_epoch client = st_epoch st"
    using greet_answered [OF assms(14,12,13)] answer(1) greeting_answer_facts(1,2) [of H st] by auto
  obtain ad where ad: "paired K P 0 ?v = Some (ad, client)" "sa_session ad = st_session st"
    "sa_session_epoch ad = st_epoch st" "sa_documents ad = bridge_documents H (st_world st)" "sa_hello ad = hello"
    using members named linked assms(16) secret greeted(1) greeting_answer_facts [of H st "ps_uuid P 1"]
    by (simp add: paired_def Let_def answer(1) greeting_hello_def)
  have "discover_entry K P m (0, rz_record_path r) = Ok (register_ipc ad client m)"
    using assms(15) stored ad(1) by (simp add: discover_entry_def Let_def)
  then have "discover_sessions K P m = Ok (register_ipc ad client m)"
    using assms(8,9) record_path_joined [OF assms(4)] by (simp add: discover_sessions_def)
  then show ?thesis
    using answer(2,3) ad(2-5) greeted(2) by (auto simp: register_ipc_def Let_def)
qed

end
