(* ===== verification/CommandSamples.thy ===== *)
theory CommandSamples
  imports Pairing McpSamples BridgeSamples
begin

text \<open>
  The command at a small folder of schemas, started with nothing, and beside one running bridge.
\<close>

section \<open>Serializers\<close>

definition sample_hello :: bridge_hello where
  "sample_hello = \<lparr>bh_message = ''bridge.hello'', bh_ipc_versions = [IPC_VERSION], bh_dto_versions = [DTO_VERSION],
     bh_freecad = \<lparr>fi_version = ''1.0'', fi_python = ''3'', fi_occt = ''7'', fi_mode = ''headless'', fi_active_workbench = None\<rparr>,
     bh_extractors = [], bh_operations = [], bh_transaction_safety = [],
     bh_limits = \<lparr>bl_max_control_message_bytes = 1, bl_max_pending_requests = 1, bl_max_entities_per_snapshot = 1\<rparr>,
     bh_capabilities = [''read'']\<rparr>"

definition sample_command :: "json \<Rightarrow> ipc_response \<Rightarrow> command_codec" where
  "sample_command parsed response =
     \<lparr>ck_mcp = (sample_mcp sample_codec (Ok sample_ping) QueryLaws.sample_request)
        \<lparr>mk_session := (sample_session_codec sample_codec)
           \<lparr>sk_wire := \<lparr>wk_request_text = (\<lambda>r. ''r''), wk_response_parse = (\<lambda>t. Ok response)\<rparr>\<rparr>,
         mk_crypto := bridge_crypto\<rparr>,
      ck_parse = (\<lambda>t. Ok parsed), ck_hello_of_json = (\<lambda>v. Ok sample_hello), ck_rules_parse = (\<lambda>t. Err ''rules''),
      ck_start_file = (\<lambda>names name. if name \<in> set names then Err ''duplicate'' else Ok ())\<rparr>"

section \<open>Schemas\<close>

definition sample_schema :: json where
  "sample_schema = JObj [(''$id'', JStr ''https://github.com/caniko/topomind/a''), (''$schema'', JStr ''s''),
     (''properties'', JObj [(''x'', JNull)]), (''required'', JArr [JStr ''x'']), (''title'', JStr ''A''), (''type'', JStr ''object'')]"

definition sample_tree :: node where
  "sample_tree = Folder [(''schemas'', Folder [(''ccir'', Folder [(''a.json'', Content ''a''), (''notes'', Content ''n'')])])]"

lemma sample_tree_valid:
  "\<exists>tree. validate_schemas (sample_command sample_schema sample_response) ''/src'' False sample_tree
     = (Ok ''validated 1 schemas'', tree)"
proof -
  let ?K = "sample_command sample_schema sample_response"
  have one: "show_nat (Suc 0) = ''1''" by code_simp
  have "collect_schema_paths [''schemas''] sample_tree = Ok [[''schemas'', ''ccir'', ''a.json'']]"
    by code_simp
  moreover have "check_schema path sample_schema = Ok ()" for path
    by (simp add: check_schema_def sample_schema_def is_object_def schema_keys_def str_at_def starts_with_def
        index_json_def json_array_def map_filter_simps)
  then have "checked_schema ?K ''/src'' sample_tree [''schemas'', ''ccir'', ''a.json'']
      = Ok (schema_entry ?K [''schemas'', ''ccir'', ''a.json''] sample_schema)"
    by (simp add: checked_schema_def read_node_def sample_tree_def sample_command_def)
  moreover have "\<exists>tree. write_node manifest_path written sample_tree = Some tree" for written
    by (simp add: manifest_path_def sample_tree_def)
  ultimately show ?thesis
    using one by (auto simp: validate_schemas_def Let_def split: option.split)
qed

theorem written_manifest_passes_the_check_witness:
  "\<exists>tree. validate_schemas (sample_command sample_schema sample_response) ''/src'' False sample_tree
       = (Ok ''validated 1 schemas'', tree)
     \<and> validate_schemas (sample_command sample_schema sample_response) ''/src'' True tree = (Ok ''validated 1 schemas'', tree)"
  using sample_tree_valid written_manifest_passes_the_check by blast

section \<open>A start with nothing\<close>

definition lone_process :: process where
  "lone_process = \<lparr>ps_args = [''topomind'', ''--no-discover''], ps_var = (\<lambda>_. None), ps_cwd = Ok ''/'', ps_temp_dir = ''/tmp'',
     ps_read = (\<lambda>_. Err ''no such file''), ps_list = (\<lambda>_. Ok None), ps_tree = (\<lambda>_. Unreadable),
     ps_create = (\<lambda>_. Ok ()), ps_tcp = (\<lambda>_. Err ''refused''), ps_unix = (\<lambda>_. Err ''refused''), ps_artifacts = (\<lambda>_. Ok []),
     ps_uuid = (\<lambda>_. ''u''), ps_secret_uuid = ''s''\<rparr>"

lemma lone_started: "\<exists>sv. start_server K lone_process = Ok sv \<and> ms_sessions sv = []"
  by (simp add: start_server_def fixture_sessions_def bridge_sessions_def given_def or_else_def lone_process_def has_flag_def
      start_policy_def chosen_profile_def Let_def)

theorem unnamed_policy_only_looks_witness:
  "\<exists>out panic sv. topomind (sample_command JNull sample_response) lone_process (\<lambda>n. McpSamples.sample_env) ''ping''
     = Ok (Served (out, panic, sv)) \<and> ms_previews sv = [] \<and> bm_get (ms_sessions sv) ''s'' = None"
proof -
  let ?K = "sample_command JNull sample_response"
  obtain sv where sv: "start_server ?K lone_process = Ok sv" "ms_sessions sv = []"
    using lone_started by blast
  obtain out panic sv' where run: "run_stdio (ck_mcp ?K) (\<lambda>n. McpSamples.sample_env) ''ping'' sv = (out, panic, sv')"
    by (cases rule: prod_cases3)
  have served: "topomind ?K lone_process (\<lambda>n. McpSamples.sample_env) ''ping'' = Ok (Served (out, panic, sv'))"
    using sv run by (simp add: topomind_def lone_process_def has_flag_def)
  have unnamed: "ps_var lone_process ''TOPOMIND_POLICY''
      \<notin> {Some ''approve_each'', Some ''approve_high_risk'', Some ''workspace_policy'', Some ''developer''}"
    by (simp add: lone_process_def)
  show ?thesis
    using served unnamed_policy_only_looks [OF served unnamed] sv by auto
qed

section \<open>A bridge beside it\<close>

definition near_rendezvous :: rendezvous where
  "near_rendezvous = rendezvous_new ''/run/topomind'' ''1'' ''2'' ''k''"

definition near_bridge :: "nat bridge_state" where
  "near_bridge = bridge_new 7 (rz_session near_rendezvous) (rz_epoch near_rendezvous) ''k''"

definition near_listener :: listener_env where
  "near_listener = \<lparr>le_forced_tcp = True, le_unix = Err ''forced'', le_tcp = Ok ''h''\<rparr>"

definition near_files :: files where
  "near_files = snd (server_start bridge_codec near_rendezvous near_listener (bridge_hello (sample_host False []) 7)
     (bridge_documents (sample_host False []) 7) 1 0 [])"

definition near_process :: process where
  "near_process = lone_process\<lparr>ps_args := [''topomind''],
     ps_var := (\<lambda>v. if v = ''XDG_RUNTIME_DIR'' then Some ''/run'' else None),
     ps_read := (\<lambda>path. ok_or (bm_get near_files path) ''no such file''),
     ps_list := (\<lambda>_. Ok (Some [''bridge-s_1.sock'', ''bridge-s_1.secret'', ''bridge-s_1.json''])),
     ps_tcp := (\<lambda>_. Ok (be_bytes 2 @ ''ok''))\<rparr>"

definition near_command :: command_codec where
  "near_command = sample_command
     (pairing_record near_rendezvous (bridge_hello (sample_host False []) 7) (bridge_documents (sample_host False []) 7) ''tcp://h'' 1 0)
     (greeting_answer (sample_host False []) near_bridge ''u'')"

lemma near_fields:
  "runtime_root near_process = ''/run/topomind''" "rz_session near_rendezvous = ''s_1''"
  "st_session near_bridge = rz_session near_rendezvous" "st_epoch near_bridge = rz_epoch near_rendezvous"
  "st_secret near_bridge = ''k''" "st_world near_bridge = 7"
  by (simp_all add: runtime_root_def near_process_def path_join_def starts_with_def near_rendezvous_def rendezvous_new_def
      Let_def near_bridge_def bridge_new_def)

lemma near_published:
  "server_start bridge_codec near_rendezvous near_listener (bridge_hello (sample_host False []) 7)
     (bridge_documents (sample_host False []) 7) 1 0 [] = (True, near_files)"
proof -
  have paths: "rz_secret_path near_rendezvous = ''/run/topomind/bridge-s_1.secret''"
    "rz_record_path near_rendezvous = ''/run/topomind/bridge-s_1.json''" "rz_secret near_rendezvous = ''k''"
    by code_simp+
  have temporary: "with_extension ''/run/topomind/bridge-s_1.secret'' (''tmp.'' @ show_nat 1) = ''/run/topomind/bridge-s_1.tmp.1''"
    "with_extension ''/run/topomind/bridge-s_1.json'' (''tmp.'' @ show_nat 1) = ''/run/topomind/bridge-s_1.tmp.1''"
    by code_simp+
  show ?thesis
    by (simp add: near_files_def server_start_def publish_def eff_bind_def write_atomically_def Let_def paths temporary [simplified]
        bind_listener_def near_listener_def
        bm_contains_def)
qed

theorem published_bridge_is_discovered_witness:
  "\<exists>m e. discover_sessions near_command near_process [] = Ok m \<and> bm_get m ''s_1'' = Some e
     \<and> ss_documents (se_summary e) = [''d''] \<and> ss_capabilities (se_summary e) = [''read'']"
proof -
  let ?request = "greeting_request near_command near_process 0 (st_secret near_bridge)"
  have started: "server_start bridge_codec near_rendezvous near_listener (bridge_hello (sample_host False []) 7)
      (bridge_documents (sample_host False []) 7) 1 0 [] = (True, near_files)"
    by (fact near_published)
  have paired: "near_rendezvous = rendezvous_new (runtime_root near_process) ''1'' ''2'' (st_secret near_bridge)"
    by (simp only: near_fields) (simp add: near_rendezvous_def)
  have readable: "\<forall>path content. bm_get near_files path = Some content \<longrightarrow> ps_read near_process path = Ok content"
    by (simp add: near_process_def)
  have listed: "ps_list near_process (runtime_root near_process)
      = Ok (Some [''bridge-s_1.sock'', ''bridge-s_1.secret'', ''bridge-s_1.json''])"
    by (simp add: near_process_def)
  have names: "record_names [''bridge-s_1.sock'', ''bridge-s_1.secret'', ''bridge-s_1.json'']
      = [''bridge-'' @ rz_session near_rendezvous @ ''.json'']"
    unfolding near_fields by code_simp
  have bound: "bind_listener near_rendezvous near_listener [] = (Some ''tcp://h'', [])"
    by (simp add: bind_listener_def near_listener_def)
  have socket: "\<not> starts_with ''tcp://'' (rz_socket_path near_rendezvous)"
    by code_simp
  have linked: "(if le_forced_tcp near_listener then res_bind (le_tcp near_listener) (ps_tcp near_process)
      else ps_unix near_process (rz_socket_path near_rendezvous)) = Ok (be_bytes 2 @ ''ok'')"
    by (simp add: near_process_def near_listener_def)
  have "mk_crypto (ck_mcp near_command) = bridge_crypto" "ps_uuid near_process 1 = ''u''"
    by (simp_all add: near_command_def sample_command_def near_process_def lone_process_def)
  then have handled: "bridge_handle bridge_codec (mk_crypto (ck_mcp near_command)) (sample_host False []) BridgeSamples.sample_env
      ?request False near_bridge = (Some (greeting_answer (sample_host False []) near_bridge ''u'', True), near_bridge)"
    using greeting_accepted [of bridge_codec near_command "sample_host False []" BridgeSamples.sample_env near_process 0] by simp
  have written: "write_frame ''ok'' [] = Ok (be_bytes 2 @ ''ok'')"
    by (simp add: write_frame_def MAX_FRAME_def)
  have parsed: "wk_response_parse (sk_wire (session_codec_of near_command)) ''ok''
      = Ok (greeting_answer (sample_host False []) near_bridge ''u'')"
    by (simp add: near_command_def sample_command_def)
  have short: "length (wk_request_text (sk_wire (session_codec_of near_command)) ?request) \<le> MAX_FRAME"
    by (simp add: near_command_def sample_command_def MAX_FRAME_def)
  have record_parsed: "let v = pairing_record near_rendezvous (bridge_hello (sample_host False []) 7)
        (bridge_documents (sample_host False []) 7) ''tcp://h'' 1 0
      in ck_parse near_command (json_text bridge_codec v) = Ok v"
    by (simp add: near_command_def sample_command_def Let_def)
  have hello: "ck_hello_of_json near_command (bridge_hello (sample_host False []) (st_world near_bridge)) = Ok sample_hello"
    by (simp add: near_command_def sample_command_def)
  have documents: "bridge_documents (sample_host False []) (st_world near_bridge) = [''d'']"
    by (simp add: bridge_documents_def sample_host_def)
  show ?thesis
    using published_bridge_is_discovered [OF started bound socket paired near_fields(3,4) readable listed names linked handled written
        parsed short record_parsed hello, of "[]"] documents
    by (auto simp: near_fields sample_hello_def)
qed

section \<open>A record that vanished\<close>

definition late_process :: process where
  "late_process = near_process\<lparr>ps_read := (\<lambda>_. Err ''no such file'')\<rparr>"

theorem one_unreadable_record_stops_the_start_witness:
  "\<not> is_ok (discover_sessions near_command late_process [])"
proof -
  have listed: "ps_list late_process (runtime_root late_process)
      = Ok (Some [''bridge-s_1.sock'', ''bridge-s_1.secret'', ''bridge-s_1.json''])"
    by (simp add: late_process_def near_process_def)
  have "''bridge-s_1.json'' \<in> set (record_names [''bridge-s_1.sock'', ''bridge-s_1.secret'', ''bridge-s_1.json''])"
    by code_simp
  moreover have "\<not> is_ok (ps_read late_process path)" for path
    by (simp add: late_process_def)
  ultimately show ?thesis
    using one_unreadable_record_stops_the_start [OF listed, of near_command "[]"] by blast
qed

end
