(* ===== verification/BridgeRefs.thy ===== *)
theory BridgeRefs
  imports Executor
begin

text \<open>
  The references of a snapshot and how a change set leads back through them: the extractor writes them
  with \<open>bridge_ref\<close>, the executor reads them with \<open>resolve\<close>.
\<close>

section \<open>Splitting\<close>

lemma split_on_join:
  "ps \<noteq> [] \<Longrightarrow> \<forall>p \<in> set ps. c \<notin> set p \<Longrightarrow> split_on c (join_with [c] ps) = ps"
proof (induction ps rule: induct_list012)
  case (3 p q ps)
  then show ?case by (simp add: split_on_append)
qed (simp_all add: split_on_single_iff)

section \<open>References\<close>

lemma percent_encode_inject [simp]: "percent_encode s = percent_encode t \<longleftrightarrow> s = t"
  by (metis percent_bytes_encode option.inject)

lemma percent_encode_object [simp]: "percent_encode ''object'' = ''object''"
  by code_simp

lemma percent_decode_object: "percent_decode ''object'' = Some ''object''"
  by code_simp

lemma percent_encode_object_iff [simp]: "percent_encode s = ''object'' \<longleftrightarrow> s = ''object''"
  by (metis percent_encode_inject percent_encode_object)

lemma join_no_char: "c \<notin> set sep \<Longrightarrow> \<forall>p \<in> set ps. c \<notin> set p \<Longrightarrow> c \<notin> set (join_with sep ps)"
  by (induction sep ps rule: join_with.induct) auto

lemma reference_path:
  "split_on (CHR ''/'') (hd (split_on (CHR ''@'') (bridge_ref session document path r)))
     = [''fc:'', [], ''session'', percent_encode session, ''document'', percent_encode document]
         @ map percent_encode (split_on (CHR ''/'') path)"
proof -
  let ?path = "map percent_encode (split_on (CHR ''/'') path)"
  let ?tail = "percent_encode document @ CHR ''/'' # join_with ''/'' ?path"
  have tail: "split_on (CHR ''/'') ?tail = percent_encode document # ?path"
    using split_on_append [OF percent_encode_no_slash] split_on_join [of ?path "CHR ''/''"]
    by (simp add: percent_encode_no_slash)
  have at: "CHR ''@'' \<notin> set (''fc://session/'' @ percent_encode session @ ''/document/'' @ ?tail)"
    using join_no_char [of "CHR ''@''" "''/''" ?path] by (auto simp: percent_encode_no_at)
  have "bridge_ref session document path r
      = (''fc://session/'' @ percent_encode session @ ''/document/'' @ ?tail) @ CHR ''@'' # r"
    by (simp add: bridge_ref_def)
  then have "hd (split_on (CHR ''@'') (bridge_ref session document path r))
      = ''fc://session/'' @ percent_encode session @ ''/document/'' @ ?tail"
    using split_on_append [OF at] by simp
  moreover have "split_on (CHR ''/'') (''fc://session/'' @ percent_encode session @ ''/document/'' @ ?tail)
      = [''fc:'', [], ''session'', percent_encode session] @ split_on (CHR ''/'') (''document/'' @ ?tail)"
    using split_on_append [of "CHR ''/''" "percent_encode session" "''document/'' @ ?tail"]
    by (simp add: percent_encode_no_slash)
  ultimately show ?thesis by (simp add: tail)
qed

lemma reference_starts: "starts_with ''fc://'' (bridge_ref session document path r)"
  by (simp add: bridge_ref_def starts_with_iff)

lemma object_reference_parts:
  assumes "session \<noteq> ''object''" and "document \<noteq> ''object''"
    and "split_on (CHR ''/'') path = ''object'' # name # others" and "utf8_valid name"
  shows "reference_parts (bridge_ref session document path r) = Ok (name, map percent_encode others)"
  using assms by (simp add: reference_parts_def reference_path reference_starts needed_def decoded_def
      percent_round_trip del: utf8_valid.simps)

definition part_kinds :: "string list" where
  "part_kinds = [''face'', ''edge'', ''vertex'', ''constraint'']"

lemma part_kind_facts:
  assumes "kind \<in> set part_kinds"
  shows "percent_encode kind = kind" and "CHR ''/'' \<notin> set kind" and "utf8_valid kind"
    and "subelement_name [kind, number] = Some (capitalize kind @ number)"
    and "subelement_kind (capitalize kind @ number) = Some (kind, number)"
proof -
  have ascii: "\<forall>kind \<in> set part_kinds. percent_encode kind = kind \<and> CHR ''/'' \<notin> set kind \<and> utf8_valid kind"
    by code_simp
  then show "percent_encode kind = kind" and "CHR ''/'' \<notin> set kind" and "utf8_valid kind"
    using assms by blast+
  have capital: "capitalize ''face'' = ''Face''" "capitalize ''edge'' = ''Edge''"
      "capitalize ''vertex'' = ''Vertex''" "capitalize ''constraint'' = ''Constraint''"
    by code_simp+
  show "subelement_name [kind, number] = Some (capitalize kind @ number)"
    using assms by (auto simp: part_kinds_def subelement_name_def)
  show "subelement_kind (capitalize kind @ number) = Some (kind, number)"
    using assms by (auto simp: part_kinds_def capital subelement_kind_def)
qed

lemma digits_plain:
  "percent_encode (show_nat n) = show_nat n" "utf8_valid (show_nat n)" "CHR ''/'' \<notin> set (show_nat n)"
proof -
  have digits: "\<forall>c \<in> set (show_nat n). is_ascii_digit c" using show_nat_digits by blast
  then show "percent_encode (show_nat n) = show_nat n"
    by (intro percent_encode_plain) (auto simp: list_all_iff is_unreserved_def is_ascii_alphanumeric_def)
  have "utf8_lossy s = s" if "\<forall>c \<in> set s. is_ascii_digit c" for s
    using that by (induction s) (auto simp: utf8_follow_def byte_in_def is_ascii_digit_def)
  then show "utf8_valid (show_nat n)" using digits by simp
  show "CHR ''/'' \<notin> set (show_nat n)" by (rule show_nat_no_char) (simp add: is_ascii_digit_def)
qed

lemma parse_i32_show_nat: "n \<le> 2147483647 \<Longrightarrow> parse_i32 (show_nat n) = Some (int n)"
proof -
  assume n: "n \<le> 2147483647"
  obtain c cs where s: "show_nat n = c # cs" using show_nat_nonempty [of n] by (cases "show_nat n") blast+
  then have digits: "list_all is_ascii_digit (c # cs)" and value_is: "dec_value (c # cs) = n"
    using show_nat_digits [of _ n] dec_value_show_nat [of n] by (auto simp: list_all_iff)
  then have "c \<noteq> CHR ''-''" "c \<noteq> CHR ''+''" by (auto simp: is_ascii_digit_def)
  then show ?thesis using n digits value_is by (simp add: parse_i32_def s Let_def)
qed

text \<open>C32: The reference a snapshot gives to an object leads back to that object, and the reference of one of
  its parts to that object and part, under the name the CAD program has for the part.  The name of the
  object must be text without a slash.  When the document is itself called "object" the reference is
  read from there: whatever object it was written for, it leads to the one called "object".\<close>

theorem references_lead_to_their_objects:
  assumes "session \<noteq> ''object''" and "document \<noteq> ''object''"
    and "utf8_valid name" and "CHR ''/'' \<notin> set name" and "kind \<in> set part_kinds"
    and "call1 P w handle ''getObject'' (py_make P (PyStr name)) = Some object" and "\<not> is_none P w object"
  shows "resolve P handle (bridge_ref session document (object_path name) r) w = Ok (object, [])
     \<and> resolve P handle (bridge_ref session document (part_path name kind index) r) w
         = Ok (object, [kind, show_nat index])
     \<and> subelement_name [kind, show_nat index] = Some (capitalize kind @ show_nat index)
     \<and> subelement_kind (capitalize kind @ show_nat index) = Some (kind, show_nat index)
     \<and> (index \<le> 2147483647 \<longrightarrow> subelement_index [kind, show_nat index] kind = Ok (int index))
     \<and> reference_parts (bridge_ref session ''object'' (object_path name) r)
         = Ok (''object'', [percent_encode name])"
proof -
  note kind = part_kind_facts [OF assms(5)]
  have "split_on (CHR ''/'') (object_path name) = [''object'', name]"
    using assms(4) split_on_append [of "CHR ''/''" "''object''" name]
    by (simp add: object_path_def split_on_single_iff)
  note whole = this
  have "split_on (CHR ''/'') (part_path name kind index) = [''object'', name, kind, show_nat index]"
    using assms(4) kind(2) digits_plain(3) [of index] split_on_append [of "CHR ''/''" "''object''" "name @ ''/'' @ kind @ ''/'' @ show_nat index"]
    by (simp add: part_path_def split_on_append split_on_single_iff)
  note part = this
  have "resolve P handle (bridge_ref session document (object_path name) r) w = Ok (object, [])"
    using object_reference_parts [OF assms(1,2) whole assms(3)] assms(6,7)
    by (simp add: resolve_def not_none_def needed_def)
  moreover have "resolve P handle (bridge_ref session document (part_path name kind index) r) w
      = Ok (object, [kind, show_nat index])"
    using object_reference_parts [OF assms(1,2) part assms(3)] assms(6,7) kind(1,3) digits_plain [of index]
      percent_round_trip [of kind] percent_round_trip [of "show_nat index"]
    by (simp add: resolve_def not_none_def needed_def decoded_def del: utf8_valid.simps)
  moreover have "reference_parts (bridge_ref session ''object'' (object_path name) r)
      = Ok (''object'', [percent_encode name])"
    using assms(1) whole percent_decode_object
    by (simp add: reference_parts_def reference_path reference_starts needed_def decoded_def)
  moreover have "index \<le> 2147483647 \<longrightarrow> subelement_index [kind, show_nat index] kind = Ok (int index)"
    by (simp add: subelement_index_def needed_def parse_i32_show_nat)
  ultimately show ?thesis using kind(4,5) by simp
qed

end
