(* ===== verification/MessageTypes.thy ===== *)
theory MessageTypes
  imports BridgeRuntime
begin

text \<open>
  The JSON types the sidecar reads from the bridge (the derived \<^verbatim>\<open>Deserialize\<close> instances of
  \<^verbatim>\<open>bridge-dto/src/lib.rs\<close> and \<^verbatim>\<open>ccir-core/src/lib.rs\<close>) and that the documents the bridge writes with
  \<^verbatim>\<open>json!\<close> have them.  A member that is missing is only accepted where the field is an \<^verbatim>\<open>Option\<close>;
  members no member is named after are ignored.  Unsigned members hold lengths, counters and times, which
  fit their 64 or 128 bits; a process identifier must fit 32.
\<close>

section \<open>Types\<close>

datatype json_type =
    AnyType
  | TextType
  | BoolType
  | CountType
  | WordType nat
  | FloatType
  | Nullable json_type
  | Choice "string list"
  | ListOf json_type
  | Fixed nat json_type
  | MapOf json_type
  | Record "(string \<times> json_type) list"

primrec accepts :: "json_type \<Rightarrow> json option \<Rightarrow> bool" where
  "accepts AnyType m \<longleftrightarrow> m \<noteq> None"
| "accepts TextType m \<longleftrightarrow> (\<exists>s. m = Some (JStr s))"
| "accepts BoolType m \<longleftrightarrow> (\<exists>b. m = Some (JBool b))"
| "accepts CountType m \<longleftrightarrow> (\<exists>n. m = Some (JNum (PosInt n)))"
| "accepts (WordType k) m \<longleftrightarrow> (\<exists>n. m = Some (JNum (PosInt n)) \<and> n < 2 ^ k)"
| "accepts FloatType m \<longleftrightarrow> (\<exists>n. m = Some (JNum n))"
| "accepts (Nullable t) m \<longleftrightarrow> m = None \<or> m = Some JNull \<or> accepts t m"
| "accepts (Choice names) m \<longleftrightarrow> (\<exists>s \<in> set names. m = Some (JStr s))"
| "accepts (ListOf t) m \<longleftrightarrow> (\<exists>vs. m = Some (JArr vs) \<and> (\<forall>v \<in> set vs. accepts t (Some v)))"
| "accepts (Fixed k t) m \<longleftrightarrow> (\<exists>vs. m = Some (JArr vs) \<and> length vs = k \<and> (\<forall>v \<in> set vs. accepts t (Some v)))"
| "accepts (MapOf t) m \<longleftrightarrow> (\<exists>kvs. m = Some (JObj kvs) \<and> (\<forall>v \<in> set (map snd kvs). accepts t (Some v)))"
| "accepts (Record members) m \<longleftrightarrow> (\<exists>v. m = Some v \<and> is_object v
     \<and> list_all (\<lambda>(name, accepted). accepted (jget name v)) (map (map_prod id accepts) members))"

definition has_type :: "json_type \<Rightarrow> json \<Rightarrow> bool" where
  "has_type t v \<longleftrightarrow> accepts t (Some v)"

section \<open>The messages\<close>

definition revision_type :: json_type where
  "revision_type = Record [(''geometry'', CountType), (''metadata'', CountType), (''focus'', CountType),
     (''view'', CountType), (''epoch'', TextType)]"

definition vec3_type :: json_type where
  "vec3_type = Record [(''x'', FloatType), (''y'', FloatType), (''z'', FloatType)]"

definition bounds_type :: json_type where
  "bounds_type = Record [(''min'', vec3_type), (''max'', vec3_type), (''frame'', TextType)]"

definition quantity_type :: json_type where
  "quantity_type = Record [(''value'', FloatType), (''unit'', TextType)]"

definition identity_type :: json_type where
  "identity_type = Record
     [(''state'', Choice [''exact'', ''mapped_exact'', ''mapped_heuristic'', ''ambiguous'', ''deleted'', ''stale'']),
      (''confidence'', FloatType), (''signals'', ListOf TextType)]"

definition link_type :: json_type where
  "link_type = Record [(''relation'', TextType), (''target'', TextType)]"

definition diagnostic_type :: json_type where
  "diagnostic_type = Record [(''code'', TextType), (''severity'', Choice [''info'', ''warning'', ''error'']),
     (''message'', TextType), (''entity'', Nullable TextType), (''retryable'', BoolType),
     (''evidence'', ListOf TextType)]"

definition source_type :: json_type where
  "source_type = Record [(''object'', Nullable TextType), (''subelement'', Nullable TextType),
     (''extractor'', TextType), (''kernel_tolerance'', Nullable quantity_type),
     (''fingerprint'', Nullable TextType)]"

definition shape_type :: json_type where
  "shape_type = Record [(''shape_type'', TextType), (''topology'', MapOf CountType),
     (''geometry_type'', Nullable TextType), (''exact'', BoolType), (''properties'', AnyType)]"

definition entity_members :: "(string \<times> json_type) list" where
  "entity_members = [(''ref'', TextType), (''kind'', TextType), (''name'', Nullable TextType),
     (''label'', Nullable TextType), (''frame'', Nullable TextType), (''units'', MapOf TextType),
     (''source'', Nullable source_type), (''identity'', identity_type), (''properties'', AnyType),
     (''links'', ListOf link_type), (''bounds'', Nullable bounds_type), (''shape'', Nullable shape_type)]"

definition entity_type :: json_type where
  "entity_type = Record entity_members"

definition selection_type :: json_type where
  "selection_type = Record [(''ref'', TextType), (''selection_index'', CountType),
     (''subelement'', Nullable TextType), (''source'', TextType)]"

definition view_type :: json_type where
  "view_type = Record [(''view_id'', TextType), (''projection'', TextType),
     (''camera_position'', Nullable vec3_type), (''camera_orientation'', Nullable AnyType),
     (''look_direction'', Nullable vec3_type), (''up_direction'', Nullable vec3_type),
     (''target'', Nullable vec3_type), (''field_of_view_deg'', Nullable FloatType),
     (''orthographic_scale'', Nullable FloatType), (''clipping'', Nullable (Fixed 2 FloatType)),
     (''viewport'', Nullable (Fixed 3 (WordType 32))), (''visible_objects'', ListOf TextType),
     (''hidden_objects'', ListOf TextType), (''section_planes'', ListOf AnyType),
     (''timestamp_ms'', CountType)]"

definition snapshot_type :: json_type where
  "snapshot_type = Record [(''schema_version'', TextType), (''session'', TextType),
     (''session_epoch'', TextType), (''document'', TextType), (''document_label'', Nullable TextType),
     (''revision'', revision_type), (''active_workbench'', Nullable TextType), (''gui_mode'', BoolType),
     (''active_object'', Nullable TextType), (''active_edit'', Nullable TextType),
     (''selection'', ListOf selection_type), (''view'', Nullable view_type),
     (''entities'', ListOf entity_type), (''diagnostics'', ListOf diagnostic_type),
     (''metadata'', MapOf AnyType)]"

definition check_type :: json_type where
  "check_type = Record [(''id'', TextType), (''status'', TextType), (''message'', TextType),
     (''evidence'', ListOf TextType)]"

definition validation_type :: json_type where
  "validation_type = Record [(''status'', TextType), (''checks'', ListOf check_type)]"

definition change_response_type :: json_type where
  "change_response_type = Record [(''base_revision'', TextType), (''resulting_revision'', Nullable TextType),
     (''changeset_hash'', TextType), (''preview_hash'', Nullable TextType), (''rolled_back'', BoolType),
     (''rollback_fingerprint_verified'', BoolType), (''diff'', Nullable AnyType),
     (''validation'', validation_type)]"

definition freecad_type :: json_type where
  "freecad_type = Record [(''version'', TextType), (''python'', TextType), (''occt'', TextType),
     (''mode'', TextType), (''active_workbench'', Nullable TextType)]"

definition limits_type :: json_type where
  "limits_type = Record [(''max_control_message_bytes'', CountType), (''max_pending_requests'', CountType),
     (''max_entities_per_snapshot'', CountType)]"

definition hello_type :: json_type where
  "hello_type = Record [(''message'', TextType), (''ipc_versions'', ListOf TextType),
     (''dto_versions'', ListOf TextType), (''freecad'', freecad_type), (''extractors'', ListOf TextType),
     (''operations'', ListOf TextType), (''transaction_safety'', MapOf TextType),
     (''limits'', limits_type), (''capabilities'', ListOf TextType)]"

definition advertisement_type :: json_type where
  "advertisement_type = Record [(''session'', TextType), (''session_epoch'', TextType),
     (''endpoint'', TextType), (''pid'', WordType 32), (''started_at_ms'', CountType),
     (''hello'', hello_type), (''documents'', ListOf TextType)]"

section \<open>Leaves\<close>

named_theorems typed "documents and their types"

lemma accepts_Some [typed]: "accepts t (Some v) \<longleftrightarrow> has_type t v"
  by (simp add: has_type_def)

lemma accepts_None [typed]: "accepts (Nullable t) None"
  by simp

lemma is_object_jobj [simp]: "is_object (jobj kvs)"
  by (simp add: jobj_def is_object_iff)

lemma type_record [typed]:
  "has_type (Record members) (jobj kvs) \<longleftrightarrow> (\<forall>(name, t) \<in> set members. accepts t (map_of (rev kvs) name))"
proof -
  have "has_type (Record members) v \<longleftrightarrow> is_object v \<and> (\<forall>(name, t) \<in> set members. accepts t (jget name v))" for v
    by (auto simp: has_type_def list_all_iff)
  then show ?thesis by simp
qed

lemma type_leaves [typed]:
  "has_type AnyType v"
  "has_type TextType (JStr s)"
  "has_type BoolType (JBool b)"
  "has_type CountType (json_of_nat n)"
  "has_type (WordType k) (json_of_nat n) \<longleftrightarrow> n < 2 ^ k"
  "has_type FloatType (JNum x)"
  "has_type FloatType (json_of_f64 y) \<longleftrightarrow> is_finite y"
  "has_type (Choice names) (JStr s) \<longleftrightarrow> s \<in> set names"
  by (auto simp: has_type_def json_of_nat_def is_finite_iff) (cases y; simp)

lemma type_list [typed]:
  "has_type (ListOf t) (JArr vs) \<longleftrightarrow> (\<forall>v \<in> set vs. has_type t v)"
  "has_type (ListOf t) (json_of_list f xs) \<longleftrightarrow> (\<forall>x \<in> set xs. has_type t (f x))"
  by (auto simp: has_type_def json_of_list_def)

lemma type_nullable: "has_type (Nullable t) v \<longleftrightarrow> v = JNull \<or> has_type t v"
  by (simp add: has_type_def)

lemma type_optional [typed]:
  "has_type (Nullable t) JNull"
  "has_type (Nullable t) (JStr s) \<longleftrightarrow> has_type t (JStr s)"
  "has_type (Nullable t) (jobj kvs) \<longleftrightarrow> has_type t (jobj kvs)"
  "has_type (Nullable AnyType) v"
  "has_type (Nullable TextType) (json_of_option JStr text_option)"
  "has_type (Nullable FloatType) (json_of_option json_of_f64 float_option)"
  "has_type (Nullable t) (json_or_null m) \<longleftrightarrow> (\<forall>v. m = Some v \<longrightarrow> has_type (Nullable t) v)"
proof -
  show "has_type (Nullable FloatType) (json_of_option json_of_f64 float_option)"
  proof (cases float_option)
    case (Some y)
    then show ?thesis by (cases y) (simp_all add: type_nullable json_of_option_def type_leaves)
  qed (simp add: type_nullable json_of_option_def)
qed (auto simp: type_nullable jobj_def json_of_option_def type_leaves split: option.splits)

lemma type_map [typed]: "(\<And>k v. (k, v) \<in> set kvs \<Longrightarrow> has_type t v) \<Longrightarrow> has_type (MapOf t) (jobj kvs)"
proof -
  assume kvs: "\<And>k v. (k, v) \<in> set kvs \<Longrightarrow> has_type t v"
  have "(k, v) \<in> set kvs" if "(k, v) \<in> set (bm_collect kvs)" for k v
  proof -
    have "bm_get (bm_collect kvs) k = Some v" using that by (simp add: bm_get_Some_iff)
    then show ?thesis by (auto simp: bm_get_extend dest: map_of_SomeD)
  qed
  then show ?thesis using kvs by (fastforce simp: jobj_def has_type_def)
qed

declare accepts.simps [simp del]

lemma type_revision [typed]: "has_type revision_type (json_of_revision r)"
  by (simp add: revision_type_def json_of_revision_def typed)

end
