(* ===== verification/SnapshotTypes.thy ===== *)
theory SnapshotTypes
  imports MessageTypes
begin

text \<open>
  The snapshots of the extractor, and the answers and the pairing record of the bridge, have the types
  the sidecar reads them at.
\<close>

section \<open>Finite measures\<close>

text \<open>
  The numbers a snapshot takes at their float type: the boxes of the shapes of a document that are not
  null and of their edges and faces, and the position of the camera.  A box with a coordinate that is no
  number is left out.
\<close>

definition finite_numbers :: "('w, 'o) python \<Rightarrow> 'w \<Rightarrow> 'o \<Rightarrow> string list \<Rightarrow> bool" where
  "finite_numbers P w v names =
     (case those (map (number_attr P w v) names) of None \<Rightarrow> True | Some xs \<Rightarrow> list_all is_finite xs)"

definition finite_box :: "('w, 'o) python \<Rightarrow> 'w \<Rightarrow> 'o \<Rightarrow> bool" where
  "finite_box P w v = (case attr P w v ''BoundBox'' of
       None \<Rightarrow> True
     | Some box \<Rightarrow> finite_numbers P w box [''XMin'', ''YMin'', ''ZMin'', ''XMax'', ''YMax'', ''ZMax''])"

definition finite_point :: "('w, 'o) python \<Rightarrow> 'w \<Rightarrow> 'o \<Rightarrow> bool" where
  "finite_point P w v = (if those (map (number_attr P w v) [''x'', ''y'', ''z'']) = None
     then finite_numbers P w v [''X'', ''Y'', ''Z''] else finite_numbers P w v [''x'', ''y'', ''z''])"

definition null_shape :: "('w, 'o) python \<Rightarrow> 'w \<Rightarrow> 'o \<Rightarrow> bool" where
  "null_shape P w shape = or_default False (Option.bind (call0 P w shape ''isNull'') (bool_of P w))"

definition boxed_parts :: "('w, 'o) python \<Rightarrow> 'w \<Rightarrow> 'o \<Rightarrow> 'o list" where
  "boxed_parts P w object = (case attr P w object ''Shape'' of
       None \<Rightarrow> []
     | Some shape \<Rightarrow> (if null_shape P w shape then [] else [shape])
         @ list_attr P w shape ''Edges'' @ list_attr P w shape ''Faces'')"

definition camera_place :: "('w, 'o) python \<Rightarrow> 'w \<Rightarrow> 'o option \<Rightarrow> 'o option" where
  "camera_place P w gui =
     Option.bind (Option.bind gui (\<lambda>gui. attr P w gui ''ActiveDocument'')) (\<lambda>active.
     Option.bind (attr P w active ''ActiveView'') (\<lambda>view.
     Option.bind (call0 P w view ''getCameraNode'') (\<lambda>camera.
     Option.bind (attr P w camera ''position'') (\<lambda>place. call0 P w place ''getValue''))))"

section \<open>Snapshots\<close>

lemma type_object: "has_type (Record members) v \<longleftrightarrow> is_object v \<and> (\<forall>(name, t) \<in> set members. accepts t (jget name v))"
  by (auto simp: has_type_def accepts.simps list_all_iff)

lemma type_vec3: "has_type vec3_type (json_of_vec3 v) \<longleftrightarrow> is_finite (v_x v) \<and> is_finite (v_y v) \<and> is_finite (v_z v)"
  by (simp add: vec3_type_def json_of_vec3_def typed)

lemma those_Cons_bind: "those (x # xs) = Option.bind x (\<lambda>y. map_option ((#) y) (those xs))"
  by (cases x) simp_all

lemma vector_of_those:
  "vector_of P w v (nx, ny, nz) = map_option (\<lambda>xs. json_of_vec3 \<lparr>v_x = xs ! 0, v_y = xs ! 1, v_z = xs ! 2\<rparr>)
     (those (map (number_attr P w v) [nx, ny, nz]))"
  by (simp add: vector_of_def split: option.splits bind_splits)

lemma type_vector_of:
  "vector_of P w v (nx, ny, nz) = Some found \<Longrightarrow> has_type vec3_type found \<longleftrightarrow> finite_numbers P w v [nx, ny, nz]"
  by (auto simp: vector_of_def finite_numbers_def bind_eq_Some_conv type_vec3)

lemma type_point: "vector P w v = Some found \<Longrightarrow> has_type vec3_type found \<longleftrightarrow> finite_point P w v"
  using type_vector_of [of P w v "''x''" "''y''" "''z''" found] type_vector_of [of P w v "''X''" "''Y''" "''Z''" found]
  by (simp only: vector_def finite_point_def vector_of_those) (auto split: option.splits)

lemma no_point: "vector P w v = None \<Longrightarrow> finite_point P w v"
  by (simp only: vector_def finite_point_def vector_of_those) (auto simp: finite_numbers_def split: option.splits)

lemma type_box:
  "has_type (Nullable bounds_type) (json_or_null (extract_bounds P w box))
     \<longleftrightarrow> finite_numbers P w box [''XMin'', ''YMin'', ''ZMin'', ''XMax'', ''YMax'', ''ZMax'']"
  by (auto simp: extract_bounds_def vector_of_def finite_numbers_def bounds_type_def type_vec3 typed
      split: option.splits bind_splits)

lemma type_bounds_attr:
  "has_type (Nullable bounds_type) (json_or_null (bounds_attr P w v)) \<longleftrightarrow> finite_box P w v"
  using type_box [of P w] by (cases "attr P w v ''BoundBox''") (simp_all add: bounds_attr_def finite_box_def typed)

lemma type_source: "has_type (Nullable source_type) (entity_source object subelement extractor digest)"
  by (simp add: entity_source_def source_type_def typed)

lemma type_identity: "has_type identity_type (exact_identity signals)"
  by (simp add: exact_identity_def identity_type_def typed)

lemma type_link: "has_type link_type (extracted_link relation target)"
  by (simp add: extracted_link_def link_type_def typed)

lemma type_entity:
  assumes "has_type (Nullable TextType) label" and "has_type (MapOf TextType) units"
    and "has_type (Nullable source_type) source" and "has_type identity_type identity"
    and "\<forall>link \<in> set links. has_type link_type link" and "has_type (Nullable shape_type) shape"
  shows "has_type entity_type
    (extracted_entity reference kind name label frame units source identity properties links bounds shape)
    \<longleftrightarrow> has_type (Nullable bounds_type) bounds"
  using assms by (simp add: extracted_entity_def entity_type_def entity_members_def typed)

lemma type_no_units: "has_type (MapOf TextType) (jobj [])"
  by (rule type_map) simp

lemmas entity_typed = type_no_units type_source type_identity type_link

lemma type_edge:
  "has_type entity_type (edge_entity C P w session document object_name r index edge) \<longleftrightarrow> finite_box P w edge"
  unfolding edge_entity_def
  by (subst type_entity) (simp_all only: type_bounds_attr, simp_all add: typed entity_typed)

lemma type_face:
  "has_type entity_type (face_entity C P w session document object_name r edges index face) \<longleftrightarrow> finite_box P w face"
proof -
  have "has_type (MapOf TextType) (jobj [(''length'', JStr ''mm''), (''area'', JStr area)])" for area
    by (rule type_map) (auto simp: typed)
  moreover have "has_type (MapOf CountType) (jobj [(''edges'', json_of_nat n)])" for n
    by (rule type_map) (auto simp: typed)
  moreover have "has_type link_type link"
    if "link \<in> set (List.map_filter (\<lambda>(k, candidate). if Q candidate then Some (extracted_link relation (target k)) else None) xs)"
    for link Q relation target and xs :: "(nat \<times> 'b) list"
    using that by (auto simp: List.map_filter_def type_link split: if_splits)
  ultimately show ?thesis
    unfolding face_entity_def Let_def
    by (subst type_entity) (simp_all only: type_bounds_attr, auto simp: typed type_source type_identity type_link shape_type_def)
qed

section \<open>Entities\<close>

lemma type_constraint:
  "has_type entity_type (constraint_entity C P w session document r object object_name index constraint)"
  unfolding constraint_entity_def by (subst type_entity) (simp_all add: typed entity_typed)

lemma set_numbered: "snd ` set (numbered xs) = set xs"
proof -
  have "map snd (numbered xs) = xs" by (simp add: numbered_def del: upt_Suc)
  then show ?thesis by (metis set_map)
qed

lemma type_shape_entities:
  "(\<forall>entity \<in> set (shape_entities C P w session document object_name r shape). has_type entity_type entity)
     \<longleftrightarrow> (\<forall>part \<in> set (list_attr P w shape ''Edges'') \<union> set (list_attr P w shape ''Faces''). finite_box P w part)"
proof -
  have parts: "(\<forall>p \<in> set (numbered xs). Q (snd p)) \<longleftrightarrow> (\<forall>x \<in> set xs. Q x)" for Q and xs :: "'b list"
    using set_numbered [of xs] by (metis imageE imageI)
  have "(\<forall>entity \<in> set (shape_entities C P w session document object_name r shape). has_type entity_type entity)
      \<longleftrightarrow> (\<forall>p \<in> set (numbered (list_attr P w shape ''Edges'')). finite_box P w (snd p))
        \<and> (\<forall>p \<in> set (numbered (list_attr P w shape ''Faces'')). finite_box P w (snd p))"
    by (simp add: shape_entities_def Let_def ball_Un split_beta type_edge type_face)
  then show ?thesis by (simp add: parts ball_Un)
qed

lemma type_sketch_entities:
  "\<forall>entity \<in> set (sketch_entities C P w session document r object). has_type entity_type entity"
proof -
  have "has_type entity_type (extracted_entity reference kind name label frame (jobj [])
      (entity_source source None extractor digest) (exact_identity signals) properties
      [extracted_link relation target] JNull JNull)"
    if "has_type (Nullable TextType) label"
    for reference kind name label frame source extractor digest signals properties relation target
    using that by (subst type_entity) (simp_all add: typed entity_typed)
  then show ?thesis by (auto simp: sketch_entities_def Let_def typed intro: type_constraint)
qed

lemma type_summary:
  assumes "shape_summary P w shape = Some summary"
  shows "has_type (Nullable bounds_type) (json_or_null (jget ''bounds'' summary)) \<longleftrightarrow> finite_box P w shape"
    and "has_type (Nullable shape_type) (json_or_null (jget ''shape'' summary))"
proof -
  have topology: "has_type (MapOf CountType) (jobj (map (\<lambda>(attribute, output_name). (output_name, json_of_nat (size_of attribute))) names))"
    for size_of and names :: "(string \<times> string) list"
    by (rule type_map) (auto simp: typed)
  obtain kind counts properties where
    summary: "summary = jobj [(''bounds'', json_or_null (bounds_attr P w shape)), (''properties'', properties),
      (''shape'', jobj [(''shape_type'', JStr kind), (''topology'', counts), (''geometry_type'', JNull),
         (''exact'', JBool True), (''properties'', properties)])]"
    and counts: "has_type (MapOf CountType) counts"
    using assms topology unfolding shape_summary_def Let_def if_None_Some_iff option.inject by metis
  have "jget ''bounds'' summary = Some (json_or_null (bounds_attr P w shape))" by (simp add: summary)
  then show "has_type (Nullable bounds_type) (json_or_null (jget ''bounds'' summary)) \<longleftrightarrow> finite_box P w shape"
    by (simp only: option.case(2) type_bounds_attr)
  show "has_type (Nullable shape_type) (json_or_null (jget ''shape'' summary))"
    using counts by (simp add: summary typed shape_type_def)
qed

lemma summary_null: "shape_summary P w shape = None \<longleftrightarrow> null_shape P w shape"
  by (simp add: shape_summary_def null_shape_def Let_def)

lemma type_object_entity:
  "has_type entity_type (object_entity C P w session document r refs object)
     \<longleftrightarrow> (case attr P w object ''Shape'' of None \<Rightarrow> True | Some shape \<Rightarrow> null_shape P w shape \<or> finite_box P w shape)"
proof -
  define summary where "summary = Option.bind (attr P w object ''Shape'') (shape_summary P w)"
  have shape: "has_type (Nullable shape_type) (json_or_null (Option.bind summary (jget ''shape'')))"
    using type_summary(2) [of P w] by (cases summary; cases "attr P w object ''Shape''") (auto simp: summary_def typed)
  have "has_type (Nullable bounds_type) (json_or_null (Option.bind summary (jget ''bounds'')))
      \<longleftrightarrow> (case attr P w object ''Shape'' of None \<Rightarrow> True | Some shape \<Rightarrow> null_shape P w shape \<or> finite_box P w shape)"
  proof (cases "attr P w object ''Shape''")
    case (Some shape)
    then show ?thesis
      using type_summary(1) [of P w shape] summary_null [of P w shape]
      by (cases "shape_summary P w shape") (simp_all add: summary_def typed, blast?)
  qed (simp add: summary_def typed)
  then show ?thesis
    unfolding object_entity_def Let_def summary_def [symmetric]
    by (subst type_entity) (use shape in \<open>auto simp: typed entity_typed\<close>)
qed

lemma type_document_entity: "has_type entity_type (document_entity P w session name r document objects)"
  unfolding document_entity_def by (subst type_entity) (simp_all add: typed entity_typed)

lemma jget_map_member: "jget k (json_map_member key f v) = (if k = key then map_option f (jget k v) else jget k v)"
proof (cases v)
  case (JObj kvs)
  have "bm_get (map (\<lambda>(k, v). if k = key then (k, f v) else (k, v)) kvs) k
      = (if k = key then map_option f (bm_get kvs k) else bm_get kvs k)"
    by (induction kvs) auto
  then show ?thesis by (simp add: JObj)
qed auto

lemma type_extend_links:
  "has_type entity_type (json_map_member ''links'' (extend_array (map (extracted_link relation) targets)) entity)
     \<longleftrightarrow> has_type entity_type entity"
proof -
  let ?extend = "extend_array (map (extracted_link relation) targets)"
  have "has_type (ListOf link_type) (?extend v) \<longleftrightarrow> has_type (ListOf link_type) v" for v
    by (cases v) (auto simp: typed type_link)
  then have links: "accepts (ListOf link_type) (map_option ?extend m) \<longleftrightarrow> accepts (ListOf link_type) m" for m
    by (cases m) (simp_all add: typed accepts.simps)
  have "accepts t (jget name (json_map_member ''links'' ?extend entity)) \<longleftrightarrow> accepts t (jget name entity)"
    if "(name, t) \<in> set entity_members" for name t
  proof (cases "name = ''links''")
    case True
    then have "t = ListOf link_type" using that by (simp add: entity_members_def)
    then show ?thesis using True links by (simp add: jget_map_member)
  qed (simp add: jget_map_member)
  moreover have "is_object (json_map_member ''links'' ?extend entity) \<longleftrightarrow> is_object entity"
    by (cases entity) (auto simp: is_object_iff)
  ultimately show ?thesis by (auto simp: entity_type_def type_object)
qed

lemma type_add_adjacency:
  "(\<forall>entity \<in> set (add_adjacency order entities). has_type entity_type entity)
     \<longleftrightarrow> (\<forall>entity \<in> set entities. has_type entity_type entity)"
  by (auto simp: add_adjacency_def Let_def type_extend_links split: option.splits)

definition finite_document :: "('w, 'o) python \<Rightarrow> 'w \<Rightarrow> 'o \<Rightarrow> bool" where
  "finite_document P w document =
     list_all (\<lambda>object. list_all (finite_box P w) (boxed_parts P w object)) (list_attr P w document ''Objects'')"

lemma type_document_entities:
  "(\<forall>entity \<in> set (document_entities C P w order session document name r). has_type entity_type entity)
     \<longleftrightarrow> finite_document P w document"
proof -
  have flat: "(\<forall>e \<in> set (d # concat (map f xs)). Q e) \<longleftrightarrow> Q d \<and> (\<forall>x \<in> set xs. \<forall>e \<in> set (f x). Q e)"
    and three: "(\<forall>e \<in> set (d # es @ es'). Q e) \<longleftrightarrow> (Q d \<and> (\<forall>e \<in> set es. Q e)) \<and> (\<forall>e \<in> set es'. Q e)"
    for Q :: "json \<Rightarrow> bool" and d es es' and f :: "'b \<Rightarrow> json list" and xs
    by auto
  have object: "has_type entity_type (object_entity C P w session name r refs object)
      \<and> (\<forall>entity \<in> set (case attr P w object ''Shape'' of None \<Rightarrow> []
            | Some shape \<Rightarrow> shape_entities C P w session name object_name r shape). has_type entity_type entity)
      \<longleftrightarrow> list_all (finite_box P w) (boxed_parts P w object)" for refs object object_name
  proof (cases "attr P w object ''Shape''")
    case (Some shape)
    show ?thesis
      by (simp only: Some option.case type_shape_entities type_object_entity boxed_parts_def list_all_iff) auto
  qed (simp add: type_object_entity boxed_parts_def)
  show ?thesis
    unfolding document_entities_def Let_def type_add_adjacency flat three object finite_document_def
    by (simp add: type_document_entity type_sketch_entities list_all_iff [of _ "list_attr P w document ''Objects''"])
qed

section \<open>The other members of a snapshot\<close>

lemma type_diagnostics:
  assumes entities: "\<forall>entity \<in> set entities. has_type entity_type entity"
    and diagnostic: "diagnostic \<in> set (document_diagnostics P w document entities)"
  shows "has_type diagnostic_type diagnostic"
proof -
  have "has_type (Nullable TextType) (json_or_null (Option.bind (find Q entities) (jget ''ref'')))" for Q
  proof (cases "find Q entities")
    case (Some entity)
    then have "has_type entity_type entity" using entities by (auto simp: find_Some_iff)
    then have "accepts TextType (jget ''ref'' entity)" by (simp add: entity_type_def entity_members_def type_object)
    then show ?thesis using Some by (auto simp: accepts.simps typed)
  qed (simp add: typed)
  then show ?thesis using diagnostic
    by (auto simp: document_diagnostics_def Let_def diagnostic_type_def typed)
qed

lemma type_selection:
  assumes "item \<in> set (extract_selection P w gui session document r)"
  shows "has_type selection_type item" and "\<exists>s. jget ''ref'' item = Some (JStr s)"
  using assms by (auto simp: extract_selection_def selected_items_def Let_def selection_type_def typed
      split: option.splits if_splits)

definition finite_camera :: "('w, 'o) python \<Rightarrow> 'w \<Rightarrow> 'o option \<Rightarrow> bool" where
  "finite_camera P w gui = (case camera_place P w gui of None \<Rightarrow> True | Some place \<Rightarrow> finite_point P w place)"

lemma type_place: "has_type (Nullable vec3_type) (json_or_null (vector P w v)) \<longleftrightarrow> finite_point P w v"
  using type_point [of P w v] no_point [of P w v]
  by (cases "vector P w v") (auto simp: typed vector_def vector_of_def json_of_vec3_def bind_eq_Some_conv split: option.splits)

lemma type_view:
  "has_type (Nullable view_type) (json_or_null (extract_view P w now app gui session document r)) \<longleftrightarrow> finite_camera P w gui"
proof (cases "Option.bind (Option.bind gui (\<lambda>gui. attr P w gui ''ActiveDocument'')) (\<lambda>active. attr P w active ''ActiveView'')")
  case None
  then show ?thesis
    by (cases "Option.bind gui (\<lambda>gui. attr P w gui ''ActiveDocument'')")
      (auto simp: extract_view_def finite_camera_def camera_place_def typed)
next
  case (Some view)
  let ?place = "Option.bind (Option.bind (call0 P w view ''getCameraNode'') (\<lambda>c. attr P w c ''position''))
    (\<lambda>v. call0 P w v ''getValue'')"
  have place: "camera_place P w gui = ?place"
    using Some by (auto simp: camera_place_def bind_eq_Some_conv)
  have "has_type (Nullable view_type) (json_or_null (extract_view P w now app gui session document r))
      \<longleftrightarrow> has_type (Nullable vec3_type) (json_or_null (Option.bind ?place (vector P w)))"
    using Some by (simp add: extract_view_def Let_def view_type_def typed)
  also have "\<dots> \<longleftrightarrow> finite_camera P w gui"
  proof (cases ?place)
    case None
    show ?thesis by (simp only: finite_camera_def place None Option.bind.bind_lzero option.case typed)
  next
    case (Some found)
    show ?thesis by (simp only: finite_camera_def place Some Option.bind.bind_lunit option.case type_place)
  qed
  finally show ?thesis .
qed

text \<open>C33: A snapshot is a document the sidecar can read as a \<^verbatim>\<open>BridgeSnapshot\<close>, with every required member in
  every entity, link, box, shape, diagnostic, selected item and in the view, exactly when the boxes it
  holds are finite, those of the shapes in the document that are not null and of their edges and faces,
  and the position of the camera is.  So one coordinate of one box that is not finite, which is printed
  as null, makes the whole snapshot unreadable; numbers elsewhere, whether finite or not, never do.\<close>

theorem snapshots_have_their_type:
  "has_type snapshot_type (extract_snapshot C P app gui w E session r document) \<longleftrightarrow>
     (case extract_document P w app document of
        None \<Rightarrow> True
      | Some found \<Rightarrow> finite_document P w found \<and> finite_camera P w gui)"
proof (cases "extract_document P w app document")
  case None
  have metadata: "has_type (MapOf AnyType) (jobj [])" by (rule type_map) simp
  show ?thesis
    by (simp add: None extract_snapshot_def no_document_snapshot_def snapshot_type_def diagnostic_type_def metadata typed)
next
  case (Some found)
  let ?name = "or_default [] (string_attr P w found ''Name'')"
  let ?entities = "document_entities C P w (se_order E) session found ?name (revision_id r)"
  let ?selection = "extract_selection P w gui session ?name (revision_id r)"
  let ?view = "json_or_null (extract_view P w (se_now E) app gui session ?name (revision_id r))"
  have metadata: "has_type (MapOf AnyType) (jobj kvs)" for kvs
    by (rule type_map) (simp add: typed)
  have active: "has_type (Nullable TextType) (json_or_null (case ?selection of [] \<Rightarrow> None | item # _ \<Rightarrow> jget ''ref'' item))"
    using type_selection(2) [of _ P w gui session ?name "revision_id r"]
    by (cases ?selection) (fastforce simp: typed)+
  have edit: "has_type (Nullable TextType) (json_or_null (active_edit P w gui session ?name (revision_id r)))"
    by (cases "active_edit P w gui session ?name (revision_id r)") (auto simp: active_edit_def typed)
  have selection: "\<forall>item \<in> set ?selection. has_type selection_type item"
    by (blast intro: type_selection(1))
  have view: "accepts (Nullable view_type) (Some ?view) \<longleftrightarrow> finite_camera P w gui"
    by (simp only: accepts_Some type_view)
  have "has_type snapshot_type (extract_snapshot C P app gui w E session r document) \<longleftrightarrow>
      (\<forall>entity \<in> set ?entities. has_type entity_type entity)
      \<and> (\<forall>diagnostic \<in> set (document_diagnostics P w found ?entities). has_type diagnostic_type diagnostic)
      \<and> finite_camera P w gui"
    using Some active edit selection view
    by (simp add: extract_snapshot_def Let_def snapshot_type_def metadata typed) blast
  then show ?thesis
    using type_diagnostics [of ?entities _ P w found] Some unfolding type_document_entities by auto
qed

section \<open>Answers\<close>

lemma checks_typed:
  assumes "execute_changeset C P app gui part changeset commit s = (Ok result, s')"
  shows "\<forall>check \<in> set (or_checks result). has_type check_type check"
proof -
  have report: "has_type check_type (check_report P name good bad culprits)" for name good bad culprits
    by (simp add: check_report_def check_type_def typed)
  have aborted: "aborting P document body s = (Ok x, s'') \<Longrightarrow> body s = (Ok x, s'')" for document x s s'' and body :: "('z, 'a) exec"
    by (auto simp: aborting_def split: prod.splits sum.splits exec_error.splits)
  obtain document s1 where "transaction_body C P document gui part changeset commit s1 = (Ok result, s')"
    using assms by (auto simp: execute_changeset_def eff_bind_Ok_iff dest: aborted)
  then obtain requested w where "or_checks result = validation_reports C P document requested w"
    by (auto simp: transaction_body_def eff_bind_Ok_iff validate_document_def exec_read_def split: prod.splits)
  then show ?thesis by (auto simp: validation_reports_def report)
qed

lemma type_change_response:
  assumes "\<forall>check \<in> set checks. has_type check_type check"
  shows "has_type change_response_type (bridge_change_response base resulting hash preview_hash back verified diff checks)"
  using assms by (simp add: bridge_change_response_def change_response_type_def validation_type_def typed)

lemma bridge_apply_checks:
  assumes "bridge_apply (freecad_host C P app gui part) changeset commit st = (Ok result, st')"
  shows "\<forall>check \<in> set (or_checks result). has_type check_type check"
proof -
  obtain s' where "execute_changeset C P app gui part changeset commit (st_world st, []) = (Ok result, s')"
    using assms by (auto simp: bridge_apply_def run_host_def freecad_host_def host_run_def split: prod.splits)
  then show ?thesis by (rule checks_typed)
qed

lemma type_hello: "has_type hello_type (bridge_hello H w)"
proof -
  have "has_type (MapOf TextType) (jobj [(''core'', JStr a), (''unknown_third_party_objects'', JStr b)])" for a b
    by (rule type_map) (auto simp: typed)
  then show ?thesis
    by (simp add: bridge_hello_def hello_type_def freecad_type_def limits_type_def typed)
qed

text \<open>C34: The answer to a preview or a commit that succeeds is a document the sidecar can read as a
  \<^verbatim>\<open>ChangeResponse\<close>, and the pairing record one it can read as a \<^verbatim>\<open>SessionAdvertisement\<close>.  The answer
  to an undo or redo that succeeds is not a \<^verbatim>\<open>ChangeResponse\<close>, which is what the sidecar reads it as.\<close>

theorem answers_have_their_type:
  assumes "bridge_preview C (freecad_host C P app gui part) E payload st = (Ok response, st')
      \<or> bridge_commit C (freecad_host C P app gui part) E payload st = (Ok response, st')"
    and "pid < 2 ^ 32"
  shows "has_type change_response_type response
     \<and> has_type advertisement_type (pairing_record r (bridge_hello H w) (bridge_documents H w) endpoint pid now)
     \<and> (fst (bridge_undo H' document st'') = Ok undone \<longrightarrow> \<not> has_type change_response_type undone)
     \<and> (fst (bridge_redo H' document st'') = Ok undone \<longrightarrow> \<not> has_type change_response_type undone)"
proof -
  have "has_type change_response_type response"
    using assms(1) by (auto simp: bridge_preview_def bridge_commit_def Let_def eff_bind_Ok_iff
        intro!: type_change_response dest!: bridge_apply_checks split: if_splits)
  moreover have "has_type advertisement_type (pairing_record r (bridge_hello H w) documents endpoint pid now)" for documents
    using assms(2) by (simp add: pairing_record_def advertisement_type_def type_hello typed)
  moreover have "\<not> has_type change_response_type (navigation_response n m resulting)" for n m resulting
    by (auto simp: navigation_response_def change_response_type_def type_record accepts.simps)
  moreover have "\<exists>n m resulting. undone = navigation_response n m resulting"
    if "fst (bridge_undo H' document st'') = Ok undone \<or> fst (bridge_redo H' document st'') = Ok undone"
    using that by (auto simp: bridge_undo_def bridge_redo_def eff_bind_def split: prod.splits sum.splits)
  ultimately show ?thesis by auto
qed

end
