(* ===== verification/AdjacencyLaws.thy ===== *)
theory AdjacencyLaws
  imports Extractor "HOL-Library.Multiset"
begin

text \<open>
  What the adjacency links of a snapshot say: how often two faces are linked does not depend on the
  order in which a hash map lists the edges, the order of the links does.
\<close>

section \<open>Collecting values under keys\<close>

abbreviation values_at :: "string \<Rightarrow> (string, 'a list) bmap \<Rightarrow> 'a list" where
  "values_at k m \<equiv> or_default [] (bm_get m k)"

lemma values_at_push: "values_at k (push_value j v m) = values_at k m @ (if j = k then [v] else [])"
  by (auto simp: push_value_def split: option.splits)

lemma values_at_fold:
  "values_at k (foldl (\<lambda>m (j, v). push_value j v m) m ps) = values_at k m @ map snd (filter (\<lambda>p. fst p = k) ps)"
  by (induction ps arbitrary: m) (auto simp: values_at_push split: prod.splits)

lemma keys_push: "fst ` set (push_value j v m) = insert j (fst ` set m)"
  by (simp add: push_value_def)

lemma keys_fold:
  "fst ` set (foldl (\<lambda>m (j, v). push_value j v m) m ps) = fst ` set ps \<union> fst ` set m"
  by (induction ps arbitrary: m) (simp_all add: keys_push case_prod_unfold)

lemma wf_fold: "bm_wf m \<Longrightarrow> bm_wf (foldl (\<lambda>m (j, v). push_value j v m) m ps)"
  by (induction ps arbitrary: m) (auto simp: push_value_def split: prod.splits)

section \<open>Faces at an edge\<close>

text \<open>The pairs of an edge and a face it bounds, and the faces at one edge.\<close>

definition bounding :: "json list \<Rightarrow> (string \<times> string) list" where
  "bounding entities = concat (map face_edges entities)"

definition faces_at :: "json list \<Rightarrow> string \<Rightarrow> string list" where
  "faces_at entities edge = map snd (filter (\<lambda>p. fst p = edge) (bounding entities))"

lemma edge_faces_facts:
  "values_at edge (edge_faces entities) = faces_at entities edge"
  "set (bm_keys (edge_faces entities)) = fst ` set (bounding entities)"
  "distinct (bm_keys (edge_faces entities))"
proof -
  show "values_at edge (edge_faces entities) = faces_at entities edge"
    by (simp add: edge_faces_def faces_at_def bounding_def values_at_fold)
  show "set (bm_keys (edge_faces entities)) = fst ` set (bounding entities)"
    by (simp only: edge_faces_def bounding_def keys_fold list.set_map) simp
  show "distinct (bm_keys (edge_faces entities))"
    by (rule bm_wf_distinct) (simp add: edge_faces_def wf_fold)
qed

lemma count_pairs:
  "count_list (concat (map (\<lambda>source. map (Pair source) (filter (\<lambda>target. source \<noteq> target) targets)) sources)) (f, t)
     = (if f = t then 0 else count_list sources f * count_list targets t)"
proof (induction sources)
  case (Cons s sources)
  have filtered: "count_list (filter (\<lambda>target. s \<noteq> target) targets) t = (if s = t then 0 else count_list targets t)"
    by (induction targets) auto
  have "count_list (map (Pair s) targets) (f, t) = (if s = f then count_list targets t else 0)" for targets :: "'a list"
    by (induction targets) auto
  then show ?case using Cons.IH filtered by auto
qed simp

lemma count_neighbours:
  "count_list (neighbours_at faces) (f, t) = (if f = t then 0 else count_list faces f * count_list faces t)"
  unfolding neighbours_at_def by (rule count_pairs)

lemma count_values: "count_list (map snd (filter (\<lambda>p. fst p = k) ps)) v = count_list ps (k, v)"
  by (induction ps) auto

lemma count_concat: "count_list (concat xss) x = sum_list (map (\<lambda>xs. count_list xs x) xss)"
  by (induction xss) simp_all

text \<open>How often the second face is listed as a neighbour of the first.\<close>

definition shared_edges :: "json list \<Rightarrow> string \<Rightarrow> string \<Rightarrow> nat" where
  "shared_edges entities f t =
     (if f = t then 0
      else \<Sum>edge \<in> fst ` set (bounding entities).
        count_list (faces_at entities edge) f * count_list (faces_at entities edge) t)"

definition lists_keys :: "(string list \<Rightarrow> string list) \<Rightarrow> bool" where
  "lists_keys order \<longleftrightarrow> (\<forall>ks. mset (order ks) = mset ks)"

lemma values_adjacency:
  "values_at f (adjacency order entities) = concat (map (\<lambda>edge.
     map snd (filter (\<lambda>p. fst p = f) (neighbours_at (faces_at entities edge)))) (order (bm_keys (edge_faces entities))))"
  by (simp add: adjacency_def Let_def values_at_fold edge_faces_facts(1) filter_concat map_concat comp_def)

lemma count_adjacency:
  assumes "lists_keys order"
  shows "count_list (values_at f (adjacency order entities)) t = shared_edges entities f t"
proof -
  let ?keys = "bm_keys (edge_faces entities)"
  let ?count = "\<lambda>edge. count_list (neighbours_at (faces_at entities edge)) (f, t)"
  have "count_list (values_at f (adjacency order entities)) t = sum_list (map ?count (order ?keys))"
    by (simp add: values_adjacency count_values count_concat comp_def)
  also have "\<dots> = sum_list (map ?count ?keys)"
  proof -
    have "mset (map ?count (order ?keys)) = mset (map ?count ?keys)"
      using assms by (simp only: lists_keys_def mset_map)
    then show ?thesis by (metis sum_mset_sum_list)
  qed
  also have "\<dots> = (\<Sum>edge \<in> fst ` set (bounding entities). ?count edge)"
    by (simp only: sum_list_distinct_conv_sum_set [OF edge_faces_facts(3)] edge_faces_facts(2))
  finally show ?thesis by (simp add: count_neighbours shared_edges_def)
qed

lemma added_links:
  assumes "k < length entities" and "str_at ''ref'' (entities ! k) = Some f"
    and "jget ''links'' (entities ! k) = Some (JArr links)"
  shows "jget ''links'' (add_adjacency order entities ! k)
    = Some (JArr (links @ map (extracted_link ''adjacent_to'') (values_at f (adjacency order entities))))"
proof -
  have "is_object (entities ! k)" using assms(3) by (rule jget_Some_object)
  then obtain kvs where entity: "entities ! k = JObj kvs" by (auto simp: is_object_iff)
  have "jget ''links'' (json_map_member ''links'' g (entities ! k)) = map_option g (jget ''links'' (entities ! k))" for g
    unfolding entity by (induction kvs) auto
  then show ?thesis using assms by (simp add: add_adjacency_def Let_def split: option.splits)
qed

text \<open>C35: Whatever the order in which the hash map lists the edges, an entity with the reference f gets, after
  the links it had, one link to t for each pair of places at which f and t are named by faces at one
  edge.  So two faces are linked exactly when some edge bounds both, and never a face to itself.\<close>

theorem adjacency_links_faces_of_one_edge:
  assumes "lists_keys order" and "k < length entities"
    and "str_at ''ref'' (entities ! k) = Some f" and "jget ''links'' (entities ! k) = Some (JArr links)"
  shows "\<exists>targets. jget ''links'' (add_adjacency order entities ! k)
       = Some (JArr (links @ map (extracted_link ''adjacent_to'') targets))
     \<and> (\<forall>t. count_list targets t = shared_edges entities f t)
     \<and> set targets = {t. t \<noteq> f \<and> (\<exists>edge. f \<in> set (faces_at entities edge) \<and> t \<in> set (faces_at entities edge))}"
proof -
  let ?targets = "values_at f (adjacency order entities)"
  have "jget ''links'' (add_adjacency order entities ! k)
      = Some (JArr (links @ map (extracted_link ''adjacent_to'') ?targets))"
    using assms(2-4) by (rule added_links)
  moreover have counts: "\<forall>t. count_list ?targets t = shared_edges entities f t"
    using count_adjacency [OF assms(1)] by blast
  moreover have "t \<in> set ?targets \<longleftrightarrow> t \<noteq> f \<and> (\<exists>edge. f \<in> set (faces_at entities edge) \<and> t \<in> set (faces_at entities edge))" for t
  proof -
    have "t \<in> set ?targets \<longleftrightarrow> shared_edges entities f t \<noteq> 0"
      using counts by (metis count_list_0_iff)
    moreover have "shared_edges entities f t = 0 \<longleftrightarrow> f = t \<or> (\<forall>edge \<in> fst ` set (bounding entities).
        count_list (faces_at entities edge) f * count_list (faces_at entities edge) t = 0)"
      by (simp add: shared_edges_def sum_eq_0_iff del: mult_eq_0_iff mult_is_0)
    moreover have "edge \<in> fst ` set (bounding entities)" if "t \<in> set (faces_at entities edge)" for edge
      using that by (auto simp: faces_at_def)
    ultimately show ?thesis by (auto simp: count_list_0_iff)
  qed
  ultimately show ?thesis by blast
qed

end
