(* ===== verification/TransactionLaws.thy ===== *)
theory TransactionLaws
  imports Executor
begin

text \<open>
  The transaction around a change set: over a CAD program whose transactions work as documented, the
  executor refines a change that happens completely or not at all.
\<close>

section \<open>Transactions of the CAD program\<close>

text \<open>The methods the operations and the validation call for their effect.\<close>

definition operation_methods :: "string set" where
  "operation_methods = {''setExpression'', ''setDatum'', ''clearSelection'', ''removeSelection'', ''addSelection'',
     ''fitAll'', ''viewAxonometric'', ''viewFront'', ''viewRear'', ''viewLeft'', ''viewRight'', ''viewTop'',
     ''viewBottom'', ''makeBox'', ''makeCylinder'', ''makeSphere'', ''addObject'', ''removeObject'',
     ''recompute'', ''Quantity''}"

definition after_call :: "('w, 'o) python \<Rightarrow> 'w \<Rightarrow> 'o \<Rightarrow> 'o list \<Rightarrow> 'w" where
  "after_call P w f arguments = fst (snd (py_call P w f arguments))"

text \<open>
  What FreeCAD documents of the transactions of a document: \<open>content\<close> is what it holds, \<open>saved\<close> what
  it held when the open transaction was opened.  Opening keeps the content, and saves it unless it
  fails; the methods above and assignments leave the transaction open; committing keeps the content, or
  fails and leaves the transaction open; aborting brings the saved content back.
\<close>

definition transactional ::
  "('w, 'o) python \<Rightarrow> 'o \<Rightarrow> ('w \<Rightarrow> 'c) \<Rightarrow> ('w \<Rightarrow> 'c option) \<Rightarrow> bool" where
  "transactional P document content saved \<longleftrightarrow>
     (\<forall>w. attr P w document ''openTransaction'' \<noteq> None \<and> attr P w document ''abortTransaction'' \<noteq> None)
     \<and> (\<forall>w f arguments. attr P w document ''openTransaction'' = Some f \<longrightarrow>
          content (after_call P w f arguments) = content w
          \<and> (is_ok (fst (py_call P w f arguments)) \<longrightarrow> saved (after_call P w f arguments) = Some (content w)))
     \<and> (\<forall>w object name f arguments. name \<in> operation_methods \<longrightarrow> attr P w object name = Some f \<longrightarrow>
          saved (after_call P w f arguments) = saved w)
     \<and> (\<forall>w object name v. saved (fst (snd (py_setattr P w object name v))) = saved w)
     \<and> (\<forall>w f. attr P w document ''commitTransaction'' = Some f \<longrightarrow>
          (if is_ok (fst (py_call P w f [])) then content (after_call P w f []) = content w
           else saved (after_call P w f []) = saved w))
     \<and> (\<forall>w f c. attr P w document ''abortTransaction'' = Some f \<longrightarrow> saved w = Some c \<longrightarrow>
          is_ok (fst (py_call P w f [])) \<and> content (after_call P w f []) = c)"

section \<open>The operations leave the transaction open\<close>

definition keeps_saved :: "('w \<Rightarrow> 'c option) \<Rightarrow> 'w exec_state \<Rightarrow> 'w exec_state \<Rightarrow> bool" where
  "keeps_saved saved s t \<longleftrightarrow> saved (fst t) = saved (fst s)"

interpretation ks: state_preorder "keeps_saved saved" for saved :: "'w \<Rightarrow> 'c option"
  by unfold_locales (auto simp: keeps_saved_def)

lemma exec_call_fst: "fst (snd (exec_call P f arguments s)) = after_call P (fst s) f arguments"
  by (auto simp: exec_call_def after_call_def split: prod.splits)

lemma exec_call_result: "is_ok (fst (exec_call P f arguments s)) \<longleftrightarrow> is_ok (fst (py_call P (fst s) f arguments))"
  by (auto simp: exec_call_def is_ok_iff split: prod.splits)

lemma exec_read_simps [simp]: "exec_read f s = (f (fst s), s)"
  by (cases s) (simp add: exec_read_def)

lemma exec_attr_simps: "exec_attr P object name message s = (needed message (attr P (fst s) object name), s)"
  by (simp add: exec_attr_def)

lemma exec_read_kept [intro]: "related_by (keeps_saved saved) (exec_read f)"
  by (rule related_byI) (simp add: keeps_saved_def)

lemma exec_attr_kept [intro]: "related_by (keeps_saved saved) (exec_attr P object name message)"
  by (simp add: exec_attr_def exec_read_kept)

lemma transactional_call:
  "transactional P document content saved \<Longrightarrow> name \<in> operation_methods \<Longrightarrow> attr P w object name = Some f \<Longrightarrow>
   saved (after_call P w f arguments) = saved w"
  by (simp add: transactional_def)

lemma exec_setattr_kept:
  "transactional P document content saved \<Longrightarrow> related_by (keeps_saved saved) (exec_setattr P object name v)"
proof (rule related_byI)
  fix s r t
  assume "transactional P document content saved" and run: "exec_setattr P object name v s = (r, t)"
  then have "saved (fst (snd (py_setattr P (fst s) object name v))) = saved (fst s)"
    by (simp add: transactional_def)
  then show "keeps_saved saved s t"
    using run by (auto simp: exec_setattr_def keeps_saved_def split: prod.splits)
qed

text \<open>A method that is read and then called in the same world.\<close>

lemma call_kept:
  assumes "transactional P document content saved" and "name \<in> operation_methods"
    and "attr P (fst s) object name = Some f" and "exec_call P f arguments s = (r, t)"
  shows "keeps_saved saved s t"
  using transactional_call [OF assms(1-3), of arguments] assms(4) exec_call_fst [of P f arguments s]
  by (simp add: keeps_saved_def)

lemma exec_method_kept:
  assumes "transactional P document content saved" and "name \<in> operation_methods"
  shows "related_by (keeps_saved saved) (exec_method P object name message arguments)"
proof (rule related_byI)
  fix s r t
  assume run: "exec_method P object name message arguments s = (r, t)"
  show "keeps_saved saved s t"
  proof (cases "attr P (fst s) object name")
    case None
    then show ?thesis using run by (simp add: exec_method_def exec_attr_simps needed_def eff_bind_def)
  next
    case (Some f)
    then have "exec_call P f arguments s = (r, t)"
      using run by (simp add: exec_method_def exec_attr_simps needed_def eff_bind_def)
    then show ?thesis by (rule call_kept [OF assms Some])
  qed
qed

lemma exec_optional_kept:
  assumes "transactional P document content saved" and "name \<in> operation_methods"
  shows "related_by (keeps_saved saved) (exec_optional P object name arguments)"
proof (rule related_byI)
  fix s r t
  assume run: "exec_optional P object name arguments s = (r, t)"
  show "keeps_saved saved s t"
  proof (cases "attr P (fst s) object name")
    case (Some f)
    obtain r' t' where call: "exec_call P f arguments s = (r', t')" by (metis surj_pair)
    then have "t = t'" using run Some by (cases r') (simp_all add: exec_optional_def eff_bind_def)
    then show ?thesis using call_kept [OF assms Some call] by simp
  qed (use run in \<open>simp add: exec_optional_def eff_bind_def\<close>)
qed

lemma exec_each_kept: "(\<And>x. related_by (keeps_saved saved) (f x)) \<Longrightarrow> related_by (keeps_saved saved) (exec_each f xs)"
  by (induction xs) auto

lemma exec_concat_kept: "(\<And>x. related_by (keeps_saved saved) (f x)) \<Longrightarrow> related_by (keeps_saved saved) (exec_concat f xs)"
  by (induction xs) auto

lemma option_kept: "related_by R a \<Longrightarrow> (\<And>x. related_by R (b x)) \<Longrightarrow> related_by R (case m of None \<Rightarrow> a | Some x \<Rightarrow> b x)"
  by (cases m) simp_all

lemma pair_kept: "(\<And>x y. related_by R (f x y)) \<Longrightarrow> related_by R (case p of (x, y) \<Rightarrow> f x y)"
  by (cases p) simp

lemma view_method_Ok: "view_method name = Ok meth \<Longrightarrow> meth \<in> operation_methods"
  by (auto simp: view_method_def operation_methods_def split: if_splits)

lemma primitive_shape_Some: "primitive_shape primitive = Some (meth, names) \<Longrightarrow> meth \<in> operation_methods"
  by (auto simp: primitive_shape_def operation_methods_def split: if_splits)

lemma op_set_view_kept:
  assumes "transactional P document content saved"
  shows "related_by (keeps_saved saved) (op_set_view P gui operation)"
proof (rule related_byI)
  fix s r t
  assume run: "op_set_view P gui operation s = (r, t)"
  show "keeps_saved saved s t"
  proof (cases "fst (active_view_method P gui operation s)")
    case (Inl e)
    then have "t = snd (active_view_method P gui operation s)"
      using run by (simp add: op_set_view_def eff_bind_def split: prod.splits)
    moreover have "related_by (keeps_saved saved) (active_view_method P gui operation)"
      unfolding active_view_method_def by (intro ks.bind ks.lift exec_attr_kept)
    ultimately show ?thesis by (metis prod.collapse related_byD)
  next
    case (Inr found)
    obtain name f where found: "found = (name, f)" by force
    have "\<exists>view meth. meth \<in> operation_methods \<and> attr P (fst s) view meth = Some f
        \<and> snd (active_view_method P gui operation s) = s"
      using Inr found unfolding active_view_method_def
      by (auto simp: eff_bind_def exec_attr_simps needed_def split: sum.splits option.splits prod.splits
          dest!: view_method_Ok)
    then obtain view meth where meth: "meth \<in> operation_methods" "attr P (fst s) view meth = Some f"
      and same: "snd (active_view_method P gui operation s) = s" by blast
    obtain r' t' where call: "exec_call P f [] s = (r', t')" by (metis surj_pair)
    have "t = t'"
      using run Inr found same call
      by (cases r') (auto simp: op_set_view_def eff_bind_def split: prod.splits sum.splits)
    then show ?thesis using call_kept [OF assms meth call] by simp
  qed
qed

lemma make_shape_kept:
  assumes "transactional P document content saved"
  shows "related_by (keeps_saved saved) (make_shape P part primitive parameters)"
proof (rule related_byI)
  fix s r t
  assume run: "make_shape P part primitive parameters s = (r, t)"
  consider "t = s" | meth names f arguments where "primitive_shape primitive = Some (meth, names)"
      "attr P (fst s) part meth = Some f" "exec_call P f arguments s = (r, t)"
    using run by (auto simp: make_shape_def eff_bind_def exec_attr_simps needed_def
        split: option.splits prod.splits sum.splits)
  then show "keeps_saved saved s t"
  proof cases
    case 2
    show ?thesis by (rule call_kept [OF assms primitive_shape_Some [OF 2(1)] 2(2,3)])
  qed simp
qed

lemma operation_kept:
  assumes "transactional P document content saved"
  shows "related_by (keeps_saved saved) (run_operation P handle gui part commit operation)"
proof -
  note meth = exec_method_kept [OF assms] and setattr = exec_setattr_kept [OF assms]
  have typed: "related_by (keeps_saved saved) (typed_value P v)" for v
    unfolding typed_value_def
    by (intro pair_kept option_kept ks.bind ks.lift exec_read_kept exec_attr_kept meth)
      (simp add: operation_methods_def)
  have target: "related_by (keeps_saved saved) (target_object P handle key v)" for key v
    unfolding target_object_def by (intro ks.bind ks.lift exec_read_kept)
  have declared: "related_by (keeps_saved saved) (declared_property P object property)" for object property
    unfolding declared_property_def by (rule exec_read_kept)
  have new: "related_by (keeps_saved saved) (new_object P handle type_id name)" for type_id name
    unfolding new_object_def by (rule meth) (simp add: operation_methods_def)
  note parts = ks.bind ks.lift ks.cond option_kept pair_kept exec_read_kept exec_attr_kept exec_each_kept
    typed target declared new setattr meth op_set_view_kept [OF assms] make_shape_kept [OF assms]
  have "related_by (keeps_saved saved) (apply_bridge_operation P handle gui part operation)"
    unfolding apply_bridge_operation_def op_set_property_def op_set_expression_def op_sketch_set_datum_def
      op_set_visibility_def op_set_selection_def op_create_primitive_def op_create_object_def
      op_delete_object_def op_boolean_def select_target_def assign_property_def
    by (intro parts) (simp_all add: operation_methods_def)
  moreover have "related_by (keeps_saved saved) (check_selection P handle gui operation)"
    unfolding check_selection_def by (intro parts)
  moreover have "related_by (keeps_saved saved) (check_view P gui operation)"
    unfolding check_view_def active_view_method_def by (intro parts)
  moreover have "related_by (keeps_saved saved) (check_visibility P handle operation)"
    unfolding check_visibility_def by (intro parts)
  ultimately show ?thesis
    unfolding run_operation_def Let_def by (intro ks.cond ks.bind ks.lift)
qed

section \<open>All or nothing\<close>

text \<open>The work of a transaction: the operations and the validation after them.\<close>

definition transaction_work ::
  "codec \<Rightarrow> ('w, 'o) python \<Rightarrow> 'o \<Rightarrow> 'o option \<Rightarrow> 'o option \<Rightarrow> json \<Rightarrow> bool \<Rightarrow> (string list \<times> json list, 'w) exec" where
  "transaction_work C P document gui part changeset commit =
     eff_bind (exec_concat (run_operation P document gui part commit) (json_array ''operations'' changeset)) (\<lambda>changed.
     eff_bind (validate_document C P document (string_items ''validate'' changeset)) (\<lambda>checks.
     eff_lift (Ok (changed, checks))))"

lemma work_kept:
  assumes "transactional P document content saved"
  shows "related_by (keeps_saved saved) (transaction_work C P handle gui part changeset commit)"
  unfolding transaction_work_def validate_document_def
  by (intro ks.bind ks.lift exec_read_kept exec_concat_kept operation_kept [OF assms] exec_optional_kept [OF assms])
    (simp add: operation_methods_def)

text \<open>What is outcome once the work succeeded.\<close>

definition transaction_end ::
  "('w, 'o) python \<Rightarrow> 'o \<Rightarrow> bool \<Rightarrow> string list \<times> json list \<Rightarrow> (operation_result, 'w) exec" where
  "transaction_end P document commit = (\<lambda>(changed, checks).
     eff_bind (eff_lift (ensure (\<not> list_ex failed_check checks)
        (ExecFault (''validation failed: ''
           @ join_with ''; '' (map (str_or_empty ''message'') (filter failed_check checks)))))) (\<lambda>_.
     eff_bind (exec_optional P document (if commit then ''commitTransaction'' else ''abortTransaction'') []) (\<lambda>_.
     eff_lift (Ok \<lparr>or_changed = changed, or_checks = checks\<rparr>))))"

lemma eff_bind_assoc: "eff_bind (eff_bind m f) g = eff_bind m (\<lambda>x. eff_bind (f x) g)"
  by (rule ext) (simp add: eff_bind_def split: prod.splits sum.splits)

lemma eff_bind_pure [simp]: "eff_bind (eff_lift (Ok x)) f = f x"
  by (rule ext) (simp add: eff_bind_lift)

lemma transaction_body_eq:
  "transaction_body C P document gui part changeset commit
     = eff_bind (transaction_work C P document gui part changeset commit) (transaction_end P document commit)"
  by (simp add: transaction_body_def transaction_work_def transaction_end_def eff_bind_assoc)

lemma exec_optional_called:
  assumes "attr P (fst s) object name = Some f"
  shows "fst (snd (exec_optional P object name arguments s)) = after_call P (fst s) f arguments"
    and "is_ok (fst (exec_optional P object name arguments s)) \<longleftrightarrow> is_ok (fst (py_call P (fst s) f arguments))"
proof -
  obtain r t where call: "exec_call P f arguments s = (r, t)" by (metis surj_pair)
  have "exec_optional P object name arguments s = (map_result_unit r, t)" if "map_result_unit = (\<lambda>r. res_bind r (\<lambda>_. Ok ()))"
    for map_result_unit
    using assms call that by (cases r) (simp_all add: exec_optional_def eff_bind_def)
  then have run: "exec_optional P object name arguments s = (res_bind r (\<lambda>_. Ok ()), t)" by blast
  show "fst (snd (exec_optional P object name arguments s)) = after_call P (fst s) f arguments"
    using exec_call_fst [of P f arguments s] by (simp add: run call)
  show "is_ok (fst (exec_optional P object name arguments s)) \<longleftrightarrow> is_ok (fst (py_call P (fst s) f arguments))"
    using exec_call_result [of P f arguments s] by (cases r) (simp_all add: run call is_ok_iff)
qed

lemma aborted:
  assumes "transactional P document content saved" and "saved (fst s) = Some c"
  shows "content (fst (snd (exec_optional P document ''abortTransaction'' [] s))) = c"
    and "is_ok (fst (exec_optional P document ''abortTransaction'' [] s))"
proof -
  obtain f where f: "attr P (fst s) document ''abortTransaction'' = Some f"
    using assms(1) unfolding transactional_def by fastforce
  have "is_ok (fst (py_call P (fst s) f [])) \<and> content (after_call P (fst s) f []) = c"
    using assms f by (simp add: transactional_def)
  then show "content (fst (snd (exec_optional P document ''abortTransaction'' [] s))) = c"
    and "is_ok (fst (exec_optional P document ''abortTransaction'' [] s))"
    by (simp_all add: exec_optional_called [OF f])
qed

lemma committed:
  assumes "transactional P document content saved"
    and "exec_optional P document ''commitTransaction'' [] s = (r, t)"
  shows "is_ok r \<Longrightarrow> content (fst t) = content (fst s)" and "\<not> is_ok r \<Longrightarrow> saved (fst t) = saved (fst s)"
proof -
  consider "attr P (fst s) document ''commitTransaction'' = None" | f where
    "attr P (fst s) document ''commitTransaction'' = Some f" by fastforce
  then have "(is_ok r \<longrightarrow> content (fst t) = content (fst s)) \<and> (\<not> is_ok r \<longrightarrow> saved (fst t) = saved (fst s))"
  proof cases
    case 1
    then show ?thesis using assms(2) by (auto simp: exec_optional_def eff_bind_def is_ok_iff)
  next
    case (2 f)
    have "if is_ok (fst (py_call P (fst s) f [])) then content (after_call P (fst s) f []) = content (fst s)
        else saved (after_call P (fst s) f []) = saved (fst s)"
      using assms(1) 2 by (simp add: transactional_def)
    then show ?thesis
      using exec_optional_called [OF 2, of "[]"] assms(2) by (simp split: if_splits)
  qed
  then show "is_ok r \<Longrightarrow> content (fst t) = content (fst s)" and "\<not> is_ok r \<Longrightarrow> saved (fst t) = saved (fst s)"
    by blast+
qed

lemma opened:
  assumes "transactional P document content saved"
    and "exec_optional P document ''openTransaction'' arguments s = (r, t)"
  shows "content (fst t) = content (fst s)" and "is_ok r \<Longrightarrow> saved (fst t) = Some (content (fst s))"
proof -
  obtain f where f: "attr P (fst s) document ''openTransaction'' = Some f"
    using assms(1) unfolding transactional_def by fastforce
  have "content (after_call P (fst s) f arguments) = content (fst s)
      \<and> (is_ok (fst (py_call P (fst s) f arguments)) \<longrightarrow> saved (after_call P (fst s) f arguments) = Some (content (fst s)))"
    using assms(1) f by (simp add: transactional_def)
  then show "content (fst t) = content (fst s)" and "is_ok r \<Longrightarrow> saved (fst t) = Some (content (fst s))"
    using exec_optional_called [OF f, of arguments] assms(2) by simp_all
qed

lemma exec_call_Err: "exec_call P f arguments s = (Err e, t) \<Longrightarrow> \<exists>message. e = ExecFault message"
  by (cases "fst (py_call P (fst s) f arguments)") (auto simp: exec_call_def split: prod.splits)

lemma exec_optional_Err: "exec_optional P object name arguments s = (Err e, t) \<Longrightarrow> \<exists>message. e = ExecFault message"
  by (auto simp: exec_optional_def eff_bind_def split: option.splits prod.splits sum.splits dest: exec_call_Err)

text \<open>The abstract change: the new content when it is committed and all went well, else the old.\<close>

definition change_content :: "bool \<Rightarrow> 'c \<Rightarrow> 'c option \<Rightarrow> 'c" where
  "change_content commit before worked =
     (case worked of Some after \<Rightarrow> if commit then after else before | None \<Rightarrow> before)"

lemma transaction_outcome:
  assumes "transactional P document content saved" and "saved (fst s) = Some c"
    and "aborting P document (transaction_body C P document gui part changeset commit) s = (r, t)"
  shows "case r of
      Ok outcome \<Rightarrow> \<exists>u. transaction_work C P document gui part changeset commit s = (Ok (or_changed outcome, or_checks outcome), u)
        \<and> \<not> list_ex failed_check (or_checks outcome)
        \<and> content (fst t) = change_content commit c (Some (content (fst u)))
    | Err (ExecFault message) \<Rightarrow> content (fst t) = change_content commit c None
    | Err ExecPanic \<Rightarrow> saved (fst t) = Some c"
proof -
  let ?work = "transaction_work C P document gui part changeset commit"
  obtain rw u where work: "?work s = (rw, u)" by (metis surj_pair)
  have open_still: "saved (fst u) = Some c"
    using related_byD [OF work_kept [OF assms(1)] work] assms(2) by (simp add: keeps_saved_def)
  obtain rb v where body: "transaction_body C P document gui part changeset commit s = (rb, v)" by (metis surj_pair)
  have failed: ?thesis if "rb = Err (ExecFault message)" and "saved (fst v) = Some c" for message
    using that assms(3) aborted(1) [OF assms(1) that(2)] by (auto simp: aborting_def body change_content_def)
  show ?thesis
  proof (cases rw)
    case (Inl e)
    then have "rb = Err e" "v = u" using body work by (simp_all add: transaction_body_eq)
    then show ?thesis
      using failed open_still assms(3) body by (cases e) (auto simp: aborting_def)
  next
    case (Inr outcome)
    obtain changed checks where outcome: "outcome = (changed, checks)" by force
    have ended: "transaction_end P document commit (changed, checks) u = (rb, v)"
      using body work Inr outcome by (simp add: transaction_body_eq)
    show ?thesis
    proof (cases "list_ex failed_check checks")
      case True
      then obtain message where "rb = Err (ExecFault message)" "v = u"
        using ended by (auto simp: transaction_end_def eff_bind_lift ensure_def)
      then show ?thesis using failed open_still by simp
    next
      case False
      obtain re where last: "exec_optional P document (if commit then ''commitTransaction'' else ''abortTransaction'') [] u = (re, v)"
        and rb: "rb = res_bind re (\<lambda>_. Ok \<lparr>or_changed = changed, or_checks = checks\<rparr>)"
        using ended False by (auto simp: transaction_end_def eff_bind_def split: prod.splits sum.splits)
      show ?thesis
      proof (cases re)
        case (Inl e)
        then have "commit" and "\<not> is_ok re"
          using last aborted(2) [OF assms(1) open_still] by (auto simp: is_ok_iff split: if_splits)
        moreover obtain message where "e = ExecFault message"
          using exec_optional_Err [OF last [unfolded Inl]] by blast
        moreover have "saved (fst v) = Some c"
          using committed(2) [OF assms(1), of u re v] last calculation(1,2) open_still by simp
        ultimately show ?thesis using failed rb Inl by simp
      next
        case (Inr x)
        then have "content (fst v) = change_content commit c (Some (content (fst u)))"
          using last committed(1) [OF assms(1)] aborted(1) [OF assms(1) open_still]
          by (auto simp: change_content_def is_ok_iff split: if_splits)
        then show ?thesis
          using Inr rb assms(3) body work \<open>rw = Ok outcome\<close> outcome False by (auto simp: aborting_def)
      qed
    qed
  qed
qed

text \<open>C31: A change set refines an abstract change that happens completely or not at all, over a CAD program
  whose transactions work as documented: after an error the document holds what it held before, after
  a preview as well, and after a commit that succeeds what the operations and the validation of that
  change set made of it, with no failed check.  The one way out that leaves the transaction open, with
  the old content still to be restored, is a panic.\<close>

theorem changeset_is_all_or_nothing:
  assumes "transactional P document content saved"
    and "extract_document P w app (str_at ''document'' changeset) = Some document"
    and "execute_changeset C P app gui part changeset commit (w, seen) = (r, (w', seen'))"
  shows "case r of
      Ok outcome \<Rightarrow> \<exists>s u. exec_optional P document ''openTransaction''
            [py_make P (PyStr (''Topomind '' @ or_default ''change'' (str_at ''request_id'' changeset)))] (w, seen) = (Ok (), s)
        \<and> transaction_work C P document gui part changeset commit s = (Ok (or_changed outcome, or_checks outcome), u)
        \<and> \<not> list_ex failed_check (or_checks outcome)
        \<and> content w' = change_content commit (content w) (Some (content (fst u)))
    | Err (ExecFault message) \<Rightarrow> content w' = change_content commit (content w) None
    | Err ExecPanic \<Rightarrow> saved w' = Some (content w)"
proof -
  let ?open = "exec_optional P document ''openTransaction''
      [py_make P (PyStr (''Topomind '' @ or_default ''change'' (str_at ''request_id'' changeset)))]"
  obtain ro s where started: "?open (w, seen) = (ro, s)" by (metis surj_pair)
  note kept = opened [OF assms(1) started]
  consider message where "r = Err (ExecFault message)" "w' = w"
    | e where "ro = Err e" "r = Err e" "(w', seen') = s"
    | "ro = Ok ()" "aborting P document (transaction_body C P document gui part changeset commit) s = (r, (w', seen'))"
    using assms(2,3) started
    by (auto simp: execute_changeset_def eff_bind_read eff_bind_def exec_read_def needed_def ensure_def
        split: option.splits if_splits sum.splits)
  then show ?thesis
  proof cases
    case 2
    then show ?thesis using kept(1) started exec_optional_Err [of P document "''openTransaction''"]
      by (fastforce simp: change_content_def)
  next
    case 3
    then have "saved (fst s) = Some (content w)" using kept(2) by (simp add: is_ok_iff)
    from transaction_outcome [OF assms(1) this 3(2)] show ?thesis
      using started 3(1) by (auto split: sum.splits exec_error.splits)
  qed (simp add: change_content_def)
qed

end
