(* ===== verification/BridgeFailures.thy ===== *)
theory BridgeFailures
  imports BridgeLaws
begin

text \<open>
  Three ways in which the bridge of FreeCAD stops working: snapshots that differ although the documents
  do not, a panic on the main thread, and a client that stays connected while the bridge is stopped.
\<close>

section \<open>Snapshots of the same documents\<close>

lemma jget_remove: "jget k (json_remove key v) = (if k = key then None else jget k v)"
  by (cases v) auto

lemma jget_map_other: "k \<noteq> key \<Longrightarrow> jget k (json_map_member key f v) = jget k v"
proof (cases v)
  case (JObj kvs)
  then show "k \<noteq> key \<Longrightarrow> ?thesis" by (simp, induction kvs arbitrary: v) auto
qed simp_all

lemma content_entities: "jget ''entities'' (snapshot_content snapshot) = jget ''entities'' snapshot"
  by (simp add: snapshot_content_def jget_map_other jget_remove)

lemma snapshot_entities_member:
  assumes "extract_document P w app name = Some document"
  shows "jget ''entities'' (extract_snapshot C P app gui w E session r name)
    = Some (JArr (document_entities C P w (se_order E) session document
        (or_default [] (string_attr P w document ''Name'')) (revision_id r)))"
  using assms by (simp add: extract_snapshot_def Let_def)

lemma snapshot_members:
  "jget ''revision'' (extract_snapshot C P app gui w E session r name) = Some (json_of_revision r)"
  "str_at ''document'' (extract_snapshot C P app gui w E session r name)
     = Some (case extract_document P w app name of None \<Rightarrow> []
         | Some document \<Rightarrow> or_default [] (string_attr P w document ''Name''))"
  by (cases "extract_document P w app name";
      simp add: extract_snapshot_def no_document_snapshot_def str_at_def Let_def)+

text \<open>What a snapshot lists as entities when the hash maps of its run have the given order.\<close>

definition listed_entities ::
  "codec \<Rightarrow> ('w, 'o) python \<Rightarrow> 'o \<Rightarrow> 'w bridge_state \<Rightarrow> 'o \<Rightarrow> (string list \<Rightarrow> string list) \<Rightarrow> json list" where
  "listed_entities C P app st document order =
     document_entities C P (st_world st) order (st_session st) document
       (or_default [] (string_attr P (st_world st) document ''Name'')) (revision_id (st_revision st))"

text \<open>C36: A preview can be refused, and all writes of the bridge blocked until it is started anew, although
  the CAD program ran the change set and took it back exactly.  The links between adjacent faces are
  listed in the order of a hash map, which is another for every snapshot, and the check of the rollback
  compares digests of the texts: when the two orders list the links differently, and the two texts do
  not happen to have one digest, the same document counts as changed.\<close>

theorem hash_order_blocks_writes:
  assumes "preview_allowed (freecad_host C P app gui part) E payload changeset st"
    and "hs_apply (freecad_host C P app gui part) (st_world st) changeset False = (Ok outcome, st_world st, seen)"
    and "extract_document P (st_world st) app (str_at ''document'' changeset) = Some document"
    and "listed_entities C P app st document (se_order (be_site E 0))
      \<noteq> listed_entities C P app st document (se_order (be_site E 2))"
    and "let content = (\<lambda>site. snapshot_content (seen_at (freecad_host C P app gui part) E site changeset st)) in
      digest_json C (content 2) = digest_json C (content 0) \<longrightarrow> content 2 = content 0"
  shows "\<exists>st'. bridge_preview C (freecad_host C P app gui part) E payload st
        = (Err (fault ''rollback_verification_failed'' ''rollback verification failed'' False), st')
     \<and> st_world st' = st_world st \<and> st_revision st' = st_revision st \<and> st_write_blocked st'"
proof -
  let ?H = "freecad_host C P app gui part"
  let ?rolled_back = "(applied ?H changeset False st)\<lparr>st_revision := st_revision st\<rparr>"
  have same: "st_world ?rolled_back = st_world st" using assms(2) by simp
  have shown: "jget ''entities'' (snapshot_content (seen_at ?H E site changeset u))
      = Some (JArr (listed_entities C P app st document (se_order (be_site E site))))"
    if "st_world u = st_world st" "st_session u = st_session st" "st_revision u = st_revision st" for site u
    using that snapshot_entities_member [OF assms(3)]
    by (simp add: content_entities listed_entities_def freecad_host_def)
  have "snapshot_content (seen_at ?H E 2 changeset st) \<noteq> snapshot_content (seen_at ?H E 0 changeset st)"
    using shown [of st 2] shown [of st 0] assms(4) by auto
  moreover have "seen_at ?H E 2 changeset ?rolled_back = seen_at ?H E 2 changeset st"
    using same by simp
  ultimately have "\<not> rollback_verified C ?H E changeset st"
    using assms(5) by (simp add: rollback_verified_def snapshot_fingerprint_def digest_json_def Let_def)
  then show ?thesis
    using preview_unverified [OF assms(1)] assms(2) same by simp
qed

section \<open>After a panic\<close>

definition busy_answer :: "ipc_response \<Rightarrow> bool" where
  "busy_answer response \<longleftrightarrow> ir_request_id response = ''unknown'' \<and> ir_status response = RespError
     \<and> map dg_code (ir_diagnostics response) = [''bridge_busy'']"

lemma busy_answer_busy [simp]: "busy_answer (busy_response st)"
  by (simp add: busy_answer_def busy_response_def fault_response_def)

lemma act_poisoned:
  assumes "br_poisoned s" and "bridge_act C K W H a s = Some t"
  shows "br_poisoned t
     \<and> (br_state t)\<lparr>st_queue := []\<rparr> = (user_acts a (br_state s))\<lparr>st_queue := []\<rparr>
     \<and> (\<exists>late. br_written t = br_written s @ late \<and> (\<forall>response \<in> set late. busy_answer response))"
  using assms
  by (cases a) (auto simp: enqueue_def give_up_def answer_client_def split: if_splits socket_thread.splits sum.splits prod.splits)

text \<open>C37: After a panic the bridge does nothing any more: every later poll of the main thread finds the lock
  poisoned, so no request is looked at, the state changes only by what the user does, every client
  that still takes an answer is told after ten seconds that the bridge is busy, and neither stopping the bridge nor asking for its
  status comes back.\<close>

theorem panic_stops_the_bridge:
  assumes "br_poisoned s" and "bridge_reaches C K W H s as t"
  shows "br_poisoned t
     \<and> (br_state t)\<lparr>st_queue := []\<rparr> = (fold user_acts as (br_state s))\<lparr>st_queue := []\<rparr>
     \<and> (\<exists>late. br_written t = br_written s @ late \<and> (\<forall>response \<in> set late. busy_answer response))
     \<and> (bp_bridge p = Some (r, t) \<longrightarrow> stop_bridge p = None \<and> pairing_status parse p = None)"
proof -
  have "br_poisoned t
     \<and> (br_state t)\<lparr>st_queue := []\<rparr> = (fold user_acts as (br_state s))\<lparr>st_queue := []\<rparr>
     \<and> (\<exists>late. br_written t = br_written s @ late \<and> (\<forall>response \<in> set late. busy_answer response))"
    using assms(2)
  proof induction
    case stay
    show ?case using assms(1) by simp
  next
    case (act as t a u)
    let ?st = "fold user_acts as (br_state s)"
    obtain late where IH: "br_poisoned t" "(br_state t)\<lparr>st_queue := []\<rparr> = ?st\<lparr>st_queue := []\<rparr>"
      "br_written t = br_written s @ late" "\<forall>response \<in> set late. busy_answer response"
      using act.IH by blast
    obtain later where step: "br_poisoned u"
      "(br_state u)\<lparr>st_queue := []\<rparr> = (user_acts a (br_state t))\<lparr>st_queue := []\<rparr>"
      "br_written u = br_written t @ later" "\<forall>response \<in> set later. busy_answer response"
      using act_poisoned [OF IH(1) act.hyps(2)] by blast
    have "(br_state u)\<lparr>st_queue := []\<rparr> = (user_acts a ?st)\<lparr>st_queue := []\<rparr>"
      using step(2) IH(2) user_acts_queue [of a "br_state t"] user_acts_queue [of a ?st] by simp
    moreover have "\<exists>later. br_written u = br_written s @ later \<and> (\<forall>response \<in> set later. busy_answer response)"
      using IH(3,4) step(3,4) by (intro exI [of _ "late @ later"]) auto
    ultimately show ?case using step(1) by simp
  qed
  then show ?thesis by (simp add: stop_bridge_def pairing_status_def)
qed

section \<open>Stopping\<close>

definition connected :: "'w bridge_run \<Rightarrow> bool" where
  "connected s \<longleftrightarrow> (case br_thread s of Reading authenticated \<Rightarrow> True | Awaiting call authenticated \<Rightarrow> True | _ \<Rightarrow> False)"

text \<open>
  What ends a connection while the bridge is being stopped: the end of what the client sends, a frame that
  cannot be read, or an answer that cannot be written.
\<close>

fun ends_connection :: "bridge_wire \<Rightarrow> ipc_response \<Rightarrow> 'w process_action \<Rightarrow> bool" where
  "ends_connection W busy (Runs (Receive input)) \<longleftrightarrow> \<not> is_ok (read_frame (bw_request_parse W) input)"
| "ends_connection W busy (Runs (TimeOut taken)) \<longleftrightarrow> \<not> sends W taken busy"
| "ends_connection W busy _ \<longleftrightarrow> False"

definition closed_process :: "rendezvous \<Rightarrow> 'w bridge_process \<Rightarrow> 'w bridge_process" where
  "closed_process r p = p\<lparr>bp_bridge := None, bp_files := rendezvous_close r (bp_files p)\<rparr>"

lemma busy_response_epoch: "st_epoch st = st_epoch st' \<Longrightarrow> busy_response st = busy_response st'"
  by (simp add: busy_response_def fault_response_def)

text \<open>A step of the bridge while the main thread waits: the state keeps all but the queue.\<close>

definition still_stopping :: "'w bridge_run \<Rightarrow> 'w bridge_run \<Rightarrow> bool" where
  "still_stopping s t \<longleftrightarrow> br_stop t \<and> br_poisoned t = br_poisoned s
     \<and> (br_state t)\<lparr>st_queue := []\<rparr> = (br_state s)\<lparr>st_queue := []\<rparr>
     \<and> (\<exists>late. br_written t = br_written s @ late \<and> set late \<subseteq> {busy_response (br_state s)})"

lemma still_stopping_epoch: "still_stopping s t \<Longrightarrow> st_epoch (br_state t) = st_epoch (br_state s)"
proof -
  assume "still_stopping s t"
  then have "st_epoch ((br_state t)\<lparr>st_queue := []\<rparr>) = st_epoch ((br_state s)\<lparr>st_queue := []\<rparr>)"
    by (simp only: still_stopping_def)
  then show ?thesis by simp
qed

lemma still_stopping_trans: "still_stopping s t \<Longrightarrow> still_stopping t u \<Longrightarrow> still_stopping s u"
  using busy_response_epoch [OF still_stopping_epoch, of s t]
  by (fastforce simp: still_stopping_def)

lemma act_stopping:
  assumes "br_stop s" and "bridge_act C K W H a s = Some t"
  shows "still_stopping s t
     \<and> (connected s \<longrightarrow> connected t \<or> ends_connection W (busy_response (br_state s)) (Runs a))"
  using assms
  by (cases a) (auto simp: still_stopping_def connected_def enqueue_def give_up_def answer_client_def
      split: if_splits socket_thread.splits sum.splits prod.splits)

text \<open>What is reached from the call of stop, until it has returned and after that.\<close>

definition waits_for_thread :: "rendezvous \<Rightarrow> 'w bridge_run \<Rightarrow> 'w bridge_process \<Rightarrow> 'w bridge_process \<Rightarrow> 'w bridge_run \<Rightarrow> bool" where
  "waits_for_thread r s p q u \<longleftrightarrow> still_stopping s u
     \<and> q = p\<lparr>bp_bridge := Some (r, u),
         bp_files := if br_thread u = Ended then rendezvous_close r (bp_files p) else bp_files p\<rparr>"

lemma process_stopping:
  assumes "process_reaches C K W H (p\<lparr>bp_bridge := Some (r, s)\<rparr>) as q" and "br_stop s" and "connected s"
  shows "(StopReturns \<notin> set as \<longrightarrow> (\<exists>u. waits_for_thread r s p q u
        \<and> (connected u \<or> list_ex (ends_connection W (busy_response (br_state s))) as)))
     \<and> (StopReturns \<in> set as \<longrightarrow> q = closed_process r p
        \<and> list_ex (ends_connection W (busy_response (br_state s))) as)"
  using assms(1)
proof induction
  case stay
  show ?case
    using assms(2,3)
    by (intro conjI impI exI [of _ s]) (auto simp: waits_for_thread_def still_stopping_def connected_def)
next
  case (act as q a q')
  let ?ends = "ends_connection W (busy_response (br_state s))"
  show ?case
  proof (cases "StopReturns \<in> set as")
    case True
    then have "q = closed_process r p" "list_ex ?ends as" using act.IH by auto
    moreover have "q' = q"
      using act.hyps(2) calculation(1)
      by (cases a) (auto simp: closed_process_def stop_bridge_def stop_returns_def)
    ultimately show ?thesis using True by auto
  next
    case False
    then obtain u where u: "waits_for_thread r s p q u" "connected u \<or> list_ex ?ends as" using act.IH by auto
    have slot: "bp_bridge q = Some (r, u)" "br_stop u" using u(1) by (auto simp: waits_for_thread_def still_stopping_def)
    show ?thesis
    proof (cases a)
      case (Runs b)
      then obtain v where v: "bridge_act C K W H b u = Some v" "q' = q\<lparr>bp_bridge := Some (r, v),
          bp_files := if br_thread u \<noteq> Ended \<and> br_thread v = Ended then rendezvous_close r (bp_files q) else bp_files q\<rparr>"
        using act.hyps(2) slot(1) by auto
      have "still_stopping s v"
        using act_stopping [OF slot(2) v(1)] u(1) still_stopping_trans by (auto simp: waits_for_thread_def)
      moreover have "br_thread u = Ended \<Longrightarrow> br_thread v = Ended"
        using v(1) slot(2) by (cases b) auto
      ultimately have "waits_for_thread r s p q' v"
        using u(1) v(2) by (auto simp: waits_for_thread_def)
      moreover have "busy_response (br_state u) = busy_response (br_state s)"
        using u(1) by (intro busy_response_epoch still_stopping_epoch) (simp add: waits_for_thread_def)
      ultimately show ?thesis
        using act_stopping [OF slot(2) v(1)] u(2) False Runs by auto
    next
      case StopCalled
      then show ?thesis using act.hyps(2) slot by simp
    next
      case StopReturns
      then have "br_thread u = Ended" "q' = closed_process r q"
        using act.hyps(2) slot by (auto simp: stop_returns_def closed_process_def split: if_splits)
      then show ?thesis using u StopReturns by (auto simp: closed_process_def waits_for_thread_def connected_def)
    qed
  qed
qed

text \<open>From wherever it waits, at most two steps of the socket thread let stopping return.\<close>

definition leaving :: "'w process_action set" where
  "leaving = {Runs (TimeOut False), Runs HangUp, Runs NoClient, Runs CheckStop}"

lemma stopping_can_return:
  assumes "waits_for_thread r s p q u"
  shows "\<exists>bs. set bs \<subseteq> leaving \<and> length bs \<le> 2 \<and> process_reaches C K W H q (bs @ [StopReturns]) (closed_process r p)"
proof -
  let ?q = "\<lambda>u. p\<lparr>bp_bridge := Some (r, u),
    bp_files := if br_thread u = Ended then rendezvous_close r (bp_files p) else bp_files p\<rparr>"
  have q: "q = ?q u" "br_stop u" using assms by (auto simp: waits_for_thread_def still_stopping_def)
  have returns: "process_act C K W H StopReturns (?q v) = Some (closed_process r p)"
    if "br_thread v = Ended" "br_stop v" for v
    using that by (simp add: stop_returns_def closed_process_def)
  have one: "process_reaches C K W H x [a] y" if "process_act C K W H a x = Some y" for x y a
    using process_reaches.act [OF process_reaches.stay that] by simp
  have checked: "process_reaches C K W H (?q v) [Runs CheckStop, StopReturns] (closed_process r p)"
    if "br_thread v = Looping" "br_stop v" for v
  proof -
    have "process_act C K W H (Runs CheckStop) (?q v) = Some (?q (v\<lparr>br_thread := Ended\<rparr>))" using that by simp
    from process_reaches.act [OF one [OF this] returns] show ?thesis using that by simp
  qed
  have leads: "process_reaches C K W H (?q u) (a # bs) z"
    if "process_act C K W H a (?q u) = Some y" "process_reaches C K W H y bs z" for a bs y z
    using that(2)
  proof induction
    case stay
    show ?case by (rule one [OF that(1)])
  next
    case (act as t a' v)
    then show ?case using process_reaches.act [OF act.IH act.hyps(2)] by simp
  qed
  show ?thesis
  proof (cases "br_thread u")
    case Looping
    then show ?thesis using checked [OF Looping q(2)] q(1) by (intro exI [of _ "[Runs CheckStop]"]) (simp add: leaving_def)
  next
    case Accepting
    then have "process_act C K W H (Runs NoClient) (?q u) = Some (?q (u\<lparr>br_thread := Looping\<rparr>))" by simp
    from leads [OF this checked] show ?thesis
      using q by (intro exI [of _ "[Runs NoClient, Runs CheckStop]"]) (simp add: leaving_def)
  next
    case (Reading authenticated)
    then have "process_act C K W H (Runs HangUp) (?q u) = Some (?q (u\<lparr>br_thread := Looping\<rparr>))"
      by simp
    from leads [OF this checked] show ?thesis
      using q by (intro exI [of _ "[Runs HangUp, Runs CheckStop]"]) (simp add: leaving_def)
  next
    case (Awaiting call authenticated)
    then have "process_act C K W H (Runs (TimeOut False)) (?q u) = Some (?q (u\<lparr>br_thread := Looping\<rparr>))"
      by (simp add: give_up_def answer_client_def sends_def)
    from leads [OF this checked] show ?thesis
      using q by (intro exI [of _ "[Runs (TimeOut False), Runs CheckStop]"]) (simp add: leaving_def)
  next
    case Ended
    then show ?thesis using one [OF returns [OF Ended q(2)]] q(1) by (intro exI [of _ "[]"]) simp
  qed
qed

text \<open>C38: Stopping the bridge waits for the client.  When stop is called while a connection is open, it
  returns only after that connection has ended: the client hung up or sent a frame that cannot be read,
  or an answer could not be written to it.  Until then the CAD program stands still: the documents and
  all of the bridge but its queue stay as they were, and every request is answered that the bridge is
  busy.  At most two steps of the socket thread, once the client has left, let stop return, and then the
  bridge is gone and its pairing files are removed.\<close>

theorem stop_waits_for_the_client:
  assumes "bp_bridge p = Some (r, s)" and "connected s" and "stop_bridge p = Some called"
    and "process_reaches C K W H called as q"
  shows "(StopReturns \<in> set as \<longrightarrow>
        q = p\<lparr>bp_bridge := None, bp_files := rendezvous_close r (bp_files p)\<rparr>
        \<and> list_ex (ends_connection W (busy_response (br_state s))) as)
     \<and> (StopReturns \<notin> set as \<longrightarrow> (\<exists>u late. bp_bridge q = Some (r, u)
        \<and> (br_state u)\<lparr>st_queue := []\<rparr> = (br_state s)\<lparr>st_queue := []\<rparr>
        \<and> br_written u = br_written s @ late \<and> set late \<subseteq> {busy_response (br_state s)}
        \<and> (\<exists>bs. set bs \<subseteq> leaving \<and> length bs \<le> 2
             \<and> process_reaches C K W H q (bs @ [StopReturns])
                 (p\<lparr>bp_bridge := None, bp_files := rendezvous_close r (bp_files p)\<rparr>))))"
proof -
  let ?s = "s\<lparr>br_stop := True\<rparr>"
  have called: "called = p\<lparr>bp_bridge := Some (r, ?s)\<rparr>" using assms(1,3) by (auto simp: stop_bridge_def split: if_splits)
  have "connected ?s" using assms(2) by (simp add: connected_def)
  note reached = process_stopping [OF assms(4) [unfolded called] _ this]
  show ?thesis
  proof (cases "StopReturns \<in> set as")
    case True
    then show ?thesis using reached by (simp add: closed_process_def)
  next
    case False
    then obtain u where u: "waits_for_thread r ?s p q u" using reached by auto
    show ?thesis
      using False u stopping_can_return [OF u, of C K W H]
      by (auto simp: waits_for_thread_def still_stopping_def closed_process_def)
  qed
qed

end
