(* ===== verification/CadSample.thy ===== *)
theory CadSample
  imports BridgeFailures BridgeRefs SnapshotTypes AdjacencyLaws TransactionLaws BridgeSamples
    "HOL-Library.Countable"
begin

text \<open>
  A small CAD program, at which the properties of the extension are evaluated: one document with a box
  of two edges and three faces, whose length can be set, in a transaction that can be taken back.
  Handles are names; every handle reads as its own name, one as the truth value.
\<close>

section \<open>The program\<close>

record cad =
  cad_length :: string
  cad_saved :: "string option"

definition cad_attributes :: "((string \<times> string) \<times> string) list" where
  "cad_attributes =
     [((''app'', ''Documents''), ''documents''), ((''d'', ''Name''), ''d''), ((''d'', ''Objects''), ''objects''),
      ((''d'', ''getObject''), ''getObject''), ((''d'', ''openTransaction''), ''openTransaction''),
      ((''d'', ''abortTransaction''), ''abortTransaction''), ((''d'', ''commitTransaction''), ''commitTransaction''),
      ((''Box'', ''Name''), ''Box''), ((''Box'', ''PropertiesList''), ''properties''), ((''Box'', ''Shape''), ''shape''),
      ((''shape'', ''Edges''), ''edges''), ((''shape'', ''Faces''), ''faces''),
      ((''F1'', ''Edges''), ''edges''), ((''F2'', ''Edges''), ''first''), ((''F3'', ''Edges''), ''second''),
      ((''E1'', ''isSame''), ''same E1''), ((''E2'', ''isSame''), ''same E2''),
      ((''gui'', ''Selection''), ''selection''), ((''selection'', ''addSelection''), ''addSelection'')]"

definition cad_lists :: "(string \<times> string list) list" where
  "cad_lists = [(''objects'', [''Box'']), (''properties'', [''Length'']), (''edges'', [''E1'', ''E2'']),
     (''faces'', [''F1'', ''F2'', ''F3'']), (''first'', [''E1'']), (''second'', [''E2''])]"

definition cad_call :: "cad \<Rightarrow> string \<Rightarrow> string list \<Rightarrow> (string, string) result \<times> cad \<times> observed list" where
  "cad_call w f arguments =
     (if f = ''openTransaction'' then (Ok ''none'', w\<lparr>cad_saved := Some (cad_length w)\<rparr>, [])
      else if f = ''commitTransaction'' then (Ok ''none'', w\<lparr>cad_saved := None\<rparr>, [])
      else if f = ''abortTransaction'' then
        (Ok ''none'', (case cad_saved w of None \<Rightarrow> w | Some old \<Rightarrow> w\<lparr>cad_length := old, cad_saved := None\<rparr>), [])
      else if f = ''getObject'' \<and> arguments = [''Box''] then (Ok ''Box'', w, [])
      else if f = ''same E1'' \<and> arguments = [''E1''] \<or> f = ''same E2'' \<and> arguments = [''E2''] then (Ok ''true'', w, [])
      else (Err ''failed'', w, []))"

fun cad_make :: "string py_value \<Rightarrow> string" where
  "cad_make (PyStr s) = s"
| "cad_make (PyInt i) = show_nat (nat i)"
| "cad_make _ = ''value''"

definition cad_python :: "(cad, string) python" where
  "cad_python =
     \<lparr>py_attr = (\<lambda>w object name. if object = ''Box'' \<and> name = ''Length'' then Some (cad_length w)
                  else map_of cad_attributes (object, name)),
      py_call = cad_call,
      py_setattr = (\<lambda>w object name v. (Ok (), if object = ''Box'' \<and> name = ''Length'' then w\<lparr>cad_length := v\<rparr> else w, [])),
      py_view = (\<lambda>w object. if object = ''true'' then PyBool True else PyStr object),
      py_iter = (\<lambda>w. map_of cad_lists),
      py_items = (\<lambda>w object. if object = ''documents'' then Some [(''d'', ''d'')] else None),
      py_type_name = (\<lambda>w object. None), py_repr = (\<lambda>w object. None),
      py_import = (\<lambda>w name. Err ''no module''), py_make = cad_make,
      py_show_f64 = (\<lambda>x. ''0''), py_show_names = concat\<rparr>"

lemmas cad_defs = cad_python_def cad_attributes_def cad_lists_def cad_call_def

definition cad_world :: cad where
  "cad_world = \<lparr>cad_length = ''10'', cad_saved = None\<rparr>"

abbreviation cad_host :: "codec \<Rightarrow> cad bridge_host" where
  "cad_host C \<equiv> freecad_host C cad_python ''app'' (Some ''gui'') None"

lemma cad_simps [simp]:
  "attr cad_python w object name = (if object = ''Box'' \<and> name = ''Length'' then Some (cad_length w)
     else map_of cad_attributes (object, name))"
  "py_call cad_python = cad_call" "py_iter cad_python w = map_of cad_lists" "py_make cad_python = cad_make"
  "string_of cad_python w object = (if object = ''true'' then None else Some object)"
  "bool_of cad_python w object = (if object = ''true'' then Some True else None)"
  "f64_of cad_python w object = (if object = ''true'' then Some (Finite 1) else None)"
  by (simp_all add: attr_def string_of_def bool_of_def f64_of_def cad_python_def)

lemma cad_document: "extract_document cad_python w ''app'' (Some ''d'') = Some ''d''"
  by (simp add: extract_document_def find_document_def attr_def string_of_def not_none_def is_none_def cad_defs)

lemma cad_name: "string_attr cad_python w ''d'' ''Name'' = Some ''d''"
  by (simp add: string_attr_def attr_def string_of_def cad_defs)

section \<open>References, snapshots, adjacency\<close>

theorem references_lead_to_their_objects_witness:
  "resolve cad_python ''d'' (bridge_ref ''s'' ''my part'' (part_path ''Box'' ''face'' 2) ''g0.e'') cad_world
     = Ok (''Box'', [''face'', ''2''])"
proof -
  have found: "call1 cad_python cad_world ''d'' ''getObject'' (py_make cad_python (PyStr ''Box'')) = Some ''Box''"
    by (simp add: call1_def attr_def ask_def cad_defs)
  have "utf8_valid ''Box''" "''face'' \<in> set part_kinds" "show_nat 2 = ''2''" by code_simp+
  moreover have "\<not> is_none cad_python cad_world ''Box''" by (simp add: is_none_def cad_python_def)
  ultimately show ?thesis
    using references_lead_to_their_objects [of "''s''" "''my part''" "''Box''" "''face''" cad_python cad_world "''d''" "''Box''"] found
    by simp
qed

text \<open>The same program, but with boxes whose coordinates are NaN.\<close>

definition endless_python :: "(cad, string) python" where
  "endless_python = cad_python
     \<lparr>py_attr := (\<lambda>w object name. if name = ''BoundBox'' then Some ''box'' else if object = ''box'' then Some ''endless''
        else py_attr cad_python w object name),
      py_view := (\<lambda>w object. if object = ''endless'' then PyFloat NaN else py_view cad_python w object)\<rparr>"

lemma endless_document: "extract_document endless_python w ''app'' (Some ''d'') = Some ''d''"
  by (simp add: extract_document_def find_document_def attr_def string_of_def not_none_def is_none_def cad_defs endless_python_def)

lemma cad_finite: "finite_document cad_python cad_world ''d''" "finite_camera cad_python cad_world (Some ''gui'')"
  by (simp_all add: finite_document_def boxed_parts_def finite_box_def finite_camera_def camera_place_def null_shape_def
      list_all_iff cad_attributes_def)

lemma endless_not_finite: "\<not> finite_document endless_python cad_world ''d''"
  by (simp add: finite_document_def boxed_parts_def finite_box_def finite_numbers_def number_attr_def f64_of_def
      null_shape_def call0_def list_attr_def attr_def endless_python_def cad_defs)

theorem snapshots_have_their_type_witness:
  "has_type snapshot_type (extract_snapshot bridge_codec cad_python ''app'' (Some ''gui'') cad_world
     \<lparr>se_now = 0, se_order = rev\<rparr> ''s'' (revision_new ''e'') (Some ''d''))
   \<and> \<not> has_type snapshot_type (extract_snapshot bridge_codec endless_python ''app'' (Some ''gui'') cad_world
     \<lparr>se_now = 0, se_order = rev\<rparr> ''s'' (revision_new ''e'') (Some ''d''))"
  by (simp add: snapshots_have_their_type cad_document endless_document cad_finite endless_not_finite)

definition three_faces :: "json list" where
  "three_faces = map (\<lambda>(name, edges). jobj [(''ref'', JStr name), (''kind'', JStr ''cad.face''),
       (''links'', JArr (map (extracted_link ''bounded_by'') edges))])
     [(''F1'', [''E1'', ''E2'']), (''F2'', [''E1'']), (''F3'', [''E2''])]"

lemma three_bounding: "bounding three_faces = [(''E1'', ''F1''), (''E2'', ''F1''), (''E1'', ''F2''), (''E2'', ''F3'')]"
  by code_simp

theorem adjacency_links_faces_of_one_edge_witness:
  "\<exists>targets. jget ''links'' (add_adjacency rev three_faces ! 0)
       = Some (JArr (map (extracted_link ''bounded_by'') [''E1'', ''E2''] @ map (extracted_link ''adjacent_to'') targets))
     \<and> set targets = {''F2'', ''F3''}"
proof -
  have facts: "lists_keys rev" "0 < length three_faces" "str_at ''ref'' (three_faces ! 0) = Some ''F1''"
    "jget ''links'' (three_faces ! 0) = Some (JArr (map (extracted_link ''bounded_by'') [''E1'', ''E2'']))"
    by (simp_all add: lists_keys_def three_faces_def str_at_def)
  have neighbours: "{t. t \<noteq> ''F1'' \<and> (\<exists>edge. ''F1'' \<in> set (faces_at three_faces edge) \<and> t \<in> set (faces_at three_faces edge))}
      = {''F2'', ''F3''}"
    by (auto simp: faces_at_def three_bounding)
  show ?thesis
    using adjacency_links_faces_of_one_edge [OF facts] unfolding neighbours by (elim exE conjE) (intro exI conjI)
qed

section \<open>Previews over the sample program\<close>

instance jnum :: countable
  by countable_datatype

instance json :: countable
  by countable_datatype

text \<open>A codec in which different documents have different texts and digests.\<close>

definition exact_codec :: codec where
  "exact_codec = sample_codec\<lparr>json_text := show_nat \<circ> to_nat\<rparr>"

lemma exact_digest: "digest_json exact_codec v = digest_json exact_codec v' \<Longrightarrow> v = v'"
  by (simp add: digest_json_def sha256_json_def sha256_bytes_def exact_codec_def sample_codec_def)

definition cad_bridge :: "cad bridge_state" where
  "cad_bridge = bridge_new cad_world ''s'' ''e'' ''k''"

definition selection_changes :: "json list \<Rightarrow> json" where
  "selection_changes targets = JObj
     [(''base_revision'', JStr ''g0.m0.f0.v0.e''), (''document'', JStr ''d''),
      (''operations'', JArr [JObj [(''mode'', JStr ''add''), (''op'', JStr ''set_selection''), (''targets'', JArr targets)]]),
      (''schema_version'', JStr ''changeset/1.0'')]"

definition selection_payload :: "json list \<Rightarrow> json" where
  "selection_payload targets = JObj [(''changeset'', selection_changes targets)]"

lemma selection_valid:
  assumes "jget ''revision'' snapshot = Some (json_of_revision (revision_new ''e''))"
    and "str_at ''document'' snapshot = Some ''d''"
  shows "validate_changeset False ''s'' (selection_changes targets) snapshot = Ok ()"
proof -
  have "revision_id (revision_new ''e'') = ''g0.m0.f0.v0.e''" by code_simp
  then have "revision_matches (Some ''g0.m0.f0.v0.e'') snapshot"
    using revision_matches_iff [OF assms(1)] by simp
  then show ?thesis
    using assms(2) by (simp add: validate_changeset_def selection_changes_def str_at_def json_array_def
        validate_bridge_operation_def names_subelement_def Let_def)
qed

lemma cad_preview_allowed:
  "preview_allowed (cad_host C) E (selection_payload targets) (selection_changes targets) cad_bridge"
proof -
  let ?seen = "seen_at (cad_host C) E 0 (selection_changes targets) cad_bridge"
  have "str_at ''document'' (selection_changes targets) = Some ''d''"
    by (simp add: selection_changes_def str_at_def)
  then have "str_at ''document'' ?seen = Some ''d''"
    "jget ''revision'' ?seen = Some (json_of_revision (revision_new ''e''))"
    by (simp_all add: freecad_host_def snapshot_members cad_document cad_name cad_bridge_def bridge_new_def)
  then show ?thesis
    using selection_valid by (simp add: preview_allowed_def required_changeset_def selection_payload_def
        selection_changes_def is_object_def cad_bridge_def bridge_new_def)
qed

definition selection_operation :: "json list \<Rightarrow> json" where
  "selection_operation targets = JObj [(''mode'', JStr ''add''), (''op'', JStr ''set_selection''), (''targets'', JArr targets)]"

lemma selection_members:
  "str_at ''document'' (selection_changes targets) = Some ''d''" "str_at ''request_id'' (selection_changes targets) = None"
  "jget ''operations'' (selection_changes targets)
     = Some (JArr [selection_operation targets])"
  "jget ''validate'' (selection_changes targets) = None"
  "str_at ''op'' (selection_operation targets) = Some ''set_selection''"
  "str_at ''mode'' (selection_operation targets) = Some ''add''"
  "jget ''targets'' (selection_operation targets) = Some (JArr targets)"
  by (simp_all add: selection_changes_def selection_operation_def str_at_def)

lemmas execution_defs = execute_changeset_def transaction_body_def aborting_def validate_document_def exec_optional_def
  exec_attr_def exec_read_def exec_call_def needed_def eff_bind_def json_array_def string_items_def Let_def

lemma cad_reports: "\<not> list_ex failed_check (validation_reports C cad_python ''d'' {''recompute'', ''shape_validity''} w)"
  by (simp add: validation_reports_def check_report_def named_objects_def reports_error_def invalid_shape_def
      failed_check_def str_at_def list_attr_def call0_def cad_attributes_def cad_lists_def)

lemma cad_selection_applied:
  "\<exists>outcome. hs_apply (cad_host C) cad_world (selection_changes []) False = (Ok outcome, cad_world, [])"
  using cad_reports
  by (simp add: freecad_host_def host_run_def execution_defs selection_members cad_document run_operation_def
      check_selection_def selection_mode_def required_targets_def cad_attributes_def cad_call_def cad_world_def)

lemma cad_previewed:
  assumes "be_site E 0 = be_site E 2"
  shows "\<exists>response st'. bridge_preview C (cad_host C) E (selection_payload []) cad_bridge = (Ok response, st')"
proof -
  obtain outcome where run: "hs_apply (cad_host C) cad_world (selection_changes []) False = (Ok outcome, cad_world, [])"
    using cad_selection_applied by blast
  have world: "st_world cad_bridge = cad_world" by (simp add: cad_bridge_def bridge_new_def)
  then have "rollback_verified C (cad_host C) E (selection_changes []) cad_bridge"
    using run assms by (simp add: rollback_verified_def)
  then show ?thesis
    using preview_shown [OF cad_preview_allowed] run world by (metis fst_conv)
qed

definition plain_env :: bridge_env where
  "plain_env = \<lparr>be_site = (\<lambda>site. \<lparr>se_now = site, se_order = id\<rparr>), be_instant = 0\<rparr>"

theorem answers_have_their_type_witness:
  "\<exists>response. fst (bridge_preview bridge_codec (cad_host bridge_codec) sample_env (selection_payload []) cad_bridge) = Ok response
     \<and> has_type change_response_type response
     \<and> has_type advertisement_type (pairing_record (rendezvous_new ''/run'' ''1'' ''2'' ''k'')
         (bridge_hello (cad_host bridge_codec) cad_world) (bridge_documents (cad_host bridge_codec) cad_world) ''tcp://127.0.0.1:1'' 4242 7)"
proof -
  obtain response st' where run: "bridge_preview bridge_codec (cad_host bridge_codec) sample_env (selection_payload []) cad_bridge
      = (Ok response, st')"
    using cad_previewed [of sample_env bridge_codec] by (auto simp: sample_env_def)
  have pid: "(4242 :: nat) < 2 ^ 32" by simp
  show ?thesis
    using answers_have_their_type [OF disjI1 [OF run]] run pid by (metis fst_conv)
qed

end
