(* ===== verification/CadFailures.thy ===== *)
theory CadFailures
  imports CadSample
begin

text \<open>
  The sample CAD program at the failures of the bridge: hash maps that list the edges in different
  orders, a change set that is taken back, a reference that panics, a client that stays.
\<close>

section \<open>Hash maps in different orders\<close>

text \<open>The references of the parts of the box.\<close>

abbreviation part_ref :: "string \<Rightarrow> nat \<Rightarrow> string" where
  "part_ref kind index \<equiv> bridge_ref ''s'' ''d'' (part_path ''Box'' kind index) (revision_id (revision_new ''e''))"

lemma bridge_ref_inject: "bridge_ref session document path r = bridge_ref session document path' r \<longleftrightarrow> path = path'"
proof
  assume "bridge_ref session document path r = bridge_ref session document path' r"
  then have "map percent_encode (split_on (CHR ''/'') path) = map percent_encode (split_on (CHR ''/'') path')"
    using reference_path [of session document path r] reference_path [of session document path' r] by simp
  then have "split_on (CHR ''/'') path = split_on (CHR ''/'') path'"
    using inj_map_eq_map [of percent_encode] percent_encode_inject by (metis injI)
  then show "path = path'" by (metis join_split_on)
qed simp

lemma part_ref_inject: "part_ref kind j = part_ref kind' k \<longleftrightarrow> kind = kind' \<and> j = k"
  if "kind \<in> set part_kinds" "kind' \<in> set part_kinds" for kind kind' j k
  using that by (auto simp: bridge_ref_inject part_path_def part_kinds_def)

definition box_entities :: "codec \<Rightarrow> json list" where
  "box_entities C = (let r = revision_id (revision_new ''e'') in
     document_entity cad_python cad_world ''s'' ''d'' r ''d'' 1
     # object_entity C cad_python cad_world ''s'' ''d'' r (object_references cad_python cad_world ''s'' ''d'' r [''Box'']) ''Box''
     # shape_entities C cad_python cad_world ''s'' ''d'' ''Box'' r ''shape'')"

lemma cad_listed: "listed_entities C cad_python ''app'' cad_bridge ''d'' order = add_adjacency order (box_entities C)"
  by (simp add: listed_entities_def document_entities_def box_entities_def cad_bridge_def bridge_new_def cad_name
      Let_def list_attr_def cad_attributes_def cad_lists_def string_attr_def sketch_entities_def is_sketch_def)

lemma cad_bounding: "bounding (box_entities C)
   = [(part_ref ''edge'' 1, part_ref ''face'' 1), (part_ref ''edge'' 2, part_ref ''face'' 1),
      (part_ref ''edge'' 1, part_ref ''face'' 2), (part_ref ''edge'' 2, part_ref ''face'' 3)]"
  by (simp add: bounding_def box_entities_def shape_entities_def face_edges_def Let_def list_attr_def
      cad_attributes_def cad_lists_def string_attr_def numbered_def document_entity_def object_entity_def
      edge_entity_def face_entity_def extracted_entity_def extracted_link_def str_at_def json_array_def
      same_shape_def call1_def ask_def cad_call_def map_filter_simps
      numeral_2_eq_2 numeral_3_eq_3)

lemma cad_faces_at:
  "faces_at (box_entities C) (part_ref ''edge'' 1) = [part_ref ''face'' 1, part_ref ''face'' 2]"
  "faces_at (box_entities C) (part_ref ''edge'' 2) = [part_ref ''face'' 1, part_ref ''face'' 3]"
  by (simp_all add: faces_at_def cad_bounding part_ref_inject part_kinds_def)

lemma cad_keys:
  "bm_keys (edge_faces (box_entities C)) \<in> {[part_ref ''edge'' 1, part_ref ''edge'' 2], [part_ref ''edge'' 2, part_ref ''edge'' 1]}"
proof -
  let ?keys = "bm_keys (edge_faces (box_entities C))"
  have keys: "set ?keys = {part_ref ''edge'' 1, part_ref ''edge'' 2}" "distinct ?keys"
    using edge_faces_facts(2,3) [of "box_entities C"] by (auto simp: cad_bounding)
  have other: "part_ref ''edge'' 1 \<noteq> part_ref ''edge'' 2"
    by (simp add: part_ref_inject part_kinds_def)
  have "length ?keys = 2"
    using distinct_card [OF keys(2)] keys(1) other by simp
  then obtain a b where "?keys = [a, b]"
    by (metis (no_types) One_nat_def Suc_1 length_0_conv length_Suc_conv)
  then show ?thesis using keys other by auto
qed

lemma two_edges:
  assumes "faces_at entities e1 = [f1, f2]" "faces_at entities e2 = [f1, f3]" "f1 \<noteq> f2" "f1 \<noteq> f3" "e1 \<noteq> e2"
    and "order (bm_keys (edge_faces entities)) \<in> {[e1, e2], [e2, e1]}"
  shows "values_at f1 (adjacency order entities)
    = (if order (bm_keys (edge_faces entities)) = [e1, e2] then [f2, f3] else [f3, f2])"
  using assms(6) by (elim insertE emptyE; simp add: values_adjacency assms(1-5) neighbours_at_def)

lemma cad_adjacency:
  assumes "order \<in> {id, rev}"
  shows "values_at (part_ref ''face'' 1) (adjacency order (box_entities C))
    = (if order (bm_keys (edge_faces (box_entities C))) = [part_ref ''edge'' 1, part_ref ''edge'' 2]
       then [part_ref ''face'' 2, part_ref ''face'' 3] else [part_ref ''face'' 3, part_ref ''face'' 2])"
proof (rule two_edges [OF cad_faces_at])
  show "order (bm_keys (edge_faces (box_entities C)))
      \<in> {[part_ref ''edge'' 1, part_ref ''edge'' 2], [part_ref ''edge'' 2, part_ref ''edge'' 1]}"
    using assms cad_keys [of C] by (elim insertE emptyE) simp_all
qed (simp_all add: part_ref_inject part_kinds_def)

lemma cad_orders_differ:
  "values_at (part_ref ''face'' 1) (adjacency id (box_entities C))
     \<noteq> values_at (part_ref ''face'' 1) (adjacency rev (box_entities C))"
proof -
  have "part_ref ''edge'' 1 \<noteq> part_ref ''edge'' 2" "part_ref ''face'' 2 \<noteq> part_ref ''face'' 3"
    by (simp_all add: part_ref_inject part_kinds_def)
  then show ?thesis
    using cad_keys [of C] cad_adjacency [of id C] cad_adjacency [of rev C]
    by (elim insertE emptyE) simp_all
qed

lemma cad_first_face:
  "4 < length (box_entities C)"
  "box_entities C ! 4
     = face_entity C cad_python cad_world ''s'' ''d'' ''Box'' (revision_id (revision_new ''e'')) [''E1'', ''E2''] 1 ''F1''"
  by (simp_all add: box_entities_def shape_entities_def Let_def list_attr_def cad_attributes_def cad_lists_def numbered_def)

lemma cad_first_links:
  "str_at ''ref'' (box_entities C ! 4) = Some (part_ref ''face'' 1)"
  "\<exists>links. jget ''links'' (box_entities C ! 4) = Some (JArr links)"
  unfolding cad_first_face by (simp_all add: face_entity_def extracted_entity_def str_at_def Let_def)

lemma extracted_link_inj: "inj (extracted_link kind)"
proof (rule injI)
  fix x y
  assume "extracted_link kind x = extracted_link kind y"
  then have "jget ''target'' (extracted_link kind x) = jget ''target'' (extracted_link kind y)" by simp
  then show "x = y" by (simp add: extracted_link_def)
qed

lemma cad_listed_differ:
  "listed_entities C cad_python ''app'' cad_bridge ''d'' id \<noteq> listed_entities C cad_python ''app'' cad_bridge ''d'' rev"
proof
  obtain links where links: "jget ''links'' (box_entities C ! 4) = Some (JArr links)"
    using cad_first_links(2) by blast
  assume "listed_entities C cad_python ''app'' cad_bridge ''d'' id = listed_entities C cad_python ''app'' cad_bridge ''d'' rev"
  then have "jget ''links'' (add_adjacency id (box_entities C) ! 4) = jget ''links'' (add_adjacency rev (box_entities C) ! 4)"
    by (simp only: cad_listed)
  then have "map (extracted_link ''adjacent_to'') (values_at (part_ref ''face'' 1) (adjacency id (box_entities C)))
      = map (extracted_link ''adjacent_to'') (values_at (part_ref ''face'' 1) (adjacency rev (box_entities C)))"
    by (simp only: added_links [OF cad_first_face(1) cad_first_links(1) links] option.inject json.inject same_append_eq)
  then show False
    using cad_orders_differ [of C] by (simp only: inj_map_eq_map [OF extracted_link_inj])
qed

definition shuffled_env :: bridge_env where
  "shuffled_env = \<lparr>be_site = (\<lambda>site. \<lparr>se_now = 0, se_order = (if site = 0 then id else rev)\<rparr>), be_instant = 0\<rparr>"

theorem hash_order_blocks_writes_witness:
  "\<exists>st'. bridge_preview exact_codec (cad_host exact_codec) shuffled_env (selection_payload []) cad_bridge
     = (Err (fault ''rollback_verification_failed'' ''rollback verification failed'' False), st')
   \<and> st_world st' = cad_world \<and> st_write_blocked st'"
proof -
  obtain outcome where "hs_apply (cad_host exact_codec) cad_world (selection_changes []) False = (Ok outcome, cad_world, [])"
    using cad_selection_applied by blast
  moreover have "st_world cad_bridge = cad_world" by (simp add: cad_bridge_def bridge_new_def)
  ultimately have run: "hs_apply (cad_host exact_codec) (st_world cad_bridge) (selection_changes []) False
      = (Ok outcome, st_world cad_bridge, [])" by simp
  have document: "extract_document cad_python (st_world cad_bridge) ''app'' (str_at ''document'' (selection_changes [])) = Some ''d''"
    by (simp only: selection_members cad_document)
  have differ: "listed_entities exact_codec cad_python ''app'' cad_bridge ''d'' (se_order (be_site shuffled_env 0))
      \<noteq> listed_entities exact_codec cad_python ''app'' cad_bridge ''d'' (se_order (be_site shuffled_env 2))"
    using cad_listed_differ by (simp add: shuffled_env_def)
  show ?thesis
    using hash_order_blocks_writes [OF cad_preview_allowed run document differ] exact_digest
      \<open>st_world cad_bridge = cad_world\<close> by (metis (no_types, lifting))
qed

section \<open>A change that is committed\<close>

lemma cad_methods:
  assumes "name \<in> operation_methods" and "attr cad_python w object name = Some f"
  shows "f = ''addSelection''"
proof -
  have "\<forall>entry \<in> set cad_attributes. snd (fst entry) \<in> operation_methods \<longrightarrow> snd entry = ''addSelection''"
    by (simp add: cad_attributes_def operation_methods_def)
  moreover have "name \<noteq> ''Length''" using assms(1) by (auto simp: operation_methods_def)
  then have "((object, name), f) \<in> set cad_attributes" using assms(2) by (simp add: map_of_SomeD)
  ultimately show ?thesis using assms(1) by fastforce
qed

lemma cad_transactional: "transactional cad_python ''d'' cad_length cad_saved"
proof -
  have called: "after_call cad_python w f arguments = fst (snd (cad_call w f arguments))" for w f arguments
    by (simp add: after_call_def)
  have "cad_saved (fst (snd (cad_call w ''addSelection'' arguments))) = cad_saved w" for w arguments
    by (simp add: cad_call_def)
  then have "\<forall>w object name f arguments. name \<in> operation_methods \<longrightarrow> attr cad_python w object name = Some f \<longrightarrow>
      cad_saved (fst (snd (cad_call w f arguments))) = cad_saved w"
    using cad_methods by blast
  moreover have "cad_saved (fst (snd (py_setattr cad_python w object name v))) = cad_saved w" for w object name v
    by (simp add: cad_python_def)
  ultimately show ?thesis
    unfolding transactional_def called by (simp add: cad_attributes_def cad_call_def)
qed

definition length_operation :: json where
  "length_operation = JObj [(''op'', JStr ''set_property''), (''property'', JStr ''Length''),
     (''target'', JStr ''fc://s/d/object/Box@r''), (''value'', JStr ''12'')]"

definition length_changes :: json where
  "length_changes = JObj [(''document'', JStr ''d''), (''operations'', JArr [length_operation])]"

lemma length_members:
  "str_at ''document'' length_changes = Some ''d''" "str_at ''request_id'' length_changes = None"
  "jget ''operations'' length_changes = Some (JArr [length_operation])" "jget ''validate'' length_changes = None"
  "str_at ''op'' length_operation = Some ''set_property''" "str_at ''property'' length_operation = Some ''Length''"
  "str_at ''target'' length_operation = Some ''fc://s/d/object/Box@r''" "index_json ''value'' length_operation = JStr ''12''"
  by (simp_all add: length_changes_def length_operation_def str_at_def index_json_def)

lemma cad_real: "\<not> is_none cad_python w object"
  by (simp add: is_none_def cad_python_def)

lemma length_target: "resolve cad_python ''d'' ''fc://s/d/object/Box@r'' w = Ok (''Box'', [])"
proof -
  have "reference_parts ''fc://s/d/object/Box@r'' = Ok (''Box'', [])" by code_simp
  then show ?thesis
    by (simp add: resolve_def call1_def ask_def cad_attributes_def cad_call_def not_none_def cad_real needed_def)
qed

lemma length_named: "property_name ''Length'' = Ok ''Length''"
  by code_simp

lemma length_assigned:
  "py_setattr cad_python w ''Box'' ''Length'' v = (Ok (), w\<lparr>cad_length := v\<rparr>, [])"
  "to_python cad_python (JStr ''12'') = ''12''"
  by (simp add: cad_python_def) (simp add: to_python_def)

lemma length_run:
  "run_operation cad_python ''d'' gui part commit length_operation s
     = (Ok [''fc://s/d/object/Box@r''], ((fst s)\<lparr>cad_length := ''12''\<rparr>, snd s))"
  by (cases s) (simp add: run_operation_def apply_bridge_operation_def length_members op_set_property_def target_object_def
      length_target length_named needed_def eff_bind_def exec_read_def declared_property_def
      typed_value_def exec_setattr_def list_attr_def cad_attributes_def cad_lists_def map_filter_simps length_assigned)

lemma length_work:
  "\<exists>outcome. transaction_work C cad_python ''d'' gui part length_changes commit s
     = (Ok outcome, ((fst s)\<lparr>cad_length := ''12''\<rparr>, snd s))"
  by (simp add: transaction_work_def length_members json_array_def eff_bind_def length_run validate_document_def
      exec_optional_def cad_attributes_def)

lemma length_executed:
  "\<exists>outcome t. execute_changeset C cad_python ''app'' gui part length_changes commit (cad_world, []) = (Ok outcome, t)"
  using cad_reports [of C]
  by (simp add: execution_defs length_members cad_document length_run cad_attributes_def cad_call_def cad_world_def)

theorem changeset_is_all_or_nothing_witness:
  "\<forall>commit. \<exists>outcome w' seen'.
     execute_changeset bridge_codec cad_python ''app'' None None length_changes commit (cad_world, []) = (Ok outcome, (w', seen'))
     \<and> cad_length w' = (if commit then ''12'' else ''10'')"
proof
  fix commit
  obtain outcome w' seen' where run:
    "execute_changeset bridge_codec cad_python ''app'' None None length_changes commit (cad_world, []) = (Ok outcome, (w', seen'))"
    using length_executed [of bridge_codec None None commit] by auto
  have document: "extract_document cad_python cad_world ''app'' (str_at ''document'' length_changes) = Some ''d''"
    by (simp only: length_members cad_document)
  obtain s u where work: "transaction_work bridge_codec cad_python ''d'' None None length_changes commit s
      = (Ok (or_changed outcome, or_checks outcome), u)"
    and after: "cad_length w' = change_content commit (cad_length cad_world) (Some (cad_length (fst u)))"
    using changeset_is_all_or_nothing [OF cad_transactional document run] by auto
  have "cad_length (fst u) = ''12''"
    using length_work [of bridge_codec None None commit s] work by auto
  then have "cad_length w' = (if commit then ''12'' else ''10'')"
    using after by (simp add: change_content_def cad_world_def)
  then show "\<exists>outcome w' seen'.
      execute_changeset bridge_codec cad_python ''app'' None None length_changes commit (cad_world, []) = (Ok outcome, (w', seen'))
      \<and> cad_length w' = (if commit then ''12'' else ''10'')" using run by blast
qed

section \<open>A reference that panics\<close>

definition broken_reference :: string where
  "broken_reference = ''fc://s/d/object/%1'' @ [CHR 0xC3, CHR 0xA9]"

lemma broken_resolved: "resolve cad_python document broken_reference w = Err ExecPanic"
proof -
  have "reference_parts broken_reference = Err ExecPanic" by code_simp
  then show ?thesis by (simp add: resolve_def)
qed

lemma cad_panic:
  "\<exists>t. hs_apply (cad_host C) cad_world (selection_changes [JStr broken_reference]) False = (Err ExecPanic, t)"
  by (simp add: freecad_host_def host_run_def execution_defs selection_members cad_document run_operation_def
      check_selection_def selection_mode_def required_targets_def cad_attributes_def cad_call_def cad_world_def
      broken_resolved)

definition cad_request :: "string \<Rightarrow> json \<Rightarrow> ipc_request" where
  "cad_request message payload = \<lparr>iq_protocol_version = IPC_VERSION, iq_message = message,
     iq_request_id = ''r1'', iq_session_epoch = ''e'', iq_deadline_ms = 1000, iq_payload = payload\<rparr>"

definition connected_bridge :: "cad bridge_run" where
  "connected_bridge = (run_new cad_bridge)\<lparr>br_thread := Reading True\<rparr>"

text \<open>On the wire: the preview that panics, and a snapshot.\<close>

definition cad_wire :: bridge_wire where
  "cad_wire = \<lparr>bw_request_parse = (\<lambda>t. if t = ''p''
         then Ok (cad_request ''bridge.preview'' (selection_payload [JStr broken_reference]))
       else if t = ''s'' then Ok (cad_request ''bridge.snapshot'' JNull) else Err ''expected value''),
     bw_response_text = (\<lambda>response. ''{}'')\<rparr>"

lemma cad_sends [simp]: "sends cad_wire taken response \<longleftrightarrow> taken"
  by (simp add: sends_def cad_wire_def write_frame_def MAX_FRAME_def)

lemma cad_reads [simp]:
  "read_frame (bw_request_parse cad_wire) (sent ''p'')
     = Ok (cad_request ''bridge.preview'' (selection_payload [JStr broken_reference]), [])"
  "read_frame (bw_request_parse cad_wire) (sent ''s'') = Ok (cad_request ''bridge.snapshot'' JNull, [])"
  by (simp_all add: MAX_FRAME_def) (simp_all add: cad_wire_def)

definition fatal :: "cad bridge_action list" where
  "fatal = [Receive (sent ''p''), Poll (\<lambda>_. sample_env) True]"

lemma cad_poisoned:
  "\<exists>s. bridge_reaches bridge_codec bridge_crypto cad_wire (cad_host bridge_codec) connected_bridge fatal s \<and> br_poisoned s
     \<and> br_thread s = Reading True \<and> \<not> br_stop s"
proof -
  have world: "st_world cad_bridge = cad_world" by (simp add: cad_bridge_def bridge_new_def)
  have quiet: "flush_events force now cad_bridge = cad_bridge" for force now
    by (simp add: flush_events_def flush_def cad_bridge_def bridge_new_def coalescer_new_def)
  obtain t where "hs_apply (cad_host bridge_codec) cad_world (selection_changes [JStr broken_reference]) False = (Err ExecPanic, t)"
    using cad_panic by blast
  then obtain st' where panicked: "bridge_preview bridge_codec (cad_host bridge_codec) sample_env
      (selection_payload [JStr broken_reference]) cad_bridge = (Err Panicked, st')"
    using preview_failed [OF cad_preview_allowed] world by (metis fst_conv host_fault.simps(2))
  have fields: "st_epoch cad_bridge = ''e''" "cad_bridge\<lparr>st_queue := []\<rparr> = cad_bridge" "st_queue cad_bridge = []"
    by (simp_all add: cad_bridge_def bridge_new_def)
  show ?thesis
    by (simp add: reaches_iff fatal_def connected_bridge_def run_new_def enqueue_def process_pending_def
        bridge_handle_def Let_def cad_request_def dispatch_def quiet deliver_def give_up_def answer_client_def fields panicked)
qed

definition afterwards :: "cad bridge_action list" where
  "afterwards = [Receive (sent ''s''), Poll (\<lambda>_. sample_env) True, TimeOut True]"

lemma cad_afterwards:
  "br_poisoned s \<Longrightarrow> br_thread s = Reading True \<Longrightarrow> \<not> br_stop s \<Longrightarrow>
   \<exists>t. bridge_reaches bridge_codec bridge_crypto cad_wire (cad_host bridge_codec) s afterwards t"
  by (simp add: reaches_iff afterwards_def)

theorem panic_stops_the_bridge_witness:
  "\<exists>s t. bridge_reaches bridge_codec bridge_crypto cad_wire (cad_host bridge_codec) connected_bridge fatal s
     \<and> bridge_reaches bridge_codec bridge_crypto cad_wire (cad_host bridge_codec) s afterwards t
     \<and> br_poisoned t \<and> (\<exists>late. br_written t = br_written s @ late \<and> (\<forall>response \<in> set late. busy_answer response))
     \<and> stop_bridge \<lparr>bp_bridge = Some (rendezvous_new ''/run'' ''1'' ''2'' ''k'', t), bp_files = []\<rparr> = None"
proof -
  obtain s where s: "bridge_reaches bridge_codec bridge_crypto cad_wire (cad_host bridge_codec) connected_bridge fatal s"
      "br_poisoned s" "br_thread s = Reading True" "\<not> br_stop s"
    using cad_poisoned by blast
  obtain t where t: "bridge_reaches bridge_codec bridge_crypto cad_wire (cad_host bridge_codec) s afterwards t"
    using cad_afterwards [OF s(2-4)] by blast
  show ?thesis
    using s(1) t panic_stops_the_bridge [OF s(2) t,
        of "\<lparr>bp_bridge = Some (rendezvous_new ''/run'' ''1'' ''2'' ''k'', t), bp_files = []\<rparr>"
           "rendezvous_new ''/run'' ''1'' ''2'' ''k''" "\<lambda>_. None"]
    by auto
qed

section \<open>A client that stays\<close>

definition connected_process :: "cad bridge_process" where
  "connected_process = \<lparr>bp_bridge = Some (rendezvous_new ''/run'' ''1'' ''2'' ''k'', connected_bridge),
     bp_files = [(''/run/bridge-s_1.json'', ''{}''), (''other'', ''x'')]\<rparr>"

text \<open>The client asks for a snapshot while the bridge is being stopped, is told that it is busy, and leaves.\<close>

definition while_stopping :: "cad process_action list" where
  "while_stopping = [Runs (Receive (sent ''s'')), Runs (TimeOut True)]"

definition left_then :: "cad process_action list" where
  "left_then = [Runs HangUp, Runs CheckStop, StopReturns]"

inductive_cases process_reaches_snocE: "process_reaches C K W H p (as @ [a]) q"

lemma process_reaches_iff:
  "process_reaches C K W H p as q \<longleftrightarrow> foldl (\<lambda>m a. Option.bind m (process_act C K W H a)) (Some p) as = Some q"
proof (induction as arbitrary: q rule: rev_induct)
  case Nil
  show ?case by (auto elim: process_reaches.cases intro: process_reaches.stay)
next
  case (snoc a as)
  show ?case
    using snoc.IH by (auto elim!: process_reaches_snocE intro: process_reaches.act simp: bind_eq_Some_conv)
qed

theorem stop_waits_for_the_client_witness:
  "\<exists>called q u busy.
     stop_bridge connected_process = Some called
     \<and> process_reaches bridge_codec bridge_crypto cad_wire (cad_host bridge_codec) called while_stopping q
     \<and> bp_bridge q = Some (rendezvous_new ''/run'' ''1'' ''2'' ''k'', u) \<and> br_written u = [busy]
     \<and> process_reaches bridge_codec bridge_crypto cad_wire (cad_host bridge_codec) called (while_stopping @ left_then)
         \<lparr>bp_bridge = None, bp_files = [(''other'', ''x'')]\<rparr>"
proof -
  let ?reaches = "process_reaches bridge_codec bridge_crypto cad_wire (cad_host bridge_codec)"
  let ?r = "rendezvous_new ''/run'' ''1'' ''2'' ''k''"
  have slot: "bp_bridge connected_process = Some (?r, connected_bridge)" "connected connected_bridge"
    "br_written connected_bridge = []"
    by (simp_all add: connected_process_def connected_def connected_bridge_def run_new_def)
  obtain called where called: "stop_bridge connected_process = Some called"
    by (simp add: stop_bridge_def slot(1) connected_bridge_def run_new_def)
  have ends: "\<exists>q. ?reaches called while_stopping q" "\<exists>q. ?reaches called (while_stopping @ left_then) q"
    using called
    by (auto simp: process_reaches_iff while_stopping_def left_then_def stop_bridge_def stop_returns_def
        connected_process_def connected_bridge_def run_new_def give_up_def answer_client_def)
  then obtain q q' where q: "?reaches called while_stopping q" "?reaches called (while_stopping @ left_then) q'"
    by blast
  have stays: "StopReturns \<notin> set while_stopping" "StopReturns \<in> set (while_stopping @ left_then)"
    by (simp_all add: while_stopping_def left_then_def)
  have files: "connected_process\<lparr>bp_bridge := None, bp_files := rendezvous_close ?r (bp_files connected_process)\<rparr>
      = \<lparr>bp_bridge = None, bp_files = [(''other'', ''x'')]\<rparr>"
    by (simp add: connected_process_def) code_simp
  have gone: "q' = \<lparr>bp_bridge = None, bp_files = [(''other'', ''x'')]\<rparr>"
    using stop_waits_for_the_client [OF slot(1,2) called q(2), unfolded files] stays(2) by blast
  obtain u where u: "bp_bridge q = Some (?r, u)"
    using stop_waits_for_the_client [OF slot(1,2) called q(1)] stays(1) by blast
  have "\<exists>busy. br_written u = [busy]"
    using q(1) u called
    by (auto simp: process_reaches_iff while_stopping_def stop_bridge_def connected_process_def connected_bridge_def
        run_new_def give_up_def answer_client_def)
  then show ?thesis using called q gone u by blast
qed

end
