(* ===== verification/Spec2Isabelle.thy ===== *)
theory Spec2Isabelle
  imports Prelude Json Ccir Samples ChangeApply ChangeLaws Changes GraphDiff RevisionStore StoreRuns
    Policy Approvals QueryEngine QueryLaws BridgeDto ArtifactStore Geometry GeometryLaws
    ContextCompiler ContextLaws SessionManager SessionLaws
    Effects McpTools Base64Laws McpAdapter McpLaws McpTheorems McpAnswers McpSamples
    PyHost PercentCoding Extractor Executor BridgeRuntime BridgeLaws BridgeSamples Workbench
    Command CommandLaws Pairing CommandSamples
    BridgeRefs MessageTypes SnapshotTypes AdjacencyLaws TransactionLaws BridgeFailures CadSample CadFailures
begin

text \<open>
  Verification library of Topomind, a local server that shows the documents of the CAD program FreeCAD
  to a client and changes them through reviewed change sets.

  \<^bold>\<open>The program.\<close>  Two processes.  The extension (\<^verbatim>\<open>freecad-extension/src\<close>) runs inside FreeCAD: it
  reads documents into snapshots (\<^verbatim>\<open>extractor.rs\<close>), runs change sets in a transaction of the document
  (\<^verbatim>\<open>executor.rs\<close>) and serves both over a socket whose client must prove a secret (\<^verbatim>\<open>runtime.rs\<close>), which it
  publishes in pairing files.  The sidecar (\<^verbatim>\<open>sidecar/crates\<close>) is the command \<^verbatim>\<open>topomind\<close>: it loads fixtures
  and finds running bridges (\<^verbatim>\<open>topomind\<close>, \<^verbatim>\<open>ipc-client\<close>, \<^verbatim>\<open>session-manager\<close>), compiles their snapshots to
  graphs (\<^verbatim>\<open>context-compiler\<close> over \<^verbatim>\<open>ccir-core\<close>), answers queries, contexts and measurements
  (\<^verbatim>\<open>query-engine\<close>, \<^verbatim>\<open>geometry-analysis\<close>), keeps revisions (\<^verbatim>\<open>revision-store\<close>) and artifacts
  (\<^verbatim>\<open>artifact-store\<close>), asks the policy (\<^verbatim>\<open>policy\<close>), and speaks JSON-RPC over standard input and output
  (\<^verbatim>\<open>mcp-adapter\<close>).

  \<^bold>\<open>Conventions.\<close>  A text is the list of its UTF-8 bytes.  A \<^verbatim>\<open>BTreeMap\<close> is the sorted list of its entries
  (\<open>bm_get\<close>, \<open>bm_insert\<close>, \<open>bm_remove\<close>), a \<^verbatim>\<open>HashMap\<close> as well, with the order in which it is listed an argument
  where the code lists it.  Revision counters are words of 64 bits and wrap.  A double is the rational it
  denotes, an infinity or no number; arithmetic rounds to nearest, ties to even.  A JSON document is a
  datatype with the constructors of \<^verbatim>\<open>serde_json::Value\<close>.  A function that can fail returns a sum, the
  error on the left; a panic is an error of its own, or no result at all.  A method that takes
  \<^verbatim>\<open>&mut self\<close> returns the state it leaves together with its result, also when it fails (\<open>Effects\<close>).
  Clocks, UUIDs, nonces and process identifiers are arguments.  Digests, message authentication codes and
  the texts of derived serializers are the fields of parameter records (\<open>codec\<close>, \<open>crypto\<close>, \<open>wire_codec\<close>,
  \<open>session_codec\<close>, \<open>mcp_codec\<close>, \<open>command_codec\<close>, ...), of which a property assumes what it needs by name.

  \<^bold>\<open>Theories.\<close>
  \<^item> \<open>Prelude\<close>: results, text functions of the Rust library, decimal numbers, ordered maps, the locales
    \<open>step_invariant\<close> (invariants of runs) and \<open>ordered_map\<close>.  \<open>Json\<close>: doubles and JSON documents.
    \<open>Effects\<close>: composed operations and the locale \<open>state_preorder\<close>, which carries a relation between the
    state before and after through their composition.
  \<^item> \<open>Ccir\<close>: \<^verbatim>\<open>ccir-core\<close>.  \<open>ChangeApply\<close>, \<open>RevisionStore\<close>, \<open>GraphDiff\<close>: \<^verbatim>\<open>revision-store\<close>, that is
    preconditions, operations, their validation and application; preview, commit, undo, redo, observe,
    retention; differences.  \<open>ChangeLaws\<close> and \<open>Changes\<close> show what an accepted change set could touch and
    what it leaves; \<open>StoreRuns\<close> the invariant of every run of the store and the contracts of its calls.
  \<^item> \<open>Policy\<close>: \<^verbatim>\<open>policy\<close>.  \<open>Approvals\<close>: what a commit must have passed, that an idempotency key is accepted
    once, what a token is bound to.
  \<^item> \<open>QueryEngine\<close> and \<open>QueryLaws\<close>: \<^verbatim>\<open>query-engine\<close>; traversal against chains of links (locale
    \<open>layered_search\<close>), soundness of answers, pages that cover all results.
  \<^item> \<open>Geometry\<close> and \<open>GeometryLaws\<close>: \<^verbatim>\<open>geometry-analysis\<close>.  \<open>ContextCompiler\<close> and \<open>ContextLaws\<close>:
    \<^verbatim>\<open>context-compiler\<close>.  \<open>ArtifactStore\<close>: \<^verbatim>\<open>artifact-store\<close> over a directory as a map, with its quota.
  \<^item> \<open>BridgeDto\<close>: \<^verbatim>\<open>bridge-dto\<close> and \<^verbatim>\<open>ipc-client\<close>, that is the messages, frames, proofs and the client over
    what a socket delivers.  \<open>SessionManager\<close> and \<open>SessionLaws\<close>: \<^verbatim>\<open>session-manager\<close>.
  \<^item> \<open>McpTools\<close>, \<open>McpAdapter\<close>: \<^verbatim>\<open>mcp-adapter\<close>, from the announced tools to the loop over standard input.
    \<open>McpLaws\<close>, \<open>McpTheorems\<close>, \<open>McpAnswers\<close>, \<open>Base64Laws\<close>: what reading tools keep, what a commit passed,
    which requests are answered, what stops the server.
  \<^item> \<open>PyHost\<close> and \<open>PercentCoding\<close>: \<^verbatim>\<open>pyutil.rs\<close> over the Python interpreter and the FreeCAD interface, which
    are the record \<open>python\<close>: attributes and items read, methods called and attributes set on a world of any
    type, each call with the observer callbacks that come while it runs.  \<open>Extractor\<close>: \<^verbatim>\<open>extractor.rs\<close>.
    \<open>Executor\<close>: \<^verbatim>\<open>executor.rs\<close>.  \<open>BridgeRuntime\<close>: \<^verbatim>\<open>runtime.rs\<close>, that is coalesced events, counters, validation,
    preview, commit, undo, redo, the two threads as a step relation (\<open>bridge_act\<close>, \<open>bridge_reaches\<close>) with the
    listener loop, frames that cannot be read, answers that cannot be written and the poisoned lock, the
    pairing files, start and stop (\<open>process_act\<close>, \<open>process_reaches\<close>: the stop flag, and the wait for the
    socket thread).  \<open>Workbench\<close>: \<^verbatim>\<open>workbench.rs\<close>, and the observers and
    the timer of the runtime.
  \<^item> \<open>BridgeLaws\<close>: what every request keeps of the bridge (\<open>bridge_kept\<close>), who may change a document, when a
    preview counts as rolled back, how coalesced events come out.  \<open>BridgeRefs\<close>: references from the extractor
    through the executor.  \<open>MessageTypes\<close> and \<open>SnapshotTypes\<close>: the JSON types of the messages and that what the
    bridge writes has them.  \<open>AdjacencyLaws\<close>: the links between faces.  \<open>TransactionLaws\<close>: change sets as
    transactions, over the documented contract \<open>transactional\<close> of FreeCAD.  \<open>BridgeFailures\<close>: snapshots in
    different orders, panics, stopping.
  \<^item> \<open>Command\<close> and \<open>CommandLaws\<close>: \<^verbatim>\<open>topomind/src/main.rs\<close>, that is arguments and modes, schemas and their manifest
    over a tree of files (locale \<open>file_tree\<close>), packaging, discovery, the policy, the start.  \<open>Pairing\<close>: from the
    files the bridge publishes to the session the command registers.
  \<^item> \<open>Samples\<close>, \<open>McpSamples\<close>, \<open>BridgeSamples\<close>, \<open>CadSample\<close>, \<open>CadFailures\<close>, \<open>CommandSamples\<close>: the concrete graphs,
    servers, hosts and a small CAD program at which the properties are evaluated.

  \<^bold>\<open>What is shown, across the parts.\<close>  A change reaches a document only when it was previewed under the
  hash the commit names, is still valid, and was authorized (\<open>applied_change_was_reviewed\<close> for the server,
  \<open>commit_runs_only_a_reviewed_change\<close> for the bridge, \<open>commit_applies_reviewed_preview\<close> for the store);
  without a named policy nothing is written (\<open>unnamed_policy_only_looks\<close>); without the secret nothing
  changes (\<open>unproven_client_changes_nothing\<close>); a change set happens completely or not at all
  (\<open>changeset_is_all_or_nothing\<close>); a snapshot has the type it is read at exactly when its measures are
  finite (\<open>snapshots_have_their_type\<close>) and references lead back to their objects
  (\<open>references_lead_to_their_objects\<close>); a published bridge is found (\<open>published_bridge_is_discovered\<close>).  Other properties state what goes wrong: hash maps in another order
  block all writes (\<open>hash_order_blocks_writes\<close>), a panic stops the bridge for good (\<open>panic_stops_the_bridge\<close>),
  stopping waits for the end of the connection (\<open>stop_waits_for_the_client\<close>), a request given up still runs
  (\<open>timed_out_request_still_runs\<close>), undo is answered with a payload that cannot be read
  (\<open>answers_have_their_type\<close>), a forged offset ends the server (\<open>forged_offset_stops_the_server\<close>), one record
  that vanished keeps the server from starting (\<open>one_unreadable_record_stops_the_start\<close>).

  \<^bold>\<open>Bounds and termination.\<close>  No model has fuel.  Loops over collections recurse on the collection.
  \<open>expand\<close> of the query engine recurses on the depth its step allows, \<open>matches_predicate\<close> on the size of the
  predicate, \<open>explore\<close> of the explanations on a weight of its queue and of what is not yet visited, the search
  through the inspector's tree on the entries not yet visited and the length of its queue, \<open>trim_entities\<close> on
  the number of entities left, \<open>trim_history\<close> on the number of revisions kept, \<open>trim_start_matches\<close> and
  \<open>utf8_lossy\<close> on the length of the text, and what runs over a tree of files on the tree; each has its termination proof.  The loops that need not end, those of the two threads
  of the bridge, are the step relations \<open>bridge_reaches\<close> and \<open>process_reaches\<close>; the loop over standard input recurses on the lines
  that are read.

  \<^bold>\<open>Not modelled.\<close>  Operating system: sockets (what they deliver, and whether they take an answer, is an argument), file modes, failing disks
  and pipes, symbolic links, names that are no UTF-8.  Time: a reader that waits, deadlines other than the
  ten seconds of the bridge, which may run out at any step.  Third party: the texts and parsers of derived
  serializers, digests, the zip library, PyO3 and the Python interpreter beyond \<open>python\<close>.  The display texts
  of errors are parameters or left out.  A poll of the bridge that is entered again while one runs waits
  for itself and has no model.  \<^verbatim>\<open>freecad-extension/src/lib.rs\<close> only declares the Python module, and the dialog
  of the pairing command shows a text that is modelled; the modules of tests are not part of the program.
\<close>

end
